(* ===== verification/Prelude.thy ===== *)
theory Prelude
  imports Main "HOL-Library.Word"
begin

text \<open>
  The shared vocabulary of the development: bytes and machine words, the result type used for
  Go's \<open>(value, error)\<close> pairs, positional numerals in any base (big-endian byte strings and
  base58 are both instances), big-endian rendering of machine words, and the contract
  \<open>prefix_code\<close> of a self-delimiting field encoding, which every wire format of the program
  is shown to satisfy.
\<close>

section \<open>Types\<close>

type_synonym byte = "8 word"
type_synonym bytes = "8 word list"
type_synonym u8 = "8 word"
type_synonym u16 = "16 word"
type_synonym u32 = "32 word"
type_synonym u64 = "64 word"
type_synonym hash32 = "256 word"   \<comment> \<open>Go's \<open>[32]byte\<close> and \<open>common.Hash\<close>\<close>
type_synonym address = "160 word"  \<comment> \<open>\<open>common.Address\<close>, 20 bytes\<close>

named_theorems wire "length and shape facts of the wire encodings"

section \<open>Results: a Go error or a value\<close>

definition is_ok :: "'e + 'a \<Rightarrow> bool" where
  "is_ok r = (case r of Inl _ \<Rightarrow> False | Inr _ \<Rightarrow> True)"

lemma is_ok_simps [simp]: "is_ok (Inr v)" "\<not> is_ok (Inl e)"
  by (simp_all add: is_ok_def)

lemma is_ok_iff: "is_ok r \<longleftrightarrow> (\<exists>v. r = Inr v)"
  by (cases r) auto

section \<open>Lists\<close>

text \<open>\<open>leading a xs\<close> counts the occurrences of \<open>a\<close> at the front of \<open>xs\<close>, the loop
  \<open>for leading < len(s) && s[leading] == a { leading++ }\<close>.\<close>

fun leading :: "'a \<Rightarrow> 'a list \<Rightarrow> nat" where
  "leading a [] = 0"
| "leading a (x # xs) = (if x = a then Suc (leading a xs) else 0)"

lemma leading_split: "replicate (leading a xs) a @ drop (leading a xs) xs = xs"
  by (induction xs) auto

lemma leading_le [simp]: "leading a xs \<le> length xs"
  by (induction xs) auto

lemma leading_drop_hd: "drop (leading a xs) xs \<noteq> [] \<Longrightarrow> hd (drop (leading a xs) xs) \<noteq> a"
  by (induction xs) auto

lemma leading_replicate: "(ys \<noteq> [] \<Longrightarrow> hd ys \<noteq> a) \<Longrightarrow> leading a (replicate n a @ ys) = n"
  by (induction n) (cases ys; auto)+

lemma leading_map: "inj_on f (insert a (set xs)) \<Longrightarrow> leading (f a) (map f xs) = leading a xs"
  by (induction xs) (auto simp: inj_on_def)

section \<open>Positional numerals, most significant digit first\<close>

definition horner :: "nat \<Rightarrow> nat list \<Rightarrow> nat" where
  "horner b ds = foldl (\<lambda>n d. n * b + d) 0 ds"

fun digits :: "nat \<Rightarrow> nat \<Rightarrow> nat list" where
  "digits b n = (if n = 0 \<or> b \<le> 1 then [] else digits b (n div b) @ [n mod b])"

declare digits.simps [simp del]

lemma digits_0 [simp]: "digits b 0 = []"
  by (simp add: digits.simps)

lemma digits_pos: "0 < n \<Longrightarrow> 1 < b \<Longrightarrow> digits b n = digits b (n div b) @ [n mod b]"
  by (subst digits.simps) simp

lemma horner_Nil [simp]: "horner b [] = 0"
  by (simp add: horner_def)

lemma horner_snoc [simp]: "horner b (ds @ [d]) = horner b ds * b + d"
  by (simp add: horner_def)

lemma horner_append: "horner b (xs @ ys) = horner b xs * b ^ length ys + horner b ys"
proof (induction ys rule: rev_induct)
  case Nil
  then show ?case by simp
next
  case (snoc y ys)
  have "horner b (xs @ ys @ [y]) = horner b (xs @ ys) * b + y"
    by (metis append.assoc horner_snoc)
  with snoc show ?case by (simp add: algebra_simps)
qed

lemma horner_Cons: "horner b (d # ds) = d * b ^ length ds + horner b ds"
  using horner_append [of b "[d]" ds] by (simp add: horner_def)

lemma horner_replicate_0 [simp]: "horner b (replicate n 0 @ ds) = horner b ds"
  by (induction n) (simp_all add: horner_Cons)

lemma horner_less: "\<forall>d \<in> set ds. d < b \<Longrightarrow> horner b ds < b ^ length ds"
proof (induction ds rule: rev_induct)
  case Nil
  then show ?case by simp
next
  case (snoc d ds)
  then have "horner b ds + 1 \<le> b ^ length ds" and d: "d < b" by auto
  then have "(horner b ds + 1) * b \<le> b ^ length ds * b"
    using mult_le_mono1 by blast
  with d show ?case by (simp add: algebra_simps)
qed

lemma horner_digits: "1 < b \<Longrightarrow> horner b (digits b n) = n"
proof (induction b n rule: digits.induct)
  case (1 b n)
  then show ?case
    by (cases "n = 0") (simp_all add: digits_pos)
qed

lemma length_digits_le: "1 < b \<Longrightarrow> n < b ^ k \<Longrightarrow> length (digits b n) \<le> k"
proof (induction k arbitrary: n)
  case 0
  then show ?case by simp
next
  case (Suc k)
  show ?case
  proof (cases "n = 0")
    case False
    from Suc.prems have "n div b < b ^ k" by (simp add: less_mult_imp_div_less mult.commute)
    with Suc.IH Suc.prems(1) have "length (digits b (n div b)) \<le> k" by simp
    moreover have "digits b n = digits b (n div b) @ [n mod b]" using False Suc.prems(1) by (intro digits_pos) auto
    ultimately show ?thesis by (metis Suc_le_mono length_append_singleton)
  qed simp
qed

lemma digits_less: "1 < b \<Longrightarrow> \<forall>d \<in> set (digits b n). d < b"
proof (induction b n rule: digits.induct)
  case (1 b n)
  show ?case
  proof (cases "n = 0")
    case True
    then show ?thesis by simp
  next
    case False
    with "1.prems" have e: "digits b n = digits b (n div b) @ [n mod b]"
      by (intro digits_pos) auto
    from False "1.IH" "1.prems" have "\<forall>d \<in> set (digits b (n div b)). d < b" by simp
    with "1.prems" show ?thesis by (simp add: e)
  qed
qed

lemma digits_eq_Nil_iff [simp]: "1 < b \<Longrightarrow> digits b n = [] \<longleftrightarrow> n = 0"
  by (cases "n = 0") (auto simp: digits_pos)

lemma digits_hd:
  assumes "1 < b" "0 < n"
  shows "hd (digits b n) \<noteq> 0"
  using assms
proof (induction b n rule: digits.induct)
  case (1 b n)
  show ?case
  proof (cases "n div b = 0")
    case True
    with "1.prems" show ?thesis by (simp add: digits_pos div_eq_0_iff)
  next
    case False
    with "1.IH" "1.prems" have "hd (digits b (n div b)) \<noteq> 0" by simp
    moreover have "digits b n = digits b (n div b) @ [n mod b]"
      using "1.prems" by (simp only: digits_pos)
    moreover have "digits b (n div b) \<noteq> []" using False "1.prems" by simp
    ultimately show ?thesis by (metis hd_append)
  qed
qed

text \<open>Reading a digit string and printing it again only loses the leading zeros.\<close>

lemma digits_horner_nz:
  assumes b: "1 < b" and ds: "\<forall>d \<in> set ds. d < b" and hd: "ds \<noteq> [] \<Longrightarrow> hd ds \<noteq> 0"
  shows "digits b (horner b ds) = ds"
  using ds hd
proof (induction ds rule: rev_induct)
  case Nil
  then show ?case by simp
next
  case (snoc d ds)
  show ?case
  proof (cases "ds = []")
    case True
    with snoc.prems b show ?thesis by (simp add: digits_pos horner_def)
  next
    case False
    with snoc have IH: "digits b (horner b ds) = ds" and d: "d < b" by auto
    with False b have "horner b ds \<noteq> 0" by (metis digits_0)
    then have "0 < horner b ds * b + d" using b by simp
    then have "digits b (horner b ds * b + d) = digits b (horner b ds) @ [d]"
      using b d by (subst digits_pos) auto
    with IH show ?thesis by simp
  qed
qed

lemma digits_horner:
  assumes "1 < b" "\<forall>d \<in> set ds. d < b"
  shows "digits b (horner b ds) = drop (leading 0 ds) ds"
proof -
  let ?ds = "drop (leading 0 ds) ds"
  have "horner b ds = horner b ?ds"
    by (metis horner_replicate_0 leading_split)
  moreover have "digits b (horner b ?ds) = ?ds"
  proof (rule digits_horner_nz)
    show "\<forall>d \<in> set ?ds. d < b" using assms(2) by (auto dest: in_set_dropD)
    show "?ds \<noteq> [] \<Longrightarrow> hd ?ds \<noteq> 0" by (rule leading_drop_hd)
  qed (rule assms(1))
  ultimately show ?thesis by simp
qed

section \<open>Big-endian byte strings\<close>

text \<open>\<open>be_val\<close> is \<open>big.Int.SetBytes\<close> (and \<open>binary.BigEndian.Uint64\<close>), \<open>be_bytes\<close> is
  \<open>big.Int.Bytes\<close> (no leading zeros), \<open>be_fixed k\<close> writes exactly \<open>k\<close> bytes, as
  \<open>binary.BigEndian.PutUint32\<close> and left-padding do.\<close>

definition be_val :: "bytes \<Rightarrow> nat" where
  "be_val bs = horner 256 (map unat bs)"

definition be_bytes :: "nat \<Rightarrow> bytes" where
  "be_bytes n = map of_nat (digits 256 n)"

fun be_fixed :: "nat \<Rightarrow> nat \<Rightarrow> bytes" where
  "be_fixed 0 n = []"
| "be_fixed (Suc k) n = be_fixed k (n div 256) @ [of_nat (n mod 256)]"

lemma be_fixed_numeral:
  "be_fixed (numeral k) n = be_fixed (pred_numeral k) (n div 256) @ [of_nat (n mod 256)]"
  by (simp only: numeral_eq_Suc be_fixed.simps)

lemma unat_byte_less [simp]: "unat (b :: byte) < 256"
  using unsigned_less [of b, where ?'a = nat] by simp

lemma unat_of_nat_byte: "unat (of_nat n :: byte) = n mod 256"
  by (simp add: unat_of_nat)

lemma length_be_fixed [simp, wire]: "length (be_fixed k n) = k"
  by (induction k arbitrary: n) auto

lemma be_val_Nil [simp]: "be_val [] = 0"
  by (simp add: be_val_def)

lemma be_val_snoc: "be_val (bs @ [b]) = be_val bs * 256 + unat b"
  by (simp add: be_val_def)

lemma be_val_append: "be_val (xs @ ys) = be_val xs * 256 ^ length ys + be_val ys"
  by (simp add: be_val_def horner_append)

lemma be_val_replicate_0 [simp]: "be_val (replicate n 0 @ bs) = be_val bs"
  by (simp add: be_val_def)

lemma be_val_less: "be_val bs < 256 ^ length bs"
  using horner_less [of "map unat bs" 256] by (simp add: be_val_def)

lemma be_val_bytes [simp]: "be_val (be_bytes n) = n"
proof -
  have "map unat (be_bytes n) = digits 256 n"
    using digits_less [of 256 n]
    by (auto simp: be_bytes_def unat_of_nat_byte intro!: map_idI)
  then show ?thesis by (simp add: be_val_def horner_digits)
qed

lemma be_bytes_val: "be_bytes (be_val bs) = drop (leading 0 bs) bs"
proof -
  have "leading (0::nat) (map unat bs) = leading 0 bs"
    using leading_map [of unat "0 :: byte" bs]
    by (simp add: inj_on_def word_unat_eq_iff)
  then have "digits 256 (be_val bs) = map unat (drop (leading 0 bs) bs)"
    by (simp add: be_val_def digits_horner drop_map)
  then show ?thesis by (simp add: be_bytes_def comp_def)
qed

lemma be_bytes_hd: "0 < n \<Longrightarrow> hd (be_bytes n) \<noteq> 0"
proof -
  assume n: "0 < n"
  then have "digits 256 n \<noteq> []" by simp
  moreover from n have "hd (digits 256 n) \<noteq> 0" by (intro digits_hd) auto
  moreover have "\<forall>d \<in> set (digits 256 n). d < 256" by (rule digits_less) simp
  ultimately have "hd (digits 256 n) mod 256 \<noteq> 0" and "digits 256 n \<noteq> []"
    by (simp_all add: hd_in_set)
  then show ?thesis
    by (simp add: be_bytes_def hd_map unat_eq_zero [symmetric] unat_of_nat_byte del: unat_eq_zero)
qed

lemma be_bytes_0 [simp]: "be_bytes 0 = []"
  by (simp add: be_bytes_def)

lemma be_bytes_Nil_iff [simp]: "be_bytes n = [] \<longleftrightarrow> n = 0"
  by (simp add: be_bytes_def)

lemma be_val_fixed: "be_val (be_fixed k n) = n mod 256 ^ k"
proof (induction k arbitrary: n)
  case 0
  then show ?case by simp
next
  case (Suc k)
  have "be_val (be_fixed (Suc k) n) = (n div 256 mod 256 ^ k) * 256 + n mod 256"
    by (simp add: be_val_snoc Suc unat_of_nat_byte)
  also have "\<dots> = n mod (256 * 256 ^ k)"
    by (simp add: mod_mult2_eq)
  finally show ?case by simp
qed

lemma be_fixed_val: "be_fixed (length bs) (be_val bs) = bs"
  by (induction bs rule: rev_induct) (simp_all add: be_val_snoc)

lemma be_fixed_inj: "be_fixed k m = be_fixed k n \<Longrightarrow> m < 256 ^ k \<Longrightarrow> n < 256 ^ k \<Longrightarrow> m = n"
  by (metis be_val_fixed mod_less)

text \<open>Left-padding the minimal form gives the fixed-width form.\<close>

lemma length_be_bytes_le: "n < 256 ^ k \<Longrightarrow> length (be_bytes n) \<le> k"
proof (rule ccontr)
  assume n: "n < 256 ^ k" and "\<not> length (be_bytes n) \<le> k"
  then obtain b bs where bs: "be_bytes n = b # bs" and k: "k \<le> length bs"
    by (cases "be_bytes n") auto
  then have "n \<noteq> 0" by (metis be_bytes_0 list.distinct(1))
  then have "b \<noteq> 0" using be_bytes_hd [of n] bs by simp
  then have "1 \<le> unat b" by (simp add: Suc_leI unat_gt_0)
  have "n = unat b * 256 ^ length bs + be_val bs"
    using be_val_bytes [of n] be_val_append [of "[b]" bs] bs
    by (simp add: be_val_def horner_def)
  then have "256 ^ length bs \<le> n" using \<open>1 \<le> unat b\<close>
    by (simp add: trans_le_add1)
  moreover have "(256::nat) ^ k \<le> 256 ^ length bs" using k by (simp add: power_increasing)
  ultimately show False using n by linarith
qed

lemma be_fixed_pad:
  assumes "n < 256 ^ k"
  shows "replicate (k - length (be_bytes n)) 0 @ be_bytes n = be_fixed k n"
proof -
  let ?p = "replicate (k - length (be_bytes n)) 0 @ be_bytes n"
  have "length ?p = k" using length_be_bytes_le [OF assms] by simp
  then have "?p = be_fixed k (be_val ?p)" by (metis be_fixed_val)
  then show ?thesis by simp
qed

section \<open>Machine words as big-endian bytes\<close>

definition word_bytes :: "'a::len word \<Rightarrow> bytes" where
  "word_bytes w = be_fixed (LENGTH('a) div 8) (unat w)"

definition bytes_word :: "bytes \<Rightarrow> 'a::len word" where
  "bytes_word bs = of_nat (be_val bs)"

lemma length_word_bytes [simp, wire]: "length (word_bytes (w :: 'a::len word)) = LENGTH('a) div 8"
  by (simp add: word_bytes_def)

lemma be_val_word_bytes:
  assumes "8 dvd LENGTH('a::len)"
  shows "be_val (word_bytes (w :: 'a word)) = unat w"
proof -
  have "(256::nat) ^ (LENGTH('a) div 8) = 2 ^ LENGTH('a)"
    using assms by (auto simp: dvd_def power_mult)
  then show ?thesis by (simp add: word_bytes_def be_val_fixed)
qed

lemma bytes_word_bytes: "8 dvd LENGTH('a::len) \<Longrightarrow> bytes_word (word_bytes w) = (w :: 'a word)"
  by (simp add: bytes_word_def be_val_word_bytes)

lemma word_bytes_inj:
  "8 dvd LENGTH('a::len) \<Longrightarrow> word_bytes (v :: 'a word) = word_bytes w \<Longrightarrow> v = w"
  by (metis bytes_word_bytes)

lemma word_bytes_word:
  assumes "8 dvd LENGTH('a::len)" "length bs = LENGTH('a) div 8"
  shows "word_bytes (bytes_word bs :: 'a word) = bs"
proof -
  have "(256::nat) ^ length bs = 2 ^ LENGTH('a)"
    using assms by (auto simp: dvd_def power_mult)
  then have "unat (bytes_word bs :: 'a word) = be_val bs"
    using be_val_less [of bs] by (simp add: bytes_word_def unat_of_nat)
  then show ?thesis using assms(2) be_fixed_val [of bs] by (simp add: word_bytes_def)
qed

section \<open>Self-delimiting encodings\<close>

text \<open>
  The contract of a field writer: a reader recovers the value from the front of any byte string
  that starts with its encoding, and leaves the rest. It gives injectivity and unique
  decodability once, for every field of the program that satisfies it.
\<close>

locale prefix_code =
  fixes enc :: "'a \<Rightarrow> bytes"
    and dec :: "bytes \<Rightarrow> ('a \<times> bytes) option"
    and ok :: "'a \<Rightarrow> bool"
  assumes dec_enc: "ok x \<Longrightarrow> dec (enc x @ rest) = Some (x, rest)"
begin

lemma dec_enc_exact: "ok x \<Longrightarrow> dec (enc x) = Some (x, [])"
  using dec_enc [of x "[]"] by simp

lemma enc_append_inj: "ok x \<Longrightarrow> ok y \<Longrightarrow> enc x @ r = enc y @ s \<Longrightarrow> x = y \<and> r = s"
  by (metis dec_enc option.inject prod.inject)

lemma enc_inj: "ok x \<Longrightarrow> ok y \<Longrightarrow> enc x = enc y \<Longrightarrow> x = y"
  by (metis dec_enc_exact option.inject prod.inject)

end

text \<open>Fixed-width unsigned integers.\<close>

definition read_word :: "bytes \<Rightarrow> ('a::len word \<times> bytes) option" where
  "read_word bs =
     (let k = LENGTH('a) div 8
      in if length bs < k then None else Some (bytes_word (take k bs), drop k bs))"

lemma read_word_bytes: "8 dvd LENGTH('a::len) \<Longrightarrow> read_word (word_bytes (w :: 'a word) @ rest) = Some (w, rest)"
  by (simp add: read_word_def bytes_word_bytes)

interpretation u16_code: prefix_code "word_bytes :: u16 \<Rightarrow> bytes" read_word "\<lambda>_. True"
  by unfold_locales (simp add: read_word_bytes)

interpretation u32_code: prefix_code "word_bytes :: u32 \<Rightarrow> bytes" read_word "\<lambda>_. True"
  by unfold_locales (simp add: read_word_bytes)

interpretation u64_code: prefix_code "word_bytes :: u64 \<Rightarrow> bytes" read_word "\<lambda>_. True"
  by unfold_locales (simp add: read_word_bytes)

interpretation hash_code: prefix_code "word_bytes :: hash32 \<Rightarrow> bytes" read_word "\<lambda>_. True"
  by unfold_locales (simp add: read_word_bytes)

end
