(* ===== verification/GoLib.thy ===== *)
theory GoLib
  imports Prelude
begin

text \<open>
  The parts of the Go standard library the program computes with: \<open>encoding/hex\<close>, the prefix,
  case and search functions of \<open>strings\<close>, decimal conversion of \<open>math/big\<close> and \<open>strconv\<close>.
  A Go string is a byte string, modelled by HOL's \<open>string\<close> (a list of 8-bit characters); case
  conversion and space trimming are those of ASCII text, which is all the program feeds them.
\<close>

section \<open>Strings and bytes\<close>

definition str_bytes :: "string \<Rightarrow> bytes" where
  "str_bytes s = map (\<lambda>c. of_nat (of_char c)) s"

definition bytes_str :: "bytes \<Rightarrow> string" where
  "bytes_str bs = map (\<lambda>b. char_of (unat b)) bs"

lemma length_str_bytes [simp]: "length (str_bytes s) = length s"
  by (simp add: str_bytes_def)

lemma of_char_less [simp]: "(of_char c :: nat) < 256"
  using nat_of_char_less_256 [of c] by simp

lemma bytes_str_bytes [simp]: "bytes_str (str_bytes s) = s"
  by (induction s) (simp_all add: bytes_str_def str_bytes_def unat_of_nat_byte)

lemma str_bytes_str [simp]: "str_bytes (bytes_str bs) = bs"
  by (induction bs) (simp_all add: bytes_str_def str_bytes_def)

lemma str_bytes_inj: "str_bytes s = str_bytes t \<longleftrightarrow> s = t"
  by (metis bytes_str_bytes)

definition has_prefix :: "string \<Rightarrow> string \<Rightarrow> bool" where
  "has_prefix s p \<longleftrightarrow> take (length p) s = p"

definition trim_prefix :: "string \<Rightarrow> string \<Rightarrow> string" where
  "trim_prefix s p = (if has_prefix s p then drop (length p) s else s)"

fun contains :: "string \<Rightarrow> string \<Rightarrow> bool" where
  "contains [] t \<longleftrightarrow> t = []"
| "contains (c # s) t \<longleftrightarrow> has_prefix (c # s) t \<or> contains s t"

lemma has_prefix_append [simp]: "has_prefix (p @ s) p"
  by (simp add: has_prefix_def)

lemma has_prefix_iff: "has_prefix s p \<longleftrightarrow> (\<exists>r. s = p @ r)"
  by (auto simp: has_prefix_def) (metis append_take_drop_id)

lemma contains_iff: "contains s t \<longleftrightarrow> (\<exists>a b. s = a @ t @ b)"
proof (induction s)
  case Nil
  then show ?case by auto
next
  case (Cons c s)
  note IH = Cons.IH
  show ?case
  proof
    assume "contains (c # s) t"
    then consider r where "c # s = t @ r" | a b where "s = a @ t @ b"
      using IH by (auto simp: has_prefix_iff)
    then show "\<exists>a b. c # s = a @ t @ b"
      by cases (metis append_Nil, metis append_Cons)
  next
    assume "\<exists>a b. c # s = a @ t @ b"
    then obtain a b where ab: "c # s = a @ t @ b" by blast
    show "contains (c # s) t"
    proof (cases a)
      case Nil
      with ab have "has_prefix (c # s) t" by (metis append_Nil has_prefix_append)
      then show ?thesis by simp
    next
      case (Cons x xs)
      with ab have "s = xs @ t @ b" by simp
      then show ?thesis using IH by auto
    qed
  qed
qed

lemma contains_append: "contains s t \<Longrightarrow> contains (a @ s @ b) t"
proof -
  assume "contains s t"
  then obtain u v where "s = u @ t @ v" by (auto simp: contains_iff)
  then have "a @ s @ b = (a @ u) @ t @ (v @ b)" by simp
  then show ?thesis unfolding contains_iff by blast
qed

section \<open>ASCII case and spaces\<close>

definition upper_char :: "char \<Rightarrow> char" where
  "upper_char c = (let n = (of_char c :: nat) in if 97 \<le> n \<and> n \<le> 122 then char_of (n - 32) else c)"

definition lower_char :: "char \<Rightarrow> char" where
  "lower_char c = (let n = (of_char c :: nat) in if 65 \<le> n \<and> n \<le> 90 then char_of (n + 32) else c)"

lemma upper_char_idem [simp]: "upper_char (upper_char c) = upper_char c"
proof (cases "97 \<le> (of_char c :: nat) \<and> (of_char c :: nat) \<le> 122")
  case True
  then have "(of_char c - 32 :: nat) < 256" by linarith
  then have "(of_char (char_of (of_char c - 32 :: nat)) :: nat) = of_char c - 32"
    unfolding of_char_of by (rule mod_less)
  moreover have "\<not> 97 \<le> (of_char c - 32 :: nat)" using True by linarith
  ultimately show ?thesis using True by (simp add: upper_char_def Let_def)
next
  case False
  then have "upper_char c = c" by (auto simp: upper_char_def Let_def)
  then show ?thesis by simp
qed

definition to_upper :: "string \<Rightarrow> string" where "to_upper = map upper_char"
definition to_lower :: "string \<Rightarrow> string" where "to_lower = map lower_char"

definition equal_fold :: "string \<Rightarrow> string \<Rightarrow> bool" where
  "equal_fold s t \<longleftrightarrow> to_lower s = to_lower t"

definition is_space :: "char \<Rightarrow> bool" where
  "is_space c = (let n = (of_char c :: nat) in n = 32 \<or> (9 \<le> n \<and> n \<le> 13))"

definition trim_space :: "string \<Rightarrow> string" where
  "trim_space s = rev (dropWhile is_space (rev (dropWhile is_space s)))"

definition trim_right :: "string \<Rightarrow> char \<Rightarrow> string" where
  "trim_right s c = rev (dropWhile (\<lambda>x. x = c) (rev s))"

section \<open>Hexadecimal\<close>

datatype hex_error = HexInvalidByte char | HexErrLength

definition hex_value :: "char \<Rightarrow> nat option" where
  "hex_value c =
     (let n = (of_char c :: nat)
      in if 48 \<le> n \<and> n \<le> 57 then Some (n - 48)
         else if 97 \<le> n \<and> n \<le> 102 then Some (n - 87)
         else if 65 \<le> n \<and> n \<le> 70 then Some (n - 55)
         else None)"

definition hex_digit :: "nat \<Rightarrow> char" where
  "hex_digit d = char_of (if d < 10 then 48 + d else 87 + d)"

fun hex_encode :: "bytes \<Rightarrow> string" where
  "hex_encode [] = []"
| "hex_encode (b # bs) = hex_digit (unat b div 16) # hex_digit (unat b mod 16) # hex_encode bs"

fun hex_decode :: "string \<Rightarrow> hex_error + bytes" where
  "hex_decode [] = Inr []"
| "hex_decode [c] = (case hex_value c of None \<Rightarrow> Inl (HexInvalidByte c) | Some _ \<Rightarrow> Inl HexErrLength)"
| "hex_decode (c # d # s) =
     (case hex_value c of
        None \<Rightarrow> Inl (HexInvalidByte c)
      | Some a \<Rightarrow>
          (case hex_value d of
             None \<Rightarrow> Inl (HexInvalidByte d)
           | Some b \<Rightarrow>
               (case hex_decode s of Inl e \<Rightarrow> Inl e | Inr bs \<Rightarrow> Inr (of_nat (16 * a + b) # bs))))"

lemma hex_value_digit [simp]: "d < 16 \<Longrightarrow> hex_value (hex_digit d) = Some d"
  by (auto simp: hex_value_def hex_digit_def Let_def)

lemma hex_value_upper_digit [simp]: "d < 16 \<Longrightarrow> hex_value (upper_char (hex_digit d)) = Some d"
  by (auto simp: hex_value_def hex_digit_def upper_char_def Let_def)

lemma hex_value_less: "hex_value c = Some d \<Longrightarrow> d < 16"
  by (auto simp: hex_value_def Let_def split: if_splits)

lemma byte_split: "(of_nat (16 * (unat b div 16) + unat b mod 16) :: byte) = b"
  by simp

lemma nibble_less [simp]: "unat (b :: byte) div 16 < 16"
  using unat_byte_less [of b] by linarith

theorem hex_decode_encode [simp]: "hex_decode (hex_encode bs) = Inr bs"
  by (induction bs) (simp_all del: of_nat_add of_nat_mult)

theorem hex_decode_upper_encode [simp]: "hex_decode (to_upper (hex_encode bs)) = Inr bs"
  by (induction bs) (simp_all add: to_upper_def del: of_nat_add of_nat_mult)

lemma length_hex_encode [simp]: "length (hex_encode bs) = 2 * length bs"
  by (induction bs) auto

lemma hex_decode_length: "hex_decode s = Inr bs \<Longrightarrow> length s = 2 * length bs"
  by (induction s arbitrary: bs rule: hex_decode.induct) (auto split: option.splits sum.splits)

lemma hex_digit_not_x [simp]: "d < 16 \<Longrightarrow> hex_digit d \<noteq> CHR ''x''"
proof
  assume d: "d < 16" "hex_digit d = CHR ''x''"
  have "hex_value (CHR ''x'') = None" by (simp add: hex_value_def)
  with d hex_value_digit [of d] show False by simp
qed

lemma trim_prefix_append [simp]: "trim_prefix (p @ s) p = s"
  by (simp add: trim_prefix_def)

lemma trim_0x_hex_encode [simp]: "trim_prefix (hex_encode bs) ''0x'' = hex_encode bs"
  by (cases bs) (auto simp: trim_prefix_def has_prefix_def)

lemma upper_char_hex_digit_not_x: "d < 16 \<Longrightarrow> upper_char (hex_digit d) \<noteq> CHR ''x''"
proof
  assume d: "d < 16" "upper_char (hex_digit d) = CHR ''x''"
  have "hex_value (CHR ''x'') = None" by (simp add: hex_value_def)
  with d hex_value_upper_digit [of d] show False by simp
qed

lemma trim_0x_upper_hex_encode [simp]:
  "trim_prefix (to_upper (hex_encode bs)) ''0x'' = to_upper (hex_encode bs)"
  by (cases bs) (auto simp: trim_prefix_def has_prefix_def to_upper_def upper_char_hex_digit_not_x)

section \<open>Decimal\<close>

definition digit_char :: "nat \<Rightarrow> char" where
  "digit_char d = char_of (48 + d)"

definition digit_value :: "char \<Rightarrow> nat option" where
  "digit_value c = (let n = (of_char c :: nat) in if 48 \<le> n \<and> n \<le> 57 then Some (n - 48) else None)"

fun digit_values :: "string \<Rightarrow> nat list option" where
  "digit_values [] = Some []"
| "digit_values (c # s) =
     (case digit_value c of None \<Rightarrow> None | Some d \<Rightarrow> map_option ((#) d) (digit_values s))"

text \<open>A nonempty run of decimal digits.\<close>

definition dec_value :: "string \<Rightarrow> nat option" where
  "dec_value s = (if s = [] then None else map_option (horner 10) (digit_values s))"

definition nat_string :: "nat \<Rightarrow> string" where
  "nat_string n = (if n = 0 then ''0'' else map digit_char (digits 10 n))"

text \<open>\<open>big.Int.String\<close>.\<close>

definition int_string :: "int \<Rightarrow> string" where
  "int_string i = (if i < 0 then CHR ''-'' # nat_string (nat (- i)) else nat_string (nat i))"

text \<open>\<open>big.Int.SetString(s, 10)\<close>: an optional sign and at least one digit.\<close>

fun set_string :: "string \<Rightarrow> int option" where
  "set_string [] = None"
| "set_string (c # s) =
     (if c = CHR ''-'' then map_option (\<lambda>n. - int n) (dec_value s)
      else if c = CHR ''+'' then map_option int (dec_value s)
      else map_option int (dec_value (c # s)))"

datatype num_error = ErrSyntax | ErrRange

text \<open>\<open>strconv.ParseUint(s, 10, 64)\<close>.\<close>

definition parse_uint64 :: "string \<Rightarrow> num_error + u64" where
  "parse_uint64 s =
     (case dec_value s of
        None \<Rightarrow> Inl ErrSyntax
      | Some n \<Rightarrow> if n < 2 ^ 64 then Inr (of_nat n) else Inl ErrRange)"

lemma digit_value_char [simp]: "d < 10 \<Longrightarrow> digit_value (digit_char d) = Some d"
  by (auto simp: digit_value_def digit_char_def Let_def)

lemma digit_values_map: "\<forall>d \<in> set ds. d < 10 \<Longrightarrow> digit_values (map digit_char ds) = Some ds"
  by (induction ds) auto

lemma dec_value_nat_string [simp]: "dec_value (nat_string n) = Some n"
proof (cases "n = 0")
  case True
  then show ?thesis by (simp add: nat_string_def dec_value_def digit_value_def horner_def)
next
  case False
  then have "digits 10 n \<noteq> []" by simp
  moreover have "digit_values (map digit_char (digits 10 n)) = Some (digits 10 n)"
    by (intro digit_values_map digits_less) simp
  ultimately show ?thesis using False by (simp add: nat_string_def dec_value_def horner_digits)
qed

lemma nat_string_hd: "\<exists>d s. d < 10 \<and> nat_string n = digit_char d # s"
proof (cases "n = 0")
  case True
  then show ?thesis by (intro exI [of _ 0] exI [of _ "[]"]) (simp add: nat_string_def digit_char_def char_of_def bit_0)
next
  case False
  then have "digits 10 n \<noteq> []" by simp
  then obtain d ds where d: "digits 10 n = d # ds" by (cases "digits 10 n") auto
  moreover have "d < 10" using digits_less [of 10 n] d by simp
  ultimately show ?thesis using False by (auto simp: nat_string_def)
qed

lemma digit_char_not_sign [simp]:
  "d < 10 \<Longrightarrow> digit_char d \<noteq> CHR ''-''" "d < 10 \<Longrightarrow> digit_char d \<noteq> CHR ''+''"
proof -
  have n: "digit_value (CHR ''-'') = None" "digit_value (CHR ''+'') = None"
    by (simp_all add: digit_value_def)
  show "d < 10 \<Longrightarrow> digit_char d \<noteq> CHR ''-''" "d < 10 \<Longrightarrow> digit_char d \<noteq> CHR ''+''"
    using n digit_value_char [of d] by (metis option.distinct(1))+
qed

theorem set_string_int_string [simp]: "set_string (int_string i) = Some i"
proof (cases "i < 0")
  case True
  then show ?thesis by (simp add: int_string_def)
next
  case False
  obtain d s where ds: "d < 10" "nat_string (nat i) = digit_char d # s"
    using nat_string_hd by blast
  have "dec_value (digit_char d # s) = Some (nat i)"
    using dec_value_nat_string [of "nat i"] ds by simp
  with False ds show ?thesis by (simp add: int_string_def)
qed

lemma int_string_inj [simp]: "int_string i = int_string j \<longleftrightarrow> i = j"
  by (metis option.inject set_string_int_string)

theorem parse_uint64_nat_string: "parse_uint64 (nat_string (unat w)) = Inr w"
  using unsigned_less [of w, where ?'a = nat] by (simp add: parse_uint64_def)

lemma parse_uint64_bound: "parse_uint64 s = Inr w \<Longrightarrow> dec_value s = Some (unat w)"
  by (auto simp: parse_uint64_def unat_of_nat split: option.splits if_splits)

end
