(* ===== verification/Abi.thy ===== *)
theory Abi
  imports GoLib
begin

text \<open>
  The Solidity ABI, which the program reaches through go-ethereum's \<open>abi\<close> package. That package is
  third-party code: the program's definitions take its \<open>Pack\<close> and \<open>Unpack\<close> as parameters, and the
  locale \<open>abi_codec\<close> states what its documentation promises of them. The second half of the theory is
  an executable encoder and decoder written from the ABI specification, for the types the program uses;
  it satisfies the contract, so the contract can be met, and the byte layouts the program writes by hand
  (\<open>abiEncodeTwo\<close>) are compared with it.
\<close>

section \<open>Types and decoded Go values\<close>

datatype abi_ty =
    TUint256 | TUint64 | TUint32 | TAddress | TBytes32 | TBytes | TString | TBool | TTuple "abi_ty list"

datatype goval =
    VNil | VBig int | VU64 u64 | VU32 u32 | VU8 u8 | VAddr address | VHash hash32
  | VBytes bytes | VStr string | VBool bool | VStruct "goval list"

text \<open>Static types occupy a fixed number of words in the head; the only dynamic types of the program are
  byte strings, which never occur inside a tuple.\<close>

fun static_ty :: "abi_ty \<Rightarrow> bool" where
  "static_ty TBytes = False"
| "static_ty TString = False"
| "static_ty (TTuple ts) = list_all static_ty ts"
| "static_ty _ = True"

fun wt :: "abi_ty \<Rightarrow> goval \<Rightarrow> bool" where
  "wt TUint256 v = (case v of VBig i \<Rightarrow> 0 \<le> i \<and> i < 2 ^ 256 | _ \<Rightarrow> False)"
| "wt TUint64 v = (case v of VU64 _ \<Rightarrow> True | _ \<Rightarrow> False)"
| "wt TUint32 v = (case v of VU32 _ \<Rightarrow> True | _ \<Rightarrow> False)"
| "wt TAddress v = (case v of VAddr _ \<Rightarrow> True | _ \<Rightarrow> False)"
| "wt TBytes32 v = (case v of VHash _ \<Rightarrow> True | _ \<Rightarrow> False)"
| "wt TBytes v = (case v of VBytes _ \<Rightarrow> True | _ \<Rightarrow> False)"
| "wt TString v = (case v of VStr _ \<Rightarrow> True | _ \<Rightarrow> False)"
| "wt TBool v = (case v of VBool _ \<Rightarrow> True | _ \<Rightarrow> False)"
| "wt (TTuple ts) v =
     (case v of VStruct vs \<Rightarrow> list_all static_ty ts \<and> list_all2 wt ts vs | _ \<Rightarrow> False)"

lemma wt_iff:
  "wt TUint256 v \<longleftrightarrow> (\<exists>i. v = VBig i \<and> 0 \<le> i \<and> i < 2 ^ 256)"
  "wt TUint64 v \<longleftrightarrow> (\<exists>w. v = VU64 w)"
  "wt TUint32 v \<longleftrightarrow> (\<exists>w. v = VU32 w)"
  "wt TAddress v \<longleftrightarrow> (\<exists>a. v = VAddr a)"
  "wt TBytes32 v \<longleftrightarrow> (\<exists>h. v = VHash h)"
  "wt TBytes v \<longleftrightarrow> (\<exists>b. v = VBytes b)"
  "wt TString v \<longleftrightarrow> (\<exists>s. v = VStr s)"
  "wt TBool v \<longleftrightarrow> (\<exists>b. v = VBool b)"
  "wt (TTuple ts) v \<longleftrightarrow> (\<exists>vs. v = VStruct vs \<and> list_all static_ty ts \<and> list_all2 wt ts vs)"
  by (cases v; simp)+

abbreviation wts :: "abi_ty list \<Rightarrow> goval list \<Rightarrow> bool" where
  "wts ts vs \<equiv> list_all2 wt ts vs"

text \<open>A bound on the encoded size; decoding is promised only below it (lengths and offsets are words).\<close>

fun vsize :: "goval \<Rightarrow> nat" where
  "vsize (VBytes b) = 96 + length b"
| "vsize (VStr s) = 96 + length s"
| "vsize (VStruct vs) = sum_list (map vsize vs)"
| "vsize _ = 32"

definition abi_fits :: "goval list \<Rightarrow> bool" where
  "abi_fits vs \<longleftrightarrow> sum_list (map vsize vs) < 2 ^ 64"

section \<open>The contract of the ABI package\<close>

locale abi_codec =
  fixes pack :: "abi_ty list \<Rightarrow> goval list \<Rightarrow> string + bytes"
    and unpack :: "abi_ty list \<Rightarrow> bytes \<Rightarrow> string + goval list"
  assumes pack_total: "wts ts vs \<Longrightarrow> \<exists>bs. pack ts vs = Inr bs"
    and unpack_pack: "wts ts vs \<Longrightarrow> abi_fits vs \<Longrightarrow> pack ts vs = Inr bs \<Longrightarrow> unpack ts bs = Inr vs"
    and unpack_typed: "unpack ts bs = Inr vs \<Longrightarrow> wts ts vs"
begin

lemma pack_inj:
  assumes "wts ts us" "wts ts vs" "abi_fits us" "abi_fits vs" "pack ts us = Inr b" "pack ts vs = Inr b"
  shows "us = vs"
  using assms unpack_pack by (metis sum.inject(2))

lemma unpack_length:
  assumes "unpack ts bs = Inr vs"
  shows "length vs = length ts"
  using unpack_typed [OF assms] by (simp add: list_all2_lengthD)

end

section \<open>Encoding, from the ABI specification\<close>

fun enc_static :: "goval \<Rightarrow> bytes" where
  "enc_static (VBig i) = be_fixed 32 (nat (i mod 2 ^ 256))"
| "enc_static (VU64 w) = be_fixed 32 (unat w)"
| "enc_static (VU32 w) = be_fixed 32 (unat w)"
| "enc_static (VAddr a) = be_fixed 32 (unat a)"
| "enc_static (VHash h) = be_fixed 32 (unat h)"
| "enc_static (VBool b) = be_fixed 32 (if b then 1 else 0)"
| "enc_static (VStruct vs) = concat (map enc_static vs)"
| "enc_static _ = []"

definition pad32 :: "bytes \<Rightarrow> bytes" where
  "pad32 b = b @ replicate ((32 - length b mod 32) mod 32) 0"

definition enc_dyn :: "bytes \<Rightarrow> bytes" where
  "enc_dyn b = be_fixed 32 (length b) @ pad32 b"

fun dyn_bytes :: "goval \<Rightarrow> bytes" where
  "dyn_bytes (VBytes b) = b"
| "dyn_bytes (VStr s) = str_bytes s"
| "dyn_bytes _ = []"

fun head_size :: "abi_ty \<Rightarrow> nat" where
  "head_size (TTuple ts) = sum_list (map head_size ts)"
| "head_size _ = 32"

text \<open>Heads and tails of an argument list whose tails start at offset \<open>off\<close>.\<close>

fun enc_args :: "nat \<Rightarrow> abi_ty list \<Rightarrow> goval list \<Rightarrow> bytes \<times> bytes" where
  "enc_args off (t # ts) (v # vs) =
     (if static_ty t then
        (let (h, d) = enc_args off ts vs in (enc_static v @ h, d))
      else
        (let e = enc_dyn (dyn_bytes v); (h, d) = enc_args (off + length e) ts vs
         in (be_fixed 32 off @ h, e @ d)))"
| "enc_args off _ _ = ([], [])"

definition ref_pack :: "abi_ty list \<Rightarrow> goval list \<Rightarrow> string + bytes" where
  "ref_pack ts vs =
     (if wts ts vs then
        (let (h, d) = enc_args (sum_list (map head_size ts)) ts vs in Inr (h @ d))
      else Inl ''abi: argument mismatch'')"

section \<open>Decoding, from the ABI specification\<close>

definition read_uint :: "nat \<Rightarrow> bytes \<Rightarrow> (nat \<times> bytes) option" where
  "read_uint bound bs =
     (if length bs < 32 then None
      else let n = be_val (take 32 bs) in if n < bound then Some (n, drop 32 bs) else None)"

fun dec_static :: "abi_ty \<Rightarrow> bytes \<Rightarrow> (goval \<times> bytes) option"
  and dec_statics :: "abi_ty list \<Rightarrow> bytes \<Rightarrow> (goval list \<times> bytes) option" where
  "dec_static TUint256 bs = map_option (\<lambda>(n, r). (VBig (int n), r)) (read_uint (2 ^ 256) bs)"
| "dec_static TUint64 bs = map_option (\<lambda>(n, r). (VU64 (of_nat n), r)) (read_uint (2 ^ 64) bs)"
| "dec_static TUint32 bs = map_option (\<lambda>(n, r). (VU32 (of_nat n), r)) (read_uint (2 ^ 32) bs)"
| "dec_static TAddress bs = map_option (\<lambda>(n, r). (VAddr (of_nat n), r)) (read_uint (2 ^ 256) bs)"
| "dec_static TBytes32 bs = map_option (\<lambda>(n, r). (VHash (of_nat n), r)) (read_uint (2 ^ 256) bs)"
| "dec_static TBool bs = map_option (\<lambda>(n, r). (VBool (n = 1), r)) (read_uint 2 bs)"
| "dec_static (TTuple ts) bs =
     (if list_all static_ty ts
      then map_option (\<lambda>(vs, r). (VStruct vs, r)) (dec_statics ts bs) else None)"
| "dec_static _ bs = None"
| "dec_statics [] bs = Some ([], bs)"
| "dec_statics (t # ts) bs =
     (case dec_static t bs of None \<Rightarrow> None
      | Some (v, r) \<Rightarrow> map_option (\<lambda>(vs, r'). (v # vs, r')) (dec_statics ts r))"

definition dec_dyn :: "bytes \<Rightarrow> nat \<Rightarrow> bytes option" where
  "dec_dyn data off =
     (case read_uint (2 ^ 256) (drop off data) of None \<Rightarrow> None
      | Some (n, r) \<Rightarrow> if length r < n then None else Some (take n r))"

fun dec_args :: "bytes \<Rightarrow> abi_ty list \<Rightarrow> bytes \<Rightarrow> goval list option" where
  "dec_args data [] hs = Some []"
| "dec_args data (t # ts) hs =
     (if static_ty t then
        (case dec_static t hs of None \<Rightarrow> None
         | Some (v, r) \<Rightarrow> map_option ((#) v) (dec_args data ts r))
      else if t = TBytes \<or> t = TString then
        (case read_uint (2 ^ 256) hs of None \<Rightarrow> None
         | Some (off, r) \<Rightarrow>
             (case dec_dyn data off of None \<Rightarrow> None
              | Some b \<Rightarrow>
                  map_option ((#) (if t = TString then VStr (bytes_str b) else VBytes b))
                    (dec_args data ts r)))
      else None)"

definition ref_unpack :: "abi_ty list \<Rightarrow> bytes \<Rightarrow> string + goval list" where
  "ref_unpack ts bs =
     (case dec_args bs ts bs of None \<Rightarrow> Inl ''abi: cannot unmarshal'' | Some vs \<Rightarrow> Inr vs)"

section \<open>The reference satisfies the contract\<close>

lemma read_uint_word:
  "n < bound \<Longrightarrow> n < 2 ^ 256 \<Longrightarrow> read_uint bound (be_fixed 32 n @ rest) = Some (n, rest)"
  by (simp add: read_uint_def be_val_fixed)

lemma read_uint_Some: "read_uint bound bs = Some (n, r) \<Longrightarrow> n < bound"
  by (auto simp: read_uint_def Let_def split: if_splits)

lemma unat_less_256 [simp]:
  "unat (w :: u64) < 2 ^ 256" "unat (w :: u64) < 2 ^ 64" "unat (v :: u32) < 2 ^ 256" "unat (v :: u32) < 2 ^ 32"
  "unat (a :: address) < 2 ^ 256" "unat (h :: hash32) < 2 ^ 256"
  using unsigned_less [of w, where ?'a = nat] unsigned_less [of v, where ?'a = nat]
    unsigned_less [of a, where ?'a = nat] unsigned_less [of h, where ?'a = nat]
  by (simp_all add: order.strict_trans2)

lemma read_uint_unat:
  "read_uint (2 ^ 64) (be_fixed 32 (unat (w :: u64)) @ rest) = Some (unat w, rest)"
  "read_uint (2 ^ 32) (be_fixed 32 (unat (v :: u32)) @ rest) = Some (unat v, rest)"
  "read_uint (2 ^ 256) (be_fixed 32 (unat (a :: address)) @ rest) = Some (unat a, rest)"
  "read_uint (2 ^ 256) (be_fixed 32 (unat (h :: hash32)) @ rest) = Some (unat h, rest)"
  by (intro read_uint_word unat_less_256)+

lemma dec_static_enc:
  "static_ty t \<Longrightarrow> wt t v \<Longrightarrow> dec_static t (enc_static v @ rest) = Some (v, rest)"
proof (induction t arbitrary: v rest)
  case (TTuple ts)
  then obtain vs where v: "v = VStruct vs" "list_all static_ty ts" "list_all2 wt ts vs"
    by (cases v) auto
  have "dec_statics ts (concat (map enc_static vs) @ rest) = Some (vs, rest)"
    using v(3,2) TTuple.IH
  proof (induction ts vs arbitrary: rest rule: list_all2_induct)
    case Nil
    then show ?case by simp
  next
    case (Cons t ts v vs)
    then have "dec_static t (enc_static v @ concat (map enc_static vs) @ rest)
        = Some (v, concat (map enc_static vs) @ rest)" by simp
    with Cons show ?case by simp
  qed
  with v show ?case by simp
qed (auto simp: read_uint_word read_uint_unat [simplified] mod_pos_pos_trivial nat_less_iff
    split: goval.splits if_splits)

interpretation static_code: prefix_code enc_static "dec_static t" "\<lambda>v. static_ty t \<and> wt t v"
  by unfold_locales (simp add: dec_static_enc)

lemma length_enc_static: "static_ty t \<Longrightarrow> wt t v \<Longrightarrow> length (enc_static v) = head_size t"
proof (induction t arbitrary: v)
  case (TTuple ts)
  then obtain vs where v: "v = VStruct vs" "list_all static_ty ts" "list_all2 wt ts vs"
    by (cases v) auto
  have "length (concat (map enc_static vs)) = sum_list (map head_size ts)"
    using v(3,2) TTuple.IH by (induction ts vs rule: list_all2_induct) auto
  with v show ?case by simp
qed (auto split: goval.splits)

lemma head_size_le_vsize: "static_ty t \<Longrightarrow> wt t v \<Longrightarrow> head_size t \<le> vsize v"
proof (induction t arbitrary: v)
  case (TTuple ts)
  then obtain vs where v: "v = VStruct vs" "list_all static_ty ts" "list_all2 wt ts vs"
    by (cases v) auto
  have "sum_list (map head_size ts) \<le> sum_list (map vsize vs)"
    using v(3,2) TTuple.IH by (induction ts vs rule: list_all2_induct) (auto intro: add_mono)
  with v show ?case by simp
qed (auto split: goval.splits)

lemma dynamic_cases: "\<not> static_ty t \<Longrightarrow> wt t v \<Longrightarrow>
    (\<exists>b. t = TBytes \<and> v = VBytes b) \<or> (\<exists>s. t = TString \<and> v = VStr s)"
  by (cases t) (auto split: goval.splits)

lemma length_pad32: "length (pad32 b) \<le> length b + 31"
proof -
  have "(32 - length b mod 32) mod 32 \<le> 31" by simp
  then show ?thesis unfolding pad32_def length_append length_replicate by linarith
qed

lemma enc_args_static:
  "static_ty t \<Longrightarrow> enc_args off (t # ts) (v # vs)
     = (enc_static v @ fst (enc_args off ts vs), snd (enc_args off ts vs))"
  by (simp add: Let_def split_beta)

lemma enc_args_dynamic:
  "\<not> static_ty t \<Longrightarrow> enc_args off (t # ts) (v # vs)
     = (be_fixed 32 off @ fst (enc_args (off + length (enc_dyn (dyn_bytes v))) ts vs),
        enc_dyn (dyn_bytes v) @ snd (enc_args (off + length (enc_dyn (dyn_bytes v))) ts vs))"
  by (simp add: Let_def split_beta)

declare enc_args.simps(1) [simp del]

lemma head_size_dynamic: "\<not> static_ty t \<Longrightarrow> wt t v \<Longrightarrow> head_size t = 32"
  using dynamic_cases [of t v] by auto

lemma length_enc_heads:
  "wts ts vs \<Longrightarrow> length (fst (enc_args off ts vs)) = sum_list (map head_size ts)"
proof (induction ts vs arbitrary: off rule: list_all2_induct)
  case Nil
  then show ?case by simp
next
  case (Cons t ts v vs)
  then show ?case
    by (cases "static_ty t")
      (simp_all add: enc_args_static enc_args_dynamic length_enc_static head_size_dynamic)
qed

lemma enc_dyn_vsize:
  assumes "\<not> static_ty t" "wt t v"
  shows "32 + length (enc_dyn (dyn_bytes v)) \<le> vsize v"
proof -
  have "length (enc_dyn (dyn_bytes v)) \<le> 63 + length (dyn_bytes v)"
    using length_pad32 [of "dyn_bytes v"] by (simp add: enc_dyn_def)
  moreover have "96 + length (dyn_bytes v) \<le> vsize v"
    using dynamic_cases [OF assms] by auto
  ultimately show ?thesis by linarith
qed

lemma length_enc_args:
  "wts ts vs \<Longrightarrow>
     length (fst (enc_args off ts vs)) + length (snd (enc_args off ts vs)) \<le> sum_list (map vsize vs)"
proof (induction ts vs arbitrary: off rule: list_all2_induct)
  case Nil
  then show ?case by simp
next
  case (Cons t ts v vs)
  show ?case
  proof (cases "static_ty t")
    case True
    with Cons.hyps have "length (enc_static v) \<le> vsize v"
      by (simp add: length_enc_static head_size_le_vsize)
    with True Cons.IH [of off] show ?thesis by (simp add: enc_args_static)
  next
    case False
    with Cons.hyps enc_dyn_vsize [of t v] Cons.IH [of "off + length (enc_dyn (dyn_bytes v))"]
    show ?thesis by (simp add: enc_args_dynamic)
  qed
qed

lemma length_ref_pack: "ref_pack ts vs = Inr bs \<Longrightarrow> length bs \<le> sum_list (map vsize vs)"
  using length_enc_args [of ts vs "sum_list (map head_size ts)"]
  by (auto simp: ref_pack_def split_beta split: if_splits)

lemma dec_dyn_enc:
  assumes "length b < 2 ^ 256" "length pre = off"
  shows "dec_dyn (pre @ enc_dyn b @ post) off = Some b"
  using assms by (simp add: dec_dyn_def enc_dyn_def pad32_def read_uint_word)

lemma dec_args_enc:
  assumes "wts ts vs" "length pre = off" "off + length (snd (enc_args off ts vs)) < 2 ^ 256"
  shows "dec_args (pre @ snd (enc_args off ts vs) @ post) ts (fst (enc_args off ts vs) @ rest) = Some vs"
  using assms
proof (induction ts vs arbitrary: off pre rule: list_all2_induct)
  case Nil
  then show ?case by simp
next
  case (Cons t ts v vs)
  show ?case
  proof (cases "static_ty t")
    case True
    then show ?thesis
      using Cons.prems Cons.hyps Cons.IH [of pre off]
      by (simp add: enc_args_static dec_static_enc)
  next
    case False
    let ?e = "enc_dyn (dyn_bytes v)"
    let ?r = "enc_args (off + length ?e) ts vs"
    have fits: "off + length ?e + length (snd ?r) < 2 ^ 256"
      using Cons.prems(2) False by (simp add: enc_args_dynamic)
    have "length (dyn_bytes v) \<le> length ?e" by (simp add: enc_dyn_def pad32_def)
    with fits have small: "length (dyn_bytes v) < 2 ^ 256" "off < 2 ^ 256" by linarith+
    have IH: "dec_args ((pre @ ?e) @ snd ?r @ post) ts (fst ?r @ rest) = Some vs"
      using Cons.prems(1) fits by (intro Cons.IH) auto
    have "dec_dyn (pre @ ?e @ snd ?r @ post) off = Some (dyn_bytes v)"
      using small Cons.prems(1) by (intro dec_dyn_enc)
    with IH small False dynamic_cases [OF False Cons.hyps(1)] show ?thesis
      by (auto simp: enc_args_dynamic read_uint_word)
  qed
qed

lemma dec_static_wt: "dec_static t bs = Some (v, r) \<Longrightarrow> wt t v"
  and dec_statics_wts: "dec_statics ts bs = Some (vs, r) \<Longrightarrow> wts ts vs"
proof (induction t bs and ts bs arbitrary: v r and vs r rule: dec_static_dec_statics.induct)
  case (10 t ts bs)
  then show ?case by (fastforce split: option.splits)
qed (auto dest: read_uint_Some split: if_splits)

lemma dec_args_wts: "dec_args data ts hs = Some vs \<Longrightarrow> wts ts vs"
  by (induction data ts hs arbitrary: vs rule: dec_args.induct)
    (fastforce dest: dec_static_wt split: option.splits if_splits)+

interpretation ref_abi: abi_codec ref_pack ref_unpack
proof
  fix ts vs assume "wts ts vs"
  then show "\<exists>bs. ref_pack ts vs = Inr bs" by (simp add: ref_pack_def split_beta)
next
  fix ts vs bs assume w: "wts ts vs" and f: "abi_fits vs" and p: "ref_pack ts vs = Inr bs"
  let ?off = "sum_list (map head_size ts)"
  let ?r = "enc_args ?off ts vs"
  from w p have bs: "bs = fst ?r @ snd ?r" by (simp add: ref_pack_def split_beta)
  have len: "length (fst ?r) = ?off" "length (fst ?r) + length (snd ?r) \<le> sum_list (map vsize vs)"
    using length_enc_heads [OF w] length_enc_args [OF w] by auto
  with f have "?off + length (snd ?r) < 2 ^ 256" by (simp add: abi_fits_def)
  with dec_args_enc [OF w len(1), of "[]" "snd ?r"] bs show "ref_unpack ts bs = Inr vs"
    by (simp add: ref_unpack_def)
next
  fix ts bs vs assume "ref_unpack ts bs = Inr vs"
  then show "wts ts vs" by (auto simp: ref_unpack_def dest: dec_args_wts split: option.splits)
qed

end
