(* ===== verification/Codec.thy ===== *)
theory Codec
  imports Abi
begin

text \<open>
  The enclave's messages: \<open>pkg/types/types.go\<close> (the instruction header, the policy and the payment
  instruction) and \<open>internal/codec\<close> (\<open>codec.go\<close>, \<open>util.go\<close>), which translate between those Go types
  and the ABI encoding the controller contract speaks.  go-ethereum's \<open>Pack\<close> and \<open>Unpack\<close> and the
  Keccak hash are parameters; the round trips are proved from the laws of \<open>abi_codec\<close>.
\<close>

section \<open>The data (types.go)\<close>

text \<open>The integers of a header come out of the ABI decoder and are never nil.  The code checks the
  \<open>*big.Int\<close> fields of a policy and of a payment instruction for nil, so those are options.\<close>

record InstructionHeader =
  hChainId :: int
  hController :: address
  hTreasuryId :: int
  hRequestId :: int
  hNonce :: u64
  hExpiresAt :: u64
  hMemoRef :: hash32
  hPolicyCommitment :: hash32

record Policy =
  MaxPerPaymentDrops :: "int option"
  MaxTotalDrops :: "int option"
  RequestTtlSeconds :: u64

record PaymentInstruction =
  piChainId :: "int option"
  piController :: address
  piTreasuryId :: "int option"
  piRequestId :: "int option"
  piDestination :: string
  piAmountDrops :: "int option"
  piDestinationTag :: u32
  piHasDestinationTag :: bool
  piReference :: string

section \<open>ABI types and argument lists\<close>

text \<open>The types are resolved by go-ethereum when the package is loaded; a bad one is a panic.\<close>

definition mustType :: "(string \<Rightarrow> string) \<Rightarrow> (string \<Rightarrow> 'c \<Rightarrow> string + 'ty) \<Rightarrow> string \<Rightarrow> 'c \<Rightarrow> string + 'ty" where
  "mustType quote newType t components =
     (case newType t components of
        Inl err \<Rightarrow> Inl (''codec: bad ABI type '' @ quote t @ '': '' @ err)
      | Inr ty \<Rightarrow> Inr ty)"

definition base_types :: "(string \<times> abi_ty) list" where
  "base_types =
     [(''uint256'', TUint256), (''uint64'', TUint64), (''uint32'', TUint32), (''address'', TAddress),
      (''bytes32'', TBytes32), (''bytes'', TBytes), (''string'', TString), (''bool'', TBool)]"

definition headerT :: abi_ty where
  "headerT = TTuple [TUint256, TAddress, TUint256, TUint256, TUint64, TUint64, TBytes32, TBytes32]"

definition policyT :: abi_ty where
  "policyT = TTuple [TUint256, TUint256, TUint64]"

definition argsHeaderAndPolicy :: "abi_ty list" where
  "argsHeaderAndPolicy = [headerT, policyT]"

definition argsHeaderAndBytes :: "abi_ty list" where
  "argsHeaderAndBytes = [headerT, TBytes]"

definition argsHeaderOnly :: "abi_ty list" where
  "argsHeaderOnly = [headerT]"

definition argsPaymentInstruction :: "abi_ty list" where
  "argsPaymentInstruction =
     [TUint256, TAddress, TUint256, TUint256, TString, TUint256, TUint32, TBool, TString]"

definition argsBindTreasury :: "abi_ty list" where
  "argsBindTreasury = [TUint256, TAddress, TUint256, TString, TBytes32]"

definition argsConfirmPolicy :: "abi_ty list" where
  "argsConfirmPolicy = [TUint256, TAddress, TUint256, policyT, TBytes32]"

definition argsAuthorization :: "abi_ty list" where
  "argsAuthorization = [TUint256, TAddress, TUint256, TBytes32, TUint256, TBytes32, TBytes32]"

definition argsSignedPayment :: "abi_ty list" where
  "argsSignedPayment = [TUint256, TAddress, TUint256, TBytes32, TBytes32, TBytes]"

definition argsFailure :: "abi_ty list" where
  "argsFailure = [TUint256, TAddress, TUint256, TString]"

lemmas abi_args = headerT_def policyT_def argsHeaderAndPolicy_def argsHeaderAndBytes_def
  argsHeaderOnly_def argsPaymentInstruction_def argsBindTreasury_def argsConfirmPolicy_def
  argsAuthorization_def argsSignedPayment_def argsFailure_def

section \<open>Decoded values and Go types\<close>

datatype codec_error =
    UnpackFailed string | WrongCount nat nat | NotStruct | FieldCount nat nat | NotAssignable nat
  | PayloadType | FieldType string | PackFailed string

datatype gotype = GBig | GUint64 | GUint32 | GUint8 | GAddress | GHash | GBytes | GString | GBool | GStruct

fun gotype_of :: "goval \<Rightarrow> gotype option" where
  "gotype_of VNil = None"
| "gotype_of (VBig _) = Some GBig"
| "gotype_of (VU64 _) = Some GUint64"
| "gotype_of (VU32 _) = Some GUint32"
| "gotype_of (VU8 _) = Some GUint8"
| "gotype_of (VAddr _) = Some GAddress"
| "gotype_of (VHash _) = Some GHash"
| "gotype_of (VBytes _) = Some GBytes"
| "gotype_of (VStr _) = Some GString"
| "gotype_of (VBool _) = Some GBool"
| "gotype_of (VStruct _) = Some GStruct"

text \<open>Go's \<open>v.(T)\<close>: the value when it has that type, the zero value of the type otherwise.\<close>

fun as_big :: "goval \<Rightarrow> int option" where
  "as_big (VBig i) = Some i" | "as_big _ = None"
fun as_u64 :: "goval \<Rightarrow> u64" where
  "as_u64 (VU64 w) = w" | "as_u64 _ = 0"
fun as_u32 :: "goval \<Rightarrow> u32" where
  "as_u32 (VU32 w) = w" | "as_u32 _ = 0"
fun as_addr :: "goval \<Rightarrow> address" where
  "as_addr (VAddr a) = a" | "as_addr _ = 0"
fun as_hash :: "goval \<Rightarrow> hash32" where
  "as_hash (VHash h) = h" | "as_hash _ = 0"
fun as_bytes :: "goval \<Rightarrow> bytes" where
  "as_bytes (VBytes b) = b" | "as_bytes _ = []"
fun as_str :: "goval \<Rightarrow> string" where
  "as_str (VStr s) = s" | "as_str _ = []"
fun as_bool :: "goval \<Rightarrow> bool" where
  "as_bool (VBool b) = b" | "as_bool _ = False"

fun big :: "int option \<Rightarrow> goval" where
  "big (Some i) = VBig i"
| "big None = VNil"

text \<open>\<open>copyStruct\<close> (util.go): copies a decoded struct field by field into a struct whose fields have
  the given Go types, refusing on the first field that is not assignable.\<close>

fun copy_fields :: "nat \<Rightarrow> gotype list \<Rightarrow> goval list \<Rightarrow> codec_error + goval list" where
  "copy_fields i (t # ts) (v # vs) =
     (if gotype_of v \<noteq> Some t then Inl (NotAssignable i)
      else case copy_fields (Suc i) ts vs of Inl e \<Rightarrow> Inl e | Inr ws \<Rightarrow> Inr (v # ws))"
| "copy_fields i _ _ = Inr []"

definition copyStruct :: "gotype list \<Rightarrow> goval \<Rightarrow> codec_error + goval list" where
  "copyStruct dst src =
     (case src of
        VStruct vs \<Rightarrow>
          if length vs \<noteq> length dst then Inl (FieldCount (length vs) (length dst))
          else copy_fields 0 dst vs
      | _ \<Rightarrow> Inl NotStruct)"

definition headerFields :: "gotype list" where
  "headerFields = [GBig, GAddress, GBig, GBig, GUint64, GUint64, GHash, GHash]"

definition policyFields :: "gotype list" where
  "policyFields = [GBig, GBig, GUint64]"

fun to_header :: "goval list \<Rightarrow> InstructionHeader" where
  "to_header vs =
     \<lparr>hChainId = the (as_big (vs ! 0)), hController = as_addr (vs ! 1), hTreasuryId = the (as_big (vs ! 2)),
      hRequestId = the (as_big (vs ! 3)), hNonce = as_u64 (vs ! 4), hExpiresAt = as_u64 (vs ! 5),
      hMemoRef = as_hash (vs ! 6), hPolicyCommitment = as_hash (vs ! 7)\<rparr>"

fun to_policy :: "goval list \<Rightarrow> Policy" where
  "to_policy vs =
     \<lparr>MaxPerPaymentDrops = as_big (vs ! 0), MaxTotalDrops = as_big (vs ! 1),
      RequestTtlSeconds = as_u64 (vs ! 2)\<rparr>"

definition header_val :: "InstructionHeader \<Rightarrow> goval" where
  "header_val h = VStruct [VBig (hChainId h), VAddr (hController h), VBig (hTreasuryId h),
     VBig (hRequestId h), VU64 (hNonce h), VU64 (hExpiresAt h), VHash (hMemoRef h),
     VHash (hPolicyCommitment h)]"

definition policy_val :: "Policy \<Rightarrow> goval" where
  "policy_val p = VStruct [big (MaxPerPaymentDrops p), big (MaxTotalDrops p), VU64 (RequestTtlSeconds p)]"

section \<open>Decoding instructions\<close>

definition DecodeHeaderAndPolicy ::
  "(abi_ty list \<Rightarrow> bytes \<Rightarrow> string + goval list) \<Rightarrow> bytes \<Rightarrow> codec_error + InstructionHeader \<times> Policy" where
  "DecodeHeaderAndPolicy unpack data =
     (case unpack argsHeaderAndPolicy data of
        Inl e \<Rightarrow> Inl (UnpackFailed e)
      | Inr vals \<Rightarrow>
          if length vals \<noteq> 2 then Inl (WrongCount 2 (length vals))
          else case copyStruct headerFields (vals ! 0) of
              Inl e \<Rightarrow> Inl e
            | Inr hv \<Rightarrow>
                (case copyStruct policyFields (vals ! 1) of
                   Inl e \<Rightarrow> Inl e
                 | Inr pv \<Rightarrow> Inr (to_header hv, to_policy pv)))"

definition DecodeHeaderAndPayload ::
  "(abi_ty list \<Rightarrow> bytes \<Rightarrow> string + goval list) \<Rightarrow> bytes \<Rightarrow> codec_error + InstructionHeader \<times> bytes" where
  "DecodeHeaderAndPayload unpack data =
     (case unpack argsHeaderAndBytes data of
        Inl e \<Rightarrow> Inl (UnpackFailed e)
      | Inr vals \<Rightarrow>
          if length vals \<noteq> 2 then Inl (WrongCount 2 (length vals))
          else case copyStruct headerFields (vals ! 0) of
              Inl e \<Rightarrow> Inl e
            | Inr hv \<Rightarrow>
                if gotype_of (vals ! 1) \<noteq> Some GBytes then Inl PayloadType
                else Inr (to_header hv, as_bytes (vals ! 1)))"

definition DecodeHeader ::
  "(abi_ty list \<Rightarrow> bytes \<Rightarrow> string + goval list) \<Rightarrow> bytes \<Rightarrow> codec_error + InstructionHeader" where
  "DecodeHeader unpack data =
     (case unpack argsHeaderOnly data of
        Inl e \<Rightarrow> Inl (UnpackFailed e)
      | Inr vals \<Rightarrow>
          if length vals \<noteq> 1 then Inl (WrongCount 1 (length vals))
          else case copyStruct headerFields (vals ! 0) of
              Inl e \<Rightarrow> Inl e
            | Inr hv \<Rightarrow> Inr (to_header hv))"

text \<open>\<open>DecodePaymentInstruction\<close> checks the fields in order and names the first that has another type.\<close>

definition paymentFields :: "(string \<times> gotype) list" where
  "paymentFields = [(''chainId'', GBig), (''controller'', GAddress), (''treasuryId'', GBig),
     (''requestId'', GBig), (''destination'', GString), (''amountDrops'', GBig),
     (''destinationTag'', GUint32), (''hasDestinationTag'', GBool), (''reference'', GString)]"

fun first_mismatch :: "(string \<times> gotype) list \<Rightarrow> goval list \<Rightarrow> string option" where
  "first_mismatch ((n, t) # ts) (v # vs) =
     (if gotype_of v \<noteq> Some t then Some n else first_mismatch ts vs)"
| "first_mismatch _ _ = None"

definition DecodePaymentInstruction ::
  "(abi_ty list \<Rightarrow> bytes \<Rightarrow> string + goval list) \<Rightarrow> bytes \<Rightarrow> codec_error + PaymentInstruction" where
  "DecodePaymentInstruction unpack data =
     (case unpack argsPaymentInstruction data of
        Inl e \<Rightarrow> Inl (UnpackFailed e)
      | Inr vals \<Rightarrow>
          if length vals \<noteq> 9 then Inl (WrongCount 9 (length vals))
          else case first_mismatch paymentFields vals of
              Some n \<Rightarrow> Inl (FieldType n)
            | None \<Rightarrow>
                Inr \<lparr>piChainId = as_big (vals ! 0), piController = as_addr (vals ! 1),
                     piTreasuryId = as_big (vals ! 2), piRequestId = as_big (vals ! 3),
                     piDestination = as_str (vals ! 4), piAmountDrops = as_big (vals ! 5),
                     piDestinationTag = as_u32 (vals ! 6), piHasDestinationTag = as_bool (vals ! 7),
                     piReference = as_str (vals ! 8)\<rparr>)"

section \<open>Encoding\<close>

definition EncodeHeaderAndPolicy ::
  "(abi_ty list \<Rightarrow> goval list \<Rightarrow> string + bytes) \<Rightarrow> InstructionHeader \<Rightarrow> Policy \<Rightarrow> string + bytes" where
  "EncodeHeaderAndPolicy pack h p = pack argsHeaderAndPolicy [header_val h, policy_val p]"

definition EncodeHeaderAndPayload ::
  "(abi_ty list \<Rightarrow> goval list \<Rightarrow> string + bytes) \<Rightarrow> InstructionHeader \<Rightarrow> bytes \<Rightarrow> string + bytes" where
  "EncodeHeaderAndPayload pack h payload = pack argsHeaderAndBytes [header_val h, VBytes payload]"

definition EncodeHeader ::
  "(abi_ty list \<Rightarrow> goval list \<Rightarrow> string + bytes) \<Rightarrow> InstructionHeader \<Rightarrow> string + bytes" where
  "EncodeHeader pack h = pack argsHeaderOnly [header_val h]"

definition payment_vals :: "PaymentInstruction \<Rightarrow> goval list" where
  "payment_vals pi =
     [big (piChainId pi), VAddr (piController pi), big (piTreasuryId pi), big (piRequestId pi),
      VStr (piDestination pi), big (piAmountDrops pi), VU32 (piDestinationTag pi),
      VBool (piHasDestinationTag pi), VStr (piReference pi)]"

definition EncodePaymentInstruction ::
  "(abi_ty list \<Rightarrow> goval list \<Rightarrow> string + bytes) \<Rightarrow> PaymentInstruction \<Rightarrow> string + bytes" where
  "EncodePaymentInstruction pack pi = pack argsPaymentInstruction (payment_vals pi)"

definition EncodeBindTreasury ::
  "(abi_ty list \<Rightarrow> goval list \<Rightarrow> string + bytes) \<Rightarrow> int \<Rightarrow> address \<Rightarrow> int \<Rightarrow> string \<Rightarrow> hash32 \<Rightarrow> string + bytes" where
  "EncodeBindTreasury pack chainID controller treasuryID xrplAddress policyCommitment =
     pack argsBindTreasury
       [VBig chainID, VAddr controller, VBig treasuryID, VStr xrplAddress, VHash policyCommitment]"

definition EncodeConfirmPolicy ::
  "(abi_ty list \<Rightarrow> goval list \<Rightarrow> string + bytes) \<Rightarrow> int \<Rightarrow> address \<Rightarrow> int \<Rightarrow> Policy \<Rightarrow> hash32 \<Rightarrow> string + bytes" where
  "EncodeConfirmPolicy pack chainID controller treasuryID p commitment =
     pack argsConfirmPolicy
       [VBig chainID, VAddr controller, VBig treasuryID, policy_val p, VHash commitment]"

definition EncodeAuthorization ::
  "(abi_ty list \<Rightarrow> goval list \<Rightarrow> string + bytes) \<Rightarrow> int \<Rightarrow> address \<Rightarrow> int \<Rightarrow> hash32 \<Rightarrow> int \<Rightarrow> hash32 \<Rightarrow> hash32
     \<Rightarrow> string + bytes" where
  "EncodeAuthorization pack chainID controller requestID memoRef amountDrops destinationHash payloadHash =
     pack argsAuthorization
       [VBig chainID, VAddr controller, VBig requestID, VHash memoRef, VBig amountDrops,
        VHash destinationHash, VHash payloadHash]"

definition EncodeSignedPayment ::
  "(abi_ty list \<Rightarrow> goval list \<Rightarrow> string + bytes) \<Rightarrow> int \<Rightarrow> address \<Rightarrow> int \<Rightarrow> hash32 \<Rightarrow> hash32 \<Rightarrow> bytes
     \<Rightarrow> string + bytes" where
  "EncodeSignedPayment pack chainID controller requestID memoRef expectedTxID signedTxBlob =
     pack argsSignedPayment
       [VBig chainID, VAddr controller, VBig requestID, VHash memoRef, VHash expectedTxID,
        VBytes signedTxBlob]"

definition EncodeFailure ::
  "(abi_ty list \<Rightarrow> goval list \<Rightarrow> string + bytes) \<Rightarrow> int \<Rightarrow> address \<Rightarrow> int \<Rightarrow> string \<Rightarrow> string + bytes" where
  "EncodeFailure pack chainID controller requestID reason =
     pack argsFailure [VBig chainID, VAddr controller, VBig requestID, VStr reason]"

section \<open>Results read back by the relayer\<close>

definition DecodeSignedPayment ::
  "(abi_ty list \<Rightarrow> bytes \<Rightarrow> string + goval list) \<Rightarrow> bytes
     \<Rightarrow> codec_error + int option \<times> address \<times> int option \<times> hash32 \<times> hash32 \<times> bytes" where
  "DecodeSignedPayment unpack data =
     (case unpack argsSignedPayment data of
        Inl e \<Rightarrow> Inl (UnpackFailed e)
      | Inr vals \<Rightarrow>
          if length vals \<noteq> 6 then Inl (WrongCount 6 (length vals))
          else Inr (as_big (vals ! 0), as_addr (vals ! 1), as_big (vals ! 2), as_hash (vals ! 3),
                    as_hash (vals ! 4), as_bytes (vals ! 5)))"

definition DecodeAuthorization ::
  "(abi_ty list \<Rightarrow> bytes \<Rightarrow> string + goval list) \<Rightarrow> bytes
     \<Rightarrow> codec_error + int option \<times> address \<times> int option \<times> hash32 \<times> int option \<times> hash32 \<times> hash32" where
  "DecodeAuthorization unpack data =
     (case unpack argsAuthorization data of
        Inl e \<Rightarrow> Inl (UnpackFailed e)
      | Inr vals \<Rightarrow>
          if length vals \<noteq> 7 then Inl (WrongCount 7 (length vals))
          else Inr (as_big (vals ! 0), as_addr (vals ! 1), as_big (vals ! 2), as_hash (vals ! 3),
                    as_big (vals ! 4), as_hash (vals ! 5), as_hash (vals ! 6)))"

section \<open>Hashes (util.go) and the policy commitment\<close>

text \<open>Go's \<open>copy(out[:], b)\<close> into a \<open>[32]byte\<close>.\<close>

definition copy_hash :: "bytes \<Rightarrow> hash32" where
  "copy_hash b = bytes_word (take 32 (b @ replicate 32 0))"

definition Keccak256Hash :: "(bytes \<Rightarrow> bytes) \<Rightarrow> bytes \<Rightarrow> hash32" where
  "Keccak256Hash keccak data = copy_hash (keccak data)"

definition Keccak256String :: "(bytes \<Rightarrow> bytes) \<Rightarrow> string \<Rightarrow> hash32" where
  "Keccak256String keccak s = Keccak256Hash keccak (str_bytes s)"

definition PolicyCommitment ::
  "(abi_ty list \<Rightarrow> goval list \<Rightarrow> string + bytes) \<Rightarrow> (bytes \<Rightarrow> bytes) \<Rightarrow> Policy \<Rightarrow> codec_error + hash32" where
  "PolicyCommitment pack keccak p =
     (case pack [policyT] [policy_val p] of
        Inl e \<Rightarrow> Inl (PackFailed e)
      | Inr packed \<Rightarrow> Inr (Keccak256Hash keccak packed))"

section \<open>Well-formed messages\<close>

abbreviation uint256 :: "int \<Rightarrow> bool" where
  "uint256 i \<equiv> 0 \<le> i \<and> i < 2 ^ 256"

definition header_ok :: "InstructionHeader \<Rightarrow> bool" where
  "header_ok h \<longleftrightarrow> uint256 (hChainId h) \<and> uint256 (hTreasuryId h) \<and> uint256 (hRequestId h)"

fun big_ok :: "int option \<Rightarrow> bool" where
  "big_ok None = False"
| "big_ok (Some i) = uint256 i"

definition policy_ok :: "Policy \<Rightarrow> bool" where
  "policy_ok p \<longleftrightarrow> big_ok (MaxPerPaymentDrops p) \<and> big_ok (MaxTotalDrops p)"

definition payment_ok :: "PaymentInstruction \<Rightarrow> bool" where
  "payment_ok pi \<longleftrightarrow> big_ok (piChainId pi) \<and> big_ok (piTreasuryId pi) \<and> big_ok (piRequestId pi)
     \<and> big_ok (piAmountDrops pi) \<and> length (piDestination pi) < 2 ^ 32 \<and> length (piReference pi) < 2 ^ 32"

lemma big_okE: "big_ok v \<Longrightarrow> (\<And>i. v = Some i \<Longrightarrow> uint256 i \<Longrightarrow> P) \<Longrightarrow> P"
  by (cases v) auto

lemma as_big_big [simp]: "as_big (big v) = v"
  by (cases v) auto

lemma policy_val_inj: "policy_val p = policy_val q \<longleftrightarrow> p = q"
proof -
  have "big v = big w \<longleftrightarrow> v = w" for v w by (cases v; cases w) auto
  then show ?thesis by (cases p; cases q) (auto simp: policy_val_def)
qed

lemma wt_header: "header_ok h \<Longrightarrow> wt headerT (header_val h)"
  by (simp add: header_ok_def headerT_def header_val_def)

lemma wt_policy: "policy_ok p \<Longrightarrow> wt policyT (policy_val p)"
  by (auto simp: policy_ok_def policyT_def policy_val_def elim!: big_okE)

lemma wts_payment: "payment_ok pi \<Longrightarrow> wts argsPaymentInstruction (payment_vals pi)"
  by (auto simp: payment_ok_def argsPaymentInstruction_def payment_vals_def elim!: big_okE)

lemma copy_header: "copyStruct headerFields (header_val h)
    = Inr [VBig (hChainId h), VAddr (hController h), VBig (hTreasuryId h), VBig (hRequestId h),
        VU64 (hNonce h), VU64 (hExpiresAt h), VHash (hMemoRef h), VHash (hPolicyCommitment h)]"
  by (simp add: copyStruct_def headerFields_def header_val_def)

lemma copy_policy: "policy_ok p \<Longrightarrow> copyStruct policyFields (policy_val p)
    = Inr [big (MaxPerPaymentDrops p), big (MaxTotalDrops p), VU64 (RequestTtlSeconds p)]"
  by (auto simp: copyStruct_def policyFields_def policy_val_def policy_ok_def elim!: big_okE)

lemma vsize_header [simp]: "vsize (header_val h) = 256"
  by (simp add: header_val_def)

lemma vsize_big [simp]: "vsize (big v) = 32"
  by (cases v) auto

lemma vsize_policy [simp]: "vsize (policy_val p) = 96"
  by (simp add: policy_val_def)

text \<open>What the decoders deliver is well formed, from the typing law of the ABI package.\<close>

lemma wt_headerD:
  assumes "wt headerT v"
  shows "\<exists>h. v = header_val h \<and> header_ok h"
proof -
  from assms obtain i a j k n e m c where
    "v = VStruct [VBig i, VAddr a, VBig j, VBig k, VU64 n, VU64 e, VHash m, VHash c]"
    "uint256 i" "uint256 j" "uint256 k"
    by (auto simp: headerT_def list_all2_Cons1 wt_iff simp del: wt.simps)
  then show ?thesis
    by (intro exI [of _ "\<lparr>hChainId = i, hController = a, hTreasuryId = j, hRequestId = k, hNonce = n,
        hExpiresAt = e, hMemoRef = m, hPolicyCommitment = c\<rparr>"])
      (simp add: header_val_def header_ok_def)
qed

lemma wt_policyD:
  assumes "wt policyT v"
  shows "\<exists>p. v = policy_val p \<and> policy_ok p"
proof -
  from assms obtain i j n where "v = VStruct [VBig i, VBig j, VU64 n]" "uint256 i" "uint256 j"
    by (auto simp: policyT_def list_all2_Cons1 wt_iff simp del: wt.simps)
  then show ?thesis
    by (intro exI [of _ "\<lparr>MaxPerPaymentDrops = Some i, MaxTotalDrops = Some j, RequestTtlSeconds = n\<rparr>"])
      (simp add: policy_val_def policy_ok_def)
qed

lemma to_header_inverse [simp]:
  "to_header [VBig (hChainId h), VAddr (hController h), VBig (hTreasuryId h), VBig (hRequestId h),
     VU64 (hNonce h), VU64 (hExpiresAt h), VHash (hMemoRef h), VHash (hPolicyCommitment h)] = h"
  by (simp add: numeral_eq_Suc)

lemma to_policy_inverse [simp]:
  "to_policy [big (MaxPerPaymentDrops p), big (MaxTotalDrops p), VU64 (RequestTtlSeconds p)] = p"
  by (simp add: numeral_eq_Suc)

declare to_header.simps [simp del] to_policy.simps [simp del]

lemmas decode_defs = DecodeHeaderAndPolicy_def DecodeHeaderAndPayload_def DecodeHeader_def
  DecodePaymentInstruction_def DecodeSignedPayment_def DecodeAuthorization_def

lemmas encode_defs = EncodeHeaderAndPolicy_def EncodeHeaderAndPayload_def EncodeHeader_def
  EncodePaymentInstruction_def EncodeBindTreasury_def EncodeConfirmPolicy_def EncodeAuthorization_def
  EncodeSignedPayment_def EncodeFailure_def

section \<open>Round trips from the laws of the ABI package\<close>

context abi_codec begin

lemma roundtrip:
  assumes "wts ts vs" "abi_fits vs"
  obtains bs where "pack ts vs = Inr bs" "unpack ts bs = Inr vs"
  using assms pack_total unpack_pack by blast

lemma header_policy_roundtrip:
  assumes "header_ok h" "policy_ok p"
  shows "\<exists>bs. EncodeHeaderAndPolicy pack h p = Inr bs \<and> DecodeHeaderAndPolicy unpack bs = Inr (h, p)"
proof -
  have "wts argsHeaderAndPolicy [header_val h, policy_val p]"
    using assms by (simp add: argsHeaderAndPolicy_def wt_header wt_policy)
  then obtain bs where "pack argsHeaderAndPolicy [header_val h, policy_val p] = Inr bs"
      "unpack argsHeaderAndPolicy bs = Inr [header_val h, policy_val p]"
    by (rule roundtrip) (auto simp: abi_fits_def)
  with assms show ?thesis
    by (simp add: EncodeHeaderAndPolicy_def DecodeHeaderAndPolicy_def copy_header copy_policy)
qed

lemma header_payload_roundtrip:
  assumes "header_ok h" "length payload < 2 ^ 32"
  shows "\<exists>bs. EncodeHeaderAndPayload pack h payload = Inr bs
    \<and> DecodeHeaderAndPayload unpack bs = Inr (h, payload)"
proof -
  have "wts argsHeaderAndBytes [header_val h, VBytes payload]"
    using assms by (simp add: argsHeaderAndBytes_def wt_header)
  then obtain bs where "pack argsHeaderAndBytes [header_val h, VBytes payload] = Inr bs"
      "unpack argsHeaderAndBytes bs = Inr [header_val h, VBytes payload]"
    by (rule roundtrip) (use assms in \<open>auto simp: abi_fits_def\<close>)
  with assms show ?thesis
    by (simp add: EncodeHeaderAndPayload_def DecodeHeaderAndPayload_def copy_header)
qed

lemma header_roundtrip:
  assumes "header_ok h"
  shows "\<exists>bs. EncodeHeader pack h = Inr bs \<and> DecodeHeader unpack bs = Inr h"
proof -
  have "wts argsHeaderOnly [header_val h]"
    using assms by (simp add: argsHeaderOnly_def wt_header)
  then obtain bs where "pack argsHeaderOnly [header_val h] = Inr bs"
      "unpack argsHeaderOnly bs = Inr [header_val h]"
    by (rule roundtrip) (auto simp: abi_fits_def)
  with assms show ?thesis by (simp add: EncodeHeader_def DecodeHeader_def copy_header)
qed

lemma payment_roundtrip:
  assumes ok: "payment_ok pi"
  shows "\<exists>bs. EncodePaymentInstruction pack pi = Inr bs \<and> DecodePaymentInstruction unpack bs = Inr pi"
proof -
  from ok have fits: "abi_fits (payment_vals pi)"
    by (simp add: abi_fits_def payment_vals_def payment_ok_def)
  obtain bs where p: "pack argsPaymentInstruction (payment_vals pi) = Inr bs"
      and u: "unpack argsPaymentInstruction bs = Inr (payment_vals pi)"
    using roundtrip [OF wts_payment [OF ok] fits] .
  have "first_mismatch paymentFields (payment_vals pi) = None"
    using ok by (auto simp: paymentFields_def payment_vals_def payment_ok_def elim!: big_okE)
  with p u show ?thesis
    by (simp add: EncodePaymentInstruction_def DecodePaymentInstruction_def payment_vals_def numeral_eq_Suc)
qed

lemma signed_payment_roundtrip:
  assumes "uint256 chain" "uint256 request" "length blob < 2 ^ 32"
  shows "\<exists>bs. EncodeSignedPayment pack chain ctrl request memo txid blob = Inr bs
    \<and> DecodeSignedPayment unpack bs = Inr (Some chain, ctrl, Some request, memo, txid, blob)"
proof -
  let ?vs = "[VBig chain, VAddr ctrl, VBig request, VHash memo, VHash txid, VBytes blob]"
  have "wts argsSignedPayment ?vs" using assms by (simp add: argsSignedPayment_def)
  then obtain bs where "pack argsSignedPayment ?vs = Inr bs" "unpack argsSignedPayment bs = Inr ?vs"
    by (rule roundtrip) (use assms in \<open>auto simp: abi_fits_def\<close>)
  then show ?thesis by (simp add: EncodeSignedPayment_def DecodeSignedPayment_def numeral_eq_Suc)
qed

lemma authorization_roundtrip:
  assumes "uint256 chain" "uint256 request" "uint256 amount"
  shows "\<exists>bs. EncodeAuthorization pack chain ctrl request memo amount dh ph = Inr bs
    \<and> DecodeAuthorization unpack bs = Inr (Some chain, ctrl, Some request, memo, Some amount, dh, ph)"
proof -
  let ?vs = "[VBig chain, VAddr ctrl, VBig request, VHash memo, VBig amount, VHash dh, VHash ph]"
  have "wts argsAuthorization ?vs" using assms by (simp add: argsAuthorization_def)
  then obtain bs where "pack argsAuthorization ?vs = Inr bs" "unpack argsAuthorization bs = Inr ?vs"
    by (rule roundtrip) (auto simp: abi_fits_def)
  then show ?thesis by (simp add: EncodeAuthorization_def DecodeAuthorization_def numeral_eq_Suc)
qed

text \<open>The results the enclave encodes without decoding them itself always encode.\<close>

lemma bind_treasury_total:
  "uint256 chain \<Longrightarrow> uint256 tid \<Longrightarrow> \<exists>bs. EncodeBindTreasury pack chain ctrl tid addr c = Inr bs"
  unfolding EncodeBindTreasury_def by (rule pack_total) (simp add: argsBindTreasury_def)

lemma confirm_policy_total:
  "uint256 chain \<Longrightarrow> uint256 tid \<Longrightarrow> policy_ok p \<Longrightarrow>
     \<exists>bs. EncodeConfirmPolicy pack chain ctrl tid p c = Inr bs"
  unfolding EncodeConfirmPolicy_def
  by (rule pack_total) (simp add: argsConfirmPolicy_def wt_policy)

lemma authorization_total:
  "uint256 chain \<Longrightarrow> uint256 request \<Longrightarrow> uint256 amount \<Longrightarrow>
     \<exists>bs. EncodeAuthorization pack chain ctrl request memo amount dh ph = Inr bs"
  using authorization_roundtrip by blast

lemma signed_payment_total:
  "uint256 chain \<Longrightarrow> uint256 request \<Longrightarrow>
     \<exists>bs. EncodeSignedPayment pack chain ctrl request memo txid blob = Inr bs"
  unfolding EncodeSignedPayment_def by (rule pack_total) (simp add: argsSignedPayment_def)

lemma commitment_total: "policy_ok p \<Longrightarrow> \<exists>c. PolicyCommitment pack keccak p = Inr c"
  using pack_total [of "[policyT]" "[policy_val p]"] by (auto simp: PolicyCommitment_def wt_policy)

text \<open>Decoded messages are well formed.\<close>

lemma decoded_header_policy:
  assumes "DecodeHeaderAndPolicy unpack bs = Inr (h, p)"
  shows "header_ok h \<and> policy_ok p"
proof -
  from assms obtain vs where u: "unpack argsHeaderAndPolicy bs = Inr vs"
    by (auto simp: DecodeHeaderAndPolicy_def split: sum.splits)
  then obtain v w where vs: "vs = [v, w]" "wt headerT v" "wt policyT w"
    using unpack_typed by (fastforce simp: argsHeaderAndPolicy_def list_all2_Cons1)
  from wt_headerD [OF vs(2)] wt_policyD [OF vs(3)] show ?thesis
    using assms u vs(1)
    by (auto simp: DecodeHeaderAndPolicy_def copy_header copy_policy split: sum.splits)
qed

lemma decoded_header_payload:
  assumes "DecodeHeaderAndPayload unpack bs = Inr (h, c)"
  shows "header_ok h"
proof -
  from assms obtain vs where u: "unpack argsHeaderAndBytes bs = Inr vs"
    by (auto simp: DecodeHeaderAndPayload_def split: sum.splits)
  then obtain v w where vs: "vs = [v, w]" "wt headerT v"
    using unpack_typed by (fastforce simp: argsHeaderAndBytes_def list_all2_Cons1)
  from wt_headerD [OF vs(2)] show ?thesis
    using assms u vs(1)
    by (auto simp: DecodeHeaderAndPayload_def copy_header split: sum.splits if_splits)
qed

lemma decoded_header:
  assumes "DecodeHeader unpack bs = Inr h"
  shows "header_ok h"
proof -
  from assms obtain vs where u: "unpack argsHeaderOnly bs = Inr vs"
    by (auto simp: DecodeHeader_def split: sum.splits)
  then obtain v where vs: "vs = [v]" "wt headerT v"
    using unpack_typed by (fastforce simp: argsHeaderOnly_def list_all2_Cons1)
  from wt_headerD [OF vs(2)] show ?thesis
    using assms u vs(1) by (auto simp: DecodeHeader_def copy_header split: sum.splits)
qed

lemma decoded_payment:
  assumes "DecodePaymentInstruction unpack bs = Inr pi"
  shows "\<exists>chain tid rid amount. piChainId pi = Some chain \<and> piTreasuryId pi = Some tid
    \<and> piRequestId pi = Some rid \<and> piAmountDrops pi = Some amount \<and> uint256 amount"
proof -
  from assms obtain vs where u: "unpack argsPaymentInstruction bs = Inr vs"
    by (auto simp: DecodePaymentInstruction_def split: sum.splits)
  from unpack_typed [OF this] obtain a b c d e f g h i where
    "vs = [VBig a, VAddr b, VBig c, VBig d, VStr e, VBig f, VU32 g, VBool h, VStr i]" "uint256 f"
    by (auto simp: argsPaymentInstruction_def list_all2_Cons1 wt_iff simp del: wt.simps)
  with assms u show ?thesis
    by (auto simp: DecodePaymentInstruction_def paymentFields_def numeral_eq_Suc)
qed

end

section \<open>Properties\<close>

definition sample_header :: InstructionHeader where
  "sample_header = \<lparr>hChainId = 114, hController = 0xC0FFEE, hTreasuryId = 7, hRequestId = 42, hNonce = 3,
     hExpiresAt = 1700000000, hMemoRef = 0xABCD, hPolicyCommitment = 0x1234\<rparr>"

definition sample_policy :: Policy where
  "sample_policy = \<lparr>MaxPerPaymentDrops = Some 1000000, MaxTotalDrops = Some 5000000,
     RequestTtlSeconds = 3600\<rparr>"

definition sample_payment :: PaymentInstruction where
  "sample_payment = \<lparr>piChainId = Some 114, piController = 0xC0FFEE, piTreasuryId = Some 7,
     piRequestId = Some 42, piDestination = ''rPT1Sjq2YGrBMTttX4GZHjKu9dyfzbpAYe'',
     piAmountDrops = Some 1000, piDestinationTag = 9, piHasDestinationTag = True,
     piReference = ''invoice 12''\<rparr>"

lemmas samples = sample_header_def sample_policy_def sample_payment_def

lemma samples_ok: "header_ok sample_header" "policy_ok sample_policy" "payment_ok sample_payment"
  by (simp_all add: samples header_ok_def policy_ok_def payment_ok_def)

text \<open>C18. The three instruction messages: what the encoder writes for a header with a policy, with a
  payload, or alone, the enclave's decoder reads back exactly, field for field.\<close>
theorem instructions_roundtrip:
  assumes "abi_codec pack unpack" "header_ok h" "policy_ok p" "length payload < 2 ^ 32"
  shows "(\<exists>bs. EncodeHeaderAndPolicy pack h p = Inr bs \<and> DecodeHeaderAndPolicy unpack bs = Inr (h, p))
    \<and> (\<exists>bs. EncodeHeaderAndPayload pack h payload = Inr bs
          \<and> DecodeHeaderAndPayload unpack bs = Inr (h, payload))
    \<and> (\<exists>bs. EncodeHeader pack h = Inr bs \<and> DecodeHeader unpack bs = Inr h)"
  using assms by (simp add: abi_codec.header_policy_roundtrip abi_codec.header_payload_roundtrip
      abi_codec.header_roundtrip)

theorem instructions_roundtrip_witness:
  "\<exists>bs. EncodeHeaderAndPolicy ref_pack sample_header sample_policy = Inr bs
     \<and> DecodeHeaderAndPolicy ref_unpack bs = Inr (sample_header, sample_policy)"
  using instructions_roundtrip [OF ref_abi.abi_codec_axioms samples_ok(1,2), of "[1, 2, 3]"] by simp

text \<open>The plaintext payment instruction the owner encrypts survives encoding and decoding with every
  field intact, strings, tag and flag included.\<close>
lemma payment_instruction_roundtrip:
  assumes "abi_codec pack unpack" "payment_ok pi"
  shows "\<exists>bs. EncodePaymentInstruction pack pi = Inr bs \<and> DecodePaymentInstruction unpack bs = Inr pi"
  using assms by (rule abi_codec.payment_roundtrip)

text \<open>C19. The results the enclave publishes: a signed payment and an authorization encode without error
  and the relayer's decoders recover every field, the signed blob included.\<close>
theorem results_roundtrip:
  assumes "abi_codec pack unpack" "uint256 chain" "uint256 request" "uint256 amount" "length blob < 2 ^ 32"
  shows "(\<exists>bs. EncodeSignedPayment pack chain ctrl request memo txid blob = Inr bs
        \<and> DecodeSignedPayment unpack bs = Inr (Some chain, ctrl, Some request, memo, txid, blob))
    \<and> (\<exists>bs. EncodeAuthorization pack chain ctrl request memo amount dh ph = Inr bs
        \<and> DecodeAuthorization unpack bs = Inr (Some chain, ctrl, Some request, memo, Some amount, dh, ph))"
  using assms by (simp add: abi_codec.signed_payment_roundtrip abi_codec.authorization_roundtrip)

theorem results_roundtrip_witness:
  "\<exists>bs. EncodeSignedPayment ref_pack 114 0xC0FFEE 42 0xABCD 0x77 [0x12, 0, 0x24] = Inr bs
     \<and> DecodeSignedPayment ref_unpack bs = Inr (Some 114, 0xC0FFEE, Some 42, 0xABCD, 0x77, [0x12, 0, 0x24])"
  using results_roundtrip [OF ref_abi.abi_codec_axioms, of 114 42 5 "[0x12, 0, 0x24]" "0xC0FFEE" "0xABCD" "0x77"]
  by simp

text \<open>C20. The policy commitment binds the policy: it exists for every well-formed policy, and two
  policies with the same commitment are the same policy unless their two encodings are distinct byte
  strings that collide under the hash.\<close>
theorem policy_commitment_binds:
  assumes "abi_codec pack unpack" "policy_ok p" "policy_ok q"
  shows "\<exists>c d x y. PolicyCommitment pack keccak p = Inr c \<and> PolicyCommitment pack keccak q = Inr d
    \<and> pack [policyT] [policy_val p] = Inr x \<and> pack [policyT] [policy_val q] = Inr y
    \<and> (c = d \<longrightarrow> p = q \<or> (x \<noteq> y \<and> Keccak256Hash keccak x = Keccak256Hash keccak y))"
proof -
  have wts: "wts [policyT] [policy_val p]" "wts [policyT] [policy_val q]"
    using assms(2,3) by (simp_all add: wt_policy)
  from abi_codec.pack_total [OF assms(1) wts(1)] abi_codec.pack_total [OF assms(1) wts(2)]
  obtain x y where xy: "pack [policyT] [policy_val p] = Inr x" "pack [policyT] [policy_val q] = Inr y"
    by (elim exE)
  have "p = q" if "x = y"
  proof -
    have "[policy_val p] = [policy_val q]"
      by (rule abi_codec.pack_inj [OF assms(1) wts]) (use xy that in \<open>auto simp: abi_fits_def\<close>)
    then show ?thesis by (simp add: policy_val_inj)
  qed
  then have "Keccak256Hash keccak x = Keccak256Hash keccak y \<longrightarrow>
      p = q \<or> (x \<noteq> y \<and> Keccak256Hash keccak x = Keccak256Hash keccak y)"
    by blast
  with xy show ?thesis
    by (intro exI [of _ "Keccak256Hash keccak x"] exI [of _ "Keccak256Hash keccak y"] exI [of _ x]
        exI [of _ y]) (simp add: PolicyCommitment_def)
qed

theorem policy_commitment_binds_witness:
  "\<exists>c d x y. PolicyCommitment ref_pack (\<lambda>b. b) sample_policy = Inr c
    \<and> PolicyCommitment ref_pack (\<lambda>b. b) (sample_policy\<lparr>MaxTotalDrops := Some 6\<rparr>) = Inr d
    \<and> ref_pack [policyT] [policy_val sample_policy] = Inr x
    \<and> ref_pack [policyT] [policy_val (sample_policy\<lparr>MaxTotalDrops := Some 6\<rparr>)] = Inr y
    \<and> (c = d \<longrightarrow> sample_policy = sample_policy\<lparr>MaxTotalDrops := Some 6\<rparr>
         \<or> (x \<noteq> y \<and> Keccak256Hash (\<lambda>b. b) x = Keccak256Hash (\<lambda>b. b) y))"
  by (rule policy_commitment_binds [OF ref_abi.abi_codec_axioms samples_ok(2)])
    (simp add: samples policy_ok_def)

end
