(* ===== verification/Sha2.thy ===== *)
theory Sha2
  imports Prelude
begin

unbundle bit_operations_syntax

text \<open>
  SHA-256 and SHA-512 (\<open>crypto/sha256\<close> and \<open>crypto/sha512\<close> of the Go standard library, FIPS
  180-4), which the XRPL address checksum, the signing payload hash and the transaction id are
  made of. The SHA-256 constants are the upper halves of the SHA-512 ones: both take leading bits of
  the fractional parts of the same roots of primes.
\<close>

definition sha_k :: "u64 list" where
  "sha_k = [
   0x428A2F98D728AE22, 0x7137449123EF65CD, 0xB5C0FBCFEC4D3B2F,
   0xE9B5DBA58189DBBC, 0x3956C25BF348B538, 0x59F111F1B605D019,
   0x923F82A4AF194F9B, 0xAB1C5ED5DA6D8118, 0xD807AA98A3030242,
   0x12835B0145706FBE, 0x243185BE4EE4B28C, 0x550C7DC3D5FFB4E2,
   0x72BE5D74F27B896F, 0x80DEB1FE3B1696B1, 0x9BDC06A725C71235,
   0xC19BF174CF692694, 0xE49B69C19EF14AD2, 0xEFBE4786384F25E3,
   0x0FC19DC68B8CD5B5, 0x240CA1CC77AC9C65, 0x2DE92C6F592B0275,
   0x4A7484AA6EA6E483, 0x5CB0A9DCBD41FBD4, 0x76F988DA831153B5,
   0x983E5152EE66DFAB, 0xA831C66D2DB43210, 0xB00327C898FB213F,
   0xBF597FC7BEEF0EE4, 0xC6E00BF33DA88FC2, 0xD5A79147930AA725,
   0x06CA6351E003826F, 0x142929670A0E6E70, 0x27B70A8546D22FFC,
   0x2E1B21385C26C926, 0x4D2C6DFC5AC42AED, 0x53380D139D95B3DF,
   0x650A73548BAF63DE, 0x766A0ABB3C77B2A8, 0x81C2C92E47EDAEE6,
   0x92722C851482353B, 0xA2BFE8A14CF10364, 0xA81A664BBC423001,
   0xC24B8B70D0F89791, 0xC76C51A30654BE30, 0xD192E819D6EF5218,
   0xD69906245565A910, 0xF40E35855771202A, 0x106AA07032BBD1B8,
   0x19A4C116B8D2D0C8, 0x1E376C085141AB53, 0x2748774CDF8EEB99,
   0x34B0BCB5E19B48A8, 0x391C0CB3C5C95A63, 0x4ED8AA4AE3418ACB,
   0x5B9CCA4F7763E373, 0x682E6FF3D6B2B8A3, 0x748F82EE5DEFB2FC,
   0x78A5636F43172F60, 0x84C87814A1F0AB72, 0x8CC702081A6439EC,
   0x90BEFFFA23631E28, 0xA4506CEBDE82BDE9, 0xBEF9A3F7B2C67915,
   0xC67178F2E372532B, 0xCA273ECEEA26619C, 0xD186B8C721C0C207,
   0xEADA7DD6CDE0EB1E, 0xF57D4F7FEE6ED178, 0x06F067AA72176FBA,
   0x0A637DC5A2C898A6, 0x113F9804BEF90DAE, 0x1B710B35131C471B,
   0x28DB77F523047D84, 0x32CAAB7B40C72493, 0x3C9EBE0A15C9BEBC,
   0x431D67C49C100D4C, 0x4CC5D4BECB3E42B6, 0x597F299CFC657E2A,
   0x5FCB6FAB3AD6FAEC, 0x6C44198C4A475817]"

definition sha_iv :: "u64 list" where
  "sha_iv = [
   0x6A09E667F3BCC908, 0xBB67AE8584CAA73B, 0x3C6EF372FE94F82B,
   0xA54FF53A5F1D36F1, 0x510E527FADE682D1, 0x9B05688C2B3E6C1F,
   0x1F83D9ABFB41BD6B, 0x5BE0CD19137E2179]"

definition high_half :: "u64 \<Rightarrow> u32" where
  "high_half w = ucast (drop_bit 32 w)"

section \<open>The compression function, for words of either width\<close>

definition rotr :: "nat \<Rightarrow> 'a::len word \<Rightarrow> 'a word" where
  "rotr n w = drop_bit n w OR push_bit (LENGTH('a) - n) w"

definition ch :: "'a::len word \<Rightarrow> 'a word \<Rightarrow> 'a word \<Rightarrow> 'a word" where
  "ch x y z = (x AND y) XOR (NOT x AND z)"

definition maj :: "'a::len word \<Rightarrow> 'a word \<Rightarrow> 'a word \<Rightarrow> 'a word" where
  "maj x y z = (x AND y) XOR (x AND z) XOR (y AND z)"

definition big_sigma :: "nat \<Rightarrow> nat \<Rightarrow> nat \<Rightarrow> 'a::len word \<Rightarrow> 'a word" where
  "big_sigma a b c w = rotr a w XOR rotr b w XOR rotr c w"

definition small_sigma :: "nat \<Rightarrow> nat \<Rightarrow> nat \<Rightarrow> 'a::len word \<Rightarrow> 'a word" where
  "small_sigma a b c w = rotr a w XOR rotr b w XOR drop_bit c w"

text \<open>The message schedule is a sliding window of the last sixteen words, oldest first.\<close>

fun next_word :: "('a::len word \<Rightarrow> 'a word) \<Rightarrow> ('a word \<Rightarrow> 'a word) \<Rightarrow> 'a word list \<Rightarrow> 'a word" where
  "next_word s0 s1 ws = s1 (ws ! 14) + ws ! 9 + s0 (ws ! 1) + ws ! 0"

fun sha_round :: "('a::len word \<Rightarrow> 'a word) \<Rightarrow> ('a word \<Rightarrow> 'a word) \<Rightarrow> 'a word list \<Rightarrow> 'a word \<Rightarrow> 'a word \<Rightarrow> 'a word list" where
  "sha_round S0 S1 [a, b, c, d, e, f, g, h] k w =
     (let t1 = h + S1 e + ch e f g + k + w;
          t2 = S0 a + maj a b c
      in [t1 + t2, a, b, c, d + t1, e, f, g])"
| "sha_round S0 S1 st k w = st"

fun sha_rounds ::
  "('a::len word \<Rightarrow> 'a word) \<Rightarrow> ('a word \<Rightarrow> 'a word) \<Rightarrow> ('a word \<Rightarrow> 'a word) \<Rightarrow> ('a word \<Rightarrow> 'a word)
     \<Rightarrow> 'a word list \<Rightarrow> 'a word list \<Rightarrow> 'a word list \<Rightarrow> 'a word list" where
  "sha_rounds S0 S1 s0 s1 [] ws st = st"
| "sha_rounds S0 S1 s0 s1 (k # ks) ws st =
     sha_rounds S0 S1 s0 s1 ks (tl ws @ [next_word s0 s1 ws]) (sha_round S0 S1 st k (hd ws))"

definition sha_block ::
  "('a::len word \<Rightarrow> 'a word) \<Rightarrow> ('a word \<Rightarrow> 'a word) \<Rightarrow> ('a word \<Rightarrow> 'a word) \<Rightarrow> ('a word \<Rightarrow> 'a word)
     \<Rightarrow> 'a word list \<Rightarrow> 'a word list \<Rightarrow> 'a word list \<Rightarrow> 'a word list" where
  "sha_block S0 S1 s0 s1 ks st blk = map2 (+) st (sha_rounds S0 S1 s0 s1 ks blk st)"

lemma length_sha_round [simp]: "length (sha_round S0 S1 st k w) = length st"
  by (induction S0 S1 st k w rule: sha_round.induct) (simp_all add: Let_def)

lemma length_sha_rounds [simp]: "length (sha_rounds S0 S1 s0 s1 ks ws st) = length st"
  by (induction ks arbitrary: ws st) auto

lemma length_sha_block [simp]: "length (sha_block S0 S1 s0 s1 ks st blk) = length st"
  by (simp add: sha_block_def)

section \<open>Padding and splitting\<close>

fun chunks :: "nat \<Rightarrow> nat \<Rightarrow> 'a list \<Rightarrow> 'a list list" where
  "chunks 0 k xs = []"
| "chunks (Suc n) k xs = take k xs # chunks n k (drop k xs)"

text \<open>\<open>sha_pad b l\<close> pads to blocks of \<open>b\<close> bytes, with the bit length in \<open>l\<close> bytes at the end.\<close>

definition sha_pad :: "nat \<Rightarrow> nat \<Rightarrow> bytes \<Rightarrow> bytes" where
  "sha_pad b l m =
     m @ [0x80] @ replicate ((b - (length m + 1 + l) mod b) mod b) 0 @ be_fixed l (8 * length m)"

text \<open>Big-endian packing of a group of bytes into a word and back, by shifts.\<close>

definition pack_word :: "bytes \<Rightarrow> 'a::len word" where
  "pack_word bs = foldl (\<lambda>w b. push_bit 8 w OR ucast b) 0 bs"

fun unpack_word :: "nat \<Rightarrow> 'a::len word \<Rightarrow> bytes" where
  "unpack_word 0 w = []"
| "unpack_word (Suc k) w = unpack_word k (drop_bit 8 w) @ [ucast w]"

lemma length_unpack_word [simp]: "length (unpack_word k w) = k"
  by (induction k arbitrary: w) auto

definition sha_words :: "nat \<Rightarrow> nat \<Rightarrow> bytes \<Rightarrow> 'a::len word list list" where
  "sha_words b w p =
     map (\<lambda>blk. map pack_word (chunks 16 w blk)) (chunks (length p div b) b p)"

definition sha256 :: "bytes \<Rightarrow> bytes" where
  "sha256 m = concat (map (unpack_word 4)
     (foldl (sha_block (big_sigma 2 13 22) (big_sigma 6 11 25) (small_sigma 7 18 3) (small_sigma 17 19 10)
               (map high_half (take 64 sha_k)))
            (map high_half sha_iv) (sha_words 64 4 (sha_pad 64 8 m) :: u32 list list)))"

definition sha512 :: "bytes \<Rightarrow> bytes" where
  "sha512 m = concat (map (unpack_word 8)
     (foldl (sha_block (big_sigma 28 34 39) (big_sigma 14 18 41) (small_sigma 1 8 7) (small_sigma 19 61 6)
               sha_k)
            sha_iv (sha_words 128 8 (sha_pad 128 16 m) :: u64 list list)))"

lemma length_foldl_sha_block [simp]:
  "length (foldl (sha_block S0 S1 s0 s1 ks) st blks) = length st"
  by (induction blks arbitrary: st) auto

lemma length_concat_unpack_word: "length (concat (map (unpack_word k) ws)) = length ws * k"
  by (induction ws) auto

lemma length_sha_iv [simp]: "length sha_iv = 8"
  by (simp add: sha_iv_def)

lemma length_sha256 [simp, wire]: "length (sha256 m) = 32"
  by (simp add: sha256_def length_concat_unpack_word)

lemma length_sha512 [simp, wire]: "length (sha512 m) = 64"
  by (simp add: sha512_def length_concat_unpack_word)

end
