(* ===== verification/XrplAddress.thy ===== *)
theory XrplAddress
  imports GoLib Sha2
begin

text \<open>
  \<open>extension/go/internal/xrpl/address.go\<close>: XRPL's base58 alphabet, the double-SHA-256 checksum,
  and classic r-addresses. Main results: base58 encoding and decoding are inverse in both directions,
  and so are the encoding and decoding of classic addresses; a decoded address has 20 bytes.
  RIPEMD-160 (a third-party package) is a parameter.
\<close>

section \<open>Errors of the package\<close>

text \<open>The error variables of \<open>address.go\<close> and \<open>fields.go\<close>, the errors \<open>payment.go\<close> builds with
  \<open>fmt.Errorf\<close>, and its two wrappers (\<open>account: %w\<close>, \<open>destination: %w\<close>).\<close>

datatype xrpl_error =
    ErrInvalidAddress | ErrBadChecksum | ErrAlphabetInvalid
  | ErrAmountTooLarge | ErrAmountZero | ErrMemoTooLong | ErrBadAccountID | ErrBadPublicKey
  | ErrVLTooLong nat
  | ErrFeeRange u64 | ErrNoLastLedger | ErrNoSigningKey | ErrKeyMismatch
  | ErrInAccount xrpl_error | ErrInDestination xrpl_error

section \<open>The alphabet\<close>

definition xrplAlphabet :: string where
  "xrplAlphabet = ''rpshnaf39wBUDNEGHJKLM4PQRST7VWXYZ2bcdeCg65jkm8oFqi1tuvAxyz''"

definition accountIDVersion :: byte where
  "accountIDVersion = 0x00"

text \<open>The loop that fills the index map: entry \<open>alphabet[i]\<close> is set to \<open>i\<close>.\<close>

definition index_step :: "string \<Rightarrow> nat \<Rightarrow> (char \<rightharpoonup> nat) \<Rightarrow> (char \<rightharpoonup> nat)" where
  "index_step xs i m = m(xs ! i \<mapsto> i)"

definition base58Index :: "char \<rightharpoonup> nat" where
  "base58Index = fold (index_step xrplAlphabet) [0..<length xrplAlphabet] Map.empty"

lemma length_xrplAlphabet [simp]: "length xrplAlphabet = 58"
  by (simp add: xrplAlphabet_def)

lemma distinct_xrplAlphabet [simp]: "distinct xrplAlphabet"
  by code_simp

lemma xrplAlphabet_0: "xrplAlphabet ! 0 = CHR ''r''"
  by (simp add: xrplAlphabet_def)

lemma fold_index_upto:
  assumes "n \<le> length xs" "distinct xs"
  shows "fold (index_step xs) [0..<n] Map.empty c = Some k \<longleftrightarrow> k < n \<and> c = xs ! k"
  using assms
proof (induction n)
  case 0
  then show ?case by simp
next
  case (Suc n)
  then have IH: "fold (index_step xs) [0..<n] Map.empty c = Some k \<longleftrightarrow> k < n \<and> c = xs ! k"
    and n: "n < length xs" by auto
  have step: "fold (index_step xs) [0..<Suc n] Map.empty c =
      (if c = xs ! n then Some n else fold (index_step xs) [0..<n] Map.empty c)"
    by (simp add: index_step_def [of xs n])
  have "k < n \<Longrightarrow> xs ! k \<noteq> xs ! n"
    using n Suc.prems(2) by (simp add: nth_eq_iff_index_eq)
  then show ?case unfolding step using IH by (auto simp: less_Suc_eq)
qed

lemma base58Index_iff: "base58Index c = Some k \<longleftrightarrow> k < 58 \<and> c = xrplAlphabet ! k"
  using fold_index_upto [of 58 xrplAlphabet] by (simp add: base58Index_def)

lemma base58Index_nth [simp]: "k < 58 \<Longrightarrow> base58Index (xrplAlphabet ! k) = Some k"
  by (simp add: base58Index_iff)

lemma nth_alphabet_inj: "inj_on ((!) xrplAlphabet) {..<58}"
  by (simp add: inj_on_def nth_eq_iff_index_eq)

section \<open>Base58\<close>

function base58_digit_loop :: "nat \<Rightarrow> string \<Rightarrow> string" where
  "base58_digit_loop num out =
     (if 0 < num then base58_digit_loop (num div 58) (out @ [xrplAlphabet ! (num mod 58)]) else out)"
  by pat_completeness auto
termination
  by (relation "measure fst") auto

declare base58_digit_loop.simps [simp del]

definition base58Encode :: "bytes \<Rightarrow> string" where
  "base58Encode input =
     (let out = base58_digit_loop (be_val input) [];
          out = out @ replicate (leading 0 input) (xrplAlphabet ! 0)
      in rev out)"

fun base58_num_loop :: "string \<Rightarrow> nat \<Rightarrow> xrpl_error + nat" where
  "base58_num_loop [] num = Inr num"
| "base58_num_loop (c # s) num =
     (case base58Index c of
        None \<Rightarrow> Inl ErrAlphabetInvalid
      | Some idx \<Rightarrow> base58_num_loop s (num * 58 + idx))"

definition base58Decode :: "string \<Rightarrow> xrpl_error + bytes" where
  "base58Decode input =
     (if input = [] then Inl ErrInvalidAddress
      else case base58_num_loop input 0 of
        Inl e \<Rightarrow> Inl e
      | Inr num \<Rightarrow> Inr (replicate (leading (xrplAlphabet ! 0) input) 0 @ be_bytes num))"

lemma base58_digit_loop_eq:
  "base58_digit_loop num out = out @ rev (map ((!) xrplAlphabet) (digits 58 num))"
proof (induction num out rule: base58_digit_loop.induct)
  case (1 num out)
  show ?case
  proof (cases "num = 0")
    case True
    then show ?thesis by (simp add: base58_digit_loop.simps)
  next
    case False
    then have "digits 58 num = digits 58 (num div 58) @ [num mod 58]"
      by (intro digits_pos) auto
    with False 1 show ?thesis by (simp add: base58_digit_loop.simps [of num])
  qed
qed

lemma base58Encode_eq:
  "base58Encode input =
     map ((!) xrplAlphabet) (replicate (leading 0 input) 0 @ digits 58 (be_val input))"
  by (simp add: base58Encode_def base58_digit_loop_eq Let_def)

lemma base58_num_loop_digits:
  "\<forall>d \<in> set ds. d < 58 \<Longrightarrow>
     base58_num_loop (map ((!) xrplAlphabet) ds) num = Inr (num * 58 ^ length ds + horner 58 ds)"
  by (induction ds arbitrary: num) (simp_all add: horner_Cons algebra_simps)

lemma base58_num_loop_okD:
  "base58_num_loop s num = Inr n \<Longrightarrow>
     \<exists>ds. s = map ((!) xrplAlphabet) ds \<and> (\<forall>d \<in> set ds. d < 58) \<and> length ds = length s"
proof (induction s arbitrary: num)
  case Nil
  then show ?case by simp
next
  case (Cons c s)
  then obtain idx where idx: "base58Index c = Some idx" "base58_num_loop s (num * 58 + idx) = Inr n"
    by (auto split: option.splits)
  then obtain ds where "s = map ((!) xrplAlphabet) ds" "\<forall>d \<in> set ds. d < 58"
    using Cons.IH by blast
  with idx show ?case
    by (intro exI [of _ "idx # ds"]) (simp add: base58Index_iff)
qed

lemma leading_alphabet:
  assumes "\<forall>d \<in> set ds. d < 58"
  shows "leading (xrplAlphabet ! 0) (map ((!) xrplAlphabet) ds) = leading 0 ds"
  using assms by (intro leading_map inj_on_subset [OF nth_alphabet_inj]) auto

text \<open>Decoding a base58 string in terms of its digit values.\<close>

lemma base58Decode_digits:
  assumes "\<forall>d \<in> set ds. d < 58" "ds \<noteq> []"
  shows "base58Decode (map ((!) xrplAlphabet) ds)
           = Inr (replicate (leading 0 ds) 0 @ be_bytes (horner 58 ds))"
  using assms by (simp add: base58Decode_def base58_num_loop_digits leading_alphabet)

lemma base58_digits_less: "\<forall>d \<in> set (replicate k 0 @ digits 58 n). d < (58::nat)"
  using digits_less [of 58 n] by auto

lemma base58_decode_encode:
  assumes "bs \<noteq> []"
  shows "base58Decode (base58Encode bs) = Inr bs"
proof -
  let ?ds = "replicate (leading 0 bs) 0 @ digits 58 (be_val bs)"
  have ne: "?ds \<noteq> []"
  proof
    assume "?ds = []"
    then have "leading 0 bs = 0" and "be_val bs = 0" by auto
    then show False using assms be_bytes_val [of bs] by simp
  qed
  have "digits 58 (be_val bs) \<noteq> [] \<Longrightarrow> hd (digits 58 (be_val bs)) \<noteq> 0"
    using digits_hd [of 58 "be_val bs"] by (cases "be_val bs = 0") auto
  then have lead: "leading 0 ?ds = leading 0 bs" by (rule leading_replicate)
  have "base58Decode (base58Encode bs) = Inr (replicate (leading 0 bs) 0 @ be_bytes (be_val bs))"
    using base58Decode_digits [OF base58_digits_less ne] lead
    by (simp add: base58Encode_eq horner_digits)
  then show ?thesis by (simp add: be_bytes_val leading_split)
qed

lemma base58_encode_decode:
  assumes "base58Decode s = Inr bs"
  shows "base58Encode bs = s"
proof -
  from assms obtain n where s: "s \<noteq> []" "base58_num_loop s 0 = Inr n"
    by (auto simp: base58Decode_def split: if_splits sum.splits)
  from base58_num_loop_okD [OF this(2)] obtain ds
    where ds: "s = map ((!) xrplAlphabet) ds" "\<forall>d \<in> set ds. d < 58" by blast
  let ?h = "horner 58 ds"
  have bs: "bs = replicate (leading 0 ds) 0 @ be_bytes ?h"
    using assms ds s(1) base58Decode_digits [of ds] by simp
  have "be_bytes ?h \<noteq> [] \<Longrightarrow> hd (be_bytes ?h) \<noteq> 0"
    by (cases "?h = 0") (auto dest: be_bytes_hd)
  then have "leading 0 bs = leading 0 ds" unfolding bs by (rule leading_replicate)
  moreover have "be_val bs = ?h" by (simp add: bs)
  ultimately have "base58Encode bs
      = map ((!) xrplAlphabet) (replicate (leading 0 ds) 0 @ drop (leading 0 ds) ds)"
    using ds(2) by (simp add: base58Encode_eq digits_horner)
  then show ?thesis by (simp only: leading_split ds(1))
qed

section \<open>Classic addresses\<close>

definition checksum :: "bytes \<Rightarrow> bytes" where
  "checksum b = take 4 (sha256 (sha256 b))"

definition EncodeClassicAddress :: "bytes \<Rightarrow> xrpl_error + string" where
  "EncodeClassicAddress accountID =
     (if length accountID \<noteq> 20 then Inl ErrBadAccountID
      else let payload = accountIDVersion # accountID;
               payload = payload @ checksum payload
           in Inr (base58Encode payload))"

definition DecodeClassicAddress :: "string \<Rightarrow> xrpl_error + bytes" where
  "DecodeClassicAddress address =
     (case base58Decode address of
        Inl e \<Rightarrow> Inl e
      | Inr raw \<Rightarrow>
          (if length raw \<noteq> 25 \<or> raw ! 0 \<noteq> accountIDVersion then Inl ErrInvalidAddress
           else if checksum (take 21 raw) \<noteq> drop 21 raw then Inl ErrBadChecksum
           else Inr (drop 1 (take 21 raw))))"

definition ValidateClassicAddress :: "string \<Rightarrow> xrpl_error option" where
  "ValidateClassicAddress address =
     (case DecodeClassicAddress address of Inl e \<Rightarrow> Some e | Inr _ \<Rightarrow> None)"

definition AccountIDFromPublicKey :: "(bytes \<Rightarrow> bytes) \<Rightarrow> bytes \<Rightarrow> xrpl_error + bytes" where
  "AccountIDFromPublicKey ripemd160 pubKey =
     (if length pubKey \<noteq> 33 then Inl ErrBadPublicKey
      else Inr (ripemd160 (sha256 pubKey)))"

lemma length_checksum [simp, wire]: "length (checksum b) = 4"
  by (simp add: checksum_def)

lemma EncodeClassicAddress_ok:
  "length acct = 20 \<Longrightarrow>
     EncodeClassicAddress acct
       = Inr (base58Encode (accountIDVersion # acct @ checksum (accountIDVersion # acct)))"
  by (simp add: EncodeClassicAddress_def)

lemma DecodeClassicAddress_length: "DecodeClassicAddress a = Inr acct \<Longrightarrow> length acct = 20"
  by (auto simp: DecodeClassicAddress_def split: sum.splits if_splits)

lemma decode_encode_address:
  assumes "length acct = 20"
  shows "\<exists>a. EncodeClassicAddress acct = Inr a \<and> DecodeClassicAddress a = Inr acct"
proof -
  let ?p = "accountIDVersion # acct @ checksum (accountIDVersion # acct)"
  have "base58Decode (base58Encode ?p) = Inr ?p" by (rule base58_decode_encode) simp
  moreover have "take 21 ?p = accountIDVersion # acct" using assms by simp
  moreover have "drop 21 ?p = checksum (accountIDVersion # acct)" using assms by simp
  ultimately have "DecodeClassicAddress (base58Encode ?p) = Inr acct"
    using assms by (simp add: DecodeClassicAddress_def)
  with assms show ?thesis by (simp add: EncodeClassicAddress_ok)
qed

lemma encode_decode_address:
  assumes "DecodeClassicAddress a = Inr acct"
  shows "EncodeClassicAddress acct = Inr a"
proof -
  from assms obtain raw where raw: "base58Decode a = Inr raw" "length raw = 25"
      "raw ! 0 = accountIDVersion" "checksum (take 21 raw) = drop 21 raw" "acct = drop 1 (take 21 raw)"
    by (auto simp: DecodeClassicAddress_def split: sum.splits if_splits)
  then have "accountIDVersion # acct = take 21 raw"
    by (cases raw) (auto simp: numeral_eq_Suc)
  then have "accountIDVersion # acct @ checksum (accountIDVersion # acct) = raw"
    using raw(4) by (metis append_Cons append_take_drop_id)
  moreover have "length acct = 20" using assms by (rule DecodeClassicAddress_length)
  ultimately show ?thesis
    using base58_encode_decode [OF raw(1)] by (simp add: EncodeClassicAddress_ok)
qed

lemma DecodeClassicAddress_inj:
  "DecodeClassicAddress a = Inr acct \<Longrightarrow> DecodeClassicAddress b = Inr acct \<Longrightarrow> a = b"
  by (metis encode_decode_address sum.inject(2))

lemma ValidateClassicAddress_None:
  "ValidateClassicAddress a = None \<longleftrightarrow> (\<exists>acct. DecodeClassicAddress a = Inr acct)"
  by (auto simp: ValidateClassicAddress_def split: sum.splits)

lemma base58Encode_zero: "base58Encode (0 # bs) = CHR ''r'' # base58Encode bs"
proof -
  have "be_val (0 # bs) = be_val bs" by (simp add: be_val_def horner_def)
  then show ?thesis by (simp add: base58Encode_eq xrplAlphabet_def)
qed

lemma length_base58Encode: "length (base58Encode bs) \<le> length bs + 2 * length bs"
proof -
  have "be_val bs < 256 ^ length bs" by (rule be_val_less)
  also have "(256::nat) ^ length bs \<le> (58 ^ 2) ^ length bs" by (intro power_mono) simp_all
  finally have "be_val bs < 58 ^ (2 * length bs)" by (simp add: power_mult)
  then have "length (digits 58 (be_val bs)) \<le> 2 * length bs" by (intro length_digits_le) simp_all
  with leading_le have "leading 0 bs + length (digits 58 (be_val bs)) \<le> length bs + 2 * length bs"
    by (rule add_mono)
  then show ?thesis unfolding base58Encode_eq length_map length_append length_replicate .
qed

lemma address_shape:
  assumes "EncodeClassicAddress acct = Inr a"
  shows "hd a = CHR ''r'' \<and> length a \<le> 75"
proof -
  from assms have len: "length acct = 20" by (auto simp: EncodeClassicAddress_def split: if_splits)
  let ?p = "acct @ checksum (accountIDVersion # acct)"
  from assms len have a: "a = base58Encode (accountIDVersion # ?p)" by (simp add: EncodeClassicAddress_ok)
  have "length a \<le> 75" using length_base58Encode [of "accountIDVersion # ?p"] len by (simp add: a)
  moreover have "accountIDVersion = 0" by (simp add: accountIDVersion_def)
  ultimately show ?thesis by (simp add: a base58Encode_zero)
qed

section \<open>Properties\<close>

text \<open>Base58 as the XRPL writes it loses nothing in either direction: every non-empty byte string
  comes back from its encoding, leading zero bytes included, and every string the decoder accepts is the
  encoding of what it decodes to, so no byte string has two spellings.\<close>
lemma base58_bijective:
  assumes "bs \<noteq> []"
  shows "base58Decode (base58Encode bs) = Inr bs \<and>
    (\<forall>s. base58Decode s = Inr bs \<longrightarrow> s = base58Encode bs)"
  using assms base58_decode_encode base58_encode_decode by metis

text \<open>C16. Every 20-byte account identifier has a classic address; it starts with an r, decodes back to
  the identifier and passes validation.\<close>
theorem address_decodes_back:
  assumes "length acct = 20"
  shows "\<exists>a. EncodeClassicAddress acct = Inr a \<and> DecodeClassicAddress a = Inr acct
    \<and> ValidateClassicAddress a = None \<and> hd a = CHR ''r''"
  using decode_encode_address [OF assms] address_shape unfolding ValidateClassicAddress_None by blast

theorem address_decodes_back_witness:
  "\<exists>a. EncodeClassicAddress (replicate 20 0) = Inr a \<and> DecodeClassicAddress a = Inr (replicate 20 0)
    \<and> ValidateClassicAddress a = None \<and> hd a = CHR ''r''"
  using address_decodes_back [of "replicate 20 0"] by simp

text \<open>C15. The decoder is strict: an address it accepts names a 20-byte account and is exactly the
  address the encoder writes for that account, so two distinct strings never name the same account
  (which is what lets the enclave and the contract compare hashes of address strings).\<close>
theorem address_canonical:
  assumes "DecodeClassicAddress a = Inr acct"
  shows "length acct = 20 \<and> EncodeClassicAddress acct = Inr a
    \<and> (\<forall>b. DecodeClassicAddress b = Inr acct \<longrightarrow> b = a)"
  using assms encode_decode_address DecodeClassicAddress_length DecodeClassicAddress_inj by blast

theorem address_canonical_witness:
  "\<exists>a. DecodeClassicAddress a = Inr (replicate 20 7) \<and> EncodeClassicAddress (replicate 20 7) = Inr a
    \<and> (\<forall>b. DecodeClassicAddress b = Inr (replicate 20 7) \<longrightarrow> b = a)"
proof -
  obtain a where a: "DecodeClassicAddress a = Inr (replicate 20 7)"
    using decode_encode_address [of "replicate 20 7"] by auto
  then show ?thesis using address_canonical [OF a] by blast
qed

end
