(* ===== verification/XrplFields.thy ===== *)
theory XrplFields
  imports XrplAddress
begin

text \<open>
  \<open>extension/go/internal/xrpl/fields.go\<close>: the field ids, the hash prefixes, the limits and the
  field writers of the XRPL codec, each appending to a buffer and failing the way the source does.
  Beside them stands a reader of XRPL's published binary format (field headers, lengths, amounts),
  written from the format and not from this code: \<open>xrpl_lex\<close> splits any transaction into its
  fields. Each writer is shown to satisfy the \<open>prefix_code\<close> contract against that reader.
\<close>

section \<open>Field ids, prefixes and limits\<close>

definition fieldTransactionType :: bytes where "fieldTransactionType = [0x12]"
definition fieldFlags :: bytes where "fieldFlags = [0x22]"
definition fieldSequence :: bytes where "fieldSequence = [0x24]"
definition fieldDestinationTag :: bytes where "fieldDestinationTag = [0x2E]"
definition fieldLastLedgerSeq :: bytes where "fieldLastLedgerSeq = [0x20, 0x1B]"
definition fieldAmount :: bytes where "fieldAmount = [0x61]"
definition fieldFee :: bytes where "fieldFee = [0x68]"
definition fieldSigningPubKey :: bytes where "fieldSigningPubKey = [0x73]"
definition fieldTxnSignature :: bytes where "fieldTxnSignature = [0x74]"
definition fieldMemoType :: bytes where "fieldMemoType = [0x7C]"
definition fieldMemoData :: bytes where "fieldMemoData = [0x7D]"
definition fieldAccount :: bytes where "fieldAccount = [0x81]"
definition fieldDestination :: bytes where "fieldDestination = [0x83]"
definition fieldMemos :: bytes where "fieldMemos = [0xF9]"
definition fieldMemo :: bytes where "fieldMemo = [0xEA]"
definition fieldObjectEndMarker :: bytes where "fieldObjectEndMarker = [0xE1]"
definition fieldArrayEndMarker :: bytes where "fieldArrayEndMarker = [0xF1]"

definition txTypePayment :: u16 where "txTypePayment = 0"
definition prefixTransactionSig :: bytes where "prefixTransactionSig = [0x53, 0x54, 0x58, 0x00]"
definition prefixTransactionID :: bytes where "prefixTransactionID = [0x54, 0x58, 0x4E, 0x00]"
definition MaxMemoLength :: nat where "MaxMemoLength = 64"
definition MaxDrops :: u64 where "MaxDrops = 100000000000000000"

lemmas field_ids =
  fieldTransactionType_def fieldFlags_def fieldSequence_def fieldDestinationTag_def
  fieldLastLedgerSeq_def fieldAmount_def fieldFee_def fieldSigningPubKey_def fieldTxnSignature_def
  fieldMemoType_def fieldMemoData_def fieldAccount_def fieldDestination_def fieldMemos_def
  fieldMemo_def fieldObjectEndMarker_def fieldArrayEndMarker_def

section \<open>Field writers\<close>

definition writeVL :: "bytes \<Rightarrow> bytes \<Rightarrow> xrpl_error + bytes" where
  "writeVL buf payload =
     (let n = length payload
      in if n > 192 then Inl (ErrVLTooLong n)
         else Inr (buf @ [of_nat n] @ payload))"

definition writeUint16 :: "bytes \<Rightarrow> bytes \<Rightarrow> u16 \<Rightarrow> bytes" where
  "writeUint16 buf field v = buf @ field @ word_bytes v"

definition writeUint32 :: "bytes \<Rightarrow> bytes \<Rightarrow> u32 \<Rightarrow> bytes" where
  "writeUint32 buf field v = buf @ field @ word_bytes v"

definition writeXRPAmount :: "bytes \<Rightarrow> bytes \<Rightarrow> u64 \<Rightarrow> xrpl_error + bytes" where
  "writeXRPAmount buf field drops =
     (if drops = 0 then Inl ErrAmountZero
      else if drops > MaxDrops then Inl ErrAmountTooLarge
      else Inr (buf @ field @ word_bytes (or drops 0x4000000000000000)))"

definition writeAccountID :: "bytes \<Rightarrow> bytes \<Rightarrow> bytes \<Rightarrow> xrpl_error + bytes" where
  "writeAccountID buf field ident =
     (if length ident \<noteq> 20 then Inl ErrBadAccountID
      else writeVL (buf @ field) ident)"

definition writeBlob :: "bytes \<Rightarrow> bytes \<Rightarrow> bytes \<Rightarrow> xrpl_error + bytes" where
  "writeBlob buf field v = writeVL (buf @ field) v"

section \<open>XRPL's binary format, from its documentation\<close>

text \<open>A field header: type code and field code share a byte when both are below 16.\<close>

fun read_header :: "bytes \<Rightarrow> ((nat \<times> nat) \<times> bytes) option" where
  "read_header [] = None"
| "read_header (b # bs) =
     (let t = unat b div 16; f = unat b mod 16
      in if t \<noteq> 0 \<and> f \<noteq> 0 then Some ((t, f), bs)
         else if t \<noteq> 0 then (case bs of f' # r \<Rightarrow> Some ((t, unat f'), r) | _ \<Rightarrow> None)
         else if f \<noteq> 0 then (case bs of t' # r \<Rightarrow> Some ((unat t', f), r) | _ \<Rightarrow> None)
         else (case bs of t' # f' # r \<Rightarrow> Some ((unat t', unat f'), r) | _ \<Rightarrow> None))"

definition read_exact :: "nat \<Rightarrow> bytes \<Rightarrow> (bytes \<times> bytes) option" where
  "read_exact n bs = (if length bs < n then None else Some (take n bs, drop n bs))"

text \<open>The variable-length prefix, in all three of its forms.\<close>

fun read_vl :: "bytes \<Rightarrow> (bytes \<times> bytes) option" where
  "read_vl [] = None"
| "read_vl (b # bs) =
     (let n = unat b
      in if n \<le> 192 then read_exact n bs
         else if n \<le> 240 then
           (case bs of b2 # r \<Rightarrow> read_exact (193 + (n - 193) * 256 + unat b2) r | _ \<Rightarrow> None)
         else if n \<le> 254 then
           (case bs of b2 # b3 # r \<Rightarrow>
              read_exact (12481 + (n - 241) * 65536 + unat b2 * 256 + unat b3) r | _ \<Rightarrow> None)
         else None)"

text \<open>An amount is 8 bytes when bit 63 is clear (native XRP) and 48 bytes otherwise (a token).\<close>

fun read_amount :: "bytes \<Rightarrow> (bytes \<times> bytes) option" where
  "read_amount [] = None"
| "read_amount (b # bs) = read_exact (if unat b < 128 then 8 else 48) (b # bs)"

definition read_payload :: "nat \<Rightarrow> bytes \<Rightarrow> (bytes \<times> bytes) option" where
  "read_payload t bs =
     (if t = 1 then read_exact 2 bs
      else if t = 2 then read_exact 4 bs
      else if t = 6 then read_amount bs
      else if t = 7 \<or> t = 8 then read_vl bs
      else if t = 14 \<or> t = 15 then Some ([], bs)
      else None)"

text \<open>The fields of a transaction in order; objects and arrays show as their start and end markers.\<close>

type_synonym xfield = "(nat \<times> nat) \<times> bytes"

definition read_field :: "bytes \<Rightarrow> (xfield \<times> bytes) option" where
  "read_field bs =
     (case read_header bs of
        None \<Rightarrow> None
      | Some (c, r) \<Rightarrow>
          (case read_payload (fst c) r of None \<Rightarrow> None | Some (v, r') \<Rightarrow> Some ((c, v), r')))"

function xrpl_lex :: "bytes \<Rightarrow> xfield list option" where
  "xrpl_lex bs =
     (if bs = [] then Some []
      else case read_field bs of
        None \<Rightarrow> None
      | Some (x, r) \<Rightarrow>
          (if length r < length bs then map_option ((#) x) (xrpl_lex r) else None))"
  by pat_completeness auto
termination
  by (relation "measure length") auto

declare xrpl_lex.simps [simp del]

lemma xrpl_lex_Nil [simp]: "xrpl_lex [] = Some []"
  by (simp add: xrpl_lex.simps)

lemma xrpl_lex_field:
  assumes "read_field (w @ rest) = Some (x, rest)" "w \<noteq> []"
  shows "xrpl_lex (w @ rest) = map_option ((#) x) (xrpl_lex rest)"
  using assms by (simp add: xrpl_lex.simps [of "w @ rest"])

section \<open>The writers against the format\<close>

lemma unat_of_nat_vl: "n \<le> 192 \<Longrightarrow> unat (of_nat n :: byte) = n"
  by (simp add: unat_of_nat)

definition put_vl :: "bytes \<Rightarrow> bytes" where
  "put_vl payload = of_nat (length payload) # payload"

lemma writeVL_ok: "length payload \<le> 192 \<Longrightarrow> writeVL buf payload = Inr (buf @ put_vl payload)"
  by (simp add: writeVL_def put_vl_def)

lemma writeVL_err: "\<not> length payload \<le> 192 \<Longrightarrow> writeVL buf payload = Inl (ErrVLTooLong (length payload))"
  by (simp add: writeVL_def)

interpretation vl_code: prefix_code put_vl read_vl "\<lambda>p. length p \<le> 192"
  by unfold_locales (simp add: put_vl_def unat_of_nat_vl read_exact_def)

text \<open>A native amount.\<close>

definition put_amount :: "u64 \<Rightarrow> bytes" where
  "put_amount drops = word_bytes (or drops 0x4000000000000000)"

definition read_drops :: "bytes \<Rightarrow> (u64 \<times> bytes) option" where
  "read_drops bs =
     (case read_word bs of
        None \<Rightarrow> None
      | Some (w :: u64, r) \<Rightarrow>
          (if bit w 63 \<or> \<not> bit w 62 then None else Some (take_bit 62 w, r)))"

lemma MaxDrops_less: "drops \<le> MaxDrops \<Longrightarrow> unat drops < 2 ^ 57"
  by (simp add: MaxDrops_def word_le_nat_alt)

lemma high_bit_clear: "drops \<le> MaxDrops \<Longrightarrow> 57 \<le> n \<Longrightarrow> \<not> bit drops n"
proof -
  assume "drops \<le> MaxDrops" and n: "57 \<le> n"
  then have "unat drops < 2 ^ 57" by (intro MaxDrops_less)
  moreover have "(2::nat) ^ 57 \<le> 2 ^ n" using n by (rule power_increasing) simp
  ultimately have "unat drops < 2 ^ n" by linarith
  then have "\<not> bit (unat drops) n" by (simp add: bit_iff_odd)
  then show ?thesis by (simp add: bit_unsigned_iff)
qed

lemma amount_bits:
  assumes "drops \<le> MaxDrops"
  shows "\<not> bit (or drops (0x4000000000000000 :: u64)) 63"
    and "bit (or drops (0x4000000000000000 :: u64)) 62"
    and "take_bit 62 (or drops (0x4000000000000000 :: u64)) = drops"
proof -
  have e: "(0x4000000000000000 :: u64) = 2 ^ 62" by simp
  show "\<not> bit (or drops (0x4000000000000000 :: u64)) 63"
    and "bit (or drops (0x4000000000000000 :: u64)) 62"
    using high_bit_clear [OF assms, of 63] by (simp_all only: e bit_or_iff bit_exp_iff) auto
  show "take_bit 62 (or drops (0x4000000000000000 :: u64)) = drops"
  proof (rule bit_word_eqI)
    fix n assume "n < LENGTH(64)"
    have "\<not> n < 62 \<Longrightarrow> \<not> bit drops n" by (rule high_bit_clear [OF assms]) simp
    then show "bit (take_bit 62 (or drops (0x4000000000000000 :: u64))) n = bit drops n"
      unfolding e bit_take_bit_iff bit_or_iff bit_exp_iff by auto
  qed
qed

lemma read_drops_put:
  assumes "d \<le> MaxDrops"
  shows "read_drops (put_amount d @ rest) = Some (d, rest)"
  unfolding put_amount_def read_drops_def u64_code.dec_enc [OF TrueI]
  using amount_bits [OF assms] by (simp only: option.case prod.case if_False simp_thms)

interpretation amount_code: prefix_code put_amount read_drops "\<lambda>d. d \<le> MaxDrops"
  by unfold_locales (rule read_drops_put)

lemma be_fixed_Cons: "be_fixed (Suc k) n = of_nat (n div 256 ^ k) # be_fixed k n"
proof (induction k arbitrary: n)
  case 0
  have "(of_nat (n mod 256) :: byte) = of_nat n"
    by (simp add: word_unat_eq_iff unat_of_nat_byte)
  then show ?case by simp
next
  case (Suc k)
  have "be_fixed (Suc (Suc k)) n = be_fixed (Suc k) (n div 256) @ [of_nat (n mod 256)]" by simp
  also have "\<dots> = (of_nat (n div 256 div 256 ^ k) # be_fixed k (n div 256)) @ [of_nat (n mod 256)]"
    by (simp only: Suc.IH)
  also have "\<dots> = of_nat (n div 256 div 256 ^ k) # be_fixed (Suc k) n" by simp
  finally show ?case by (simp add: div_mult2_eq)
qed

lemma be_fixed_8_shape:
  assumes "n < 2 ^ 63"
  shows "\<exists>b bs. be_fixed (Suc 7) n = b # bs \<and> unat b < 128 \<and> length bs = 7"
proof -
  have "n div 256 ^ 7 < 128" using assms by (simp add: div_less_iff_less_mult)
  then have "unat (of_nat (n div 256 ^ 7) :: byte) < 128"
    by (simp add: unat_of_nat_byte)
  then show ?thesis unfolding be_fixed_Cons [of 7 n]
    by (intro exI conjI) (rule refl, assumption, rule length_be_fixed)
qed

lemma put_amount_shape:
  assumes "drops \<le> MaxDrops"
  shows "\<exists>b bs. put_amount drops = b # bs \<and> unat b < 128 \<and> length bs = 7"
proof -
  let ?w = "or drops (0x4000000000000000 :: u64)"
  have "take_bit 63 ?w = ?w"
  proof (rule bit_word_eqI)
    fix n assume "n < LENGTH(64)"
    then have "n < 63 \<or> n = 63" by auto
    with amount_bits(1) [OF assms] show "bit (take_bit 63 ?w) n = bit ?w n"
      unfolding bit_take_bit_iff by blast
  qed
  moreover have "unat (take_bit 63 ?w) < 2 ^ 63"
    unfolding unsigned_take_bit_eq by (rule take_bit_nat_less_exp)
  ultimately have less: "unat ?w < 2 ^ 63" by metis
  have "put_amount drops = be_fixed (Suc 7) (unat ?w)"
    unfolding put_amount_def word_bytes_def by (rule arg_cong2 [of _ _ _ _ be_fixed]) simp_all
  with be_fixed_8_shape [OF less] show ?thesis by simp
qed

lemma read_amount_put:
  assumes "drops \<le> MaxDrops"
  shows "read_amount (put_amount drops @ rest) = Some (put_amount drops, rest)"
  using put_amount_shape [OF assms] by (auto simp: read_exact_def)

lemma read_exact_word: "read_exact (LENGTH('a::len) div 8) (word_bytes (w :: 'a word) @ rest) = Some (word_bytes w, rest)"
  by (simp add: read_exact_def)

text \<open>What one written field looks like to the reader.\<close>

lemma lex_u16: "xrpl_lex ([0x12] @ word_bytes (v :: u16) @ rest)
    = map_option ((#) ((1, 2), word_bytes v)) (xrpl_lex rest)"
  using xrpl_lex_field [of "[0x12] @ word_bytes v" rest "((1, 2), word_bytes v)"]
    read_exact_word [of v rest]
  by (simp add: read_field_def read_payload_def)

lemma lex_u32:
  assumes "read_header (f @ word_bytes (v :: u32) @ rest) = Some ((2, c), word_bytes v @ rest)"
  shows "xrpl_lex (f @ word_bytes v @ rest)
    = map_option ((#) ((2, c), word_bytes v)) (xrpl_lex rest)"
proof -
  have "length (word_bytes v) = 4" by simp
  then have "f @ word_bytes v \<noteq> []" by (metis append_is_Nil_conv list.size(3) zero_neq_numeral)
  then show ?thesis
    using assms xrpl_lex_field [of "f @ word_bytes v" rest "((2, c), word_bytes v)"]
      read_exact_word [of v rest]
    by (simp add: read_field_def read_payload_def)
qed

lemma lex_amount:
  assumes "drops \<le> MaxDrops" "unat b div 16 = 6" "unat b mod 16 = c" "c \<noteq> 0"
  shows "xrpl_lex (b # put_amount drops @ rest)
    = map_option ((#) ((6, c), put_amount drops)) (xrpl_lex rest)"
  using assms xrpl_lex_field [of "b # put_amount drops" rest "((6, c), put_amount drops)"]
  by (simp add: read_field_def read_payload_def read_amount_put)

lemma lex_vl:
  assumes "length v \<le> 192" "unat b div 16 = t" "t = 7 \<or> t = 8" "unat b mod 16 = c" "c \<noteq> 0"
  shows "xrpl_lex (b # put_vl v @ rest) = map_option ((#) ((t, c), v)) (xrpl_lex rest)"
  using assms xrpl_lex_field [of "b # put_vl v" rest "((t, c), v)"]
  by (auto simp: read_field_def read_payload_def vl_code.dec_enc)

lemma lex_marker:
  assumes "unat b div 16 = t" "t = 14 \<or> t = 15" "unat b mod 16 = c" "c \<noteq> 0"
  shows "xrpl_lex (b # rest) = map_option ((#) ((t, c), [])) (xrpl_lex rest)"
  using assms xrpl_lex_field [of "[b]" rest "((t, c), [])"]
  by (auto simp: read_field_def read_payload_def)

end
