(* ===== verification/XrplPayment.thy ===== *)
theory XrplPayment
  imports XrplFields
begin

text \<open>
  \<open>extension/go/internal/xrpl/payment.go\<close>: the one transaction shape the enclave can produce, its
  validation, its canonical serialization and its signing. The secp256k1 operations (a third-party
  package) are parameters: \<open>pubkey\<close> is \<open>key.PubKey().SerializeCompressed()\<close>, \<open>ecdsa_sign\<close> is
  \<open>ecdsa.Sign(key, hash).Serialize()\<close>. The central result is that any reader of XRPL's format sees
  in a serialized payment exactly \<open>payment_fields\<close>, and from it that the format is canonical,
  injective and can express nothing but a native payment.
\<close>

record payment =
  pAccount :: bytes
  pDestination :: bytes
  pAmountDrops :: u64
  pFeeDrops :: u64
  pSequence :: u32
  pLastLedgerSequence :: u32
  pDestinationTag :: u32
  pHasDestinationTag :: bool
  pMemo :: bytes
  pSigningPubKey :: bytes

definition memoTypeBridgeSafe :: string where
  "memoTypeBridgeSafe = ''BridgeSafe''"

definition Validate :: "payment \<Rightarrow> xrpl_error option" where
  "Validate p =
     (if length (pAccount p) \<noteq> 20 then Some (ErrInAccount ErrBadAccountID)
      else if length (pDestination p) \<noteq> 20 then Some (ErrInDestination ErrBadAccountID)
      else if pAmountDrops p = 0 then Some ErrAmountZero
      else if pAmountDrops p > MaxDrops then Some ErrAmountTooLarge
      else if pFeeDrops p = 0 \<or> pFeeDrops p > MaxDrops then Some (ErrFeeRange (pFeeDrops p))
      else if length (pMemo p) > MaxMemoLength then Some ErrMemoTooLong
      else if length (pSigningPubKey p) \<noteq> 33 then Some ErrBadPublicKey
      else if pLastLedgerSequence p = 0 then Some ErrNoLastLedger
      else None)"

text \<open>The memo block at the end of \<open>serialize\<close>, written only for a nonempty memo.\<close>

definition write_memo :: "payment \<Rightarrow> bytes \<Rightarrow> xrpl_error + bytes" where
  "write_memo p buf =
     (if pMemo p \<noteq> [] then
        (case writeBlob (buf @ fieldMemos @ fieldMemo) fieldMemoType (str_bytes memoTypeBridgeSafe) of
           Inl e \<Rightarrow> Inl e
         | Inr buf \<Rightarrow>
             (case writeBlob buf fieldMemoData (pMemo p) of
                Inl e \<Rightarrow> Inl e
              | Inr buf \<Rightarrow> Inr (buf @ fieldObjectEndMarker @ fieldArrayEndMarker)))
      else Inr buf)"

definition serialize :: "payment \<Rightarrow> bytes option \<Rightarrow> xrpl_error + bytes" where
  "serialize p signature =
     (case Validate p of
        Some e \<Rightarrow> Inl e
      | None \<Rightarrow>
          (let buf = writeUint16 [] fieldTransactionType txTypePayment;
               buf = writeUint32 buf fieldFlags 0;
               buf = writeUint32 buf fieldSequence (pSequence p);
               buf = (if pHasDestinationTag p
                      then writeUint32 buf fieldDestinationTag (pDestinationTag p) else buf);
               buf = writeUint32 buf fieldLastLedgerSeq (pLastLedgerSequence p)
           in case writeXRPAmount buf fieldAmount (pAmountDrops p) of Inl e \<Rightarrow> Inl e | Inr buf \<Rightarrow>
             (case writeXRPAmount buf fieldFee (pFeeDrops p) of Inl e \<Rightarrow> Inl e | Inr buf \<Rightarrow>
             (case writeBlob buf fieldSigningPubKey (pSigningPubKey p) of Inl e \<Rightarrow> Inl e | Inr buf \<Rightarrow>
             (case (case signature of None \<Rightarrow> Inr buf
                    | Some s \<Rightarrow> writeBlob buf fieldTxnSignature s) of Inl e \<Rightarrow> Inl e | Inr buf \<Rightarrow>
             (case writeAccountID buf fieldAccount (pAccount p) of Inl e \<Rightarrow> Inl e | Inr buf \<Rightarrow>
             (case writeAccountID buf fieldDestination (pDestination p) of Inl e \<Rightarrow> Inl e | Inr buf \<Rightarrow>
              write_memo p buf)))))))"

definition SigningPayload :: "payment \<Rightarrow> xrpl_error + bytes" where
  "SigningPayload p =
     (case serialize p None of
        Inl e \<Rightarrow> Inl e
      | Inr body \<Rightarrow> Inr (prefixTransactionSig @ body))"

record signed =
  TxBlob :: string
  TxID :: string
  Signature :: bytes

definition sha512Half :: "bytes \<Rightarrow> bytes" where
  "sha512Half b = take 32 (sha512 b)"

text \<open>\<open>Sign\<close> fills in an empty public key, so it returns the updated payment as well.\<close>

definition Sign ::
  "('k \<Rightarrow> bytes) \<Rightarrow> ('k \<Rightarrow> bytes \<Rightarrow> bytes) \<Rightarrow> payment \<Rightarrow> 'k option \<Rightarrow> payment \<times> (xrpl_error + signed)" where
  "Sign pubkey ecdsa_sign p key =
     (case key of
        None \<Rightarrow> (p, Inl ErrNoSigningKey)
      | Some k \<Rightarrow>
          (let got = pubkey k
           in if pSigningPubKey p \<noteq> [] \<and> hex_encode got \<noteq> hex_encode (pSigningPubKey p)
              then (p, Inl ErrKeyMismatch)
              else
                (let p = (if pSigningPubKey p = [] then p\<lparr>pSigningPubKey := got\<rparr> else p)
                 in (p,
                     (case SigningPayload p of
                        Inl e \<Rightarrow> Inl e
                      | Inr payload \<Rightarrow>
                          (let der = ecdsa_sign k (sha512Half payload)
                           in case serialize p (Some der) of
                                Inl e \<Rightarrow> Inl e
                              | Inr blob \<Rightarrow>
                                  (let txID = sha512Half (prefixTransactionID @ blob)
                                   in Inr \<lparr>TxBlob = to_upper (hex_encode blob),
                                           TxID = to_upper (hex_encode txID),
                                           Signature = der\<rparr>)))))))"

section \<open>What is written, field by field\<close>

definition sig_wire :: "bytes option \<Rightarrow> bytes" where
  "sig_wire s = (case s of None \<Rightarrow> [] | Some v \<Rightarrow> 0x74 # put_vl v)"

definition tag_wire :: "payment \<Rightarrow> bytes" where
  "tag_wire p = (if pHasDestinationTag p then [0x2E] @ word_bytes (pDestinationTag p) else [])"

definition memo_wire :: "payment \<Rightarrow> bytes" where
  "memo_wire p =
     (if pMemo p = [] then []
      else 0xF9 # 0xEA # 0x7C # put_vl (str_bytes memoTypeBridgeSafe)
             @ 0x7D # put_vl (pMemo p) @ 0xE1 # [0xF1])"

definition payment_wire :: "payment \<Rightarrow> bytes option \<Rightarrow> bytes" where
  "payment_wire p s =
     [0x12] @ word_bytes txTypePayment @ [0x22] @ word_bytes (0 :: u32) @ [0x24] @ word_bytes (pSequence p)
     @ tag_wire p @ [0x20, 0x1B] @ word_bytes (pLastLedgerSequence p)
     @ 0x61 # put_amount (pAmountDrops p) @ 0x68 # put_amount (pFeeDrops p)
     @ 0x73 # put_vl (pSigningPubKey p) @ sig_wire s
     @ 0x81 # put_vl (pAccount p) @ 0x83 # put_vl (pDestination p) @ memo_wire p"

definition sig_fits :: "bytes option \<Rightarrow> bool" where
  "sig_fits s = (case s of None \<Rightarrow> True | Some v \<Rightarrow> length v \<le> 192)"

lemma sig_fits_simps [simp]: "sig_fits None" "sig_fits (Some v) \<longleftrightarrow> length v \<le> 192"
  by (simp_all add: sig_fits_def)

lemma Validate_None:
  "Validate p = None \<longleftrightarrow>
     length (pAccount p) = 20 \<and> length (pDestination p) = 20 \<and>
     pAmountDrops p \<noteq> 0 \<and> pAmountDrops p \<le> MaxDrops \<and>
     pFeeDrops p \<noteq> 0 \<and> pFeeDrops p \<le> MaxDrops \<and>
     length (pMemo p) \<le> MaxMemoLength \<and> length (pSigningPubKey p) = 33 \<and>
     pLastLedgerSequence p \<noteq> 0"
  by (auto simp: Validate_def)

lemma write_memo_ok:
  "length (pMemo p) \<le> MaxMemoLength \<Longrightarrow> write_memo p buf = Inr (buf @ memo_wire p)"
  by (auto simp: write_memo_def memo_wire_def writeBlob_def writeVL_ok field_ids
      memoTypeBridgeSafe_def MaxMemoLength_def)

lemma serialize_valid:
  assumes "Validate p = None"
  shows "serialize p s =
    (if sig_fits s then Inr (payment_wire p s) else Inl (ErrVLTooLong (length (the s))))"
  using assms assms [unfolded Validate_None]
  by (auto simp: serialize_def Let_def writeUint16_def writeUint32_def writeXRPAmount_def
      writeBlob_def writeAccountID_def writeVL_ok field_ids write_memo_ok payment_wire_def
      tag_wire_def sig_wire_def put_amount_def writeVL_err split: option.splits)

lemma serialize_invalid: "Validate p = Some e \<Longrightarrow> serialize p s = Inl e"
  by (simp add: serialize_def)

lemma serialize_Inr_iff:
  "serialize p s = Inr blob \<longleftrightarrow> Validate p = None \<and> sig_fits s \<and> blob = payment_wire p s"
  by (cases "Validate p") (auto simp: serialize_valid serialize_invalid)

section \<open>What a reader of the format sees\<close>

definition payment_fields :: "payment \<Rightarrow> bytes option \<Rightarrow> xfield list" where
  "payment_fields p s =
     [((1, 2), word_bytes txTypePayment), ((2, 2), word_bytes (0 :: u32)),
      ((2, 4), word_bytes (pSequence p))]
     @ (if pHasDestinationTag p then [((2, 14), word_bytes (pDestinationTag p))] else [])
     @ [((2, 27), word_bytes (pLastLedgerSequence p)),
        ((6, 1), put_amount (pAmountDrops p)), ((6, 8), put_amount (pFeeDrops p)),
        ((7, 3), pSigningPubKey p)]
     @ (case s of None \<Rightarrow> [] | Some v \<Rightarrow> [((7, 4), v)])
     @ [((8, 1), pAccount p), ((8, 3), pDestination p)]
     @ (if pMemo p = [] then []
        else [((15, 9), []), ((14, 10), []), ((7, 12), str_bytes memoTypeBridgeSafe),
              ((7, 13), pMemo p), ((14, 1), []), ((15, 1), [])])"

lemma map_option_append_Nil [simp]: "map_option ((@) []) x = x"
  by (cases x) auto

lemma map_option_append_Cons: "map_option ((@) [a]) x = map_option ((#) a) x"
  by (cases x) auto

lemma lex_memo:
  assumes "length (pMemo p) \<le> 192"
  shows "xrpl_lex (memo_wire p) =
    Some (if pMemo p = [] then []
          else [((15, 9), []), ((14, 10), []), ((7, 12), str_bytes memoTypeBridgeSafe),
                ((7, 13), pMemo p), ((14, 1), []), ((15, 1), [])])"
  using assms
  by (auto simp: memo_wire_def lex_marker [where t = 15] lex_marker [where t = 14]
      lex_vl [where t = 7] memoTypeBridgeSafe_def)

lemma lex_tag: "xrpl_lex (tag_wire p @ rest) =
    map_option ((@) (if pHasDestinationTag p then [((2, 14), word_bytes (pDestinationTag p))] else []))
      (xrpl_lex rest)"
  using lex_u32 [of "[0x2E]" "pDestinationTag p" rest 14]
  by (cases "pHasDestinationTag p") (simp_all add: tag_wire_def map_option_append_Cons)

lemma lex_sig: "sig_fits s \<Longrightarrow> xrpl_lex (sig_wire s @ rest) =
    map_option ((@) (case s of None \<Rightarrow> [] | Some v \<Rightarrow> [((7, 4), v)])) (xrpl_lex rest)"
  by (cases s) (simp_all add: sig_wire_def lex_vl [where t = 7] map_option_append_Cons)

lemma lex_payment_wire:
  assumes "Validate p = None" "sig_fits s"
  shows "xrpl_lex (payment_wire p s) = Some (payment_fields p s)"
proof -
  have u32: "xrpl_lex (0x22 # word_bytes (v :: u32) @ r) = map_option ((#) ((2, 2), word_bytes v)) (xrpl_lex r)"
    "xrpl_lex (0x24 # word_bytes (v :: u32) @ r) = map_option ((#) ((2, 4), word_bytes v)) (xrpl_lex r)"
    "xrpl_lex (0x20 # 0x1B # word_bytes (v :: u32) @ r) = map_option ((#) ((2, 27), word_bytes v)) (xrpl_lex r)"
    for v r
    using lex_u32 [of "[0x22]" v r 2] lex_u32 [of "[0x24]" v r 4] lex_u32 [of "[0x20, 0x1B]" v r 27]
    by simp_all
  have u16: "xrpl_lex (0x12 # word_bytes (v :: u16) @ r) = map_option ((#) ((1, 2), word_bytes v)) (xrpl_lex r)"
    for v r using lex_u16 [of v r] by simp
  from assms have v: "pAmountDrops p \<le> MaxDrops" "pFeeDrops p \<le> MaxDrops" "length (pMemo p) \<le> 192"
    "length (pSigningPubKey p) \<le> 192" "length (pAccount p) \<le> 192" "length (pDestination p) \<le> 192"
    by (simp_all add: Validate_None MaxMemoLength_def)
  show ?thesis
    using v assms(2) unfolding payment_wire_def payment_fields_def append_Cons append_Nil
    by (simp add: u16 u32 lex_tag lex_sig lex_memo lex_amount lex_vl [where t = 7] lex_vl [where t = 8]
        option.map_comp comp_def)
qed

lemma serialize_lex: "serialize p s = Inr blob \<Longrightarrow> xrpl_lex blob = Some (payment_fields p s)"
  by (simp add: serialize_Inr_iff lex_payment_wire)

section \<open>Canonical order, injectivity, size\<close>

definition code_less :: "nat \<times> nat \<Rightarrow> nat \<times> nat \<Rightarrow> bool" where
  "code_less a b \<longleftrightarrow> fst a < fst b \<or> (fst a = fst b \<and> snd a < snd b)"

text \<open>The codes of the top-level fields: everything up to and including the memo array's start.\<close>

definition top_codes :: "xfield list \<Rightarrow> (nat \<times> nat) list" where
  "top_codes fs = takeWhile (\<lambda>c. c \<noteq> (14, 10)) (map fst fs)"

lemma payment_fields_sorted: "sorted_wrt code_less (top_codes (payment_fields p s))"
  by (cases s) (auto simp: payment_fields_def top_codes_def code_less_def)

text \<open>Two payments that write the same bytes: a destination tag counts only where it is written.\<close>

definition same_payment :: "payment \<Rightarrow> payment \<Rightarrow> bool" where
  "same_payment p q \<longleftrightarrow>
     pAccount p = pAccount q \<and> pDestination p = pDestination q \<and>
     pAmountDrops p = pAmountDrops q \<and> pFeeDrops p = pFeeDrops q \<and>
     pSequence p = pSequence q \<and> pLastLedgerSequence p = pLastLedgerSequence q \<and>
     pHasDestinationTag p = pHasDestinationTag q \<and>
     (pHasDestinationTag p \<longrightarrow> pDestinationTag p = pDestinationTag q) \<and>
     pMemo p = pMemo q \<and> pSigningPubKey p = pSigningPubKey q"

lemma word_bytes_u32_inj [simp]: "word_bytes (v :: u32) = word_bytes w \<longleftrightarrow> v = w"
  using u32_code.enc_inj [of v w] by auto

lemma put_amount_inj:
  "a \<le> MaxDrops \<Longrightarrow> b \<le> MaxDrops \<Longrightarrow> put_amount a = put_amount b \<longleftrightarrow> a = b"
  using amount_code.enc_inj [of a b] by auto

lemma payment_fields_inj:
  assumes "Validate p = None" "Validate q = None" "payment_fields p s = payment_fields q t"
  shows "same_payment p q \<and> s = t"
proof -
  have a: "pAmountDrops p \<le> MaxDrops" "pAmountDrops q \<le> MaxDrops" "pFeeDrops p \<le> MaxDrops" "pFeeDrops q \<le> MaxDrops"
    using assms(1,2) by (simp_all add: Validate_None)
  show ?thesis
    using assms(3) a unfolding payment_fields_def same_payment_def
    by (cases s; cases t; cases "pMemo p = []"; cases "pMemo q = []";
        cases "pHasDestinationTag p"; cases "pHasDestinationTag q") (simp_all add: put_amount_inj)
qed

lemma serialize_inj:
  assumes "serialize p s = Inr b" "serialize q t = Inr b"
  shows "same_payment p q \<and> s = t"
proof -
  from assms have "payment_fields p s = payment_fields q t"
    using serialize_lex by (metis option.inject)
  moreover have "Validate p = None" "Validate q = None"
    using assms by (simp_all add: serialize_Inr_iff)
  ultimately show ?thesis by (intro payment_fields_inj)
qed

lemma length_put_vl [simp, wire]: "length (put_vl v) = Suc (length v)"
  by (simp add: put_vl_def)

lemma length_put_amount [simp, wire]: "length (put_amount d) = 8"
  by (simp add: put_amount_def)

lemma length_payment_wire:
  assumes "Validate p = None"
  shows "length (payment_wire p s) = 116 + (if pHasDestinationTag p then 5 else 0)
    + (case s of None \<Rightarrow> 0 | Some v \<Rightarrow> 2 + length v) + (if pMemo p = [] then 0 else 18 + length (pMemo p))"
  using assms
  by (cases s) (simp_all add: Validate_None payment_wire_def tag_wire_def sig_wire_def memo_wire_def
      memoTypeBridgeSafe_def)

section \<open>Signing\<close>

lemma hex_encode_inj [simp]: "hex_encode a = hex_encode b \<longleftrightarrow> a = b"
  by (metis hex_decode_encode sum.inject(2))

text \<open>The payment that is actually signed: an empty public key is filled in.\<close>

definition with_key :: "('k \<Rightarrow> bytes) \<Rightarrow> 'k \<Rightarrow> payment \<Rightarrow> payment" where
  "with_key pubkey k p = (if pSigningPubKey p = [] then p\<lparr>pSigningPubKey := pubkey k\<rparr> else p)"

definition signature_of :: "('k \<Rightarrow> bytes \<Rightarrow> bytes) \<Rightarrow> 'k \<Rightarrow> payment \<Rightarrow> bytes" where
  "signature_of ecdsa_sign k p =
     ecdsa_sign k (sha512Half (prefixTransactionSig @ payment_wire p None))"

definition signed_of :: "payment \<Rightarrow> bytes \<Rightarrow> signed" where
  "signed_of p der =
     (let blob = payment_wire p (Some der)
      in \<lparr>TxBlob = to_upper (hex_encode blob),
          TxID = to_upper (hex_encode (sha512Half (prefixTransactionID @ blob))),
          Signature = der\<rparr>)"

lemma Sign_Some:
  "Sign pubkey ecdsa_sign p (Some k) =
     (if pSigningPubKey p \<noteq> [] \<and> pubkey k \<noteq> pSigningPubKey p then (p, Inl ErrKeyMismatch)
      else let q = with_key pubkey k p; der = signature_of ecdsa_sign k q
           in (q, case Validate q of
                    Some e \<Rightarrow> Inl e
                  | None \<Rightarrow> if length der \<le> 192 then Inr (signed_of q der)
                            else Inl (ErrVLTooLong (length der))))"
  by (auto simp: Sign_def with_key_def signature_of_def signed_of_def SigningPayload_def
      serialize_valid serialize_invalid Let_def split: option.splits)

lemma Sign_Inr:
  assumes "Sign pubkey ecdsa_sign p (Some k) = (q, Inr r)"
  shows "q = with_key pubkey k p" "Validate q = None" "pSigningPubKey q = pubkey k"
    "r = signed_of q (signature_of ecdsa_sign k q)" "length (signature_of ecdsa_sign k q) \<le> 192"
  using assms by (auto simp: Sign_Some Let_def with_key_def split: if_splits option.splits)

lemma length_sha512Half [simp, wire]: "length (sha512Half b) = 32"
  by (simp add: sha512Half_def)

lemma signed_of_decode:
  "hex_decode (TxBlob (signed_of p der)) = Inr (payment_wire p (Some der))"
  "hex_decode (TxID (signed_of p der)) = Inr (sha512Half (prefixTransactionID @ payment_wire p (Some der)))"
  "Signature (signed_of p der) = der"
  by (simp_all add: signed_of_def Let_def)

lemma payment_fields_signature:
  "filter (\<lambda>f. fst f \<noteq> (7, 4)) (payment_fields p (Some der)) = payment_fields p None"
  by (simp add: payment_fields_def)

section \<open>The test vector of \<open>xrpl_test.go\<close>\<close>

text \<open>The payment of \<open>testPayment\<close> and the bytes \<open>TestSigningPayloadIsCanonical\<close> expects for it.\<close>

definition test_payment :: payment where
  "test_payment = \<lparr>
     pAccount = [0x58, 0x7c, 0x9b, 0xfc, 0x87, 0xa8, 0x37, 0xa0, 0x56, 0xf7, 0x16, 0xc2, 0xf9, 0xde,
       0x89, 0x1a, 0xdb, 0xc4, 0x6c, 0x90],
     pDestination = [0xf6, 0x67, 0xb0, 0xca, 0x50, 0xcc, 0x77, 0x09, 0xa2, 0x20, 0xb0, 0x56, 0x1b, 0x85,
       0xe5, 0x3a, 0x48, 0x46, 0x1f, 0xa8],
     pAmountDrops = 25000000, pFeeDrops = 12, pSequence = 7, pLastLedgerSequence = 19500000,
     pDestinationTag = 0, pHasDestinationTag = False,
     pMemo = [0x42, 0x53, 0x46, 0x31] @ replicate 32 0xAB,
     pSigningPubKey = [0x02, 0x84, 0xbf, 0x75, 0x62, 0x26, 0x2b, 0xbd, 0x69, 0x40, 0x08, 0x57, 0x48,
       0xf3, 0xbe, 0x6a, 0xfa, 0x52, 0xae, 0x31, 0x71, 0x55, 0x18, 0x1e, 0xce, 0x31, 0xb6, 0x63, 0x51,
       0xcc, 0xff, 0xa4, 0xb0]\<rparr>"

lemma test_payment_valid: "Validate test_payment = None"
  by (simp add: Validate_def test_payment_def MaxDrops_def MaxMemoLength_def)

lemma test_payment_payload:
  "SigningPayload test_payment = Inr (
     [0x53, 0x54, 0x58, 0x00,  0x12, 0x00, 0x00,  0x22, 0x00, 0x00, 0x00, 0x00,
      0x24, 0x00, 0x00, 0x00, 0x07,  0x20, 0x1b, 0x01, 0x29, 0x8b, 0xe0,
      0x61, 0x40, 0x00, 0x00, 0x00, 0x01, 0x7d, 0x78, 0x40,
      0x68, 0x40, 0x00, 0x00, 0x00, 0x00, 0x00, 0x00, 0x0c,  0x73, 0x21]
     @ pSigningPubKey test_payment @ [0x81, 0x14] @ pAccount test_payment
     @ [0x83, 0x14] @ pDestination test_payment
     @ [0xf9, 0xea, 0x7c, 0x0a, 0x42, 0x72, 0x69, 0x64, 0x67, 0x65, 0x53, 0x61, 0x66, 0x65,
        0x7d, 0x24] @ pMemo test_payment @ [0xe1, 0xf1])"
proof -
  have "payment_wire test_payment None =
     [0x12, 0x00, 0x00,  0x22, 0x00, 0x00, 0x00, 0x00,
      0x24, 0x00, 0x00, 0x00, 0x07,  0x20, 0x1b, 0x01, 0x29, 0x8b, 0xe0,
      0x61, 0x40, 0x00, 0x00, 0x00, 0x01, 0x7d, 0x78, 0x40,
      0x68, 0x40, 0x00, 0x00, 0x00, 0x00, 0x00, 0x00, 0x0c,  0x73, 0x21]
     @ pSigningPubKey test_payment @ [0x81, 0x14] @ pAccount test_payment
     @ [0x83, 0x14] @ pDestination test_payment
     @ [0xf9, 0xea, 0x7c, 0x0a, 0x42, 0x72, 0x69, 0x64, 0x67, 0x65, 0x53, 0x61, 0x66, 0x65,
        0x7d, 0x24] @ pMemo test_payment @ [0xe1, 0xf1]"
    by (simp add: test_payment_def payment_wire_def tag_wire_def sig_wire_def memo_wire_def put_vl_def
        put_amount_def word_bytes_def be_fixed_numeral txTypePayment_def memoTypeBridgeSafe_def str_bytes_def)
  then show ?thesis
    by (simp add: SigningPayload_def serialize_valid test_payment_valid prefixTransactionSig_def)
qed


section \<open>Properties\<close>

text \<open>C9. Any reader of XRPL's binary format sees in a serialized payment exactly the fields of the
  payment: a Payment transaction type, zero flags, the given sequence, tag, ledger bound, amounts, keys,
  accounts and memo, and nothing else.\<close>

theorem serialize_reads_back:
  "serialize p s = Inr blob \<Longrightarrow> xrpl_lex blob = Some (payment_fields p s)"
  by (rule serialize_lex)

theorem serialize_reads_back_witness:
  "\<exists>blob. serialize test_payment (Some [0x30]) = Inr blob
     \<and> xrpl_lex blob = Some (payment_fields test_payment (Some [0x30]))"
proof -
  have s: "serialize test_payment (Some [0x30]) = Inr (payment_wire test_payment (Some [0x30]))"
    by (simp add: serialize_valid test_payment_valid)
  from s serialize_reads_back [OF s] show ?thesis by blast
qed


text \<open>The top-level fields of every serialized payment are in strictly ascending (type code, field
  code) order, the order the ledger requires.\<close>

lemma serialize_canonical:
  "serialize p s = Inr blob \<Longrightarrow>
     \<exists>fs. xrpl_lex blob = Some fs \<and> sorted_wrt code_less (top_codes fs)"
  using serialize_lex payment_fields_sorted by blast

text \<open>C8. A signed payment: the blob is the serialization of the (key-completed) valid payment with the
  signature, the signature is over the hash of the same payment without it, so it covers every other field,
  and the transaction id is the hash of the blob under the TXN prefix.\<close>

theorem sign_covers_everything:
  assumes "Sign pubkey ecdsa_sign p (Some k) = (q, Inr r)"
  shows "\<exists>blob body. hex_decode (TxBlob r) = Inr blob
    \<and> serialize q (Some (Signature r)) = Inr blob \<and> serialize q None = Inr body
    \<and> Signature r = ecdsa_sign k (sha512Half (prefixTransactionSig @ body))
    \<and> hex_decode (TxID r) = Inr (sha512Half (prefixTransactionID @ blob))
    \<and> pSigningPubKey q = pubkey k
    \<and> map_option (filter (\<lambda>f. fst f \<noteq> (7, 4))) (xrpl_lex blob) = xrpl_lex body"
proof -
  note r = Sign_Inr [OF assms]
  have ser: "serialize q (Some (Signature r)) = Inr (payment_wire q (Some (Signature r)))"
    "serialize q None = Inr (payment_wire q None)"
    using r by (simp_all add: serialize_Inr_iff signed_of_decode)
  show ?thesis
    using ser r
    by (intro exI [of _ "payment_wire q (Some (Signature r))"] exI [of _ "payment_wire q None"])
      (simp add: signed_of_decode signature_of_def lex_payment_wire payment_fields_signature)
qed

theorem sign_covers_everything_witness:
  "\<exists>q r blob. Sign (\<lambda>_. pSigningPubKey test_payment) (\<lambda>_ h. 0x30 # h) test_payment (Some ()) = (q, Inr r)
     \<and> hex_decode (TxBlob r) = Inr blob
     \<and> hex_decode (TxID r) = Inr (sha512Half (prefixTransactionID @ blob))"
proof -
  let ?sig = "signature_of (\<lambda>_ h. 0x30 # h) () test_payment"
  have "pSigningPubKey test_payment \<noteq> []" by (simp add: test_payment_def)
  then have q: "with_key (\<lambda>_. pSigningPubKey test_payment) () test_payment = test_payment"
    by (simp add: with_key_def)
  have s: "Sign (\<lambda>_. pSigningPubKey test_payment) (\<lambda>_ h. 0x30 # h) test_payment (Some ())
      = (test_payment, Inr (signed_of test_payment ?sig))"
    by (simp add: Sign_Some q test_payment_valid Let_def) (simp add: signature_of_def)
  from s sign_covers_everything [OF s] show ?thesis by blast
qed

end
