(* ===== verification/Enclave.thy ===== *)
theory Enclave
  imports Codec XrplPayment "HOL-Library.AList"
begin

text \<open>
  The enclave (\<open>internal/extension/extension.go\<close>, \<open>internal/config/config.go\<close>, the hex helpers of
  \<open>ledger.go\<close> and \<open>buildResult\<close>/\<open>actionHandler\<close> of \<open>utils.go\<close>): its state, the four instruction
  handlers with every early return, the dispatcher and the state report.  Third-party code (the ABI
  package, Keccak, RIPEMD-160, secp256k1, the TEE node's message types and parser) is the record
  \<open>deps\<close>; what a call reads from the outside (fresh key, decryption, ledger, clock) is the record
  \<open>env\<close>.  A Go map is an association list with distinct keys.
\<close>

section \<open>Constants (config.go)\<close>

definition Version :: string where "Version = ''0.1.0''"
definition OPTypeTreasury :: string where "OPTypeTreasury = ''TREASURY''"
definition OPCommandCreateTreasuryKey :: string where
  "OPCommandCreateTreasuryKey = ''CREATE_TREASURY_KEY''"
definition OPCommandRegisterPolicy :: string where "OPCommandRegisterPolicy = ''REGISTER_POLICY''"
definition OPCommandAuthorizePayment :: string where "OPCommandAuthorizePayment = ''AUTHORIZE_PAYMENT''"
definition OPCommandSignXRPLPayment :: string where "OPCommandSignXRPLPayment = ''SIGN_XRPL_PAYMENT''"

definition DefaultFeeDrops :: u64 where "DefaultFeeDrops = 12"
definition LedgerSecondsPerLedger :: int where "LedgerSecondsPerLedger = 4"
definition MinLedgerWindow :: int where "MinLedgerWindow = 10"
definition MaxLedgerWindow :: int where "MaxLedgerWindow = 750"

section \<open>State\<close>

record 'k treasury =
  tKey :: 'k
  tAccountID :: bytes
  tAddress :: string
  tPolicy :: Policy
  tPolicyCommitment :: hash32

record authorization =
  auTreasuryID :: int
  auDestination :: string
  auAmountDrops :: u64
  auTag :: u32
  auHasTag :: bool
  auMemoRef :: hash32
  auExpiresAt :: u64
  auPayloadHash :: hash32

record 'k extension =
  treasuries :: "(string \<times> 'k treasury) list"
  authorizations :: "(string \<times> authorization) list"

definition New :: "'k extension" where
  "New = \<lparr>treasuries = [], authorizations = []\<rparr>"

section \<open>Messages of the TEE node\<close>

record action =
  aID :: hash32
  aSubmissionTag :: string
  aMessage :: bytes

record DataFixed =
  OPType :: hash32
  OPCommand :: hash32
  OriginalMessage :: bytes

datatype hash_error = HashHex hex_error | HashLength nat

text \<open>Every error a handler reports, in the order the handlers raise them.\<close>

datatype refusal =
    DecodingInstruction codec_error
  | NoController | ComputingCommitment codec_error | CommitmentMismatch
  | TreasuryHasKey string | GeneratingKey string | DerivingAccount xrpl_error | EncodingAddress xrpl_error
  | EncodingResult string
  | UnknownTreasury int | PayloadEmpty | PolicyDisagree | Decrypting string | DecodingPayment codec_error
  | PayloadChain | PayloadController | PayloadTreasury | PayloadRequest
  | BadDestination string xrpl_error | DestinationIsTreasury | AmountNotUint64
  | AmountNotPositive | NoPerPaymentCap | ExceedsPerPayment int int | ExceedsTotal int int
  | NeverAuthorized int | TreasuryNoKey int | MemoMismatch | TreasuryMismatch
  | AuthorizedDestination xrpl_error | ReadingSequence string | ReadingLedger string
  | SigningPayment xrpl_error | ParsingTxID hash_error | ParsingBlob hex_error

datatype result_log = LogOk | LogError "refusal option" | LogEmpty

record ActionResult =
  rID :: hash32
  rSubmissionTag :: string
  rVersion :: string
  rOPType :: hash32
  rOPCommand :: hash32
  rData :: "bytes option"  \<comment> \<open>None is a nil slice\<close>
  rStatus :: u8
  rLog :: result_log

definition buildResult ::
  "action \<Rightarrow> DataFixed \<Rightarrow> bytes option \<Rightarrow> u8 \<Rightarrow> refusal option \<Rightarrow> ActionResult" where
  "buildResult a df data status err =
     \<lparr>rID = aID a, rSubmissionTag = aSubmissionTag a, rVersion = Version,
      rOPType = OPType df, rOPCommand = OPCommand df, rData = data, rStatus = status,
      rLog = (if status = 0 then LogError err else if status = 1 then LogOk else LogEmpty)\<rparr>"

abbreviation refuse :: "action \<Rightarrow> DataFixed \<Rightarrow> refusal \<Rightarrow> ActionResult" where
  "refuse a df e \<equiv> buildResult a df None 0 (Some e)"

abbreviation accept :: "action \<Rightarrow> DataFixed \<Rightarrow> bytes \<Rightarrow> ActionResult" where
  "accept a df data \<equiv> buildResult a df (Some data) 1 None"

section \<open>What the enclave calls\<close>

record 'k deps =
  dPack :: "abi_ty list \<Rightarrow> goval list \<Rightarrow> string + bytes"
  dUnpack :: "abi_ty list \<Rightarrow> bytes \<Rightarrow> string + goval list"
  dKeccak :: "bytes \<Rightarrow> bytes"
  dRipemd160 :: "bytes \<Rightarrow> bytes"
  dPubKey :: "'k \<Rightarrow> bytes"              \<comment> \<open>\<open>key.PubKey().SerializeCompressed()\<close>\<close>
  dEcdsaSign :: "'k \<Rightarrow> bytes \<Rightarrow> bytes"  \<comment> \<open>DER signature of a hash\<close>
  dToHash :: "string \<Rightarrow> hash32"        \<comment> \<open>\<open>teeutils.ToHash\<close>\<close>
  dParse :: "bytes \<Rightarrow> string + DataFixed"
  dMarshal :: "ActionResult \<Rightarrow> string + bytes"

record 'k env =
  genKey :: "string + 'k"
  decrypt :: "bytes \<Rightarrow> string + bytes"
  AccountSequence :: "string \<Rightarrow> string + u32"
  CurrentLedger :: "string + u32"
  nowUnix :: u64  \<comment> \<open>an \<open>int64\<close>, two's complement\<close>

section \<open>Validation helpers\<close>

definition checkPolicy :: "Policy \<Rightarrow> int \<Rightarrow> refusal option" where
  "checkPolicy p amount =
     (if amount \<le> 0 then Some AmountNotPositive
      else case MaxPerPaymentDrops p of
          None \<Rightarrow> Some NoPerPaymentCap
        | Some cap \<Rightarrow>
            if cap \<le> 0 then Some NoPerPaymentCap
            else if amount > cap then Some (ExceedsPerPayment amount cap)
            else case MaxTotalDrops p of
                None \<Rightarrow> None
              | Some cumulative \<Rightarrow>
                  if amount > cumulative then Some (ExceedsTotal amount cumulative) else None)"

definition bindPayloadToHeader :: "PaymentInstruction \<Rightarrow> InstructionHeader \<Rightarrow> refusal option" where
  "bindPayloadToHeader pi h =
     (if piChainId pi \<noteq> Some (hChainId h) then Some PayloadChain
      else if piController pi \<noteq> hController h then Some PayloadController
      else if piTreasuryId pi \<noteq> Some (hTreasuryId h) then Some PayloadTreasury
      else if piRequestId pi \<noteq> Some (hRequestId h) then Some PayloadRequest
      else None)"

definition validateHeaderCommitment :: "'k deps \<Rightarrow> InstructionHeader \<Rightarrow> Policy \<Rightarrow> refusal option" where
  "validateHeaderCommitment d h p =
     (if hController h = 0 then Some NoController
      else case PolicyCommitment (dPack d) (dKeccak d) p of
          Inl e \<Rightarrow> Some (ComputingCommitment e)
        | Inr want \<Rightarrow> if want \<noteq> hPolicyCommitment h then Some CommitmentMismatch else None)"

text \<open>\<open>int64(expiresAt) - int64(nowUnix())\<close> wraps at 64 bits; the window is clamped to
  \<open>[MinLedgerWindow, MaxLedgerWindow]\<close> and the sum wraps at 32 bits.\<close>

definition lastLedgerFor :: "u64 \<Rightarrow> u32 \<Rightarrow> u64 \<Rightarrow> u32" where
  "lastLedgerFor now current expiresAt =
     (let remaining = sint (expiresAt - now);
          window = (if remaining > 0 then remaining div LedgerSecondsPerLedger else MinLedgerWindow);
          window = (if window < MinLedgerWindow then MinLedgerWindow else window);
          window = (if window > MaxLedgerWindow then MaxLedgerWindow else window)
      in current + of_int window)"

definition memoBytes :: "hash32 \<Rightarrow> bytes" where
  "memoBytes memoRef = str_bytes ''BSF1'' @ word_bytes memoRef"

definition hashFromHex :: "string \<Rightarrow> hash_error + hash32" where
  "hashFromHex s =
     (case hex_decode (trim_prefix s ''0x'') of
        Inl e \<Rightarrow> Inl (HashHex e)
      | Inr b \<Rightarrow> if length b \<noteq> 32 then Inl (HashLength (length b)) else Inr (copy_hash b))"

definition bytesFromHex :: "string \<Rightarrow> hex_error + bytes" where
  "bytesFromHex s = hex_decode (trim_prefix s ''0x'')"

section \<open>CREATE\_TREASURY\_KEY\<close>

definition handleCreateTreasuryKey ::
  "'k deps \<Rightarrow> 'k env \<Rightarrow> action \<Rightarrow> DataFixed \<Rightarrow> 'k extension \<Rightarrow> 'k extension \<times> ActionResult" where
  "handleCreateTreasuryKey d ev a df st =
     (case DecodeHeaderAndPolicy (dUnpack d) (OriginalMessage df) of
        Inl e \<Rightarrow> (st, refuse a df (DecodingInstruction e))
      | Inr (header, policy) \<Rightarrow>
     (case validateHeaderCommitment d header policy of
        Some e \<Rightarrow> (st, refuse a df e)
      | None \<Rightarrow>
     (let tid = int_string (hTreasuryId header) in
      case map_of (treasuries st) tid of
        Some _ \<Rightarrow> (st, refuse a df (TreasuryHasKey tid))
      | None \<Rightarrow>
     (case genKey ev of
        Inl e \<Rightarrow> (st, refuse a df (GeneratingKey e))
      | Inr key \<Rightarrow>
     (case AccountIDFromPublicKey (dRipemd160 d) (dPubKey d key) of
        Inl e \<Rightarrow> (st, refuse a df (DerivingAccount e))
      | Inr accountID \<Rightarrow>
     (case EncodeClassicAddress accountID of
        Inl e \<Rightarrow> (st, refuse a df (EncodingAddress e))
      | Inr address \<Rightarrow>
          let st' = st\<lparr>treasuries := AList.update tid
                \<lparr>tKey = key, tAccountID = accountID, tAddress = address, tPolicy = policy,
                 tPolicyCommitment = hPolicyCommitment header\<rparr> (treasuries st)\<rparr>
          in (case EncodeBindTreasury (dPack d) (hChainId header) (hController header)
                     (hTreasuryId header) address (hPolicyCommitment header) of
                Inl e \<Rightarrow> (st', refuse a df (EncodingResult e))
              | Inr data \<Rightarrow> (st', accept a df data))))))))"

section \<open>REGISTER\_POLICY\<close>

definition handleRegisterPolicy ::
  "'k deps \<Rightarrow> action \<Rightarrow> DataFixed \<Rightarrow> 'k extension \<Rightarrow> 'k extension \<times> ActionResult" where
  "handleRegisterPolicy d a df st =
     (case DecodeHeaderAndPolicy (dUnpack d) (OriginalMessage df) of
        Inl e \<Rightarrow> (st, refuse a df (DecodingInstruction e))
      | Inr (header, policy) \<Rightarrow>
     (case validateHeaderCommitment d header policy of
        Some e \<Rightarrow> (st, refuse a df e)
      | None \<Rightarrow>
     (let tid = int_string (hTreasuryId header) in
      case map_of (treasuries st) tid of
        None \<Rightarrow> (st, refuse a df (UnknownTreasury (hTreasuryId header)))
      | Some t \<Rightarrow>
          let st' = st\<lparr>treasuries := AList.update tid
                (t\<lparr>tPolicy := policy, tPolicyCommitment := hPolicyCommitment header\<rparr>) (treasuries st)\<rparr>
          in (case EncodeConfirmPolicy (dPack d) (hChainId header) (hController header)
                     (hTreasuryId header) policy (hPolicyCommitment header) of
                Inl e \<Rightarrow> (st', refuse a df (EncodingResult e))
              | Inr data \<Rightarrow> (st', accept a df data)))))"

section \<open>AUTHORIZE\_PAYMENT\<close>

definition is_uint64 :: "int \<Rightarrow> bool" where
  "is_uint64 i \<longleftrightarrow> 0 \<le> i \<and> i < 2 ^ 64"

text \<open>The result is None where Go would panic: the amount is used without a nil check.\<close>

definition handleAuthorizePayment ::
  "'k deps \<Rightarrow> 'k env \<Rightarrow> action \<Rightarrow> DataFixed \<Rightarrow> 'k extension \<Rightarrow> 'k extension \<times> ActionResult option" where
  "handleAuthorizePayment d ev a df st =
     (case DecodeHeaderAndPayload (dUnpack d) (OriginalMessage df) of
        Inl e \<Rightarrow> (st, Some (refuse a df (DecodingInstruction e)))
      | Inr (header, ciphertext) \<Rightarrow>
      if ciphertext = [] then (st, Some (refuse a df PayloadEmpty)) else
     (let payloadHash = Keccak256Hash (dKeccak d) ciphertext in
      case map_of (treasuries st) (int_string (hTreasuryId header)) of
        None \<Rightarrow> (st, Some (refuse a df (UnknownTreasury (hTreasuryId header))))
      | Some t \<Rightarrow>
      if hPolicyCommitment header \<noteq> tPolicyCommitment t then (st, Some (refuse a df PolicyDisagree)) else
     (case decrypt ev ciphertext of
        Inl e \<Rightarrow> (st, Some (refuse a df (Decrypting e)))
      | Inr plaintext \<Rightarrow>
     (case DecodePaymentInstruction (dUnpack d) plaintext of
        Inl e \<Rightarrow> (st, Some (refuse a df (DecodingPayment e)))
      | Inr pi \<Rightarrow>
     (case bindPayloadToHeader pi header of
        Some e \<Rightarrow> (st, Some (refuse a df e))
      | None \<Rightarrow>
     (case ValidateClassicAddress (piDestination pi) of
        Some e \<Rightarrow> (st, Some (refuse a df (BadDestination (piDestination pi) e)))
      | None \<Rightarrow>
      if piDestination pi = tAddress t then (st, Some (refuse a df DestinationIsTreasury)) else
     (case piAmountDrops pi of
        None \<Rightarrow> (st, None)
      | Some amount \<Rightarrow>
      if \<not> is_uint64 amount then (st, Some (refuse a df AmountNotUint64)) else
     (case checkPolicy (tPolicy t) amount of
        Some e \<Rightarrow> (st, Some (refuse a df e))
      | None \<Rightarrow>
          let st' = st\<lparr>authorizations := AList.update (int_string (hRequestId header))
                \<lparr>auTreasuryID = hTreasuryId header, auDestination = piDestination pi,
                 auAmountDrops = of_int amount, auTag = piDestinationTag pi,
                 auHasTag = piHasDestinationTag pi, auMemoRef = hMemoRef header,
                 auExpiresAt = hExpiresAt header, auPayloadHash = payloadHash\<rparr> (authorizations st)\<rparr>
          in (case EncodeAuthorization (dPack d) (hChainId header) (hController header)
                     (hRequestId header) (hMemoRef header) amount
                     (Keccak256String (dKeccak d) (piDestination pi)) payloadHash of
                Inl e \<Rightarrow> (st', Some (refuse a df (EncodingResult e)))
              | Inr data \<Rightarrow> (st', Some (accept a df data)))))))))))"

section \<open>SIGN\_XRPL\_PAYMENT\<close>

text \<open>The handler in its three parts: what it reads under the read lock (with the checks that only use
  it), the signature it computes with no lock held, and the deletion under the write lock.\<close>

definition sign_lookup ::
  "InstructionHeader \<Rightarrow> 'k extension \<Rightarrow> refusal + authorization \<times> 'k treasury" where
  "sign_lookup header st =
     (case map_of (authorizations st) (int_string (hRequestId header)) of
        None \<Rightarrow> Inl (NeverAuthorized (hRequestId header))
      | Some auth \<Rightarrow>
     (case map_of (treasuries st) (int_string (auTreasuryID auth)) of
        None \<Rightarrow> Inl (TreasuryNoKey (auTreasuryID auth))
      | Some t \<Rightarrow>
          if auMemoRef auth \<noteq> hMemoRef header then Inl MemoMismatch
          else if hTreasuryId header \<noteq> auTreasuryID auth then Inl TreasuryMismatch
          else Inr (auth, t)))"

definition sign_payment ::
  "'k deps \<Rightarrow> 'k env \<Rightarrow> authorization \<Rightarrow> 'k treasury \<Rightarrow> refusal + hash32 \<times> bytes" where
  "sign_payment d ev auth t =
     (case DecodeClassicAddress (auDestination auth) of
        Inl e \<Rightarrow> Inl (AuthorizedDestination e)
      | Inr destID \<Rightarrow>
     (case AccountSequence ev (tAddress t) of
        Inl e \<Rightarrow> Inl (ReadingSequence e)
      | Inr seq \<Rightarrow>
     (case CurrentLedger ev of
        Inl e \<Rightarrow> Inl (ReadingLedger e)
      | Inr current \<Rightarrow>
          let payment = \<lparr>pAccount = tAccountID t, pDestination = destID, pAmountDrops = auAmountDrops auth,
                pFeeDrops = DefaultFeeDrops, pSequence = seq,
                pLastLedgerSequence = lastLedgerFor (nowUnix ev) current (auExpiresAt auth),
                pDestinationTag = auTag auth, pHasDestinationTag = auHasTag auth,
                pMemo = memoBytes (auMemoRef auth), pSigningPubKey = dPubKey d (tKey t)\<rparr>
          in (case snd (Sign (dPubKey d) (dEcdsaSign d) payment (Some (tKey t))) of
                Inl e \<Rightarrow> Inl (SigningPayment e)
              | Inr s \<Rightarrow>
             (case hashFromHex (TxID s) of
                Inl e \<Rightarrow> Inl (ParsingTxID e)
              | Inr txID \<Rightarrow>
             (case bytesFromHex (TxBlob s) of
                Inl e \<Rightarrow> Inl (ParsingBlob e)
              | Inr blob \<Rightarrow> Inr (txID, blob)))))))"

definition sign_commit :: "InstructionHeader \<Rightarrow> 'k extension \<Rightarrow> 'k extension" where
  "sign_commit header st =
     st\<lparr>authorizations := AList.delete (int_string (hRequestId header)) (authorizations st)\<rparr>"

definition sign_result :: "'k deps \<Rightarrow> action \<Rightarrow> DataFixed \<Rightarrow> InstructionHeader \<Rightarrow> hash32 \<Rightarrow> bytes \<Rightarrow> ActionResult" where
  "sign_result d a df header txID blob =
     (case EncodeSignedPayment (dPack d) (hChainId header) (hController header) (hRequestId header)
             (hMemoRef header) txID blob of
        Inl e \<Rightarrow> refuse a df (EncodingResult e)
      | Inr data \<Rightarrow> accept a df data)"

definition handleSignPayment ::
  "'k deps \<Rightarrow> 'k env \<Rightarrow> action \<Rightarrow> DataFixed \<Rightarrow> 'k extension \<Rightarrow> 'k extension \<times> ActionResult" where
  "handleSignPayment d ev a df st =
     (case DecodeHeader (dUnpack d) (OriginalMessage df) of
        Inl e \<Rightarrow> (st, refuse a df (DecodingInstruction e))
      | Inr header \<Rightarrow>
     (case sign_lookup header st of
        Inl e \<Rightarrow> (st, refuse a df e)
      | Inr (auth, t) \<Rightarrow>
     (case sign_payment d ev auth t of
        Inl e \<Rightarrow> (st, refuse a df e)
      | Inr (txID, blob) \<Rightarrow> (sign_commit header st, sign_result d a df header txID blob))))"

section \<open>Dispatch and the state report\<close>

datatype http_body =
    Marshalled bytes | DecodingFixedData string | UnsupportedOpType hash32 | UnsupportedOpCommand hash32
  | MarshallingResult string

definition StatusOK :: nat where "StatusOK = 200"
definition StatusBadRequest :: nat where "StatusBadRequest = 400"
definition StatusInternalServerError :: nat where "StatusInternalServerError = 500"
definition StatusNotImplemented :: nat where "StatusNotImplemented = 501"

text \<open>The switch of \<open>processTreasury\<close>: None for its default branch, else the state and the handler's
  result, which is itself None where the handler panics.\<close>

definition run_command ::
  "'k deps \<Rightarrow> 'k env \<Rightarrow> action \<Rightarrow> DataFixed \<Rightarrow> 'k extension
     \<Rightarrow> ('k extension \<times> ActionResult option) option" where
  "run_command d ev a df st =
     (let ret = (\<lambda>(st', r). Some (st', Some r)) in
      if OPCommand df = dToHash d OPCommandCreateTreasuryKey then ret (handleCreateTreasuryKey d ev a df st)
      else if OPCommand df = dToHash d OPCommandRegisterPolicy then ret (handleRegisterPolicy d a df st)
      else if OPCommand df = dToHash d OPCommandAuthorizePayment
        then Some (handleAuthorizePayment d ev a df st)
      else if OPCommand df = dToHash d OPCommandSignXRPLPayment then ret (handleSignPayment d ev a df st)
      else None)"

definition processTreasury ::
  "'k deps \<Rightarrow> 'k env \<Rightarrow> action \<Rightarrow> DataFixed \<Rightarrow> 'k extension \<Rightarrow> 'k extension \<times> (nat \<times> http_body) option" where
  "processTreasury d ev a df st =
     (case run_command d ev a df st of
        None \<Rightarrow> (st, Some (StatusNotImplemented, UnsupportedOpCommand (OPCommand df)))
      | Some (st', None) \<Rightarrow> (st', None)
      | Some (st', Some result) \<Rightarrow>
          (case dMarshal d result of
             Inl e \<Rightarrow> (st', Some (StatusInternalServerError, MarshallingResult e))
           | Inr b \<Rightarrow> (st', Some (StatusOK, Marshalled b))))"

definition processAction ::
  "'k deps \<Rightarrow> 'k env \<Rightarrow> action \<Rightarrow> 'k extension \<Rightarrow> 'k extension \<times> (nat \<times> http_body) option" where
  "processAction d ev a st =
     (case dParse d (aMessage a) of
        Inl e \<Rightarrow> (st, Some (StatusBadRequest, DecodingFixedData e))
      | Inr df \<Rightarrow>
          if OPType df \<noteq> dToHash d OPTypeTreasury
          then (st, Some (StatusNotImplemented, UnsupportedOpType (OPType df)))
          else processTreasury d ev a df st)"

record State =
  TreasuryCount :: nat
  Addresses :: "(string \<times> string) list"
  PendingAuthorizations :: nat

definition stateHandler :: "'k deps \<Rightarrow> 'k extension \<Rightarrow> hash32 \<times> State" where
  "stateHandler d st =
     (dToHash d Version,
      \<lparr>TreasuryCount = length (treasuries st),
       Addresses = map (\<lambda>(tid, t). (tid, tAddress t)) (treasuries st),
       PendingAuthorizations = length (authorizations st)\<rparr>)"

end
