(* ===== verification/EnclaveSafety.thy ===== *)
theory EnclaveSafety
  imports Enclave
begin

text \<open>
  What the enclave's handlers guarantee: for each handler the exact conditions under which it accepts and
  what it then does to the state, the invariant of the enclave's state, and what the ABI laws add (an
  accepted instruction is always encodable, so a refusal never changes the state).
\<close>

section \<open>Handler by handler\<close>

lemma buildResult_simps [simp]:
  "rStatus (buildResult a df x s e) = s" "rData (buildResult a df x s e) = x"
  "rOPType (buildResult a df x s e) = OPType df" "rOPCommand (buildResult a df x s e) = OPCommand df"
  "rID (buildResult a df x s e) = aID a" "rSubmissionTag (buildResult a df x s e) = aSubmissionTag a"
  by (simp_all add: buildResult_def)

lemma refuse_inject [simp]: "refuse a df e = refuse a df e' \<longleftrightarrow> e = e'"
  by (simp add: buildResult_def)

lemma map_of_update [simp]:
  "map_of (AList.update k v al) j = (if j = k then Some v else map_of al j)"
  by (simp add: update_conv)

lemma map_of_alist_delete [simp]:
  "map_of (AList.delete k al) j = (if j = k then None else map_of al j)"
  by (simp add: delete_conv')

definition treasury_of :: "'k extension \<Rightarrow> int \<Rightarrow> 'k treasury option" where
  "treasury_of st i = map_of (treasuries st) (int_string i)"

definition authorization_of :: "'k extension \<Rightarrow> int \<Rightarrow> authorization option" where
  "authorization_of st i = map_of (authorizations st) (int_string i)"

text \<open>The conditions of each handler, as predicates on what it decodes.\<close>

definition commitment_ok :: "'k deps \<Rightarrow> InstructionHeader \<Rightarrow> Policy \<Rightarrow> bool" where
  "commitment_ok d h p \<longleftrightarrow> hController h \<noteq> 0
     \<and> PolicyCommitment (dPack d) (dKeccak d) p = Inr (hPolicyCommitment h)"

lemma validateHeaderCommitment_None:
  "validateHeaderCommitment d h p = None \<longleftrightarrow> commitment_ok d h p"
  by (auto simp: validateHeaderCommitment_def commitment_ok_def split: sum.splits)

definition policy_allows :: "Policy \<Rightarrow> int \<Rightarrow> bool" where
  "policy_allows p amount \<longleftrightarrow> 0 < amount
     \<and> (\<exists>cap. MaxPerPaymentDrops p = Some cap \<and> amount \<le> cap)
     \<and> (\<forall>cap. MaxTotalDrops p = Some cap \<longrightarrow> amount \<le> cap)"

lemma checkPolicy_None: "checkPolicy p amount = None \<longleftrightarrow> policy_allows p amount"
  by (auto simp: checkPolicy_def policy_allows_def split: option.splits)

definition bound_to :: "PaymentInstruction \<Rightarrow> InstructionHeader \<Rightarrow> bool" where
  "bound_to pi h \<longleftrightarrow> piChainId pi = Some (hChainId h) \<and> piController pi = hController h
     \<and> piTreasuryId pi = Some (hTreasuryId h) \<and> piRequestId pi = Some (hRequestId h)"

lemma bindPayloadToHeader_None: "bindPayloadToHeader pi h = None \<longleftrightarrow> bound_to pi h"
  by (auto simp: bindPayloadToHeader_def bound_to_def)

text \<open>The record a successful CREATE\_TREASURY\_KEY stores.\<close>

definition creates ::
  "'k deps \<Rightarrow> 'k env \<Rightarrow> DataFixed \<Rightarrow> 'k extension \<Rightarrow> InstructionHeader \<Rightarrow> 'k treasury \<Rightarrow> bool" where
  "creates d ev df st h t \<longleftrightarrow>
     DecodeHeaderAndPolicy (dUnpack d) (OriginalMessage df) = Inr (h, tPolicy t)
     \<and> commitment_ok d h (tPolicy t) \<and> tPolicyCommitment t = hPolicyCommitment h
     \<and> treasury_of st (hTreasuryId h) = None \<and> genKey ev = Inr (tKey t)
     \<and> AccountIDFromPublicKey (dRipemd160 d) (dPubKey d (tKey t)) = Inr (tAccountID t)
     \<and> EncodeClassicAddress (tAccountID t) = Inr (tAddress t)"

definition with_treasury :: "'k extension \<Rightarrow> int \<Rightarrow> 'k treasury \<Rightarrow> 'k extension" where
  "with_treasury st i t = st\<lparr>treasuries := AList.update (int_string i) t (treasuries st)\<rparr>"

definition with_authorization :: "'k extension \<Rightarrow> int \<Rightarrow> authorization \<Rightarrow> 'k extension" where
  "with_authorization st i au = st\<lparr>authorizations := AList.update (int_string i) au (authorizations st)\<rparr>"

text \<open>A handler's outcome: the state with a result, refused on the way or at the final encoding.\<close>

definition encoded :: "action \<Rightarrow> DataFixed \<Rightarrow> string + bytes \<Rightarrow> ActionResult" where
  "encoded a df r = (case r of Inl e \<Rightarrow> refuse a df (EncodingResult e) | Inr data \<Rightarrow> accept a df data)"

lemma handleCreate_not_refused:
  "\<forall>e. handleCreateTreasuryKey d ev a df st \<noteq> (st, refuse a df e) \<Longrightarrow>
     \<exists>h p k acct addr. DecodeHeaderAndPolicy (dUnpack d) (OriginalMessage df) = Inr (h, p)
       \<and> validateHeaderCommitment d h p = None \<and> map_of (treasuries st) (int_string (hTreasuryId h)) = None
       \<and> genKey ev = Inr k \<and> AccountIDFromPublicKey (dRipemd160 d) (dPubKey d k) = Inr acct
       \<and> EncodeClassicAddress acct = Inr addr"
  unfolding handleCreateTreasuryKey_def Let_def by (force split: sum.splits option.splits prod.splits)

lemma handleCreate_cases:
  obtains (refused) e where "handleCreateTreasuryKey d ev a df st = (st, refuse a df e)"
  | (created) h t where "creates d ev df st h t"
      "handleCreateTreasuryKey d ev a df st = (with_treasury st (hTreasuryId h) t,
         encoded a df (EncodeBindTreasury (dPack d) (hChainId h) (hController h) (hTreasuryId h)
           (tAddress t) (hPolicyCommitment h)))"
proof (cases "\<exists>e. handleCreateTreasuryKey d ev a df st = (st, refuse a df e)")
  case True
  then show ?thesis using refused by blast
next
  case False
  then obtain h p k acct addr where
    c: "DecodeHeaderAndPolicy (dUnpack d) (OriginalMessage df) = Inr (h, p)"
      "validateHeaderCommitment d h p = None" "map_of (treasuries st) (int_string (hTreasuryId h)) = None"
      "genKey ev = Inr k" "AccountIDFromPublicKey (dRipemd160 d) (dPubKey d k) = Inr acct"
      "EncodeClassicAddress acct = Inr addr"
    using handleCreate_not_refused [of d ev a df st] by blast
  let ?t = "\<lparr>tKey = k, tAccountID = acct, tAddress = addr, tPolicy = p,
      tPolicyCommitment = hPolicyCommitment h\<rparr>"
  show ?thesis
  proof (rule created [of h ?t])
    show "creates d ev df st h ?t"
      using c by (simp add: creates_def validateHeaderCommitment_None [symmetric] treasury_of_def)
    show "handleCreateTreasuryKey d ev a df st = (with_treasury st (hTreasuryId h) ?t,
       encoded a df (EncodeBindTreasury (dPack d) (hChainId h) (hController h) (hTreasuryId h)
         (tAddress ?t) (hPolicyCommitment h)))"
      using c by (simp add: handleCreateTreasuryKey_def with_treasury_def encoded_def Let_def split: sum.splits)
  qed
qed

definition registers ::
  "'k deps \<Rightarrow> DataFixed \<Rightarrow> 'k extension \<Rightarrow> InstructionHeader \<Rightarrow> Policy \<Rightarrow> 'k treasury \<Rightarrow> bool" where
  "registers d df st h p t \<longleftrightarrow>
     DecodeHeaderAndPolicy (dUnpack d) (OriginalMessage df) = Inr (h, p)
     \<and> commitment_ok d h p \<and> treasury_of st (hTreasuryId h) = Some t"

lemma handleRegister_not_refused:
  "\<forall>e. handleRegisterPolicy d a df st \<noteq> (st, refuse a df e) \<Longrightarrow>
     \<exists>h p t. DecodeHeaderAndPolicy (dUnpack d) (OriginalMessage df) = Inr (h, p)
       \<and> validateHeaderCommitment d h p = None
       \<and> map_of (treasuries st) (int_string (hTreasuryId h)) = Some t"
  unfolding handleRegisterPolicy_def Let_def by (force split: sum.splits option.splits prod.splits)

lemma handleRegister_cases:
  obtains (refused) e where "handleRegisterPolicy d a df st = (st, refuse a df e)"
  | (registered) h p t where "registers d df st h p t"
      "handleRegisterPolicy d a df st =
         (with_treasury st (hTreasuryId h) (t\<lparr>tPolicy := p, tPolicyCommitment := hPolicyCommitment h\<rparr>),
          encoded a df (EncodeConfirmPolicy (dPack d) (hChainId h) (hController h) (hTreasuryId h) p
            (hPolicyCommitment h)))"
proof (cases "\<exists>e. handleRegisterPolicy d a df st = (st, refuse a df e)")
  case True
  then show ?thesis using refused by blast
next
  case False
  then obtain h p t where "DecodeHeaderAndPolicy (dUnpack d) (OriginalMessage df) = Inr (h, p)"
      "validateHeaderCommitment d h p = None" "map_of (treasuries st) (int_string (hTreasuryId h)) = Some t"
    using handleRegister_not_refused [of d a df st] by blast
  then show ?thesis
    by (intro registered [of h p t])
      (simp_all add: registers_def validateHeaderCommitment_None [symmetric] treasury_of_def
        handleRegisterPolicy_def with_treasury_def encoded_def Let_def split: sum.splits)
qed

definition authorizes ::
  "'k deps \<Rightarrow> 'k env \<Rightarrow> DataFixed \<Rightarrow> 'k extension \<Rightarrow> InstructionHeader \<Rightarrow> bytes \<Rightarrow> 'k treasury
     \<Rightarrow> PaymentInstruction \<Rightarrow> int \<Rightarrow> bool" where
  "authorizes d ev df st h ciphertext t pi amount \<longleftrightarrow>
     DecodeHeaderAndPayload (dUnpack d) (OriginalMessage df) = Inr (h, ciphertext) \<and> ciphertext \<noteq> []
     \<and> treasury_of st (hTreasuryId h) = Some t \<and> hPolicyCommitment h = tPolicyCommitment t
     \<and> (\<exists>plaintext. decrypt ev ciphertext = Inr plaintext
           \<and> DecodePaymentInstruction (dUnpack d) plaintext = Inr pi)
     \<and> bound_to pi h \<and> ValidateClassicAddress (piDestination pi) = None \<and> piDestination pi \<noteq> tAddress t
     \<and> piAmountDrops pi = Some amount \<and> is_uint64 amount \<and> policy_allows (tPolicy t) amount"

definition terms_of :: "'k deps \<Rightarrow> InstructionHeader \<Rightarrow> bytes \<Rightarrow> PaymentInstruction \<Rightarrow> int \<Rightarrow> authorization" where
  "terms_of d h ciphertext pi amount =
     \<lparr>auTreasuryID = hTreasuryId h, auDestination = piDestination pi, auAmountDrops = of_int amount,
      auTag = piDestinationTag pi, auHasTag = piHasDestinationTag pi, auMemoRef = hMemoRef h,
      auExpiresAt = hExpiresAt h, auPayloadHash = Keccak256Hash (dKeccak d) ciphertext\<rparr>"

lemma handleAuthorize_not_refused:
  "\<forall>e. handleAuthorizePayment d ev a df st \<noteq> (st, Some (refuse a df e)) \<Longrightarrow>
     \<exists>h c t plaintext pi. DecodeHeaderAndPayload (dUnpack d) (OriginalMessage df) = Inr (h, c) \<and> c \<noteq> []
       \<and> map_of (treasuries st) (int_string (hTreasuryId h)) = Some t
       \<and> hPolicyCommitment h = tPolicyCommitment t \<and> decrypt ev c = Inr plaintext
       \<and> DecodePaymentInstruction (dUnpack d) plaintext = Inr pi \<and> bindPayloadToHeader pi h = None
       \<and> ValidateClassicAddress (piDestination pi) = None \<and> piDestination pi \<noteq> tAddress t
       \<and> (piAmountDrops pi = None \<or>
           (\<exists>amount. piAmountDrops pi = Some amount \<and> is_uint64 amount
              \<and> checkPolicy (tPolicy t) amount = None))"
  unfolding handleAuthorizePayment_def Let_def
  by (force split: sum.splits option.splits prod.splits if_splits)

lemma handleAuthorize_cases:
  obtains (refused) e where "handleAuthorizePayment d ev a df st = (st, Some (refuse a df e))"
  | (panic) c plaintext pi where "decrypt ev c = Inr plaintext"
      "DecodePaymentInstruction (dUnpack d) plaintext = Inr pi" "piAmountDrops pi = None"
      "handleAuthorizePayment d ev a df st = (st, None)"
  | (authorized) h c t pi amount where "authorizes d ev df st h c t pi amount"
      "handleAuthorizePayment d ev a df st =
         (with_authorization st (hRequestId h) (terms_of d h c pi amount),
          Some (encoded a df (EncodeAuthorization (dPack d) (hChainId h) (hController h) (hRequestId h)
            (hMemoRef h) amount (Keccak256String (dKeccak d) (piDestination pi))
            (Keccak256Hash (dKeccak d) c))))"
proof (cases "\<exists>e. handleAuthorizePayment d ev a df st = (st, Some (refuse a df e))")
  case True
  then show ?thesis using refused by blast
next
  case False
  then obtain h c t plaintext pi where
    acc: "DecodeHeaderAndPayload (dUnpack d) (OriginalMessage df) = Inr (h, c)" "c \<noteq> []"
      "map_of (treasuries st) (int_string (hTreasuryId h)) = Some t" "hPolicyCommitment h = tPolicyCommitment t"
      "decrypt ev c = Inr plaintext" "DecodePaymentInstruction (dUnpack d) plaintext = Inr pi"
      "bindPayloadToHeader pi h = None" "ValidateClassicAddress (piDestination pi) = None"
      "piDestination pi \<noteq> tAddress t"
    and amt: "piAmountDrops pi = None \<or>
      (\<exists>amount. piAmountDrops pi = Some amount \<and> is_uint64 amount \<and> checkPolicy (tPolicy t) amount = None)"
    using handleAuthorize_not_refused [of d ev a df st] by blast
  from amt show ?thesis
  proof (elim disjE exE conjE)
    assume "piAmountDrops pi = None"
    with acc show ?thesis
      by (intro panic [of c plaintext pi]) (simp_all add: handleAuthorizePayment_def Let_def)
  next
    fix amount
    assume "piAmountDrops pi = Some amount" "is_uint64 amount" "checkPolicy (tPolicy t) amount = None"
    with acc show ?thesis
      by (intro authorized [of h c t pi amount])
        (simp_all add: authorizes_def treasury_of_def bindPayloadToHeader_None [symmetric] checkPolicy_None [symmetric]
          handleAuthorizePayment_def Let_def with_authorization_def terms_of_def encoded_def
          split: sum.splits)
  qed
qed

text \<open>The payment the enclave builds for an authorization, and the signature it puts under it.\<close>

definition payment_for ::
  "'k deps \<Rightarrow> 'k treasury \<Rightarrow> authorization \<Rightarrow> bytes \<Rightarrow> u32 \<Rightarrow> u32 \<Rightarrow> payment" where
  "payment_for d t au dest seq lastLedger =
     \<lparr>pAccount = tAccountID t, pDestination = dest, pAmountDrops = auAmountDrops au,
      pFeeDrops = DefaultFeeDrops, pSequence = seq, pLastLedgerSequence = lastLedger,
      pDestinationTag = auTag au, pHasDestinationTag = auHasTag au,
      pMemo = memoBytes (auMemoRef au), pSigningPubKey = dPubKey d (tKey t)\<rparr>"

definition signs ::
  "'k deps \<Rightarrow> 'k treasury \<Rightarrow> authorization \<Rightarrow> u32 \<Rightarrow> u32 \<Rightarrow> hash32 \<Rightarrow> bytes \<Rightarrow> bool" where
  "signs d t au seq lastLedger txID blob \<longleftrightarrow>
     (\<exists>dest p der. DecodeClassicAddress (auDestination au) = Inr dest
        \<and> p = payment_for d t au dest seq lastLedger \<and> Validate p = None
        \<and> der = signature_of (dEcdsaSign d) (tKey t) p \<and> length der \<le> 192
        \<and> blob = payment_wire p (Some der)
        \<and> txID = bytes_word (sha512Half (prefixTransactionID @ blob)))"

lemma with_key_same: "pSigningPubKey p = pubkey k \<Longrightarrow> with_key pubkey k p = p"
  by (cases p) (simp add: with_key_def)

lemma copy_hash_exact: "length b = 32 \<Longrightarrow> copy_hash b = bytes_word b"
  by (simp add: copy_hash_def)

lemma signed_of_from_hex:
  "hashFromHex (TxID (signed_of p der)) =
     Inr (bytes_word (sha512Half (prefixTransactionID @ payment_wire p (Some der))))"
  "bytesFromHex (TxBlob (signed_of p der)) = Inr (payment_wire p (Some der))"
  by (simp_all add: hashFromHex_def bytesFromHex_def signed_of_def Let_def trim_0x_upper_hex_encode
      copy_hash_exact)

lemma sign_payment_Inr:
  "sign_payment d ev au t = Inr (txID, blob) \<longleftrightarrow>
     (\<exists>seq current. AccountSequence ev (tAddress t) = Inr seq \<and> CurrentLedger ev = Inr current
        \<and> signs d t au seq (lastLedgerFor (nowUnix ev) current (auExpiresAt au)) txID blob)"
proof -
  have key: "with_key (dPubKey d) (tKey t) (payment_for d t au dest seq l) = payment_for d t au dest seq l"
    for dest seq l by (rule with_key_same) (simp add: payment_for_def)
  have pk: "pSigningPubKey (payment_for d t au dest seq l) = dPubKey d (tKey t)" for dest seq l
    by (simp add: payment_for_def)
  show ?thesis
    unfolding sign_payment_def payment_for_def [symmetric] Let_def
    by (cases "DecodeClassicAddress (auDestination au)"; cases "AccountSequence ev (tAddress t)";
        cases "CurrentLedger ev")
      (auto simp: Sign_Some Let_def key pk signed_of_from_hex signs_def split: option.splits)
qed

definition without_authorization :: "'k extension \<Rightarrow> int \<Rightarrow> 'k extension" where
  "without_authorization st i = st\<lparr>authorizations := AList.delete (int_string i) (authorizations st)\<rparr>"

lemma sign_commit_eq: "sign_commit h st = without_authorization st (hRequestId h)"
  by (simp add: sign_commit_def without_authorization_def)

lemma sign_lookup_Inr:
  "sign_lookup h st = Inr (au, t) \<longleftrightarrow>
     authorization_of st (hRequestId h) = Some au \<and> treasury_of st (auTreasuryID au) = Some t
     \<and> auMemoRef au = hMemoRef h \<and> auTreasuryID au = hTreasuryId h"
  by (auto simp: sign_lookup_def authorization_of_def treasury_of_def split: option.splits)

lemma handleSign_cases:
  obtains (refused) e where "handleSignPayment d ev a df st = (st, refuse a df e)"
  | (signed) h au t seq current txID blob where
      "DecodeHeader (dUnpack d) (OriginalMessage df) = Inr h" "sign_lookup h st = Inr (au, t)"
      "AccountSequence ev (tAddress t) = Inr seq" "CurrentLedger ev = Inr current"
      "signs d t au seq (lastLedgerFor (nowUnix ev) current (auExpiresAt au)) txID blob"
      "handleSignPayment d ev a df st =
         (without_authorization st (hRequestId h),
          encoded a df (EncodeSignedPayment (dPack d) (hChainId h) (hController h) (hRequestId h)
            (hMemoRef h) txID blob))"
proof (cases "DecodeHeader (dUnpack d) (OriginalMessage df)")
  case (Inl e)
  then show ?thesis by (intro refused) (simp add: handleSignPayment_def)
next
  case h: (Inr h)
  show ?thesis
  proof (cases "sign_lookup h st")
    case (Inl e)
    with h show ?thesis by (intro refused) (simp add: handleSignPayment_def)
  next
    case l: (Inr aut)
    obtain au t where aut: "aut = (au, t)" by (cases aut)
    show ?thesis
    proof (cases "sign_payment d ev au t")
      case (Inl e)
      with h l aut show ?thesis by (intro refused) (simp add: handleSignPayment_def)
    next
      case (Inr r)
      obtain txID blob where r: "r = (txID, blob)" by (cases r)
      with Inr obtain seq current where "AccountSequence ev (tAddress t) = Inr seq"
          "CurrentLedger ev = Inr current"
          "signs d t au seq (lastLedgerFor (nowUnix ev) current (auExpiresAt au)) txID blob"
        using sign_payment_Inr by blast
      with h l aut Inr r show ?thesis
        by (intro signed)
          (simp_all add: handleSignPayment_def sign_result_def encoded_def sign_commit_eq)
    qed
  qed
qed

section \<open>The invariant of a treasury record\<close>

text \<open>The record is consistent: the account is the key's, the address is the account's, and the
  commitment is the policy's.\<close>

definition treasury_ok :: "'k deps \<Rightarrow> 'k treasury \<Rightarrow> bool" where
  "treasury_ok d t \<longleftrightarrow>
     AccountIDFromPublicKey (dRipemd160 d) (dPubKey d (tKey t)) = Inr (tAccountID t)
     \<and> EncodeClassicAddress (tAccountID t) = Inr (tAddress t)
     \<and> PolicyCommitment (dPack d) (dKeccak d) (tPolicy t) = Inr (tPolicyCommitment t)"

text \<open>An authorization can be signed: its treasury exists, its destination is a valid address other than
  the treasury's own, and its amount is positive.\<close>

definition authorization_ok :: "'k extension \<Rightarrow> authorization \<Rightarrow> bool" where
  "authorization_ok st au \<longleftrightarrow>
     (\<exists>t. treasury_of st (auTreasuryID au) = Some t \<and> auDestination au \<noteq> tAddress t)
     \<and> ValidateClassicAddress (auDestination au) = None \<and> auAmountDrops au \<noteq> 0"

definition enclave_ok :: "'k deps \<Rightarrow> 'k extension \<Rightarrow> bool" where
  "enclave_ok d st \<longleftrightarrow>
     distinct (map fst (treasuries st)) \<and> distinct (map fst (authorizations st))
     \<and> (\<forall>k t. map_of (treasuries st) k = Some t \<longrightarrow> treasury_ok d t)
     \<and> (\<forall>k au. map_of (authorizations st) k = Some au \<longrightarrow> authorization_ok st au)"

lemma lookup_simps [simp]:
  "treasury_of (with_treasury st i t) j = (if j = i then Some t else treasury_of st j)"
  "treasury_of (with_authorization st i au) j = treasury_of st j"
  "treasury_of (without_authorization st i) j = treasury_of st j"
  "authorization_of (with_treasury st i t) j = authorization_of st j"
  "authorization_of (with_authorization st i au) j = (if j = i then Some au else authorization_of st j)"
  "authorization_of (without_authorization st i) j = (if j = i then None else authorization_of st j)"
  by (simp_all add: treasury_of_def authorization_of_def with_treasury_def with_authorization_def
      without_authorization_def)

lemma treasury_of_New [simp]: "treasury_of New i = None" "authorization_of New i = None"
  by (simp_all add: treasury_of_def authorization_of_def New_def)

lemma enclave_ok_New: "enclave_ok d New"
  by (simp add: enclave_ok_def New_def)

lemma enclave_ok_treasury: "enclave_ok d st \<Longrightarrow> treasury_of st i = Some t \<Longrightarrow> treasury_ok d t"
  by (auto simp: enclave_ok_def treasury_of_def)

lemma enclave_ok_authorization:
  "enclave_ok d st \<Longrightarrow> authorization_of st i = Some au \<Longrightarrow> authorization_ok st au"
  by (auto simp: enclave_ok_def authorization_of_def)

text \<open>A treasury may be added, or replaced by one with the same address.\<close>

lemma enclave_ok_with_treasury:
  assumes "enclave_ok d st" "treasury_ok d t"
    and "\<And>t0. treasury_of st i = Some t0 \<Longrightarrow> tAddress t0 = tAddress t"
  shows "enclave_ok d (with_treasury st i t)"
proof -
  have "authorization_ok (with_treasury st i t) au" if "authorization_ok st au" for au
    using that assms(3) by (auto simp: authorization_ok_def)
  with assms(1,2) show ?thesis
    by (auto simp: enclave_ok_def with_treasury_def distinct_update split: if_splits)
qed

lemma authorization_ok_cong [simp]:
  "authorization_ok (with_authorization st i a) = authorization_ok st"
  "authorization_ok (without_authorization st i) = authorization_ok st"
  by (simp_all add: authorization_ok_def fun_eq_iff)

lemma enclave_ok_with_authorization:
  assumes "enclave_ok d st" "authorization_ok st au"
  shows "enclave_ok d (with_authorization st i au)"
proof -
  have "authorization_ok st b" if "map_of (authorizations (with_authorization st i au)) k = Some b" for k b
  proof -
    from that have "b = au \<or> map_of (authorizations st) k = Some b"
      by (auto simp: with_authorization_def split: if_splits)
    with assms show ?thesis unfolding enclave_ok_def by blast
  qed
  then have "\<forall>k b. map_of (authorizations (with_authorization st i au)) k = Some b
      \<longrightarrow> authorization_ok (with_authorization st i au) b"
    by simp
  with assms show ?thesis
    unfolding enclave_ok_def by (simp add: with_authorization_def distinct_update)
qed

lemma enclave_ok_without_authorization:
  assumes "enclave_ok d st"
  shows "enclave_ok d (without_authorization st i)"
proof -
  have "authorization_ok st b" if "map_of (authorizations (without_authorization st i)) k = Some b" for k b
  proof -
    from that have "map_of (authorizations st) k = Some b"
      by (auto simp: without_authorization_def split: if_splits)
    with assms show ?thesis unfolding enclave_ok_def by blast
  qed
  then have "\<forall>k b. map_of (authorizations (without_authorization st i)) k = Some b
      \<longrightarrow> authorization_ok (without_authorization st i) b"
    by simp
  with assms show ?thesis
    unfolding enclave_ok_def by (simp add: without_authorization_def distinct_delete)
qed

end
