(* ===== verification/EnclaveTrace.thy ===== *)
theory EnclaveTrace
  imports EnclaveSafety
begin

text \<open>
  The enclave as a labelled transition system.  \<open>enclave_step\<close> says what an instruction may do to the
  state, without codecs, hashes of instructions or error reports; the handlers are shown to refine it,
  results included.  Safety over whole runs is proved by rule induction on the abstract system.
\<close>

section \<open>The abstract system\<close>

datatype 'k event =
    Idle
  | Created int "'k treasury"
  | Registered int Policy hash32
  | Authorized int authorization
  | Signed int authorization "'k treasury" hash32 bytes

inductive enclave_step :: "'k deps \<Rightarrow> 'k extension \<Rightarrow> 'k event \<Rightarrow> 'k extension \<Rightarrow> bool" for d where
  idle: "enclave_step d st Idle st"
| create: "treasury_of st i = None \<Longrightarrow> treasury_ok d t \<Longrightarrow> enclave_step d st (Created i t) (with_treasury st i t)"
| register: "treasury_of st i = Some t \<Longrightarrow> PolicyCommitment (dPack d) (dKeccak d) p = Inr c \<Longrightarrow>
    enclave_step d st (Registered i p c) (with_treasury st i (t\<lparr>tPolicy := p, tPolicyCommitment := c\<rparr>))"
| authorize: "treasury_of st (auTreasuryID au) = Some t \<Longrightarrow> policy_allows (tPolicy t) (uint (auAmountDrops au)) \<Longrightarrow>
    ValidateClassicAddress (auDestination au) = None \<Longrightarrow> auDestination au \<noteq> tAddress t \<Longrightarrow>
    enclave_step d st (Authorized i au) (with_authorization st i au)"
| sign: "authorization_of st i = Some au \<Longrightarrow> treasury_of st (auTreasuryID au) = Some t \<Longrightarrow>
    signs d t au seq lastLedger txID blob \<Longrightarrow>
    enclave_step d st (Signed i au t txID blob) (without_authorization st i)"

inductive_cases idleE [elim!]: "enclave_step d st Idle st'"
inductive_cases createdE [elim!]: "enclave_step d st (Created i t) st'"
inductive_cases registeredE [elim!]: "enclave_step d st (Registered i p c) st'"
inductive_cases authorizedE [elim!]: "enclave_step d st (Authorized i au) st'"
inductive_cases signedE [elim!]: "enclave_step d st (Signed i au t txID blob) st'"

inductive enclave_trace :: "'k deps \<Rightarrow> 'k extension \<Rightarrow> 'k event list \<Rightarrow> 'k extension \<Rightarrow> bool" for d where
  none: "enclave_trace d st [] st"
| snoc: "enclave_trace d st evts st' \<Longrightarrow> enclave_step d st' e st'' \<Longrightarrow> enclave_trace d st (evts @ [e]) st''"

lemma enclave_trace_Cons:
  assumes "enclave_trace d st' evts st''" "enclave_step d st e st'"
  shows "enclave_trace d st (e # evts) st''"
  using assms
proof (induction rule: enclave_trace.induct)
  case (none st')
  then show ?case using enclave_trace.snoc [OF enclave_trace.none, of d st e st'] by simp
next
  case (snoc st' evts st1 e1 st2)
  then show ?case using enclave_trace.snoc [of d st "e # evts" st1 e1 st2] by simp
qed

section \<open>Invariants of the abstract system\<close>

lemma step_preserves_ok: "enclave_step d st e st' \<Longrightarrow> enclave_ok d st \<Longrightarrow> enclave_ok d st'"
proof (induction rule: enclave_step.induct)
  case (idle st)
  then show ?case .
next
  case (create st i t)
  then show ?case by (intro enclave_ok_with_treasury) auto
next
  case (register st i t p c)
  then have "treasury_ok d t" by (simp add: enclave_ok_treasury)
  with register show ?case
    by (intro enclave_ok_with_treasury) (auto simp: treasury_ok_def)
next
  case (authorize st au t i)
  then have "authorization_ok st au" by (auto simp: authorization_ok_def policy_allows_def)
  with authorize show ?case by (intro enclave_ok_with_authorization)
next
  case (sign st i au t seq lastLedger txID blob)
  then show ?case by (intro enclave_ok_without_authorization)
qed

lemma trace_preserves_ok: "enclave_trace d st evts st' \<Longrightarrow> enclave_ok d st \<Longrightarrow> enclave_ok d st'"
  by (induction rule: enclave_trace.induct) (auto intro: step_preserves_ok)

text \<open>Nothing removes a treasury or changes its key, account or address.\<close>

definition same_key :: "'k treasury \<Rightarrow> 'k treasury \<Rightarrow> bool" where
  "same_key t u \<longleftrightarrow> tKey t = tKey u \<and> tAccountID t = tAccountID u \<and> tAddress t = tAddress u"

lemma same_key_refl [simp]: "same_key t t"
  by (simp add: same_key_def)

lemma same_key_trans: "same_key t u \<Longrightarrow> same_key u v \<Longrightarrow> same_key t v"
  by (simp add: same_key_def)

lemma same_key_policy [simp]: "same_key t (t\<lparr>tPolicy := p, tPolicyCommitment := c\<rparr>)"
  by (simp add: same_key_def)

lemma step_keeps_treasury:
  "enclave_step d st e st' \<Longrightarrow> treasury_of st i = Some t \<Longrightarrow> \<exists>u. treasury_of st' i = Some u \<and> same_key t u"
  by (induction rule: enclave_step.induct) auto

lemma trace_keeps_treasury:
  "enclave_trace d st evts st' \<Longrightarrow> treasury_of st i = Some t \<Longrightarrow>
     \<exists>u. treasury_of st' i = Some u \<and> same_key t u"
proof (induction rule: enclave_trace.induct)
  case (none st)
  then show ?case by simp
next
  case (snoc st evts st' e st'')
  then obtain u where "treasury_of st' i = Some u" "same_key t u" by blast
  with step_keeps_treasury [OF snoc.hyps(2)] show ?case by (meson same_key_trans)
qed

text \<open>A pending authorization is the last thing that happened to its request.\<close>

fun about :: "int \<Rightarrow> 'k event \<Rightarrow> bool" where
  "about i (Authorized j _) = (j = i)"
| "about i (Signed j _ _ _ _) = (j = i)"
| "about i _ = False"

fun next_pending :: "int \<Rightarrow> 'k event \<Rightarrow> authorization option \<Rightarrow> authorization option" where
  "next_pending i (Authorized j au) p = (if j = i then Some au else p)"
| "next_pending i (Signed j _ _ _ _) p = (if j = i then None else p)"
| "next_pending i _ p = p"

definition pending :: "'k event list \<Rightarrow> int \<Rightarrow> authorization option" where
  "pending evts i = fold (next_pending i) evts None"

lemma pending_simps [simp]:
  "pending [] i = None" "pending (evts @ [e]) i = next_pending i e (pending evts i)"
  by (simp_all add: pending_def)

lemma step_authorization_of:
  "enclave_step d st e st' \<Longrightarrow> authorization_of st' i = next_pending i e (authorization_of st i)"
  by (induction rule: enclave_step.induct) auto

lemma trace_pending: "enclave_trace d st evts st' \<Longrightarrow> st = New \<Longrightarrow> authorization_of st' i = pending evts i"
  by (induction rule: enclave_trace.induct) (auto simp: step_authorization_of)

lemma pending_Some:
  "pending evts i = Some au \<Longrightarrow>
     \<exists>m < length evts. evts ! m = Authorized i au \<and> (\<forall>k. m < k \<and> k < length evts \<longrightarrow> \<not> about i (evts ! k))"
proof (induction evts rule: rev_induct)
  case Nil
  then show ?case by simp
next
  case (snoc e evts)
  show ?case
  proof (cases "about i e")
    case True
    with snoc.prems have "e = Authorized i au" by (cases e) (auto split: if_splits)
    then show ?thesis by (intro exI [of _ "length evts"]) auto
  next
    case False
    with snoc.prems have "pending evts i = Some au" by (cases e) (auto split: if_splits)
    from snoc.IH [OF this] obtain m where m: "m < length evts" "evts ! m = Authorized i au"
        "\<forall>k. m < k \<and> k < length evts \<longrightarrow> \<not> about i (evts ! k)" by blast
    with False show ?thesis
      by (intro exI [of _ m]) (auto simp: nth_append less_Suc_eq)
  qed
qed

text \<open>Every signature follows the authorization it carries out, with nothing about the request between.\<close>

definition authorized_first :: "'k event list \<Rightarrow> bool" where
  "authorized_first evts \<longleftrightarrow> (\<forall>n i au t txID blob. n < length evts \<longrightarrow> evts ! n = Signed i au t txID blob \<longrightarrow>
     (\<exists>m < n. evts ! m = Authorized i au \<and> (\<forall>k. m < k \<and> k < n \<longrightarrow> \<not> about i (evts ! k))))"

lemma trace_authorized_first: "enclave_trace d st evts st' \<Longrightarrow> st = New \<Longrightarrow> authorized_first evts"
proof (induction rule: enclave_trace.induct)
  case (none st)
  then show ?case by (simp add: authorized_first_def)
next
  case (snoc st evts st' e st'')
  have last: "\<exists>m < length evts. evts ! m = Authorized i au
      \<and> (\<forall>k. m < k \<and> k < length evts \<longrightarrow> \<not> about i (evts ! k))"
    if "e = Signed i au t txID blob" for i au t txID blob
  proof -
    from snoc.hyps(2) that have "authorization_of st' i = Some au" by auto
    with trace_pending [OF snoc.hyps(1) snoc.prems] show ?thesis by (intro pending_Some) simp
  qed
  show ?case
    unfolding authorized_first_def
  proof (intro allI impI)
    fix n i au t txID blob
    assume n: "n < length (evts @ [e])" and s: "(evts @ [e]) ! n = Signed i au t txID blob"
    show "\<exists>m<n. (evts @ [e]) ! m = Authorized i au
        \<and> (\<forall>k. m < k \<and> k < n \<longrightarrow> \<not> about i ((evts @ [e]) ! k))"
    proof (cases "n < length evts")
      case True
      with s have "evts ! n = Signed i au t txID blob" by (simp add: nth_append)
      with True snoc.IH [OF snoc.prems] obtain m where "m < n" "evts ! m = Authorized i au"
          "\<forall>k. m < k \<and> k < n \<longrightarrow> \<not> about i (evts ! k)"
        unfolding authorized_first_def by blast
      with True show ?thesis by (intro exI [of _ m]) (auto simp: nth_append)
    next
      case False
      with n s have "n = length evts" "e = Signed i au t txID blob" by (auto simp: nth_append)
      with last show ?thesis by (auto simp: nth_append)
    qed
  qed
qed

text \<open>So a request is never signed more often than it was authorized.\<close>

definition count_signed :: "int \<Rightarrow> 'k event list \<Rightarrow> nat" where
  "count_signed i evts = length (filter (\<lambda>e. \<exists>au t h b. e = Signed i au t h b) evts)"

definition count_authorized :: "int \<Rightarrow> 'k event list \<Rightarrow> nat" where
  "count_authorized i evts = length (filter (\<lambda>e. \<exists>au. e = Authorized i au) evts)"

lemma trace_counts:
  "enclave_trace d st evts st' \<Longrightarrow> st = New \<Longrightarrow>
     count_signed i evts + (if authorization_of st' i = None then 0 else 1) \<le> count_authorized i evts"
proof (induction rule: enclave_trace.induct)
  case (none st)
  then show ?case by (simp add: count_signed_def count_authorized_def)
next
  case (snoc st evts st' e st'')
  from snoc.hyps(2) snoc.IH [OF snoc.prems] show ?case
    by (cases rule: enclave_step.cases) (auto simp: count_signed_def count_authorized_def)
qed

section \<open>The handlers refine the abstract system\<close>

text \<open>What a result says about the event it reports: a refusal has status 0 and no data; an acceptance
  has status 1 and the encoding of the event under the header of the instruction.\<close>

fun published :: "'k deps \<Rightarrow> DataFixed \<Rightarrow> 'k event \<Rightarrow> ActionResult \<Rightarrow> bool" where
  "published d df Idle r \<longleftrightarrow> rStatus r = 0 \<and> rData r = None"
| "published d df (Created i t) r \<longleftrightarrow> rStatus r = 1 \<and> OPCommand df = dToHash d OPCommandCreateTreasuryKey \<and>
     (\<exists>h data. hTreasuryId h = i \<and> rData r = Some data \<and>
        DecodeHeaderAndPolicy (dUnpack d) (OriginalMessage df) = Inr (h, tPolicy t) \<and>
        EncodeBindTreasury (dPack d) (hChainId h) (hController h) i (tAddress t) (tPolicyCommitment t) = Inr data)"
| "published d df (Registered i p c) r \<longleftrightarrow> rStatus r = 1 \<and> OPCommand df = dToHash d OPCommandRegisterPolicy \<and>
     (\<exists>h data. hTreasuryId h = i \<and> rData r = Some data \<and>
        DecodeHeaderAndPolicy (dUnpack d) (OriginalMessage df) = Inr (h, p) \<and>
        EncodeConfirmPolicy (dPack d) (hChainId h) (hController h) i p c = Inr data)"
| "published d df (Authorized i au) r \<longleftrightarrow> rStatus r = 1 \<and> OPCommand df = dToHash d OPCommandAuthorizePayment \<and>
     (\<exists>h c data. hRequestId h = i \<and> rData r = Some data \<and>
        DecodeHeaderAndPayload (dUnpack d) (OriginalMessage df) = Inr (h, c) \<and>
        auMemoRef au = hMemoRef h \<and> auTreasuryID au = hTreasuryId h \<and> auExpiresAt au = hExpiresAt h \<and>
        EncodeAuthorization (dPack d) (hChainId h) (hController h) i (auMemoRef au)
          (uint (auAmountDrops au)) (Keccak256String (dKeccak d) (auDestination au)) (auPayloadHash au) = Inr data)"
| "published d df (Signed i au t txID blob) r \<longleftrightarrow> rStatus r = 1 \<and> OPCommand df = dToHash d OPCommandSignXRPLPayment \<and>
     (\<exists>h data. hRequestId h = i \<and> rData r = Some data \<and>
        DecodeHeader (dUnpack d) (OriginalMessage df) = Inr h \<and>
        auMemoRef au = hMemoRef h \<and> auTreasuryID au = hTreasuryId h \<and>
        EncodeSignedPayment (dPack d) (hChainId h) (hController h) i (auMemoRef au) txID blob = Inr data)"

lemma uint_of_amount: "is_uint64 amount \<Longrightarrow> uint (of_int amount :: u64) = amount"
  by (simp add: is_uint64_def uint_word_of_int_eq take_bit_int_eq_self_iff)

lemma encoded_ok: "r = Inr data \<Longrightarrow> encoded a df r = accept a df data"
  by (simp add: encoded_def)

text \<open>The state part needs no assumption on the environment.\<close>

lemma create_event: "creates d ev df st h t \<Longrightarrow>
    enclave_step d st (Created (hTreasuryId h) t) (with_treasury st (hTreasuryId h) t)"
  by (auto simp: creates_def treasury_ok_def commitment_ok_def intro: enclave_step.create)

lemma register_event: "registers d df st h p t \<Longrightarrow>
    enclave_step d st (Registered (hTreasuryId h) p (hPolicyCommitment h))
      (with_treasury st (hTreasuryId h) (t\<lparr>tPolicy := p, tPolicyCommitment := hPolicyCommitment h\<rparr>))"
  by (auto simp: registers_def commitment_ok_def intro: enclave_step.register)

lemma authorize_event:
  assumes "authorizes d ev df st h c t pi amount"
  shows "enclave_step d st (Authorized (hRequestId h) (terms_of d h c pi amount))
    (with_authorization st (hRequestId h) (terms_of d h c pi amount))"
  using assms
  by (intro enclave_step.authorize [where t = t])
    (auto simp: authorizes_def terms_of_def uint_of_amount)

lemma sign_event:
  assumes "sign_lookup h st = Inr (au, t)" "signs d t au seq lastLedger txID blob"
  shows "enclave_step d st (Signed (hRequestId h) au t txID blob) (without_authorization st (hRequestId h))"
  using assms by (auto simp: sign_lookup_Inr intro: enclave_step.sign)

lemmas handler_events = create_event register_event authorize_event sign_event

lemma run_command_step:
  assumes "run_command d ev a df st = Some (st', ro)"
  shows "\<exists>e. enclave_step d st e st'"
proof -
  have create: "\<exists>e. enclave_step d st e (fst (handleCreateTreasuryKey d ev a df st))"
    by (rule handleCreate_cases [of d ev a df st]) (auto intro: enclave_step.idle create_event)
  have register: "\<exists>e. enclave_step d st e (fst (handleRegisterPolicy d a df st))"
    by (rule handleRegister_cases [of d a df st]) (auto intro: enclave_step.idle register_event)
  have auth: "\<exists>e. enclave_step d st e (fst (handleAuthorizePayment d ev a df st))"
    by (rule handleAuthorize_cases [of d ev a df st]) (auto intro: enclave_step.idle authorize_event)
  have sign: "\<exists>e. enclave_step d st e (fst (handleSignPayment d ev a df st))"
    by (rule handleSign_cases [of d ev a df st]) (auto intro: enclave_step.idle sign_event)
  from assms create register auth sign show ?thesis
    by (auto simp: run_command_def Let_def split: if_splits prod.splits)
qed

lemma processAction_step: "\<exists>e. enclave_step d st e (fst (processAction d ev a st))"
proof (cases "dParse d (aMessage a)")
  case (Inl e)
  then show ?thesis by (auto simp: processAction_def intro: enclave_step.idle)
next
  case (Inr df)
  show ?thesis
  proof (cases "run_command d ev a df st")
    case None
    with Inr show ?thesis
      by (auto simp: processAction_def processTreasury_def intro: enclave_step.idle)
  next
    case (Some sr)
    obtain st' ro where sr: "sr = (st', ro)" by (cases sr)
    with Some obtain e where "enclave_step d st e st'" using run_command_step by blast
    with Inr Some sr show ?thesis
      by (auto simp: processAction_def processTreasury_def intro: enclave_step.idle
          split: option.splits sum.splits)
  qed
qed

section \<open>Runs of the server\<close>

fun run :: "'k deps \<Rightarrow> ('k env \<times> action) list \<Rightarrow> 'k extension
    \<Rightarrow> 'k extension \<times> (nat \<times> http_body) option list" where
  "run d [] st = (st, [])"
| "run d ((ev, a) # ins) st =
     (let (st', out) = processAction d ev a st; (st'', outs) = run d ins st' in (st'', out # outs))"

lemma run_Cons_fst: "fst (run d ((ev, a) # ins) st) = fst (run d ins (fst (processAction d ev a st)))"
  by (simp add: split_beta Let_def)

lemma run_trace: "\<exists>evts. enclave_trace d st evts (fst (run d ins st))"
proof (induction ins arbitrary: st)
  case Nil
  then show ?case by (auto intro: enclave_trace.none)
next
  case (Cons i ins)
  obtain ev a where i: "i = (ev, a)" by (cases i)
  from Cons.IH [of "fst (processAction d ev a st)"] processAction_step [of d st ev a] show ?case
    by (auto simp: i run_Cons_fst simp del: run.simps intro: enclave_trace_Cons)
qed

section \<open>Results, from the ABI laws\<close>

abbreviation abi_deps :: "'k deps \<Rightarrow> bool" where
  "abi_deps d \<equiv> abi_codec (dPack d) (dUnpack d)"

lemma create_published:
  assumes "abi_deps d" "OPCommand df = dToHash d OPCommandCreateTreasuryKey" "creates d ev df st h t"
    and "r = encoded a df (EncodeBindTreasury (dPack d) (hChainId h) (hController h) (hTreasuryId h)
      (tAddress t) (hPolicyCommitment h))"
  shows "published d df (Created (hTreasuryId h) t) r"
proof -
  from assms(3) have dec: "DecodeHeaderAndPolicy (dUnpack d) (OriginalMessage df) = Inr (h, tPolicy t)"
    and c: "tPolicyCommitment t = hPolicyCommitment h"
    by (auto simp: creates_def)
  have "header_ok h" using abi_codec.decoded_header_policy [OF assms(1) dec] by simp
  then obtain data where "EncodeBindTreasury (dPack d) (hChainId h) (hController h) (hTreasuryId h)
      (tAddress t) (hPolicyCommitment h) = Inr data"
    using abi_codec.bind_treasury_total [OF assms(1)] unfolding header_ok_def by blast
  with dec c assms(2,4) show ?thesis by (auto simp: encoded_ok)
qed

lemma register_published:
  assumes "abi_deps d" "OPCommand df = dToHash d OPCommandRegisterPolicy" "registers d df st h p t"
    and "r = encoded a df (EncodeConfirmPolicy (dPack d) (hChainId h) (hController h) (hTreasuryId h) p
      (hPolicyCommitment h))"
  shows "published d df (Registered (hTreasuryId h) p (hPolicyCommitment h)) r"
proof -
  from assms(3) have dec: "DecodeHeaderAndPolicy (dUnpack d) (OriginalMessage df) = Inr (h, p)"
    by (auto simp: registers_def)
  have "header_ok h" "policy_ok p" using abi_codec.decoded_header_policy [OF assms(1) dec] by simp_all
  then obtain data where "EncodeConfirmPolicy (dPack d) (hChainId h) (hController h) (hTreasuryId h) p
      (hPolicyCommitment h) = Inr data"
    using abi_codec.confirm_policy_total [OF assms(1)] unfolding header_ok_def by blast
  with dec assms(2,4) show ?thesis by (auto simp: encoded_ok)
qed

lemma authorize_published:
  assumes "abi_deps d" "OPCommand df = dToHash d OPCommandAuthorizePayment" "authorizes d ev df st h c t pi amount"
    and "r = encoded a df (EncodeAuthorization (dPack d) (hChainId h) (hController h) (hRequestId h)
      (hMemoRef h) amount (Keccak256String (dKeccak d) (piDestination pi)) (Keccak256Hash (dKeccak d) c))"
  shows "published d df (Authorized (hRequestId h) (terms_of d h c pi amount)) r"
proof -
  from assms(3) have dec: "DecodeHeaderAndPayload (dUnpack d) (OriginalMessage df) = Inr (h, c)"
    and u: "is_uint64 amount"
    by (auto simp: authorizes_def)
  from u have "uint256 amount" by (simp add: is_uint64_def)
  moreover have "header_ok h" using abi_codec.decoded_header_payload [OF assms(1) dec] .
  ultimately obtain data where "EncodeAuthorization (dPack d) (hChainId h) (hController h) (hRequestId h)
      (hMemoRef h) amount (Keccak256String (dKeccak d) (piDestination pi)) (Keccak256Hash (dKeccak d) c) = Inr data"
    using abi_codec.authorization_total [OF assms(1)] unfolding header_ok_def by blast
  with dec u assms(2,4) show ?thesis by (auto simp: encoded_ok terms_of_def uint_of_amount)
qed

lemma sign_published:
  assumes "abi_deps d" "OPCommand df = dToHash d OPCommandSignXRPLPayment" "DecodeHeader (dUnpack d) (OriginalMessage df) = Inr h" "sign_lookup h st = Inr (au, t)"
    and "r = encoded a df (EncodeSignedPayment (dPack d) (hChainId h) (hController h) (hRequestId h)
      (hMemoRef h) txID blob)"
  shows "published d df (Signed (hRequestId h) au t txID blob) r"
proof -
  have "header_ok h" using abi_codec.decoded_header [OF assms(1,3)] .
  then obtain data where "EncodeSignedPayment (dPack d) (hChainId h) (hController h) (hRequestId h)
      (hMemoRef h) txID blob = Inr data"
    using abi_codec.signed_payment_total [OF assms(1)] unfolding header_ok_def by blast
  with assms show ?thesis by (auto simp: encoded_ok sign_lookup_Inr)
qed

lemma refuse_published [simp]: "published d df Idle (refuse a df e)"
  by simp

lemma create_refines:
  assumes "abi_deps d" "OPCommand df = dToHash d OPCommandCreateTreasuryKey" "handleCreateTreasuryKey d ev a df st = (st', r)"
  shows "\<exists>e. enclave_step d st e st' \<and> published d df e r"
proof (cases rule: handleCreate_cases [of d ev a df st])
  case (refused e)
  with assms(3) show ?thesis by (intro exI [of _ Idle]) (auto intro: enclave_step.idle)
next
  case (created h t)
  with assms(3) have "st' = fst (handleCreateTreasuryKey d ev a df st)" "r = snd (handleCreateTreasuryKey d ev a df st)" by simp_all
  with created show ?thesis
    by (intro exI [of _ "Created (hTreasuryId h) t"] conjI) (simp_all only: fst_conv snd_conv create_event create_published [OF assms(1,2)])
qed

lemma register_refines:
  assumes "abi_deps d" "OPCommand df = dToHash d OPCommandRegisterPolicy" "handleRegisterPolicy d a df st = (st', r)"
  shows "\<exists>e. enclave_step d st e st' \<and> published d df e r"
proof (cases rule: handleRegister_cases [of d a df st])
  case (refused e)
  with assms(3) show ?thesis by (intro exI [of _ Idle]) (auto intro: enclave_step.idle)
next
  case (registered h p t)
  with assms(3) have "st' = fst (handleRegisterPolicy d a df st)" "r = snd (handleRegisterPolicy d a df st)" by simp_all
  with registered show ?thesis
    by (intro exI [of _ "Registered (hTreasuryId h) p (hPolicyCommitment h)"] conjI) (simp_all only: fst_conv snd_conv register_event register_published [OF assms(1,2)])
qed

lemma sign_refines:
  assumes "abi_deps d" "OPCommand df = dToHash d OPCommandSignXRPLPayment" "handleSignPayment d ev a df st = (st', r)"
  shows "\<exists>e. enclave_step d st e st' \<and> published d df e r"
proof (cases rule: handleSign_cases [of d ev a df st])
  case (refused e)
  with assms(3) show ?thesis by (intro exI [of _ Idle]) (auto intro: enclave_step.idle)
next
  case (signed h au t seq current txID blob)
  with assms(3) have "st' = fst (handleSignPayment d ev a df st)" "r = snd (handleSignPayment d ev a df st)" by simp_all
  with signed show ?thesis
    by (intro exI [of _ "Signed (hRequestId h) au t txID blob"] conjI) (simp_all only: fst_conv snd_conv sign_event sign_published [OF assms(1,2)])
qed

lemma authorize_refines:
  assumes "abi_deps d" "OPCommand df = dToHash d OPCommandAuthorizePayment" "handleAuthorizePayment d ev a df st = (st', ro)"
  shows "\<exists>e r. ro = Some r \<and> enclave_step d st e st' \<and> published d df e r"
proof (cases rule: handleAuthorize_cases [of d ev a df st])
  case (refused e)
  with assms(3) show ?thesis by (intro exI [of _ Idle]) (auto intro: enclave_step.idle)
next
  case (panic c plaintext pi)
  with abi_codec.decoded_payment [OF assms(1) panic(2)] show ?thesis by simp
next
  case (authorized h c t pi amount)
  let ?e = "Authorized (hRequestId h) (terms_of d h c pi amount)"
  obtain r where r: "ro = Some r"
    "r = encoded a df (EncodeAuthorization (dPack d) (hChainId h) (hController h) (hRequestId h)
       (hMemoRef h) amount (Keccak256String (dKeccak d) (piDestination pi)) (Keccak256Hash (dKeccak d) c))"
    "st' = with_authorization st (hRequestId h) (terms_of d h c pi amount)"
    using assms(3) authorized(2) by simp
  have "enclave_step d st ?e st'" unfolding r(3) by (rule authorize_event [OF authorized(1)])
  moreover have "published d df ?e r" by (rule authorize_published [OF assms(1,2) authorized(1) r(2)])
  ultimately show ?thesis using r(1) by (intro exI conjI)
qed

lemma run_command_refines:
  assumes "abi_deps d" "run_command d ev a df st = Some (st', ro)"
  shows "\<exists>e r. ro = Some r \<and> enclave_step d st e st' \<and> published d df e r"
proof -
  consider r where "ro = Some r" "OPCommand df = dToHash d OPCommandCreateTreasuryKey"
      "handleCreateTreasuryKey d ev a df st = (st', r)"
    | r where "ro = Some r" "OPCommand df = dToHash d OPCommandRegisterPolicy"
      "handleRegisterPolicy d a df st = (st', r)"
    | "OPCommand df = dToHash d OPCommandAuthorizePayment" "handleAuthorizePayment d ev a df st = (st', ro)"
    | r where "ro = Some r" "OPCommand df = dToHash d OPCommandSignXRPLPayment"
      "handleSignPayment d ev a df st = (st', r)"
    using assms(2) by (auto simp: run_command_def Let_def split: if_splits prod.splits)
  then show ?thesis
  proof cases
    case 1
    with create_refines [OF assms(1) 1(2,3)] show ?thesis by simp
  next
    case 2
    with register_refines [OF assms(1) 2(2,3)] show ?thesis by simp
  next
    case 3
    with authorize_refines [OF assms(1) 3] show ?thesis by simp
  next
    case 4
    with sign_refines [OF assms(1) 4(2,3)] show ?thesis by simp
  qed
qed

text \<open>The answer of the HTTP handler to an event: the marshalled result, or an error before any handler
  was reached.\<close>

definition answers :: "'k deps \<Rightarrow> action \<Rightarrow> 'k event \<Rightarrow> (nat \<times> http_body) option \<Rightarrow> bool" where
  "answers d a e out \<longleftrightarrow>
     (\<exists>df r. dParse d (aMessage a) = Inr df \<and> OPType df = dToHash d OPTypeTreasury \<and> published d df e r
        \<and> out = Some (case dMarshal d r of Inr b \<Rightarrow> (StatusOK, Marshalled b)
             | Inl x \<Rightarrow> (StatusInternalServerError, MarshallingResult x)))
     \<or> (e = Idle \<and> (\<exists>c b. out = Some (c, b) \<and> (c = StatusBadRequest \<or> c = StatusNotImplemented)))"

lemma processAction_refines:
  assumes "abi_deps d"
  shows "\<exists>e. enclave_step d st e (fst (processAction d ev a st))
    \<and> answers d a e (snd (processAction d ev a st))"
proof (cases "dParse d (aMessage a)")
  case (Inl x)
  then show ?thesis
    by (intro exI [of _ Idle]) (simp add: processAction_def answers_def enclave_step.idle)
next
  case df: (Inr df)
  show ?thesis
  proof (cases "OPType df \<noteq> dToHash d OPTypeTreasury \<or> run_command d ev a df st = None")
    case True
    with df show ?thesis
      by (intro exI [of _ Idle])
        (auto simp: processAction_def processTreasury_def answers_def enclave_step.idle)
  next
    case False
    then obtain st' ro where r: "run_command d ev a df st = Some (st', ro)" by auto
    from run_command_refines [OF assms r] obtain e r0 where
      "ro = Some r0" "enclave_step d st e st'" "published d df e r0" by blast
    with False df r show ?thesis
      by (intro exI [of _ e] conjI, unfold answers_def)
        (simp add: processAction_def processTreasury_def split: sum.splits,
          intro disjI1 exI [of _ df] exI [of _ r0],
          simp add: processAction_def processTreasury_def split: sum.splits)
  qed
qed

lemma run_refines:
  assumes "abi_deps d"
  shows "\<exists>evts. enclave_trace d st evts (fst (run d ins st))
    \<and> list_all2 (\<lambda>x e. answers d (fst x) e (snd x)) (zip (map snd ins) (snd (run d ins st))) evts"
proof (induction ins arbitrary: st)
  case Nil
  then show ?case by (auto intro: enclave_trace.none)
next
  case (Cons i ins)
  obtain ev a where i: "i = (ev, a)" by (cases i)
  let ?st = "fst (processAction d ev a st)"
  from processAction_refines [OF assms, of st ev a] obtain e where
    e: "enclave_step d st e ?st" "answers d a e (snd (processAction d ev a st))" by blast
  from Cons.IH [of ?st] obtain evts where
    "enclave_trace d ?st evts (fst (run d ins ?st))"
    "list_all2 (\<lambda>x e. answers d (fst x) e (snd x)) (zip (map snd ins) (snd (run d ins ?st))) evts" by blast
  with e show ?case
    by (intro exI [of _ "e # evts"]) (auto simp: i split_beta Let_def intro: enclave_trace_Cons)
qed

lemma authorizes_accepted:
  assumes "abi_deps d" "authorizes d ev df st h c t pi amount"
  shows "rStatus (the (snd (handleAuthorizePayment d ev a df st))) = 1"
proof -
  from assms(2) obtain plaintext where
    f: "DecodeHeaderAndPayload (dUnpack d) (OriginalMessage df) = Inr (h, c)" "c \<noteq> []"
      "map_of (treasuries st) (int_string (hTreasuryId h)) = Some t" "hPolicyCommitment h = tPolicyCommitment t"
      "decrypt ev c = Inr plaintext" "DecodePaymentInstruction (dUnpack d) plaintext = Inr pi"
      "bindPayloadToHeader pi h = None" "ValidateClassicAddress (piDestination pi) = None"
      "piDestination pi \<noteq> tAddress t" "piAmountDrops pi = Some amount" "is_uint64 amount"
      "checkPolicy (tPolicy t) amount = None"
    by (auto simp: authorizes_def treasury_of_def bindPayloadToHeader_None checkPolicy_None)
  have "header_ok h" using abi_codec.decoded_header_payload [OF assms(1) f(1)] .
  moreover have "uint256 amount" using f(11) by (simp add: is_uint64_def)
  ultimately obtain data where "EncodeAuthorization (dPack d) (hChainId h) (hController h) (hRequestId h)
      (hMemoRef h) amount (Keccak256String (dKeccak d) (piDestination pi)) (Keccak256Hash (dKeccak d) c) = Inr data"
    using abi_codec.authorization_total [OF assms(1)] unfolding header_ok_def by blast
  with f show ?thesis by (simp add: handleAuthorizePayment_def Let_def)
qed

lemma authorizes_unique:
  "authorizes d ev df st h c t pi amount \<Longrightarrow> authorizes d ev df st h' c' t' pi' amount' \<Longrightarrow>
     h' = h \<and> c' = c \<and> t' = t \<and> pi' = pi \<and> amount' = amount"
  by (auto simp: authorizes_def)

lemma authorizes_stored:
  assumes "abi_deps d" "authorizes d ev df st h c t pi amount"
  shows "\<exists>r. handleAuthorizePayment d ev a df st
      = (with_authorization st (hRequestId h) (terms_of d h c pi amount), Some r) \<and> rStatus r = 1"
proof -
  have acc: "rStatus (the (snd (handleAuthorizePayment d ev a df st))) = 1"
    by (rule authorizes_accepted [OF assms])
  show ?thesis
  proof (cases rule: handleAuthorize_cases [of d ev a df st])
    case (refused e)
    with acc show ?thesis by simp
  next
    case (panic c' plaintext pi')
    with abi_codec.decoded_payment [OF assms(1) panic(2)] show ?thesis by simp
  next
    case (authorized h' c' t' pi' amount')
    with authorizes_unique [OF assms(2) authorized(1)] acc show ?thesis by auto
  qed
qed

end
