(* ===== verification/EnclaveProps.thy ===== *)
theory EnclaveProps
  imports EnclaveTrace
begin

text \<open>
  The properties of the enclave, over the handlers of \<open>Enclave\<close> and the runs of \<open>EnclaveTrace\<close>, and a
  small concrete world in which each of them is exercised: the reference ABI codec, constant hashes, and a
  signer whose signatures are short.
\<close>

section \<open>A concrete world\<close>

definition demo_command :: "string \<Rightarrow> hash32" where
  "demo_command s = bytes_word (str_bytes s)"

definition demo_deps :: "string \<Rightarrow> u8 deps" where
  "demo_deps cmd = \<lparr>dPack = ref_pack, dUnpack = ref_unpack, dKeccak = (\<lambda>_. replicate 32 5),
     dRipemd160 = (\<lambda>_. replicate 20 1), dPubKey = replicate 33, dEcdsaSign = (\<lambda>k h. k # take 40 h),
     dToHash = demo_command,
     dParse = (\<lambda>b. Inr \<lparr>OPType = demo_command OPTypeTreasury, OPCommand = demo_command cmd,
        OriginalMessage = b\<rparr>),
     dMarshal = (\<lambda>r. Inr (case rData r of None \<Rightarrow> [] | Some b \<Rightarrow> b))\<rparr>"

definition demo_hash :: hash32 where "demo_hash = bytes_word (replicate 32 5)"

definition demo_address :: "u8 \<Rightarrow> string" where
  "demo_address b = (case EncodeClassicAddress (replicate 20 b) of Inr a \<Rightarrow> a | Inl _ \<Rightarrow> [])"

definition demo_header :: "int \<Rightarrow> int \<Rightarrow> InstructionHeader" where
  "demo_header tid rid = \<lparr>hChainId = 114, hController = 0xC0FFEE, hTreasuryId = tid, hRequestId = rid,
     hNonce = 1, hExpiresAt = 1700003600, hMemoRef = 0xABCD, hPolicyCommitment = demo_hash\<rparr>"

definition demo_payment :: "int \<Rightarrow> int \<Rightarrow> int \<Rightarrow> PaymentInstruction" where
  "demo_payment tid rid amount = \<lparr>piChainId = Some 114, piController = 0xC0FFEE, piTreasuryId = Some tid,
     piRequestId = Some rid, piDestination = demo_address 7, piAmountDrops = Some amount,
     piDestinationTag = 0, piHasDestinationTag = False, piReference = []\<rparr>"

definition demo_treasury :: "u8 treasury" where
  "demo_treasury = \<lparr>tKey = 2, tAccountID = replicate 20 1, tAddress = demo_address 1,
     tPolicy = sample_policy, tPolicyCommitment = demo_hash\<rparr>"

definition demo_env :: "u8 env" where
  "demo_env = \<lparr>genKey = Inr 2, decrypt = Inr, AccountSequence = (\<lambda>_. Inr 7), CurrentLedger = Inr 19500000,
     nowUnix = 1700000000\<rparr>"

definition demo_bytes :: "string + bytes \<Rightarrow> bytes" where
  "demo_bytes r = (case r of Inr b \<Rightarrow> b | Inl _ \<Rightarrow> [])"

definition demo_df :: "string \<Rightarrow> bytes \<Rightarrow> DataFixed" where
  "demo_df cmd msg = \<lparr>OPType = demo_command OPTypeTreasury, OPCommand = demo_command cmd, OriginalMessage = msg\<rparr>"

definition demo_action :: "bytes \<Rightarrow> action" where
  "demo_action msg = \<lparr>aID = 1, aSubmissionTag = ''tag'', aMessage = msg\<rparr>"

definition sealed :: "int \<Rightarrow> int \<Rightarrow> int \<Rightarrow> bytes" where
  "sealed tid rid amount = demo_bytes (EncodePaymentInstruction ref_pack (demo_payment tid rid amount))"

definition create_msg :: "int \<Rightarrow> bytes" where
  "create_msg tid = demo_bytes (EncodeHeaderAndPolicy ref_pack (demo_header tid 0) sample_policy)"

definition authorize_msg :: "int \<Rightarrow> int \<Rightarrow> int \<Rightarrow> bytes" where
  "authorize_msg tid rid amount =
     demo_bytes (EncodeHeaderAndPayload ref_pack (demo_header tid rid) (sealed tid rid amount))"

definition sign_msg :: "int \<Rightarrow> int \<Rightarrow> bytes" where
  "sign_msg tid rid = demo_bytes (EncodeHeader ref_pack (demo_header tid rid))"

definition demo_auth :: authorization where
  "demo_auth = \<lparr>auTreasuryID = 1, auDestination = demo_address 7, auAmountDrops = 1000, auTag = 0,
     auHasTag = False, auMemoRef = 0xABCD, auExpiresAt = 1700003600, auPayloadHash = demo_hash\<rparr>"

definition funded :: "u8 extension" where
  "funded = with_treasury New 1 demo_treasury"

definition approved :: "u8 extension" where
  "approved = with_authorization funded 42 demo_auth"

lemma demo_abi: "abi_deps (demo_deps cmd)"
  using ref_abi.abi_codec_axioms by (simp add: demo_deps_def)

lemma demo_deps_simps [simp]:
  "dPack (demo_deps cmd) = ref_pack" "dUnpack (demo_deps cmd) = ref_unpack"
  "dKeccak (demo_deps cmd) = (\<lambda>_. replicate 32 5)" "dRipemd160 (demo_deps cmd) = (\<lambda>_. replicate 20 1)"
  "dPubKey (demo_deps cmd) = replicate 33" "dEcdsaSign (demo_deps cmd) = (\<lambda>k h. k # take 40 h)"
  by (simp_all add: demo_deps_def)

lemma demo_address_ok:
  "EncodeClassicAddress (replicate 20 b) = Inr (demo_address b)"
  "DecodeClassicAddress (demo_address b) = Inr (replicate 20 b)"
  using decode_encode_address [of "replicate 20 b"] by (auto simp: demo_address_def)

lemma demo_address_valid [simp]: "ValidateClassicAddress (demo_address b) = None"
  using demo_address_ok(2) by (auto simp: ValidateClassicAddress_None)

lemma demo_address_inj: "demo_address b = demo_address c \<longleftrightarrow> b = c"
proof
  assume "demo_address b = demo_address c"
  then have "replicate 20 b = replicate 20 c" using demo_address_ok(2) by (metis sum.inject(2))
  then show "b = c" by simp
qed simp

lemma demo_keccak [simp]: "Keccak256Hash (\<lambda>_. replicate 32 5) x = demo_hash"
  by (simp add: Keccak256Hash_def demo_hash_def copy_hash_exact)

lemma demo_header_ok: "uint256 tid \<Longrightarrow> uint256 rid \<Longrightarrow> header_ok (demo_header tid rid)"
  by (simp add: header_ok_def demo_header_def)

lemma demo_commitment [simp]: "commitment_ok (demo_deps cmd) (demo_header tid rid) sample_policy"
  using abi_codec.pack_total [OF ref_abi.abi_codec_axioms, of "[policyT]" "[policy_val sample_policy]"]
  by (auto simp: commitment_ok_def PolicyCommitment_def demo_header_def wt_policy samples_ok)

lemma demo_create_decodes:
  "uint256 tid \<Longrightarrow> DecodeHeaderAndPolicy ref_unpack (create_msg tid) = Inr (demo_header tid 0, sample_policy)"
  using ref_abi.header_policy_roundtrip [OF demo_header_ok samples_ok(2), of tid 0]
  by (auto simp: create_msg_def demo_bytes_def)

lemma demo_sign_decodes:
  "uint256 tid \<Longrightarrow> uint256 rid \<Longrightarrow> DecodeHeader ref_unpack (sign_msg tid rid) = Inr (demo_header tid rid)"
  using ref_abi.header_roundtrip [OF demo_header_ok, of tid rid]
  by (auto simp: sign_msg_def demo_bytes_def)

lemma demo_payment_ok: "uint256 tid \<Longrightarrow> uint256 rid \<Longrightarrow> uint256 amount \<Longrightarrow> payment_ok (demo_payment tid rid amount)"
  using address_shape [OF demo_address_ok(1), of 7] by (simp add: payment_ok_def demo_payment_def)

lemma sealed_decodes:
  assumes "uint256 tid" "uint256 rid" "uint256 amount"
  shows "DecodePaymentInstruction ref_unpack (sealed tid rid amount) = Inr (demo_payment tid rid amount)
    \<and> sealed tid rid amount \<noteq> [] \<and> length (sealed tid rid amount) < 2 ^ 32"
proof -
  from ref_abi.payment_roundtrip [OF demo_payment_ok [OF assms]] obtain bs where
    bs: "EncodePaymentInstruction ref_pack (demo_payment tid rid amount) = Inr bs"
      "DecodePaymentInstruction ref_unpack bs = Inr (demo_payment tid rid amount)" by blast
  have "length bs \<le> sum_list (map vsize (payment_vals (demo_payment tid rid amount)))"
    using bs(1) unfolding EncodePaymentInstruction_def by (rule length_ref_pack)
  also have "\<dots> < 2 ^ 32"
    using address_shape [OF demo_address_ok(1), of 7] by (simp add: payment_vals_def demo_payment_def)
  finally have "length bs < 2 ^ 32" .
  moreover have "bs \<noteq> []"
  proof
    assume "bs = []"
    with bs(2) show False
      by (simp add: DecodePaymentInstruction_def argsPaymentInstruction_def ref_unpack_def read_uint_def)
  qed
  ultimately show ?thesis using bs by (simp add: sealed_def demo_bytes_def)
qed

lemma demo_authorize_decodes:
  assumes "uint256 tid" "uint256 rid" "uint256 amount"
  shows "DecodeHeaderAndPayload ref_unpack (authorize_msg tid rid amount)
    = Inr (demo_header tid rid, sealed tid rid amount)"
  using ref_abi.header_payload_roundtrip [OF demo_header_ok [OF assms(1,2)]] sealed_decodes [OF assms]
  by (fastforce simp: authorize_msg_def demo_bytes_def)

lemma demo_authorizes:
  assumes "uint256 rid" "0 < amount" "amount \<le> 1000000"
  shows "authorizes (demo_deps cmd) demo_env (demo_df cmd (authorize_msg 1 rid amount)) funded
    (demo_header 1 rid) (sealed 1 rid amount) demo_treasury (demo_payment 1 rid amount) amount"
proof -
  have "uint256 1" "uint256 amount" using assms by simp_all
  note dec = demo_authorize_decodes [OF this(1) assms(1) this(2)] sealed_decodes [OF this(1) assms(1) this(2)]
  have "treasury_of funded 1 = Some demo_treasury" by (simp add: funded_def)
  with dec assms show ?thesis
    by (simp add: authorizes_def demo_df_def demo_env_def demo_header_def demo_treasury_def bound_to_def
        demo_payment_def demo_address_inj is_uint64_def policy_allows_def sample_policy_def)
qed

lemma demo_treasury_ok: "treasury_ok (demo_deps cmd) demo_treasury"
  using demo_commitment [of cmd 1 0] demo_address_ok(1) [of 1]
  by (simp add: treasury_ok_def demo_treasury_def AccountIDFromPublicKey_def commitment_ok_def demo_header_def)

lemma demo_states_ok: "enclave_ok (demo_deps cmd) funded" "enclave_ok (demo_deps cmd) approved"
proof -
  show f: "enclave_ok (demo_deps cmd) funded"
    unfolding funded_def by (rule enclave_ok_with_treasury [OF enclave_ok_New demo_treasury_ok]) simp
  have "authorization_ok funded demo_auth"
    by (simp add: authorization_ok_def demo_auth_def funded_def demo_treasury_def demo_address_inj)
  with f show "enclave_ok (demo_deps cmd) approved"
    unfolding approved_def by (rule enclave_ok_with_authorization)
qed

lemma sign_accepted:
  assumes "abi_deps d" "DecodeHeader (dUnpack d) (OriginalMessage df) = Inr h" "sign_lookup h st = Inr (au, t)"
    and "AccountSequence ev (tAddress t) = Inr seq" "CurrentLedger ev = Inr current"
    and "signs d t au seq (lastLedgerFor (nowUnix ev) current (auExpiresAt au)) txID blob"
  shows "\<exists>data. handleSignPayment d ev a df st = (without_authorization st (hRequestId h), accept a df data)
    \<and> EncodeSignedPayment (dPack d) (hChainId h) (hController h) (hRequestId h) (hMemoRef h) txID blob = Inr data"
proof -
  have "sign_payment d ev au t = Inr (txID, blob)"
    unfolding sign_payment_Inr using assms(4-6) by blast
  moreover have "header_ok h" using abi_codec.decoded_header [OF assms(1,2)] .
  then obtain data where "EncodeSignedPayment (dPack d) (hChainId h) (hController h) (hRequestId h)
      (hMemoRef h) txID blob = Inr data"
    using abi_codec.signed_payment_total [OF assms(1)] unfolding header_ok_def by blast
  ultimately show ?thesis
    using assms(2,3) by (simp add: handleSignPayment_def sign_result_def sign_commit_eq)
qed

lemma length_memoBytes [simp]: "length (memoBytes m) = 36"
  by (simp add: memoBytes_def str_bytes_def)

lemma validate_payment_for:
  assumes "treasury_ok d t" "authorization_ok st au" "DecodeClassicAddress (auDestination au) = Inr dest"
    and "auAmountDrops au \<le> MaxDrops" "lastLedger \<noteq> 0"
  shows "Validate (payment_for d t au dest seq lastLedger) = None"
proof -
  have "length (tAccountID t) = 20" "length (dPubKey d (tKey t)) = 33"
    using assms(1) by (auto simp: treasury_ok_def AccountIDFromPublicKey_def EncodeClassicAddress_def
        split: if_splits)
  moreover have "length dest = 20" using assms(3) by (rule DecodeClassicAddress_length)
  ultimately show ?thesis
    using assms(2,4,5)
    by (simp add: Validate_None payment_for_def authorization_ok_def DefaultFeeDrops_def MaxDrops_def
        MaxMemoLength_def)
qed

lemma signs_exists:
  assumes "treasury_ok d t" "authorization_ok st au" "auAmountDrops au \<le> MaxDrops" "lastLedger \<noteq> 0"
    and "\<And>h. length (dEcdsaSign d (tKey t) h) \<le> 192"
  shows "\<exists>txID blob. signs d t au seq lastLedger txID blob"
proof -
  obtain dest where "DecodeClassicAddress (auDestination au) = Inr dest"
    using assms(2) by (auto simp: authorization_ok_def ValidateClassicAddress_None)
  with validate_payment_for [OF assms(1,2) this assms(3,4)] assms(5) show ?thesis
    by (auto simp: signs_def signature_of_def)
qed

lemma demo_signs:
  "\<exists>txID blob. signs (demo_deps cmd) demo_treasury demo_auth seq
     (lastLedgerFor (nowUnix demo_env) 19500000 (auExpiresAt demo_auth)) txID blob"
proof (rule signs_exists [OF demo_treasury_ok])
  show "authorization_ok funded demo_auth"
    by (simp add: authorization_ok_def demo_auth_def funded_def demo_treasury_def demo_address_inj)
  show "auAmountDrops demo_auth \<le> MaxDrops" by (simp add: demo_auth_def MaxDrops_def)
  show "lastLedgerFor (nowUnix demo_env) 19500000 (auExpiresAt demo_auth) \<noteq> 0"
    by (simp add: lastLedgerFor_def demo_env_def demo_auth_def LedgerSecondsPerLedger_def
        MinLedgerWindow_def MaxLedgerWindow_def)
qed simp

lemma demo_lookup: "sign_lookup (demo_header 1 42) approved = Inr (demo_auth, demo_treasury)"
  by (simp add: sign_lookup_Inr approved_def funded_def demo_header_def demo_auth_def)

lemma demo_sign_accepted:
  "\<exists>data. handleSignPayment (demo_deps cmd) demo_env a (demo_df cmd (sign_msg 1 42)) approved
     = (without_authorization approved 42, accept a (demo_df cmd (sign_msg 1 42)) data)"
proof -
  obtain txID blob where s: "signs (demo_deps cmd) demo_treasury demo_auth 7
      (lastLedgerFor (nowUnix demo_env) 19500000 (auExpiresAt demo_auth)) txID blob"
    using demo_signs by blast
  have "DecodeHeader (dUnpack (demo_deps cmd)) (OriginalMessage (demo_df cmd (sign_msg 1 42)))
      = Inr (demo_header 1 42)" by (simp add: demo_df_def demo_sign_decodes)
  from sign_accepted [OF demo_abi this demo_lookup _ _ s] show ?thesis
    by (fastforce simp: demo_env_def demo_header_def)
qed

section \<open>Properties\<close>

text \<open>C5. The state invariant holds in every state the server reaches, whatever instructions arrive and
  whatever the node, the decryption endpoint and the ledger answer: treasury and request identifiers are
  unique; every stored account identifier is the one of the stored key, the address is its encoding and the
  commitment is that of the stored policy; every stored authorization names an existing treasury, a valid
  address other than the treasury's own and a positive amount.\<close>
theorem enclave_invariant: "enclave_ok d (fst (run d ins New))"
proof -
  obtain evts where "enclave_trace d New evts (fst (run d ins New))" using run_trace by blast
  then show ?thesis by (rule trace_preserves_ok) (rule enclave_ok_New)
qed

text \<open>C11. A treasury key is permanent: once a treasury exists, no sequence of instructions removes it or
  changes its key, its account or its address.\<close>
theorem treasury_key_permanent:
  assumes "treasury_of st i = Some t"
  shows "\<exists>u. treasury_of (fst (run d ins st)) i = Some u
    \<and> tKey u = tKey t \<and> tAccountID u = tAccountID t \<and> tAddress u = tAddress t"
proof -
  obtain evts where "enclave_trace d st evts (fst (run d ins st))" using run_trace by blast
  from trace_keeps_treasury [OF this assms] show ?thesis by (auto simp: same_key_def)
qed

theorem treasury_key_permanent_witness:
  "\<exists>u. treasury_of (fst (run (demo_deps OPCommandCreateTreasuryKey)
       [(demo_env\<lparr>genKey := Inr 9\<rparr>, demo_action (create_msg 1))] funded)) 1 = Some u \<and> tKey u = 2"
proof -
  have "treasury_of funded 1 = Some demo_treasury" by (simp add: funded_def)
  from treasury_key_permanent [OF this] obtain u where
    "treasury_of (fst (run (demo_deps OPCommandCreateTreasuryKey)
       [(demo_env\<lparr>genKey := Inr 9\<rparr>, demo_action (create_msg 1))] funded)) 1 = Some u"
    "tKey u = tKey demo_treasury" by blast
  then show ?thesis by (intro exI [of _ u]) (simp add: demo_treasury_def)
qed

text \<open>C3. AUTHORIZE\_PAYMENT accepts exactly the instructions that meet every condition (a known treasury
  whose live policy commitment is the header's, a payload that decrypts and decodes, is bound to the
  header's chain, controller, treasury and request, pays a valid address other than the treasury's own, and
  an amount that is positive, fits 64 bits and is within both caps). It then stores exactly the decrypted
  terms under the request; otherwise it refuses, publishes no data and changes nothing. It never panics.\<close>
theorem authorize_exactly:
  assumes "abi_deps d"
  shows "\<exists>st' r. handleAuthorizePayment d ev a df st = (st', Some r) \<and>
    (if \<exists>h c t pi amount. authorizes d ev df st h c t pi amount
     then rStatus r = 1 \<and> (\<exists>h c t pi amount. authorizes d ev df st h c t pi amount
        \<and> st' = with_authorization st (hRequestId h) (terms_of d h c pi amount))
     else rStatus r = 0 \<and> rData r = None \<and> st' = st)"
proof (cases rule: handleAuthorize_cases [of d ev a df st])
  case (refused e)
  have "\<not> authorizes d ev df st h c t pi amount" for h c t pi amount
  proof
    assume "authorizes d ev df st h c t pi amount"
    then have "rStatus (the (snd (handleAuthorizePayment d ev a df st))) = 1"
      by (rule authorizes_accepted [OF assms])
    with refused show False by simp
  qed
  with refused show ?thesis by simp
next
  case (panic c plaintext pi)
  with abi_codec.decoded_payment [OF assms panic(2)] show ?thesis by simp
next
  case (authorized h c t pi amount)
  then have "rStatus (the (snd (handleAuthorizePayment d ev a df st))) = 1"
    using authorizes_accepted [OF assms] by blast
  with authorized(2) have "rStatus (encoded a df (EncodeAuthorization (dPack d) (hChainId h) (hController h)
      (hRequestId h) (hMemoRef h) amount (Keccak256String (dKeccak d) (piDestination pi))
      (Keccak256Hash (dKeccak d) c))) = 1" by simp
  moreover have "\<exists>h c t pi amount. authorizes d ev df st h c t pi amount" using authorized(1) by blast
  moreover have "\<exists>h' c' t' pi' amount'. authorizes d ev df st h' c' t' pi' amount'
      \<and> with_authorization st (hRequestId h) (terms_of d h c pi amount)
        = with_authorization st (hRequestId h') (terms_of d h' c' pi' amount')"
    by (intro exI conjI, rule authorized(1), rule refl)
  ultimately show ?thesis using authorized(2) by (intro exI conjI) (assumption, simp only: if_True simp_thms)
qed

theorem authorize_exactly_witness:
  "\<exists>r. handleAuthorizePayment (demo_deps OPCommandAuthorizePayment) demo_env (demo_action [])
       (demo_df OPCommandAuthorizePayment (authorize_msg 1 42 1000)) funded = (approved, Some r) \<and> rStatus r = 1"
proof -
  let ?d = "demo_deps OPCommandAuthorizePayment"
  let ?df = "demo_df OPCommandAuthorizePayment (authorize_msg 1 42 1000)"
  have au: "authorizes ?d demo_env ?df funded (demo_header 1 42) (sealed 1 42 1000) demo_treasury
      (demo_payment 1 42 1000) 1000"
    by (rule demo_authorizes) simp_all
  from authorize_exactly [OF demo_abi, of OPCommandAuthorizePayment demo_env "demo_action []" ?df funded]
  obtain st' r h c t pi amount where
    r: "handleAuthorizePayment ?d demo_env (demo_action []) ?df funded = (st', Some r)" "rStatus r = 1"
      "authorizes ?d demo_env ?df funded h c t pi amount"
      "st' = with_authorization funded (hRequestId h) (terms_of ?d h c pi amount)"
    using au by (auto split: if_splits)
  from authorizes_unique [OF au r(3)] have "st' = approved"
    using r(4) by (simp add: approved_def demo_auth_def terms_of_def demo_header_def demo_payment_def)
  with r show ?thesis by simp
qed

text \<open>C2. SIGN\_XRPL\_PAYMENT publishes a signature only over the stored terms. An accepted instruction
  names a pending authorization with the same memo and treasury; the published blob is the serialization,
  read back field by field, of the Payment from the treasury's account to the authorized destination of the
  authorized amount with the authorized tag and memo and a 12 drop fee, at the ledger's sequence, signed with
  the treasury's key; the transaction id is the blob's; and the authorization is gone afterwards.\<close>
theorem sign_exact_terms:
  assumes "handleSignPayment d ev a df st = (st', r)" "rStatus r = 1"
  shows "\<exists>h au t dest seq current p der blob data.
    DecodeHeader (dUnpack d) (OriginalMessage df) = Inr h
    \<and> authorization_of st (hRequestId h) = Some au \<and> treasury_of st (auTreasuryID au) = Some t
    \<and> auMemoRef au = hMemoRef h \<and> auTreasuryID au = hTreasuryId h
    \<and> DecodeClassicAddress (auDestination au) = Inr dest
    \<and> AccountSequence ev (tAddress t) = Inr seq \<and> CurrentLedger ev = Inr current
    \<and> p = payment_for d t au dest seq (lastLedgerFor (nowUnix ev) current (auExpiresAt au))
    \<and> der = dEcdsaSign d (tKey t) (sha512Half (prefixTransactionSig @ payment_wire p None))
    \<and> serialize p (Some der) = Inr blob \<and> xrpl_lex blob = Some (payment_fields p (Some der))
    \<and> rData r = Some data
    \<and> EncodeSignedPayment (dPack d) (hChainId h) (hController h) (hRequestId h) (hMemoRef h)
        (bytes_word (sha512Half (prefixTransactionID @ blob))) blob = Inr data
    \<and> authorization_of st' (hRequestId h) = None \<and> st' = without_authorization st (hRequestId h)"
proof (cases rule: handleSign_cases [of d ev a df st])
  case (refused e)
  with assms show ?thesis by auto
next
  case (signed h au t seq current txID blob)
  from signed(5) obtain dest p der where s: "DecodeClassicAddress (auDestination au) = Inr dest"
      "p = payment_for d t au dest seq (lastLedgerFor (nowUnix ev) current (auExpiresAt au))"
      "Validate p = None" "der = signature_of (dEcdsaSign d) (tKey t) p" "length der \<le> 192"
      "blob = payment_wire p (Some der)" "txID = bytes_word (sha512Half (prefixTransactionID @ blob))"
    by (auto simp: signs_def)
  have ser: "serialize p (Some der) = Inr blob" using s by (simp add: serialize_valid)
  from assms signed(6) obtain data where
    data: "EncodeSignedPayment (dPack d) (hChainId h) (hController h) (hRequestId h) (hMemoRef h) txID blob = Inr data"
      "rData r = Some data"
    by (auto simp: encoded_def split: sum.splits)
  have l: "authorization_of st (hRequestId h) = Some au" "treasury_of st (auTreasuryID au) = Some t"
      "auMemoRef au = hMemoRef h" "auTreasuryID au = hTreasuryId h"
    using signed(2) unfolding sign_lookup_Inr by blast+
  have st': "st' = without_authorization st (hRequestId h)" using assms(1) signed(6) by simp
  then have gone: "authorization_of st' (hRequestId h) = None" by simp
  show ?thesis
    by (intro exI conjI, rule signed(1), rule l(1), rule l(2), rule l(3), rule l(4), rule s(1),
        rule signed(3), rule signed(4), rule s(2), rule s(4) [unfolded signature_of_def], rule ser,
        rule serialize_lex [OF ser], rule data(2), rule data(1) [unfolded s(7)], rule gone, rule st')
qed

theorem sign_exact_terms_witness:
  "\<exists>st' r p der blob. handleSignPayment (demo_deps OPCommandSignXRPLPayment) demo_env (demo_action [])
       (demo_df OPCommandSignXRPLPayment (sign_msg 1 42)) approved = (st', r)
     \<and> serialize p (Some der) = Inr blob \<and> xrpl_lex blob = Some (payment_fields p (Some der))"
proof -
  let ?d = "demo_deps OPCommandSignXRPLPayment"
  let ?df = "demo_df OPCommandSignXRPLPayment (sign_msg 1 42)"
  obtain data where s: "handleSignPayment ?d demo_env (demo_action []) ?df approved
      = (without_authorization approved 42, accept (demo_action []) ?df data)"
    using demo_sign_accepted by blast
  from sign_exact_terms [OF s] s show ?thesis by auto
qed

text \<open>C12. Liveness of signing: in every state that satisfies the invariant, an instruction for a pending
  authorization (same memo and treasury) is signed and published whenever the ledger answers, the amount is
  one the XRP Ledger can carry, the signer's signatures fit a field and the ledger bound does not wrap to 0.\<close>
theorem authorized_gets_signed:
  assumes "abi_deps d" "enclave_ok d st" "DecodeHeader (dUnpack d) (OriginalMessage df) = Inr h"
    and "authorization_of st (hRequestId h) = Some au" "auMemoRef au = hMemoRef h" "auTreasuryID au = hTreasuryId h"
    and "\<And>addr. AccountSequence ev addr = Inr (seq addr)" "CurrentLedger ev = Inr current"
    and "auAmountDrops au \<le> MaxDrops" "lastLedgerFor (nowUnix ev) current (auExpiresAt au) \<noteq> 0"
    and "\<And>k m. length (dEcdsaSign d k m) \<le> 192"
  shows "\<exists>data. handleSignPayment d ev a df st = (without_authorization st (hRequestId h), accept a df data)"
proof -
  have au: "authorization_ok st au" using enclave_ok_authorization [OF assms(2,4)] .
  then obtain t where t: "treasury_of st (auTreasuryID au) = Some t" by (auto simp: authorization_ok_def)
  then have "treasury_ok d t" by (rule enclave_ok_treasury [OF assms(2)])
  from signs_exists [OF this au assms(9,10,11), of "seq (tAddress t)"] obtain txID blob where
    s: "signs d t au (seq (tAddress t)) (lastLedgerFor (nowUnix ev) current (auExpiresAt au)) txID blob" by blast
  have "sign_lookup h st = Inr (au, t)" using assms(4-6) t by (simp add: sign_lookup_Inr)
  from sign_accepted [OF assms(1,3) this assms(7,8) s] show ?thesis by blast
qed

theorem authorized_gets_signed_witness:
  "\<exists>data. handleSignPayment (demo_deps OPCommandSignXRPLPayment) demo_env (demo_action [])
       (demo_df OPCommandSignXRPLPayment (sign_msg 1 42)) approved
     = (without_authorization approved 42, accept (demo_action [])
         (demo_df OPCommandSignXRPLPayment (sign_msg 1 42)) data)"
proof -
  let ?d = "demo_deps OPCommandSignXRPLPayment"
  let ?df = "demo_df OPCommandSignXRPLPayment (sign_msg 1 42)"
  have h: "DecodeHeader (dUnpack ?d) (OriginalMessage ?df) = Inr (demo_header 1 42)"
    by (simp add: demo_df_def demo_sign_decodes)
  have "\<exists>data. handleSignPayment ?d demo_env (demo_action []) ?df approved
      = (without_authorization approved (hRequestId (demo_header 1 42)), accept (demo_action []) ?df data)"
    by (rule authorized_gets_signed [OF demo_abi demo_states_ok(2) h, where seq = "\<lambda>_. 7" and current = 19500000
          and au = demo_auth])
      (simp_all add: approved_def demo_header_def demo_auth_def demo_env_def MaxDrops_def lastLedgerFor_def
        LedgerSecondsPerLedger_def MinLedgerWindow_def MaxLedgerWindow_def)
  then show ?thesis by (simp add: demo_header_def)
qed

text \<open>C10. A refused instruction leaves no trace: whatever the command, a handler that does not report
  status 1 has not changed the enclave's state, and its result carries no data.\<close>
theorem refusal_changes_nothing:
  assumes "abi_deps d" "run_command d ev a df st = Some (st', Some r)" "rStatus r \<noteq> 1"
  shows "st' = st \<and> rStatus r = 0 \<and> rData r = None"
proof -
  from run_command_refines [OF assms(1,2)] obtain e where
    "enclave_step d st e st'" "published d df e r" by blast
  with assms(3) show ?thesis by (cases e) auto
qed

theorem refusal_changes_nothing_witness:
  "\<exists>r. run_command (demo_deps OPCommandSignXRPLPayment) demo_env (demo_action [])
       (demo_df OPCommandSignXRPLPayment (sign_msg 1 42)) funded = Some (funded, Some r) \<and> rData r = None"
proof -
  let ?d = "demo_deps OPCommandSignXRPLPayment"
  let ?df = "demo_df OPCommandSignXRPLPayment (sign_msg 1 42)"
  have dec: "DecodeHeader ref_unpack (sign_msg 1 42) = Inr (demo_header 1 42)"
    by (rule demo_sign_decodes) simp_all
  have cmds: "demo_command OPCommandSignXRPLPayment \<noteq> demo_command c"
    if "c \<in> {OPCommandCreateTreasuryKey, OPCommandRegisterPolicy, OPCommandAuthorizePayment}" for c
    using that by (auto simp: demo_command_def str_bytes_def bytes_word_def be_val_def horner_def
        OPCommandCreateTreasuryKey_def
        OPCommandRegisterPolicy_def OPCommandAuthorizePayment_def OPCommandSignXRPLPayment_def)
  have "authorization_of funded 42 = None" by (simp add: funded_def)
  then have "sign_lookup (demo_header 1 42) funded = Inl (NeverAuthorized 42)"
    by (simp add: sign_lookup_def authorization_of_def demo_header_def)
  then have r: "run_command ?d demo_env (demo_action []) ?df funded
      = Some (funded, Some (refuse (demo_action []) ?df (NeverAuthorized 42)))"
    using cmds dec by (simp add: run_command_def demo_deps_def demo_df_def handleSignPayment_def)
  from refusal_changes_nothing [OF demo_abi r] r show ?thesis by simp
qed

text \<open>C6. The whole server implements the abstract enclave: every run of instructions, from any state, is
  a run of the abstract system, and every answer reports exactly the event of its instruction (a result
  with the event's data under the instruction's own header, or an error that changed nothing).\<close>
theorem server_refines_enclave:
  assumes "abi_deps d"
  shows "\<exists>evts. enclave_trace d st evts (fst (run d ins st))
    \<and> list_all2 (\<lambda>x e. answers d (fst x) e (snd x)) (zip (map snd ins) (snd (run d ins st))) evts"
  using assms by (rule run_refines)

theorem server_refines_enclave_witness:
  "\<exists>evts. enclave_trace (demo_deps OPCommandSignXRPLPayment) approved evts
     (fst (run (demo_deps OPCommandSignXRPLPayment) [(demo_env, demo_action (sign_msg 1 42))] approved))"
  using server_refines_enclave [OF demo_abi] by blast



text \<open>C21. The ledger bound: whatever the clock and the deadline, the signed payment expires between 10 and
  750 ledgers after the current one (modulo the 32-bit sum), namely a quarter of the seconds left, clamped.
  In particular a request that is already past its deadline is still given 10 ledgers.\<close>
theorem lastLedgerFor_window:
  "unat (lastLedgerFor now current expiresAt - current) = nat (max 10 (min 750 (sint (expiresAt - now) div 4)))
   \<and> (sint (expiresAt - now) \<le> 0 \<longrightarrow> lastLedgerFor now current expiresAt = current + 10)"
proof -
  let ?r = "sint (expiresAt - now)"
  let ?w = "max 10 (min 750 (?r div 4))"
  have "?r \<le> 0 \<Longrightarrow> ?r div 4 \<le> 0" by linarith
  then have l: "lastLedgerFor now current expiresAt = current + of_int ?w"
    by (auto simp: lastLedgerFor_def LedgerSecondsPerLedger_def MinLedgerWindow_def MaxLedgerWindow_def Let_def
        max_def min_def)
  have "unat (of_int ?w :: u32) = nat ?w"
    by (simp add: unat_eq_nat_uint uint_word_of_int_eq take_bit_int_eq_self)
  with l show ?thesis by (auto simp: max_def min_def)
qed

theorem lastLedgerFor_window_witness:
  "sint ((100::u64) - 500) \<le> 0 \<and> lastLedgerFor 500 90000000 100 = 90000010"
  using lastLedgerFor_window [of 500 90000000 100] by simp

text \<open>The state report is exact: for every enclave state that satisfies the invariant it counts the
  treasuries and the pending authorizations and lists for each treasury its address, and only that.\<close>
lemma state_report_exact:
  fixes st :: "'k extension"
  assumes "enclave_ok d st"
  shows "\<exists>s. stateHandler d st = (dToHash d Version, s)
    \<and> TreasuryCount s = card {k. map_of (treasuries st) k \<noteq> None}
    \<and> PendingAuthorizations s = card {k. map_of (authorizations st) k \<noteq> None}
    \<and> (\<forall>i. map_of (Addresses s) (int_string i) = map_option tAddress (treasury_of st i))"
proof -
  have card: "length xs = card {k. map_of xs k \<noteq> None}" if "distinct (map fst xs)" for xs :: "(string \<times> 'b) list"
    using distinct_card [OF that] by (simp add: map_of_eq_None_iff)
  have "map_of (map (\<lambda>(tid, t). (tid, tAddress t)) xs) k = map_option tAddress (map_of xs k)"
    for xs :: "(string \<times> 'k treasury) list" and k
    by (induction xs) auto
  with assms show ?thesis
    by (simp add: stateHandler_def enclave_ok_def treasury_of_def card)
qed

end
