(* ===== verification/EnclaveIO.thy ===== *)
theory EnclaveIO
  imports Enclave
begin

text \<open>
  The enclave's edges: the XRPL ledger reader (\<open>ledger.go\<close>), the decryption call, the key and byte
  helpers and the hand-written ABI encoder of \<open>utils.go\<close>, the HTTP action handler, and the settings read
  from the environment (\<open>config.go\<close>).  HTTP and JSON are parameters: a request yields an error or a status
  with a body, and a JSON decoder yields the decoded struct or an error.
\<close>

section \<open>HTTP\<close>

record http_response =
  httpStatus :: nat
  httpBody :: bytes

section \<open>The ledger reader (ledger.go)\<close>

record account_info =
  aiSequence :: u32
  aiError :: string
  aiErrorMessage :: string

datatype ledger_params = AccountParams string string | NoParams

datatype ledger_error =
    Marshalling string string
  | PostFailed string string
  | EndpointReturned string nat bytes
  | DecodingResponse string string
  | AccountNotFound string
  | AccountInfoError string string
  | NoSequence string
  | NoValidatedLedger

record rpc =
  rpcMarshal :: "string \<Rightarrow> ledger_params \<Rightarrow> string + bytes"
  rpcPost :: "bytes \<Rightarrow> string + http_response"
  rpcAccountInfo :: "bytes \<Rightarrow> string + account_info"
  rpcServerInfo :: "bytes \<Rightarrow> string + u32"

definition ledger_call ::
  "rpc \<Rightarrow> (bytes \<Rightarrow> string + 'o) \<Rightarrow> string \<Rightarrow> ledger_params \<Rightarrow> ledger_error + 'o" where
  "ledger_call l decode method params =
     (case rpcMarshal l method params of
        Inl e \<Rightarrow> Inl (Marshalling method e)
      | Inr body \<Rightarrow>
     (case rpcPost l body of
        Inl e \<Rightarrow> Inl (PostFailed method e)
      | Inr resp \<Rightarrow>
          if httpStatus resp \<noteq> StatusOK
          then Inl (EndpointReturned method (httpStatus resp) (take 512 (httpBody resp)))
          else case decode (httpBody resp) of
              Inl e \<Rightarrow> Inl (DecodingResponse method e)
            | Inr out \<Rightarrow> Inr out))"

definition ledger_AccountSequence :: "rpc \<Rightarrow> string \<Rightarrow> ledger_error + u32" where
  "ledger_AccountSequence l address =
     (case ledger_call l (rpcAccountInfo l) ''account_info'' (AccountParams address ''validated'') of
        Inl e \<Rightarrow> Inl e
      | Inr out \<Rightarrow>
          if aiError out \<noteq> [] then
            (if aiError out = ''actNotFound'' then Inl (AccountNotFound address)
             else Inl (AccountInfoError (aiError out) (aiErrorMessage out)))
          else if aiSequence out = 0 then Inl (NoSequence address)
          else Inr (aiSequence out))"

definition ledger_CurrentLedger :: "rpc \<Rightarrow> ledger_error + u32" where
  "ledger_CurrentLedger l =
     (case ledger_call l (rpcServerInfo l) ''server_info'' NoParams of
        Inl e \<Rightarrow> Inl e
      | Inr seq \<Rightarrow> if seq = 0 then Inl NoValidatedLedger else Inr seq)"

section \<open>Decryption through the node (utils.go)\<close>

datatype decrypt_error = RequestError string | NodeReturned nat bytes | DecryptDecode string

record node =
  nodeMarshal :: "bytes \<Rightarrow> bytes"
  nodePost :: "nat \<Rightarrow> bytes \<Rightarrow> string + http_response"
  nodeDecode :: "bytes \<Rightarrow> string + bytes"

definition decryptViaNode :: "node \<Rightarrow> nat \<Rightarrow> bytes \<Rightarrow> decrypt_error + bytes" where
  "decryptViaNode n signPort ciphertext =
     (case nodePost n signPort (nodeMarshal n ciphertext) of
        Inl e \<Rightarrow> Inl (RequestError e)
      | Inr resp \<Rightarrow>
          if httpStatus resp \<noteq> StatusOK then Inl (NodeReturned (httpStatus resp) (httpBody resp))
          else case nodeDecode n (httpBody resp) of
              Inl e \<Rightarrow> Inl (DecryptDecode e)
            | Inr plaintext \<Rightarrow> Inr plaintext)"

section \<open>Byte helpers (utils.go)\<close>

definition padLeft :: "bytes \<Rightarrow> nat \<Rightarrow> bytes" where
  "padLeft b n =
     (if length b \<ge> n then drop (length b - n) b else replicate (n - length b) 0 @ b)"

definition padToMultipleOf32 :: "bytes \<Rightarrow> bytes" where
  "padToMultipleOf32 data =
     (if data = [] then []
      else let remainder = length data mod 32 in
        if remainder = 0 then data
        else data @ replicate (length data + 32 - remainder - length data) 0)"

definition abiEncodeTwo :: "bytes \<Rightarrow> bytes \<Rightarrow> bytes" where
  "abiEncodeTwo a b =
     (let aPadded = padToMultipleOf32 a;
          bPadded = padToMultipleOf32 b;
          offsetA = 64 :: nat;
          offsetB = 64 + 32 + length aPadded
      in padLeft (be_bytes offsetA) 32 @ padLeft (be_bytes offsetB) 32
         @ padLeft (be_bytes (length a)) 32 @ aPadded
         @ padLeft (be_bytes (length b)) 32 @ bPadded)"

datatype key_error = KeyEmpty | KeyTooLong nat | KeyZero

definition parseSecp256k1PrivateKey ::
  "(bytes \<Rightarrow> 'k) \<Rightarrow> ('k \<Rightarrow> bool) \<Rightarrow> bytes \<Rightarrow> key_error + 'k" where
  "parseSecp256k1PrivateKey fromBytes isZero b =
     (if b = [] then Inl KeyEmpty
      else if length b > 32 then Inl (KeyTooLong (length b))
      else let key = fromBytes (padLeft b 32) in if isZero key then Inl KeyZero else Inr key)"

definition keccak256 :: "(bytes \<Rightarrow> bytes) \<Rightarrow> bytes \<Rightarrow> bytes" where
  "keccak256 keccak data = keccak data"

text \<open>\<open>copy\<close> into slices of a zeroed 65-byte array; \<open>SignCompact\<close> returns the recovery byte, r and s.\<close>

definition signECDSA :: "(bytes \<Rightarrow> bytes) \<Rightarrow> ('k \<Rightarrow> bytes \<Rightarrow> bytes) \<Rightarrow> 'k \<Rightarrow> bytes \<Rightarrow> bytes" where
  "signECDSA keccak signCompact key message =
     (let hash = keccak256 keccak message; sig = signCompact key hash
      in take 32 (drop 1 sig) @ take 32 (drop 33 sig) @ [sig ! 0])"

section \<open>The action handler\<close>

text \<open>The log line of a reply: the result's own log, or the body when it is not a result.\<close>

definition getLogFromBody :: "(bytes \<Rightarrow> string + string) \<Rightarrow> bytes \<Rightarrow> string" where
  "getLogFromBody unmarshalLog body = (case unmarshalLog body of Inl _ \<Rightarrow> bytes_str body | Inr l \<Rightarrow> l)"

datatype reply = Reply nat http_body | DecodingAction string | Aborted

definition actionHandler ::
  "(bytes \<Rightarrow> string + action) \<Rightarrow> 'k deps \<Rightarrow> 'k env \<Rightarrow> bytes \<Rightarrow> 'k extension \<Rightarrow> 'k extension \<times> nat \<times> reply" where
  "actionHandler decode d ev body st =
     (case decode body of
        Inl e \<Rightarrow> (st, StatusBadRequest, DecodingAction e)
      | Inr a \<Rightarrow>
     (case processAction d ev a st of
        (st', None) \<Rightarrow> (st', 0, Aborted)
      | (st', Some (status, out)) \<Rightarrow> (st', status, Reply status out)))"

section \<open>Settings (config.go)\<close>

text \<open>\<open>strconv.Atoi\<close>: an optional sign and decimal digits, within the range of a 64-bit int.\<close>

definition Atoi :: "string \<Rightarrow> num_error + int" where
  "Atoi s =
     (case set_string s of
        None \<Rightarrow> Inl ErrSyntax
      | Some i \<Rightarrow> if - (2 ^ 63) \<le> i \<and> i < 2 ^ 63 then Inr i else Inl ErrRange)"

record config =
  ExtensionPort :: int
  SignPort :: int
  ConfigPort :: int
  XRPLEndpoint :: string

definition default_config :: config where
  "default_config = \<lparr>ExtensionPort = 7702, SignPort = 7701, ConfigPort = 5501,
     XRPLEndpoint = ''https://s.altnet.rippletest.net:51234/''\<rparr>"

definition intFromEnv :: "(string \<Rightarrow> string) \<Rightarrow> string \<Rightarrow> int \<Rightarrow> int" where
  "intFromEnv getenv name target =
     (let v = getenv name in
      if v \<noteq> [] then (case Atoi v of Inr n \<Rightarrow> n | Inl _ \<Rightarrow> target) else target)"

definition init_config :: "(string \<Rightarrow> string) \<Rightarrow> config \<Rightarrow> config" where
  "init_config getenv c =
     (let c = c\<lparr>ExtensionPort := intFromEnv getenv ''EXTENSION_PORT'' (ExtensionPort c)\<rparr>;
          c = c\<lparr>SignPort := intFromEnv getenv ''SIGN_PORT'' (SignPort c)\<rparr>;
          c = c\<lparr>ConfigPort := intFromEnv getenv ''CONFIG_PORT'' (ConfigPort c)\<rparr>;
          v = getenv ''XRPL_RPC_URL''
      in if v \<noteq> [] then c\<lparr>XRPLEndpoint := v\<rparr> else c)"

section \<open>Lemmas\<close>

lemma padLeft_be_bytes: "n < 256 ^ k \<Longrightarrow> padLeft (be_bytes n) k = be_fixed k n"
  using be_fixed_pad [of n k] length_be_bytes_le [of n k] by (auto simp: padLeft_def)

lemma padToMultipleOf32_eq: "padToMultipleOf32 b = pad32 b"
proof -
  have "(32 - length b mod 32) mod 32 = (if length b mod 32 = 0 then 0 else 32 - length b mod 32)"
    by simp
  then show ?thesis by (auto simp: padToMultipleOf32_def pad32_def Let_def)
qed

lemma length_padLeft [simp]: "length (padLeft b n) = n"
  by (auto simp: padLeft_def)

lemma ledger_AccountSequence_Inr:
  "ledger_AccountSequence l a = Inr s \<Longrightarrow> s \<noteq> 0 \<and>
     (\<exists>out. ledger_call l (rpcAccountInfo l) ''account_info'' (AccountParams a ''validated'') = Inr out
        \<and> aiError out = [] \<and> aiSequence out = s)"
  by (auto simp: ledger_AccountSequence_def split: sum.splits if_splits)

lemma ledger_CurrentLedger_Inr: "ledger_CurrentLedger l = Inr s \<Longrightarrow> s \<noteq> 0"
  by (auto simp: ledger_CurrentLedger_def split: sum.splits if_splits)

lemma Atoi_int_string: "- (2 ^ 63) \<le> i \<Longrightarrow> i < 2 ^ 63 \<Longrightarrow> Atoi (int_string i) = Inr i"
  by (simp add: Atoi_def)

section \<open>Properties\<close>

text \<open>C22. The enclave's hand-written encoder of two byte strings produces exactly the ABI encoding of
  \<open>(bytes, bytes)\<close>, offsets, lengths and padding included, for every pair of realistic size.\<close>
theorem abiEncodeTwo_is_abi:
  assumes "length a + length b < 2 ^ 63"
  shows "ref_pack [TBytes, TBytes] [VBytes a, VBytes b] = Inr (abiEncodeTwo a b)"
proof -
  have p: "length (pad32 a) \<le> length a + 31" by (rule length_pad32)
  have "(2::nat) ^ 63 + 1000 < 256 ^ 32" by simp
  with assms p have small: "length a < 256 ^ 32" "length b < 256 ^ 32" "64 + 32 + length (pad32 a) < 256 ^ 32"
    "(64::nat) < 256 ^ 32" by linarith+
  show ?thesis
    unfolding abiEncodeTwo_def Let_def padToMultipleOf32_eq
      padLeft_be_bytes [OF small(1)] padLeft_be_bytes [OF small(2)] padLeft_be_bytes [OF small(3)]
      padLeft_be_bytes [OF small(4)]
    by (simp add: ref_pack_def enc_args_dynamic enc_dyn_def add.assoc)
qed

theorem abiEncodeTwo_is_abi_witness:
  "ref_pack [TBytes, TBytes] [VBytes [1, 2, 3], VBytes []] = Inr (abiEncodeTwo [1, 2, 3] [])"
  by (rule abiEncodeTwo_is_abi) simp

end
