(* ===== verification/Fdc.thy ===== *)
theory Fdc
  imports EnclaveIO
begin

text \<open>
  The Flare Data Connector client (\<open>services/internal/fdc\<close>): encoding of identifiers, voting rounds,
  the calls to the verifier and to the Data Availability layer (\<open>fdc.go\<close>), the parser of the response
  (\<open>parse.go\<close>) and its conversion to the contract's tuple (\<open>toContractProof\<close> of the worker).  HTTP and the
  JSON decoder are parameters.
\<close>

section \<open>Identifiers and rounds (fdc.go)\<close>

definition padTo32 :: "string \<Rightarrow> string" where
  "padTo32 s = (let h = hex_encode (str_bytes s) in ''0x'' @ h @ concat (replicate (64 - length h) ''0''))"

definition TypeXRPPayment :: string where "TypeXRPPayment = padTo32 ''XRPPayment''"
definition SourceTestXRP :: string where "SourceTestXRP = padTo32 ''testXRP''"

definition FirstVotingRoundStartTs :: u64 where "FirstVotingRoundStartTs = 1658430000"
definition VotingEpochSeconds :: u64 where "VotingEpochSeconds = 90"

definition VotingRoundFor :: "u64 \<Rightarrow> u64" where
  "VotingRoundFor timestamp = (timestamp - FirstVotingRoundStartTs) div VotingEpochSeconds"

definition ensure0x :: "string \<Rightarrow> string" where
  "ensure0x s = (if has_prefix s ''0x'' then s else ''0x'' @ s)"

section \<open>The parsed response (fdc.go)\<close>

record XRPPaymentResponseBody =
  rbBlockNumber :: u64
  rbBlockTimestamp :: u64
  rbSourceAddress :: string
  rbSourceAddressHash :: hash32
  rbReceivingAddressHash :: hash32
  rbIntendedReceivingAddressHash :: hash32
  rbSpentAmount :: int
  rbIntendedSpentAmount :: int
  rbReceivedAmount :: int
  rbIntendedReceivedAmount :: int
  rbHasMemoData :: bool
  rbFirstMemoData :: bytes
  rbHasDestinationTag :: bool
  rbDestinationTag :: int
  rbStatus :: u8

record XRPPaymentRequestBody =
  qbTransactionID :: hash32
  qbProofOwner :: address

record XRPPaymentResponse =
  xrAttestationType :: hash32
  xrSourceID :: hash32
  xrVotingRound :: u64
  xrLowestUsedTimestamp :: u64
  xrRequestBody :: XRPPaymentRequestBody
  xrResponseBody :: XRPPaymentResponseBody

record Proof =
  pfMerkleProof :: "hash32 list"
  pfResponse :: XRPPaymentResponse

section \<open>The JSON shape (parse.go)\<close>

record daResponse =
  daAttestationType :: string
  daSourceID :: string
  daVotingRound :: string
  daLowestUsedTimestamp :: string
  daTransactionID :: string
  daProofOwner :: string
  daBlockNumber :: string
  daBlockTimestamp :: string
  daSourceAddress :: string
  daSourceAddressHash :: string
  daReceivingAddressHash :: string
  daIntendedReceivingAddressHash :: string
  daSpentAmount :: string
  daIntendedSpentAmount :: string
  daReceivedAmount :: string
  daIntendedReceivedAmount :: string
  daHasMemoData :: bool
  daFirstMemoData :: string
  daHasDestinationTag :: bool
  daDestinationTag :: string
  daStatus :: string

datatype field_error = FieldHex hex_error | FieldLength nat nat | FieldNum num_error | NotDecimal string

datatype parse_error = DecodingDA string | Field string field_error

definition parse_fixed :: "nat \<Rightarrow> string \<Rightarrow> field_error + bytes" where
  "parse_fixed n s =
     (case hex_decode (trim_prefix s ''0x'') of
        Inl e \<Rightarrow> Inl (FieldHex e)
      | Inr b \<Rightarrow> if length b \<noteq> n then Inl (FieldLength n (length b)) else Inr b)"

definition hash32_of :: "string \<Rightarrow> field_error + hash32" where
  "hash32_of s = (case parse_fixed 32 s of Inl e \<Rightarrow> Inl e | Inr b \<Rightarrow> Inr (bytes_word b))"

definition addr20 :: "string \<Rightarrow> field_error + address" where
  "addr20 s = (case parse_fixed 20 s of Inl e \<Rightarrow> Inl e | Inr b \<Rightarrow> Inr (bytes_word b))"

definition hexBytes :: "string \<Rightarrow> field_error + bytes" where
  "hexBytes s =
     (let s = trim_prefix s ''0x'' in
      if s = [] then Inr []
      else case hex_decode s of Inl e \<Rightarrow> Inl (FieldHex e) | Inr b \<Rightarrow> Inr b)"

definition num :: "string \<Rightarrow> field_error + u64" where
  "num s = (if s = [] then Inr 0
            else case parse_uint64 s of Inl e \<Rightarrow> Inl (FieldNum e) | Inr w \<Rightarrow> Inr w)"

definition bigint :: "string \<Rightarrow> field_error + int" where
  "bigint s = (if s = [] then Inr 0
               else case set_string s of None \<Rightarrow> Inl (NotDecimal s) | Some i \<Rightarrow> Inr i)"

text \<open>\<open>field n r k\<close> is the code's \<open>if x, err = r; err != nil { return ... n ... }\<close> followed by \<open>k\<close>.\<close>

definition field :: "string \<Rightarrow> field_error + 'a \<Rightarrow> ('a \<Rightarrow> parse_error + 'b) \<Rightarrow> parse_error + 'b" where
  "field n r k = (case r of Inl e \<Rightarrow> Inl (Field n e) | Inr v \<Rightarrow> k v)"

lemma field_simps [simp]: "field n (Inr v) k = k v" "field n (Inl e) k = Inl (Field n e)"
  by (simp_all add: field_def)

lemma field_Inr: "field n r k = Inr w \<longleftrightarrow> (\<exists>v. r = Inr v \<and> k v = Inr w)"
  by (cases r) simp_all

definition parseResponse :: "(bytes \<Rightarrow> string + daResponse) \<Rightarrow> bytes \<Rightarrow> parse_error + XRPPaymentResponse" where
  "parseResponse unmarshal raw =
     (case unmarshal raw of
        Inl e \<Rightarrow> Inl (DecodingDA e)
      | Inr r \<Rightarrow>
      field ''attestationType'' (hash32_of (daAttestationType r)) (\<lambda>attestationType.
      field ''sourceId'' (hash32_of (daSourceID r)) (\<lambda>sourceID.
      field ''votingRound'' (num (daVotingRound r)) (\<lambda>votingRound.
      field ''lowestUsedTimestamp'' (num (daLowestUsedTimestamp r)) (\<lambda>lowestUsedTimestamp.
      field ''transactionId'' (hash32_of (daTransactionID r)) (\<lambda>transactionID.
      field ''proofOwner'' (addr20 (daProofOwner r)) (\<lambda>proofOwner.
      field ''blockNumber'' (num (daBlockNumber r)) (\<lambda>blockNumber.
      field ''blockTimestamp'' (num (daBlockTimestamp r)) (\<lambda>blockTimestamp.
      field ''sourceAddressHash'' (hash32_of (daSourceAddressHash r)) (\<lambda>sourceAddressHash.
      field ''receivingAddressHash'' (hash32_of (daReceivingAddressHash r)) (\<lambda>receivingAddressHash.
      field ''intendedReceivingAddressHash'' (hash32_of (daIntendedReceivingAddressHash r)) (\<lambda>intendedHash.
      field ''spentAmount'' (bigint (daSpentAmount r)) (\<lambda>spentAmount.
      field ''intendedSpentAmount'' (bigint (daIntendedSpentAmount r)) (\<lambda>intendedSpentAmount.
      field ''receivedAmount'' (bigint (daReceivedAmount r)) (\<lambda>receivedAmount.
      field ''intendedReceivedAmount'' (bigint (daIntendedReceivedAmount r)) (\<lambda>intendedReceivedAmount.
      field ''firstMemoData'' (hexBytes (daFirstMemoData r)) (\<lambda>firstMemoData.
      field ''destinationTag'' (bigint (daDestinationTag r)) (\<lambda>destinationTag.
      field ''status'' (num (daStatus r)) (\<lambda>status.
        Inr \<lparr>xrAttestationType = attestationType, xrSourceID = sourceID, xrVotingRound = votingRound,
             xrLowestUsedTimestamp = lowestUsedTimestamp,
             xrRequestBody = \<lparr>qbTransactionID = transactionID, qbProofOwner = proofOwner\<rparr>,
             xrResponseBody =
               \<lparr>rbBlockNumber = blockNumber, rbBlockTimestamp = blockTimestamp,
                rbSourceAddress = daSourceAddress r, rbSourceAddressHash = sourceAddressHash,
                rbReceivingAddressHash = receivingAddressHash,
                rbIntendedReceivingAddressHash = intendedHash, rbSpentAmount = spentAmount,
                rbIntendedSpentAmount = intendedSpentAmount, rbReceivedAmount = receivedAmount,
                rbIntendedReceivedAmount = intendedReceivedAmount, rbHasMemoData = daHasMemoData r,
                rbFirstMemoData = firstMemoData, rbHasDestinationTag = daHasDestinationTag r,
                rbDestinationTag = destinationTag, rbStatus = ucast status\<rparr>\<rparr>)))))))))))))))))))"

section \<open>The client (fdc.go)\<close>

record fdc_client =
  fcVerifierURL :: string
  fcDaURL :: string
  fcApiKey :: string

definition fdc_New :: "string \<Rightarrow> string \<Rightarrow> string \<Rightarrow> fdc_client" where
  "fdc_New verifierURL daURL apiKey =
     \<lparr>fcVerifierURL = trim_right verifierURL (CHR ''/''), fcDaURL = trim_right daURL (CHR ''/''),
      fcApiKey = apiKey\<rparr>"

text \<open>The request headers of \<open>post\<close> and the transport.\<close>

record fdc_http =
  fhBuild :: "string \<Rightarrow> bytes \<Rightarrow> string option"
  fhDo :: "string \<Rightarrow> bytes \<Rightarrow> (string \<times> string) list \<Rightarrow> string + http_response"

definition fdc_headers :: "fdc_client \<Rightarrow> (string \<times> string) list" where
  "fdc_headers c = [(''Content-Type'', ''application/json''), (''X-API-KEY'', fcApiKey c), (''x-apikey'', fcApiKey c)]"

text \<open>Errors are kept as the text \<open>err.Error()\<close>, because \<open>FetchProof\<close> searches it.\<close>

definition fdc_post ::
  "fdc_http \<Rightarrow> fdc_client \<Rightarrow> string \<Rightarrow> string + bytes \<Rightarrow> (bytes \<Rightarrow> string + 'o) \<Rightarrow> string + 'o" where
  "fdc_post h c url marshalled decode =
     (case marshalled of
        Inl e \<Rightarrow> Inl (''marshalling request: '' @ e)
      | Inr raw \<Rightarrow>
     (case fhBuild h url raw of
        Some e \<Rightarrow> Inl (''building request: '' @ e)
      | None \<Rightarrow>
     (case fhDo h url raw (fdc_headers c) of
        Inl e \<Rightarrow> Inl (url @ '': '' @ e)
      | Inr resp \<Rightarrow>
          if httpStatus resp \<noteq> StatusOK
          then Inl (url @ '' returned '' @ nat_string (httpStatus resp) @ '': ''
                    @ trim_space (bytes_str (take 1024 (httpBody resp))))
          else decode (httpBody resp))))"

record prepare_request =
  pqAttestationType :: string
  pqSourceId :: string
  pqTransactionId :: string
  pqProofOwner :: string

datatype prepare_error = PreparePost string | VerifierRejected string string | PreparedHex hex_error

definition PrepareXRPPayment ::
  "fdc_http \<Rightarrow> fdc_client \<Rightarrow> (prepare_request \<Rightarrow> string + bytes) \<Rightarrow> (bytes \<Rightarrow> string + string \<times> string)
     \<Rightarrow> string \<Rightarrow> string \<Rightarrow> prepare_error + bytes" where
  "PrepareXRPPayment h c marshal decode txID proofOwner =
     (let url = fcVerifierURL c @ ''/verifier/xrp/XRPPayment/prepareRequest'';
          body = \<lparr>pqAttestationType = TypeXRPPayment, pqSourceId = SourceTestXRP,
            pqTransactionId = ensure0x (to_lower txID), pqProofOwner = proofOwner\<rparr>
      in case fdc_post h c url (marshal body) decode of
          Inl e \<Rightarrow> Inl (PreparePost e)
        | Inr (status, abiEncodedRequest) \<Rightarrow>
            if status \<noteq> ''VALID'' then Inl (VerifierRejected txID status)
            else case hex_decode (trim_prefix abiEncodedRequest ''0x'') of
                Inl e \<Rightarrow> Inl (PreparedHex e)
              | Inr b \<Rightarrow> Inr b)"

datatype fetch_error = FetchPost string | FetchParse parse_error | MalformedNode string

fun merkle_nodes :: "string list \<Rightarrow> fetch_error + hash32 list" where
  "merkle_nodes [] = Inr []"
| "merkle_nodes (node # nodes) =
     (case hex_decode (trim_prefix node ''0x'') of
        Inl e \<Rightarrow> Inl (MalformedNode node)
      | Inr b \<Rightarrow>
          if length b \<noteq> 32 then Inl (MalformedNode node)
          else case merkle_nodes nodes of Inl e \<Rightarrow> Inl e | Inr hs \<Rightarrow> Inr (bytes_word b # hs))"

text \<open>No proof and no error is \<open>Inr None\<close>.\<close>

definition FetchProof ::
  "fdc_http \<Rightarrow> fdc_client \<Rightarrow> (u64 \<Rightarrow> string \<Rightarrow> string + bytes) \<Rightarrow> (bytes \<Rightarrow> string + string list \<times> bytes)
     \<Rightarrow> (bytes \<Rightarrow> string + daResponse) \<Rightarrow> u64 \<Rightarrow> bytes \<Rightarrow> fetch_error + Proof option" where
  "FetchProof h c marshal decode unmarshal votingRound requestBytes =
     (let url = fcDaURL c @ ''/api/v1/fdc/proof-by-request-round'' in
      case fdc_post h c url (marshal votingRound (''0x'' @ hex_encode requestBytes)) decode of
        Inl e \<Rightarrow> if contains e ''404'' \<or> contains e ''400'' then Inr None else Inl (FetchPost e)
      | Inr (nodes, response) \<Rightarrow>
          if response = [] then Inr None
          else case parseResponse unmarshal response of
              Inl e \<Rightarrow> Inl (FetchParse e)
            | Inr resp \<Rightarrow>
                (case merkle_nodes nodes of
                   Inl e \<Rightarrow> Inl e
                 | Inr hs \<Rightarrow> Inr (Some \<lparr>pfMerkleProof = hs, pfResponse = resp\<rparr>)))"

text \<open>The polling loop: \<open>fetch i\<close> is the answer of the \<open>i\<close>-th call and \<open>ticks\<close> the number of ticks the
  context allows before it is done.\<close>

datatype wait_error = WaitFetch fetch_error | NoProofInTime u64

fun WaitForProof ::
  "(nat \<Rightarrow> fetch_error + Proof option) \<Rightarrow> u64 \<Rightarrow> nat \<Rightarrow> nat \<Rightarrow> wait_error + Proof" where
  "WaitForProof fetch votingRound i ticks =
     (case fetch i of
        Inl e \<Rightarrow> Inl (WaitFetch e)
      | Inr (Some proof) \<Rightarrow> Inr proof
      | Inr None \<Rightarrow>
          (case ticks of 0 \<Rightarrow> Inl (NoProofInTime votingRound)
           | Suc n \<Rightarrow> WaitForProof fetch votingRound (Suc i) n))"

declare WaitForProof.simps [simp del]

section \<open>Rendering, as the Data Availability layer does\<close>

text \<open>Decimal strings for numbers, 0x-prefixed hex for byte strings.\<close>

definition hex0x :: "bytes \<Rightarrow> string" where
  "hex0x b = ''0x'' @ hex_encode b"

definition render :: "u64 \<Rightarrow> XRPPaymentResponse \<Rightarrow> daResponse" where
  "render status x = (let q = xrRequestBody x; b = xrResponseBody x in
     \<lparr>daAttestationType = hex0x (word_bytes (xrAttestationType x)), daSourceID = hex0x (word_bytes (xrSourceID x)),
      daVotingRound = nat_string (unat (xrVotingRound x)),
      daLowestUsedTimestamp = nat_string (unat (xrLowestUsedTimestamp x)),
      daTransactionID = hex0x (word_bytes (qbTransactionID q)), daProofOwner = hex0x (word_bytes (qbProofOwner q)),
      daBlockNumber = nat_string (unat (rbBlockNumber b)), daBlockTimestamp = nat_string (unat (rbBlockTimestamp b)),
      daSourceAddress = rbSourceAddress b, daSourceAddressHash = hex0x (word_bytes (rbSourceAddressHash b)),
      daReceivingAddressHash = hex0x (word_bytes (rbReceivingAddressHash b)),
      daIntendedReceivingAddressHash = hex0x (word_bytes (rbIntendedReceivingAddressHash b)),
      daSpentAmount = int_string (rbSpentAmount b), daIntendedSpentAmount = int_string (rbIntendedSpentAmount b),
      daReceivedAmount = int_string (rbReceivedAmount b),
      daIntendedReceivedAmount = int_string (rbIntendedReceivedAmount b),
      daHasMemoData = rbHasMemoData b, daFirstMemoData = hex0x (rbFirstMemoData b),
      daHasDestinationTag = rbHasDestinationTag b, daDestinationTag = int_string (rbDestinationTag b),
      daStatus = nat_string (unat status)\<rparr>)"

lemma trim_hex0x [simp]: "trim_prefix (hex0x b) ''0x'' = hex_encode b"
  by (simp add: hex0x_def trim_prefix_def has_prefix_def)

lemma hash32_of_hex [simp]: "hash32_of (hex0x (word_bytes h)) = Inr h"
  by (simp add: hash32_of_def parse_fixed_def bytes_word_bytes)

lemma addr20_hex [simp]: "addr20 (hex0x (word_bytes a)) = Inr a"
  by (simp add: addr20_def parse_fixed_def bytes_word_bytes)

lemma hex_encode_Nil_iff [simp]: "hex_encode b = [] \<longleftrightarrow> b = []"
  by (cases b) simp_all

lemma hexBytes_hex [simp]: "hexBytes (hex0x b) = Inr b"
  by (simp add: hexBytes_def Let_def)

lemma nat_string_ne [simp]: "nat_string n \<noteq> []"
  using nat_string_hd [of n] by auto

lemma num_render [simp]: "num (nat_string (unat w)) = Inr w"
  by (simp add: num_def parse_uint64_nat_string)

lemma bigint_render [simp]: "bigint (int_string i) = Inr i"
proof -
  have "int_string i \<noteq> []" by (simp add: int_string_def)
  then show ?thesis by (simp add: bigint_def)
qed

lemma parse_render:
  assumes "unmarshal raw = Inr (render status x)"
  shows "parseResponse unmarshal raw
    = Inr (x\<lparr>xrResponseBody := (xrResponseBody x)\<lparr>rbStatus := ucast status\<rparr>\<rparr>)"
  using assms by (simp add: parseResponse_def render_def Let_def)

section \<open>The tuple handed to the verifier contract (fdc-worker)\<close>

text \<open>The argument of \<open>finalizePayment\<close>; the Merkle path is an array of words.\<close>

definition toContractProof :: "Proof \<Rightarrow> goval" where
  "toContractProof p = (let x = pfResponse p; q = xrRequestBody x; b = xrResponseBody x in
     VStruct [VStruct (map VHash (pfMerkleProof p)),
       VStruct [VHash (xrAttestationType x), VHash (xrSourceID x), VU64 (xrVotingRound x),
         VU64 (xrLowestUsedTimestamp x),
         VStruct [VHash (qbTransactionID q), VAddr (qbProofOwner q)],
         VStruct [VU64 (rbBlockNumber b), VU64 (rbBlockTimestamp b), VStr (rbSourceAddress b),
           VHash (rbSourceAddressHash b), VHash (rbReceivingAddressHash b),
           VHash (rbIntendedReceivingAddressHash b), VBig (rbSpentAmount b), VBig (rbIntendedSpentAmount b),
           VBig (rbReceivedAmount b), VBig (rbIntendedReceivedAmount b), VBool (rbHasMemoData b),
           VBytes (rbFirstMemoData b), VBool (rbHasDestinationTag b), VBig (rbDestinationTag b),
           VU8 (rbStatus b)]]])"

lemma toContractProof_inj: "toContractProof p = toContractProof q \<Longrightarrow> p = q"
proof -
  have hash: "map VHash a = map VHash b \<longleftrightarrow> a = b" for a b by (simp add: inj_map_eq_map inj_def)
  assume "toContractProof p = toContractProof q"
  then show "p = q"
    unfolding toContractProof_def Let_def
    by (intro Proof.equality XRPPaymentResponse.equality XRPPaymentRequestBody.equality
        XRPPaymentResponseBody.equality) (simp_all add: hash)
qed

section \<open>Lemmas\<close>

lemma wait_found:
  "(\<forall>j < k. fetch (i + j) = Inr None) \<Longrightarrow> k \<le> n \<Longrightarrow> fetch (i + k) = r \<Longrightarrow> r \<noteq> Inr None \<Longrightarrow>
     WaitForProof fetch vr i n = (case r of Inl e \<Rightarrow> Inl (WaitFetch e) | Inr x \<Rightarrow> Inr (the x))"
proof (induction k arbitrary: i n)
  case 0
  then show ?case by (subst WaitForProof.simps) (auto split: sum.splits option.splits)
next
  case (Suc k)
  from Suc.prems(1) have none: "fetch i = Inr None" by force
  from Suc.prems(2) obtain m where n: "n = Suc m" "k \<le> m" by (cases n) auto
  have "\<forall>j < k. fetch (Suc i + j) = Inr None" using Suc.prems(1) by auto
  with Suc.IH [of "Suc i" m] Suc.prems(3,4) n have
    "WaitForProof fetch vr (Suc i) m = (case r of Inl e \<Rightarrow> Inl (WaitFetch e) | Inr x \<Rightarrow> Inr (the x))" by simp
  with none n show ?case by (subst WaitForProof.simps) simp
qed

lemma wait_timeout:
  "(\<forall>j \<le> n. fetch (i + j) = Inr None) \<Longrightarrow> WaitForProof fetch vr i n = Inl (NoProofInTime vr)"
proof (induction n arbitrary: i)
  case 0
  then show ?case by (subst WaitForProof.simps) simp
next
  case (Suc n)
  from Suc.prems have none: "fetch i = Inr None" by force
  have "\<forall>j \<le> n. fetch (Suc i + j) = Inr None" using Suc.prems by auto
  with Suc.IH none show ?case by (subst WaitForProof.simps) simp
qed

text \<open>An error that is not a missing attestation is taken for one when its text contains the digits.\<close>

lemma server_error_taken_for_pending:
  assumes "marshal r (''0x'' @ hex_encode req) = Inr raw"
    and "fhBuild h (fcDaURL c @ ''/api/v1/fdc/proof-by-request-round'') raw = None"
    and "fhDo h (fcDaURL c @ ''/api/v1/fdc/proof-by-request-round'') raw (fdc_headers c)
      = Inr \<lparr>httpStatus = 500, httpBody = str_bytes ''upstream 404''\<rparr>"
  shows "FetchProof h c marshal decode unmarshal r req = Inr None"
proof -
  have "trim_space (bytes_str (take 1024 (str_bytes ''upstream 404''))) = ''upstream 404''"
  proof -
    have "take 1024 (str_bytes ''upstream 404'') = str_bytes ''upstream 404''"
      by (rule take_all) (simp add: str_bytes_def)
    then show ?thesis by (simp add: trim_space_def is_space_def)
  qed
  moreover have "contains (u @ ''/api/v1/fdc/proof-by-request-round returned 500: upstream 404'') ''404''" for u
    unfolding contains_iff
    by (intro exI [of _ "u @ ''/api/v1/fdc/proof-by-request-round returned 500: upstream ''"] exI [of _ "[]"]) simp
  moreover have "nat_string 500 = ''500''"
    by (simp add: nat_string_def digits.simps digit_char_def char_of_def bit_0)
  ultimately show ?thesis
    using assms by (simp add: FetchProof_def fdc_post_def Let_def StatusOK_def)
qed

section \<open>Properties\<close>

definition sample_response :: XRPPaymentResponse where
  "sample_response = \<lparr>xrAttestationType = 1, xrSourceID = 2, xrVotingRound = 1000, xrLowestUsedTimestamp = 5,
     xrRequestBody = \<lparr>qbTransactionID = 0xABC, qbProofOwner = 0xC0FFEE\<rparr>,
     xrResponseBody = \<lparr>rbBlockNumber = 7, rbBlockTimestamp = 8, rbSourceAddress = ''rA'', rbSourceAddressHash = 3,
       rbReceivingAddressHash = 4, rbIntendedReceivingAddressHash = 4, rbSpentAmount = 1012,
       rbIntendedSpentAmount = 1012, rbReceivedAmount = 1000, rbIntendedReceivedAmount = -1, rbHasMemoData = True,
       rbFirstMemoData = [0x42, 0x53], rbHasDestinationTag = False, rbDestinationTag = 0, rbStatus = 0\<rparr>\<rparr>"

text \<open>C23. The response parser recovers every field of an attestation from the strings the Data Availability
  layer sends (0x-prefixed hex, decimal numbers, signed amounts); the one exception is the status, which is
  read as a 64-bit number and stored modulo 256, so the status 256 would be read as 0, which is success.\<close>
theorem da_response_roundtrip:
  assumes "unmarshal raw = Inr (render status x)"
  shows "parseResponse unmarshal raw
    = Inr (x\<lparr>xrResponseBody := (xrResponseBody x)\<lparr>rbStatus := ucast status\<rparr>\<rparr>)"
  using assms by (rule parse_render)

theorem da_response_roundtrip_witness:
  "parseResponse (\<lambda>_. Inr (render 256 sample_response)) [] = Inr sample_response"
  using da_response_roundtrip [of "\<lambda>_. Inr (render 256 sample_response)" "[]" 256 sample_response]
  by (simp add: sample_response_def)

text \<open>The voting round derived from a block timestamp is the round whose 90 seconds contain it, for
  every timestamp from the start of the first round on.\<close>
lemma voting_round_contains:
  assumes "FirstVotingRoundStartTs \<le> timestamp"
  shows "1658430000 + 90 * unat (VotingRoundFor timestamp) \<le> unat timestamp
    \<and> unat timestamp < 1658430000 + 90 * (unat (VotingRoundFor timestamp) + 1)"
proof -
  have le: "(1658430000 :: u64) \<le> timestamp" using assms by (simp add: FirstVotingRoundStartTs_def)
  then have "unat (timestamp - 1658430000) = unat timestamp - 1658430000"
    by (simp add: unat_sub)
  then have r: "unat (VotingRoundFor timestamp) = (unat timestamp - 1658430000) div 90"
    by (simp add: VotingRoundFor_def FirstVotingRoundStartTs_def VotingEpochSeconds_def unat_div)
  have "1658430000 \<le> unat timestamp" using le by (simp add: word_le_nat_alt)
  with r show ?thesis by (simp add: algebra_simps) linarith
qed

text \<open>C24. Waiting for a proof ends: it returns the first proof or error the layer gives within the ticks the
  deadline allows, and reports that the round produced no proof in time when there is none.\<close>
theorem wait_returns_first_answer:
  "WaitForProof fetch votingRound 0 ticks =
     (case find (\<lambda>j. fetch j \<noteq> Inr None) [0..<Suc ticks] of
        None \<Rightarrow> Inl (NoProofInTime votingRound)
      | Some j \<Rightarrow> (case fetch j of Inl e \<Rightarrow> Inl (WaitFetch e) | Inr p \<Rightarrow> Inr (the p)))"
proof (cases "find (\<lambda>j. fetch j \<noteq> Inr None) [0..<Suc ticks]")
  case None
  then have "\<forall>j \<le> ticks. fetch (0 + j) = Inr None" by (auto simp: find_None_iff simp del: upt_Suc)
  with None show ?thesis by (simp add: wait_timeout del: upt_Suc)
next
  case (Some j)
  then have j: "j \<le> ticks" "fetch j \<noteq> Inr None" "\<forall>i < j. fetch i = Inr None"
    by (auto simp: find_Some_iff simp del: upt_Suc)
  with wait_found [of j fetch 0 ticks "fetch j" votingRound] Some show ?thesis by simp
qed

end
