(* ===== verification/ContractAbi.thy ===== *)
theory ContractAbi
  imports Codec
begin

text \<open>
  The on-chain surface of the services (\<open>services/internal/bridgesafe/abi.go\<close>): the interfaces of the five
  contracts, as data with the names, types and order the JSON has, and what go-ethereum's \<open>abi\<close> package
  does with them. That package is third-party code, so the services take its functions as parameters; the
  locale \<open>abi_package\<close> states what they rely on, which a reference encoder written from the ABI
  specification satisfies.
\<close>

section \<open>Interfaces\<close>

datatype sol_ty =
    SUint nat | SInt nat | SAddress | SBytes32 | SBytes | SString | SBool | SArray sol_ty
  | STuple "(string \<times> sol_ty) list"

datatype mutability = View | NonPayable | Payable

record abi_method =
  amName :: string
  amMutability :: mutability
  amInputs :: "(string \<times> sol_ty) list"
  amOutputs :: "(string \<times> sol_ty) list"

text \<open>An input of an event has a name, a type and the flag \<open>indexed\<close>.\<close>

record abi_event =
  aeName :: string
  aeInputs :: "(string \<times> sol_ty \<times> bool) list"

record contract_abi =
  caMethods :: "abi_method list"
  caEvents :: "abi_event list"

definition find_method :: "contract_abi \<Rightarrow> string \<Rightarrow> abi_method option" where
  "find_method a m = find (\<lambda>x. amName x = m) (caMethods a)"

definition find_event :: "contract_abi \<Rightarrow> string \<Rightarrow> abi_event option" where
  "find_event a n = find (\<lambda>x. aeName x = n) (caEvents a)"

definition NonIndexed :: "abi_event \<Rightarrow> (string \<times> sol_ty) list" where
  "NonIndexed ev = map (\<lambda>(n, t, _). (n, t)) (filter (\<lambda>(_, _, indexed). \<not> indexed) (aeInputs ev))"

section \<open>The five contracts\<close>

definition requestTuple :: "(string \<times> sol_ty) list" where
  "requestTuple =
     [(''treasuryId'', SUint 256), (''requester'', SAddress), (''nonce'', SUint 64), (''createdAt'', SUint 64),
      (''expiresAt'', SUint 64), (''payloadHash'', SBytes32), (''memoRef'', SBytes32),
      (''amountDrops'', SUint 256), (''destinationHash'', SBytes32), (''expectedTxId'', SBytes32),
      (''signedBlobHash'', SBytes32), (''xrplTxId'', SBytes32), (''state'', SUint 8)]"

definition reportMethods :: "abi_method list" where
  "reportMethods =
     [\<lparr>amName = ''reportBroadcast'', amMutability = NonPayable,
       amInputs = [(''_requestId'', SUint 256), (''_xrplTxId'', SBytes32)], amOutputs = []\<rparr>,
      \<lparr>amName = ''getRequest'', amMutability = View, amInputs = [(''_requestId'', SUint 256)],
       amOutputs = [([], STuple requestTuple)]\<rparr>]"

definition paymentEvents :: "abi_event list" where
  "paymentEvents =
     [\<lparr>aeName = ''PaymentSigned'', aeInputs = [(''requestId'', SUint 256, True),
        (''expectedTxId'', SBytes32, False), (''signedBlobHash'', SBytes32, False),
        (''signedTxBlob'', SBytes, False)]\<rparr>,
      \<lparr>aeName = ''PaymentBroadcast'', aeInputs = [(''requestId'', SUint 256, True),
        (''xrplTxId'', SBytes32, False)]\<rparr>,
      \<lparr>aeName = ''PaymentSettled'', aeInputs = [(''requestId'', SUint 256, True),
        (''xrplTxId'', SBytes32, False), (''amountDrops'', SUint 256, False)]\<rparr>]"

definition instructionEvents :: "abi_event list" where
  "instructionEvents =
     [\<lparr>aeName = ''TreasuryCreated'', aeInputs = [(''treasuryId'', SUint 256, True), (''owner'', SAddress, True),
        (''policyCommitment'', SBytes32, False), (''instructionId'', SBytes32, False)]\<rparr>,
      \<lparr>aeName = ''PolicyUpdateRequested'', aeInputs = [(''treasuryId'', SUint 256, True),
        (''policyCommitment'', SBytes32, False), (''instructionId'', SBytes32, False)]\<rparr>,
      \<lparr>aeName = ''PaymentRequested'', aeInputs = [(''requestId'', SUint 256, True),
        (''treasuryId'', SUint 256, True), (''requester'', SAddress, True), (''nonce'', SUint 64, False),
        (''memoRef'', SBytes32, False), (''expiresAt'', SUint 64, False), (''payloadHash'', SBytes32, False),
        (''instructionId'', SBytes32, False)]\<rparr>,
      \<lparr>aeName = ''SignatureRequested'', aeInputs = [(''requestId'', SUint 256, True),
        (''instructionId'', SBytes32, False)]\<rparr>]"

text \<open>The five methods that take a signed result have the same inputs.\<close>

definition resultInputs :: "(string \<times> sol_ty) list" where
  "resultInputs = [(''_resultData'', SBytes), (''_actionId'', SBytes32), (''_submissionTag'', SString),
     (''_status'', SUint 8), (''_signature'', SBytes)]"

definition resultMethods :: "abi_method list" where
  "resultMethods =
     map (\<lambda>n. \<lparr>amName = n, amMutability = NonPayable, amInputs = resultInputs, amOutputs = []\<rparr>)
       [''bindTreasuryAddress'', ''confirmPolicy'', ''submitAuthorization'', ''submitSignedPayment'',
        ''submitFailure'']"

definition controllerABI :: contract_abi where
  "controllerABI = \<lparr>caMethods = reportMethods @ resultMethods, caEvents = paymentEvents @ instructionEvents\<rparr>"

definition requestBodyTuple :: "(string \<times> sol_ty) list" where
  "requestBodyTuple = [(''transactionId'', SBytes32), (''proofOwner'', SAddress)]"

definition responseBodyTuple :: "(string \<times> sol_ty) list" where
  "responseBodyTuple =
     [(''blockNumber'', SUint 64), (''blockTimestamp'', SUint 64), (''sourceAddress'', SString),
      (''sourceAddressHash'', SBytes32), (''receivingAddressHash'', SBytes32),
      (''intendedReceivingAddressHash'', SBytes32), (''spentAmount'', SInt 256),
      (''intendedSpentAmount'', SInt 256), (''receivedAmount'', SInt 256),
      (''intendedReceivedAmount'', SInt 256), (''hasMemoData'', SBool), (''firstMemoData'', SBytes),
      (''hasDestinationTag'', SBool), (''destinationTag'', SUint 256), (''status'', SUint 8)]"

definition proofTuple :: "(string \<times> sol_ty) list" where
  "proofTuple =
     [(''merkleProof'', SArray SBytes32),
      (''data'', STuple
        [(''attestationType'', SBytes32), (''sourceId'', SBytes32), (''votingRound'', SUint 64),
         (''lowestUsedTimestamp'', SUint 64), (''requestBody'', STuple requestBodyTuple),
         (''responseBody'', STuple responseBodyTuple)])]"

definition verifierABI :: contract_abi where
  "verifierABI = \<lparr>caMethods = [\<lparr>amName = ''finalizePayment'', amMutability = NonPayable,
     amInputs = [(''_requestId'', SUint 256), (''_proof'', STuple proofTuple)], amOutputs = []\<rparr>], caEvents = []\<rparr>"

definition fdcHubABI :: contract_abi where
  "fdcHubABI = \<lparr>caMethods = [\<lparr>amName = ''requestAttestation'', amMutability = Payable,
     amInputs = [(''_data'', SBytes)], amOutputs = []\<rparr>], caEvents = []\<rparr>"

definition feeConfigABI :: contract_abi where
  "feeConfigABI = \<lparr>caMethods = [\<lparr>amName = ''getRequestFee'', amMutability = View,
     amInputs = [(''_data'', SBytes)], amOutputs = [([], SUint 256)]\<rparr>], caEvents = []\<rparr>"

definition relayABI :: contract_abi where
  "relayABI = \<lparr>caMethods = [\<lparr>amName = ''isFinalized'', amMutability = View,
     amInputs = [(''_protocolId'', SUint 256), (''_votingRoundId'', SUint 256)],
     amOutputs = [([], SBool)]\<rparr>], caEvents = []\<rparr>"

text \<open>The parsed interfaces are resolved once at start-up; an interface that does not parse is a panic.\<close>

definition mustParse :: "(string \<Rightarrow> string + 'a) \<Rightarrow> string \<Rightarrow> string \<Rightarrow> string + 'a" where
  "mustParse parse name raw =
     (case parse raw of
        Inl err \<Rightarrow> Inl (''bridgesafe: '' @ name @ '' ABI is malformed: '' @ err)
      | Inr parsed \<Rightarrow> Inr parsed)"

definition FdcProtocolID :: int where "FdcProtocolID = 200"

lemmas interface_defs = requestTuple_def reportMethods_def paymentEvents_def instructionEvents_def
  resultInputs_def resultMethods_def controllerABI_def requestBodyTuple_def responseBodyTuple_def
  proofTuple_def verifierABI_def fdcHubABI_def feeConfigABI_def relayABI_def

section \<open>Values of a type\<close>

text \<open>The Go values the package accepts for, and returns from, a Solidity type: \<open>uint8\<close>, \<open>uint32\<close> and
  \<open>uint64\<close> for the integers of that width, \<open>*big.Int\<close> for the others, a struct for a tuple and a slice for
  an array.\<close>

fun conforms :: "sol_ty \<Rightarrow> goval \<Rightarrow> bool" where
  "conforms (SUint n) v =
     (case v of VU8 _ \<Rightarrow> n = 8 | VU32 _ \<Rightarrow> n = 32 | VU64 _ \<Rightarrow> n = 64 | VBig _ \<Rightarrow> n \<notin> {8, 16, 32, 64}
      | _ \<Rightarrow> False)"
| "conforms (SInt n) v = (case v of VBig _ \<Rightarrow> n \<notin> {8, 16, 32, 64} | _ \<Rightarrow> False)"
| "conforms SAddress v = (case v of VAddr _ \<Rightarrow> True | _ \<Rightarrow> False)"
| "conforms SBytes32 v = (case v of VHash _ \<Rightarrow> True | _ \<Rightarrow> False)"
| "conforms SBytes v = (case v of VBytes _ \<Rightarrow> True | _ \<Rightarrow> False)"
| "conforms SString v = (case v of VStr _ \<Rightarrow> True | _ \<Rightarrow> False)"
| "conforms SBool v = (case v of VBool _ \<Rightarrow> True | _ \<Rightarrow> False)"
| "conforms (SArray t) v = (case v of VStruct vs \<Rightarrow> list_all (conforms t) vs | _ \<Rightarrow> False)"
| "conforms (STuple fs) v = (case v of VStruct vs \<Rightarrow> list_all2 (\<lambda>(_, t). conforms t) fs vs | _ \<Rightarrow> False)"

definition args_conform :: "(string \<times> sol_ty) list \<Rightarrow> goval list \<Rightarrow> bool" where
  "args_conform params vs = list_all2 (\<lambda>(_, t). conforms t) params vs"

lemma args_conform_simps [simp]:
  "args_conform [] vs \<longleftrightarrow> vs = []"
  "args_conform ((n, t) # ps) [] \<longleftrightarrow> False"
  "args_conform ((n, t) # ps) (v # vs) \<longleftrightarrow> conforms t v \<and> args_conform ps vs"
  by (auto simp: args_conform_def)

lemma args_conform_length: "args_conform ps vs \<Longrightarrow> length vs = length ps"
  by (simp add: args_conform_def list_all2_lengthD)

lemma args_conform_Cons: "args_conform ((n, t) # ps) vs \<longleftrightarrow> (\<exists>v ws. vs = v # ws \<and> conforms t v \<and> args_conform ps ws)"
  by (cases vs) auto

lemma args_conform_last: "args_conform (ps @ [(n, t)]) vs \<Longrightarrow> vs \<noteq> [] \<and> conforms t (last vs)"
  by (auto simp: args_conform_def list_all2_append1 list_all2_Cons1)

lemma conforms_tuple: "conforms (STuple fs) (VStruct vs) \<longleftrightarrow> args_conform fs vs"
  by (simp add: args_conform_def)

declare conforms.simps(9) [simp del]
declare conforms_tuple [simp]

lemma conforms_struct: "conforms (STuple fs) v \<longleftrightarrow> (\<exists>vs. v = VStruct vs \<and> args_conform fs vs)"
  by (cases v) (simp_all add: conforms.simps(9) args_conform_def)

lemma conforms_values:
  "conforms SAddress v \<longleftrightarrow> (\<exists>a. v = VAddr a)" "conforms SBytes32 v \<longleftrightarrow> (\<exists>h. v = VHash h)"
  "conforms SBytes v \<longleftrightarrow> (\<exists>b. v = VBytes b)" "conforms SString v \<longleftrightarrow> (\<exists>s. v = VStr s)"
  "conforms SBool v \<longleftrightarrow> (\<exists>b. v = VBool b)" "conforms (SUint 8) v \<longleftrightarrow> (\<exists>w. v = VU8 w)"
  "conforms (SUint 64) v \<longleftrightarrow> (\<exists>w. v = VU64 w)" "conforms (SUint 256) v \<longleftrightarrow> (\<exists>i. v = VBig i)"
  "conforms (SInt 256) v \<longleftrightarrow> (\<exists>i. v = VBig i)"
  by (cases v; simp)+

text \<open>The call of a method with its arguments, when the interface has it.\<close>

definition call_ok :: "contract_abi \<Rightarrow> string \<Rightarrow> goval list \<Rightarrow> bool" where
  "call_ok a m args \<longleftrightarrow> (case find_method a m of None \<Rightarrow> False | Some mt \<Rightarrow> args_conform (amInputs mt) args)"

section \<open>The contract of the ABI package\<close>

locale abi_package =
  fixes pack :: "contract_abi \<Rightarrow> string \<Rightarrow> goval list \<Rightarrow> string + bytes"
    and unpack :: "contract_abi \<Rightarrow> string \<Rightarrow> bytes \<Rightarrow> string + goval list"
    and unpack_event :: "contract_abi \<Rightarrow> string \<Rightarrow> bytes \<Rightarrow> string + goval list"
  assumes pack_total: "call_ok a m args \<Longrightarrow> \<exists>bs. pack a m args = Inr bs"
    and unpack_typed: "find_method a m = Some mt \<Longrightarrow> unpack a m bs = Inr vs \<Longrightarrow> args_conform (amOutputs mt) vs"
    and event_typed: "find_event a n = Some ev \<Longrightarrow> unpack_event a n bs = Inr vs \<Longrightarrow> args_conform (NonIndexed ev) vs"
begin

lemma pack_ok: "call_ok a m args \<Longrightarrow> pack a m args \<noteq> Inl e"
  using pack_total [of a m args] by auto

lemma fee_is_big: "unpack feeConfigABI ''getRequestFee'' bs = Inr vs \<Longrightarrow> \<exists>i. vs = [VBig i]"
  by (drule unpack_typed [rotated])
    (auto simp: find_method_def feeConfigABI_def args_conform_Cons conforms_values simp del: conforms.simps)

lemma finalized_is_bool: "unpack relayABI ''isFinalized'' bs = Inr vs \<Longrightarrow> \<exists>b. vs = [VBool b]"
  by (drule unpack_typed [rotated])
    (auto simp: find_method_def relayABI_def args_conform_Cons conforms_values simp del: conforms.simps)

lemma request_is_tuple:
  "unpack controllerABI ''getRequest'' bs = Inr vs \<Longrightarrow> \<exists>fs. vs = [VStruct fs] \<and> args_conform requestTuple fs"
  by (drule unpack_typed [rotated])
    (auto simp: find_method_def controllerABI_def reportMethods_def args_conform_Cons conforms_struct)

end

section \<open>A reference, from the ABI specification\<close>

fun dynamic_sol :: "sol_ty \<Rightarrow> bool" where
  "dynamic_sol SBytes = True"
| "dynamic_sol SString = True"
| "dynamic_sol (SArray t) = True"
| "dynamic_sol (STuple fs) = list_ex (\<lambda>(_, t). dynamic_sol t) fs"
| "dynamic_sol _ = False"

text \<open>The bytes a type takes in the head of its frame.\<close>

fun sol_head :: "sol_ty \<Rightarrow> nat" where
  "sol_head (STuple fs) =
     (if dynamic_sol (STuple fs) then 32 else sum_list (map (\<lambda>(_, t). sol_head t) fs))"
| "sol_head _ = 32"

fun sol_word :: "goval \<Rightarrow> nat" where
  "sol_word (VBig i) = nat (i mod 2 ^ 256)"
| "sol_word (VU64 w) = unat w"
| "sol_word (VU32 w) = unat w"
| "sol_word (VU8 w) = unat w"
| "sol_word (VAddr a) = unat a"
| "sol_word (VHash h) = unat h"
| "sol_word (VBool b) = (if b then 1 else 0)"
| "sol_word _ = 0"

fun sol_heads :: "nat \<Rightarrow> (bool \<times> bytes) list \<Rightarrow> bytes" where
  "sol_heads off [] = []"
| "sol_heads off ((dyn, b) # ps) =
     (if dyn then be_fixed 32 off @ sol_heads (off + length b) ps else b @ sol_heads off ps)"

text \<open>A frame: the static parts and the offsets of the dynamic ones, then the dynamic parts.\<close>

definition frame :: "(bool \<times> bytes) list \<Rightarrow> bytes" where
  "frame ps = sol_heads (sum_list (map (\<lambda>(dyn, b). if dyn then 32 else length b) ps)) ps
     @ concat (map snd (filter fst ps))"

fun enc_sol :: "sol_ty \<Rightarrow> goval \<Rightarrow> bytes"
  and enc_parts :: "(string \<times> sol_ty) list \<Rightarrow> goval list \<Rightarrow> (bool \<times> bytes) list" where
  "enc_sol (SArray t) v =
     (case v of
        VStruct vs \<Rightarrow> be_fixed 32 (length vs) @ frame (map (\<lambda>v. (dynamic_sol t, enc_sol t v)) vs)
      | _ \<Rightarrow> be_fixed 32 (sol_word v))"
| "enc_sol (STuple fs) v =
     (case v of VStruct vs \<Rightarrow> frame (enc_parts fs vs) | _ \<Rightarrow> be_fixed 32 (sol_word v))"
| "enc_sol SBytes v = enc_dyn (dyn_bytes v)"
| "enc_sol SString v = enc_dyn (dyn_bytes v)"
| "enc_sol _ v = be_fixed 32 (sol_word v)"
| "enc_parts ((_, t) # fs) (v # vs) = (dynamic_sol t, enc_sol t v) # enc_parts fs vs"
| "enc_parts _ _ = []"

definition word_at :: "bytes \<Rightarrow> nat \<Rightarrow> nat option" where
  "word_at f pos = (if pos + 32 \<le> length f then Some (be_val (take 32 (drop pos f))) else None)"

definition sol_uint :: "nat \<Rightarrow> nat \<Rightarrow> goval option" where
  "sol_uint n w =
     (if w \<ge> 2 ^ n then None
      else if n = 8 then Some (VU8 (of_nat w)) else if n = 32 then Some (VU32 (of_nat w))
      else if n = 64 then Some (VU64 (of_nat w)) else if n = 16 then None else Some (VBig (int w)))"

definition sol_int :: "nat \<Rightarrow> nat \<Rightarrow> goval option" where
  "sol_int n w =
     (if n \<in> {8, 16, 32, 64} then None
      else Some (VBig (if w < 2 ^ 255 then int w else int w - 2 ^ 256)))"

definition bytes_at :: "bytes \<Rightarrow> nat \<Rightarrow> bytes option" where
  "bytes_at f off =
     (case word_at f off of None \<Rightarrow> None
      | Some n \<Rightarrow> if off + 32 + n \<le> length f then Some (take n (drop (off + 32) f)) else None)"

fun dec_sol :: "sol_ty \<Rightarrow> bytes \<Rightarrow> nat \<Rightarrow> goval option"
  and dec_fields :: "(string \<times> sol_ty) list \<Rightarrow> bytes \<Rightarrow> nat \<Rightarrow> goval list option" where
  "dec_sol (SUint n) f pos = Option.bind (word_at f pos) (sol_uint n)"
| "dec_sol (SInt n) f pos = Option.bind (word_at f pos) (sol_int n)"
| "dec_sol SAddress f pos = map_option (\<lambda>w. VAddr (of_nat w)) (word_at f pos)"
| "dec_sol SBytes32 f pos = map_option (\<lambda>w. VHash (of_nat w)) (word_at f pos)"
| "dec_sol SBool f pos = Option.bind (word_at f pos) (\<lambda>w. if w \<le> 1 then Some (VBool (w = 1)) else None)"
| "dec_sol SBytes f pos = Option.bind (word_at f pos) (\<lambda>off. map_option VBytes (bytes_at f off))"
| "dec_sol SString f pos =
     Option.bind (word_at f pos) (\<lambda>off. map_option (\<lambda>b. VStr (bytes_str b)) (bytes_at f off))"
| "dec_sol (SArray t) f pos =
     Option.bind (word_at f pos) (\<lambda>off. Option.bind (word_at f off) (\<lambda>n.
       if off + 32 + 32 * n \<le> length f
       then map_option VStruct (those (map (\<lambda>i. dec_sol t (drop (off + 32) f) (i * sol_head t)) [0..<n]))
       else None))"
| "dec_sol (STuple fs) f pos =
     map_option VStruct
       (if dynamic_sol (STuple fs)
        then Option.bind (word_at f pos) (\<lambda>off. dec_fields fs (drop off f) 0) else dec_fields fs f pos)"
| "dec_fields [] f pos = Some []"
| "dec_fields ((_, t) # fs) f pos =
     Option.bind (dec_sol t f pos) (\<lambda>v. map_option ((#) v) (dec_fields fs f (pos + sol_head t)))"

definition sol_pack :: "(string \<Rightarrow> bytes) \<Rightarrow> contract_abi \<Rightarrow> string \<Rightarrow> goval list \<Rightarrow> string + bytes" where
  "sol_pack selector a m args =
     (case find_method a m of
        None \<Rightarrow> Inl (''method '' @ m @ '' not found'')
      | Some mt \<Rightarrow>
          if args_conform (amInputs mt) args then Inr (selector m @ frame (enc_parts (amInputs mt) args))
          else Inl ''abi: cannot use the arguments'')"

definition sol_unpack :: "contract_abi \<Rightarrow> string \<Rightarrow> bytes \<Rightarrow> string + goval list" where
  "sol_unpack a m bs =
     (case Option.bind (find_method a m) (\<lambda>mt. dec_fields (amOutputs mt) bs 0) of
        None \<Rightarrow> Inl ''abi: cannot unmarshal'' | Some vs \<Rightarrow> Inr vs)"

definition sol_unpack_event :: "contract_abi \<Rightarrow> string \<Rightarrow> bytes \<Rightarrow> string + goval list" where
  "sol_unpack_event a n bs =
     (case Option.bind (find_event a n) (\<lambda>ev. dec_fields (NonIndexed ev) bs 0) of
        None \<Rightarrow> Inl ''abi: cannot unmarshal'' | Some vs \<Rightarrow> Inr vs)"

lemma those_all: "those xs = Some ys \<Longrightarrow> list_all2 (\<lambda>x y. x = Some y) xs ys"
  by (induction xs arbitrary: ys) (auto split: option.splits)

lemma dec_sol_conforms: "dec_sol t f pos = Some v \<Longrightarrow> conforms t v"
  and dec_fields_conform: "dec_fields fs f pos = Some vs \<Longrightarrow> args_conform fs vs"
proof (induction t f pos and fs f pos arbitrary: v and vs rule: dec_sol_dec_fields.induct)
  case (8 t f pos)
  then obtain off n vs where v: "v = VStruct vs"
    and "those (map (\<lambda>i. dec_sol t (drop (off + 32) f) (i * sol_head t)) [0..<n]) = Some vs"
    and n: "word_at f pos = Some off" "word_at f off = Some n" "off + 32 + 32 * n \<le> length f"
    by (auto simp: bind_eq_Some_conv split: if_splits)
  then have "list_all2 (\<lambda>i v. dec_sol t (drop (off + 32) f) (i * sol_head t) = Some v) [0..<n] vs"
    by (auto dest!: those_all simp: list_all2_map1)
  with n "8.IH" have "\<forall>w \<in> set vs. conforms t w"
    by (fastforce simp: list_all2_conv_all_nth in_set_conv_nth)
  with v show ?case by (simp add: list_all_iff)
qed (auto simp: bind_eq_Some_conv sol_uint_def sol_int_def conforms_struct split: if_splits)

interpretation sol: abi_package "sol_pack selector" sol_unpack sol_unpack_event
proof
  show "\<exists>bs. sol_pack selector a m args = Inr bs" if "call_ok a m args" for a m args
    using that by (auto simp: call_ok_def sol_pack_def split: option.splits)
  show "args_conform (amOutputs mt) vs" if "find_method a m = Some mt" "sol_unpack a m bs = Inr vs" for a m mt bs vs
    using that by (auto simp: sol_unpack_def dest: dec_fields_conform split: option.splits)
  show "args_conform (NonIndexed ev) vs" if "find_event a n = Some ev" "sol_unpack_event a n bs = Inr vs" for a n ev bs vs
    using that by (auto simp: sol_unpack_event_def dest: dec_fields_conform split: option.splits)
qed

end
