(* ===== verification/Chain.thy ===== *)
theory Chain
  imports EnclaveIO ContractAbi
begin

text \<open>
  The services' chain client (\<open>services/internal/bridgesafe\<close>): connecting, calling views, sending
  transactions and waiting for receipts (\<open>client.go\<close>), the struct copier (\<open>reflect.go\<close>), and the scan of
  contract logs that the three services share: the locale \<open>log_scan\<close> states what one tick of such a
  service does to its position, and derives that no block is scanned to completion twice or skipped.
  The RPC node and go-ethereum are parameters.
\<close>

section \<open>Sending a transaction (client.go)\<close>

record transaction =
  txNonce :: u64
  txTo :: address
  txValue :: int
  txGas :: u64
  txGasPrice :: int
  txData :: bytes

record receipt =
  rcStatus :: u64
  rcTxHash :: hash32
  rcBlockNumber :: u64

record log =
  lgTopics :: "hash32 list"
  lgData :: bytes

text \<open>A query for logs: a range, the emitting contracts, and per topic position the accepted topics.\<close>

record log_query =
  lqFromBlock :: u64
  lqToBlock :: u64
  lqAddresses :: "address list"
  lqTopics :: "hash32 list list"

text \<open>What the node and go-ethereum answer during one interaction.\<close>

record eth =
  ethHasKey :: bool
  ethPack :: "contract_abi \<Rightarrow> string \<Rightarrow> goval list \<Rightarrow> string + bytes"
  ethUnpack :: "contract_abi \<Rightarrow> string \<Rightarrow> bytes \<Rightarrow> string + goval list"
  ethUnpackEvent :: "contract_abi \<Rightarrow> string \<Rightarrow> bytes \<Rightarrow> string + goval list"
  ethCallContract :: "address \<Rightarrow> bytes \<Rightarrow> string + bytes"
  ethPendingNonce :: "string + u64"
  ethSuggestGasPrice :: "string + int"
  ethEstimateGas :: "address \<Rightarrow> int \<Rightarrow> bytes \<Rightarrow> string + u64"
  ethSignTx :: "transaction \<Rightarrow> string + hash32"   \<comment> \<open>the hash of the signed transaction\<close>
  ethSendTransaction :: "transaction \<Rightarrow> string option"
  ethReceipt :: "hash32 \<Rightarrow> nat \<Rightarrow> receipt option"  \<comment> \<open>the answer to the n-th poll\<close>
  ethBlockNumber :: "string + u64"
  ethHeaderTime :: "u64 \<Rightarrow> string + u64"
  ethFilterLogs :: "log_query \<Rightarrow> string + log list"
  ethTicks :: nat                                 \<comment> \<open>polls left before the context is done\<close>
  ethCtxErr :: string

datatype send_error =
    ReadOnlyClient
  | PackingMethod string string
  | ReadingNonce string
  | SuggestingGas string
  | EstimatingGas string string
  | SigningTx string string
  | SendingTx string string
  | WaitingReceipt hash32 string
  | RevertedTx string hash32

definition hash_hex :: "hash32 \<Rightarrow> string" where
  "hash_hex h = ''0x'' @ hex_encode (word_bytes h)"

text \<open>\<open>err.Error()\<close>, which the services search.\<close>

fun send_error_string :: "send_error \<Rightarrow> string" where
  "send_error_string ReadOnlyClient = ''chain client is read-only: no signing key configured''"
| "send_error_string (PackingMethod m e) = ''packing '' @ m @ '': '' @ e"
| "send_error_string (ReadingNonce e) = ''reading nonce: '' @ e"
| "send_error_string (SuggestingGas e) = ''suggesting gas price: '' @ e"
| "send_error_string (EstimatingGas m e) = ''estimating gas for '' @ m @ '' (the call would revert): '' @ e"
| "send_error_string (SigningTx m e) = ''signing '' @ m @ '': '' @ e"
| "send_error_string (SendingTx m e) = ''sending '' @ m @ '': '' @ e"
| "send_error_string (WaitingReceipt h e) = ''waiting for receipt of '' @ hash_hex h @ '': '' @ e"
| "send_error_string (RevertedTx m h) = m @ '' reverted (tx '' @ hash_hex h @ '')''"

fun waitForReceipt :: "eth \<Rightarrow> hash32 \<Rightarrow> nat \<Rightarrow> nat \<Rightarrow> send_error + receipt" where
  "waitForReceipt c hash i ticks =
     (case ethReceipt c hash i of
        Some receipt \<Rightarrow> Inr receipt
      | None \<Rightarrow>
          (case ticks of 0 \<Rightarrow> Inl (WaitingReceipt hash (ethCtxErr c))
           | Suc n \<Rightarrow> waitForReceipt c hash (Suc i) n))"

declare waitForReceipt.simps [simp del]

definition Call :: "eth \<Rightarrow> contract_abi \<Rightarrow> address \<Rightarrow> string \<Rightarrow> goval list \<Rightarrow> string + goval list" where
  "Call c parsed to method args =
     (case ethPack c parsed method args of
        Inl e \<Rightarrow> Inl (''packing '' @ method @ '': '' @ e)
      | Inr data \<Rightarrow>
     (case ethCallContract c to data of
        Inl e \<Rightarrow> Inl (''calling '' @ method @ '': '' @ e)
      | Inr out \<Rightarrow> ethUnpack c parsed method out))"

definition tx_for :: "eth \<Rightarrow> address \<Rightarrow> int \<Rightarrow> bytes \<Rightarrow> u64 \<Rightarrow> int \<Rightarrow> u64 \<Rightarrow> transaction" where
  "tx_for c to value data nonce gasPrice gas =
     \<lparr>txNonce = nonce, txTo = to, txValue = value, txGas = gas + gas div 5, txGasPrice = gasPrice,
      txData = data\<rparr>"

definition Send ::
  "eth \<Rightarrow> contract_abi \<Rightarrow> address \<Rightarrow> int option \<Rightarrow> string \<Rightarrow> goval list \<Rightarrow> send_error + receipt" where
  "Send c parsed to value method args =
     (if \<not> ethHasKey c then Inl ReadOnlyClient
      else case ethPack c parsed method args of
        Inl e \<Rightarrow> Inl (PackingMethod method e)
      | Inr data \<Rightarrow>
     (case ethPendingNonce c of
        Inl e \<Rightarrow> Inl (ReadingNonce e)
      | Inr nonce \<Rightarrow>
     (case ethSuggestGasPrice c of
        Inl e \<Rightarrow> Inl (SuggestingGas e)
      | Inr gasPrice \<Rightarrow>
     (let value = (case value of None \<Rightarrow> 0 | Some v \<Rightarrow> v) in
      case ethEstimateGas c to value data of
        Inl e \<Rightarrow> Inl (EstimatingGas method e)
      | Inr gas \<Rightarrow>
     (let tx = tx_for c to value data nonce gasPrice gas in
      case ethSignTx c tx of
        Inl e \<Rightarrow> Inl (SigningTx method e)
      | Inr hash \<Rightarrow>
     (case ethSendTransaction c tx of
        Some e \<Rightarrow> Inl (SendingTx method e)
      | None \<Rightarrow>
     (case waitForReceipt c hash 0 (ethTicks c) of
        Inl e \<Rightarrow> Inl e
      | Inr receipt \<Rightarrow>
          if rcStatus receipt \<noteq> 1 then Inl (RevertedTx method hash) else Inr receipt)))))))"

text \<open>Reading logs, the head and a block's time.\<close>

definition FilterLogs :: "eth \<Rightarrow> address \<Rightarrow> hash32 \<Rightarrow> u64 \<Rightarrow> u64 \<Rightarrow> string + log list" where
  "FilterLogs c addr topic from until =
     ethFilterLogs c \<lparr>lqFromBlock = from, lqToBlock = until, lqAddresses = [addr], lqTopics = [[topic]]\<rparr>"

definition FilterLogsAny :: "eth \<Rightarrow> address \<Rightarrow> hash32 list \<Rightarrow> u64 \<Rightarrow> u64 \<Rightarrow> string + log list" where
  "FilterLogsAny c addr topics from until =
     ethFilterLogs c \<lparr>lqFromBlock = from, lqToBlock = until, lqAddresses = [addr], lqTopics = [topics]\<rparr>"

definition BlockNumber :: "eth \<Rightarrow> string + u64" where
  "BlockNumber c = ethBlockNumber c"

definition BlockTimestamp :: "eth \<Rightarrow> u64 \<Rightarrow> string + u64" where
  "BlockTimestamp c number =
     (case ethHeaderTime c number of
        Inl e \<Rightarrow> Inl (''reading block '' @ nat_string (unat number) @ '': '' @ e)
      | Inr time \<Rightarrow> Inr time)"

definition trim0x :: "string \<Rightarrow> string" where
  "trim0x s = (if length s \<ge> 2 \<and> (take 2 s = ''0x'' \<or> take 2 s = ''0X'') then drop 2 s else s)"

record chain =
  chChainID :: int
  chKey :: bool
  chFrom :: address

datatype dial_error = Connecting string string | ReadingChainId string | ParsingKey string

text \<open>The connection and key parsing are go-ethereum's; the key is kept as its presence and address.\<close>

definition Dial ::
  "(string \<Rightarrow> string + (string + int)) \<Rightarrow> (string \<Rightarrow> string + address) \<Rightarrow> string \<Rightarrow> string \<Rightarrow> dial_error + chain" where
  "Dial dial hexToKey rpcURL privateKeyHex =
     (case dial rpcURL of
        Inl e \<Rightarrow> Inl (Connecting rpcURL e)
      | Inr (Inl e) \<Rightarrow> Inl (ReadingChainId e)
      | Inr (Inr chainID) \<Rightarrow>
          if privateKeyHex \<noteq> [] then
            (case hexToKey (trim0x privateKeyHex) of
               Inl e \<Rightarrow> Inl (ParsingKey e)
             | Inr from \<Rightarrow> Inr \<lparr>chChainID = chainID, chKey = True, chFrom = from\<rparr>)
          else Inr \<lparr>chChainID = chainID, chKey = False, chFrom = 0\<rparr>)"

section \<open>Copying decoded structs (reflect.go)\<close>

definition CopyStruct :: "gotype list \<Rightarrow> goval \<Rightarrow> codec_error + goval list" where
  "CopyStruct dst src =
     (case src of
        VStruct vs \<Rightarrow>
          if length vs \<noteq> length dst then Inl (FieldCount (length vs) (length dst))
          else copy_fields 0 dst vs
      | _ \<Rightarrow> Inl NotStruct)"

lemma CopyStruct_eq: "CopyStruct = copyStruct"
  by (simp add: CopyStruct_def copyStruct_def fun_eq_iff)

section \<open>Facts about sending\<close>

lemma wait_receipt_from:
  "waitForReceipt c hash i n = Inr r \<Longrightarrow> \<exists>k. i \<le> k \<and> k \<le> i + n \<and> ethReceipt c hash k = Some r"
proof (induction n arbitrary: i)
  case 0
  then show ?case by (subst (asm) waitForReceipt.simps) (auto split: option.splits)
next
  case (Suc n)
  show ?case
  proof (cases "ethReceipt c hash i")
    case (Some x)
    with Suc.prems show ?thesis by (subst (asm) waitForReceipt.simps) auto
  next
    case None
    with Suc.prems have "waitForReceipt c hash (Suc i) n = Inr r" by (subst (asm) waitForReceipt.simps) simp
    from Suc.IH [OF this] obtain k where "Suc i \<le> k" "k \<le> Suc i + n" "ethReceipt c hash k = Some r" by blast
    then show ?thesis by (intro exI [of _ k]) simp
  qed
qed

lemma Send_Inr:
  assumes "Send c parsed to value method args = Inr receipt"
  obtains data nonce gasPrice gas hash k where "ethHasKey c" "ethPack c parsed method args = Inr data"
    "ethPendingNonce c = Inr nonce" "ethSuggestGasPrice c = Inr gasPrice"
    "ethEstimateGas c to (case value of None \<Rightarrow> 0 | Some v \<Rightarrow> v) data = Inr gas"
    "ethSendTransaction c (tx_for c to (case value of None \<Rightarrow> 0 | Some v \<Rightarrow> v) data nonce gasPrice gas) = None"
    "ethSignTx c (tx_for c to (case value of None \<Rightarrow> 0 | Some v \<Rightarrow> v) data nonce gasPrice gas) = Inr hash"
    "ethReceipt c hash k = Some receipt" "rcStatus receipt = 1"
  using assms unfolding Send_def Let_def
  by (auto split: if_splits sum.splits option.splits dest!: wait_receipt_from)

section \<open>Scanning logs\<close>

lemma upt_join: "i \<le> j \<Longrightarrow> j \<le> k \<Longrightarrow> [i..<j] @ [j..<k] = [i..<k]"
  using upt_add_eq_append [of i j "k - j"] by simp

text \<open>What one tick of a service observes: the chain's head, and the logs of the range it asks for.\<close>

type_synonym 'l view = "(string + u64) \<times> (u64 \<Rightarrow> u64 \<Rightarrow> string + 'l list)"

text \<open>The first block to scan: the flag, or \<open>lookback\<close> blocks before the head.\<close>

definition start_block :: "u64 \<Rightarrow> u64 \<Rightarrow> string + u64 \<Rightarrow> string + u64" where
  "start_block lookback fromBlock head =
     (if fromBlock = 0 then
        (case head of Inl e \<Rightarrow> Inl e | Inr h \<Rightarrow> Inr (if h > lookback then h - lookback else 0))
      else Inr fromBlock)"

text \<open>Some ticks in a row, the ranges they finished, and the blocks of those.\<close>

fun scan_ticks :: "('l view \<Rightarrow> u64 \<times> 's \<Rightarrow> u64 \<times> 's) \<Rightarrow> 'l view list \<Rightarrow> u64 \<times> 's \<Rightarrow> u64 \<times> 's" where
  "scan_ticks tick [] st = st"
| "scan_ticks tick (v # vs) st = scan_ticks tick vs (tick v st)"

fun scan_ranges ::
  "('l view \<Rightarrow> u64 \<times> 's \<Rightarrow> u64 \<times> 's) \<Rightarrow> ('l view \<Rightarrow> u64 \<times> 's \<Rightarrow> (u64 \<times> u64) option) \<Rightarrow>
   'l view list \<Rightarrow> u64 \<times> 's \<Rightarrow> (u64 \<times> u64) list" where
  "scan_ranges tick finished [] st = []"
| "scan_ranges tick finished (v # vs) st =
     (case finished v st of None \<Rightarrow> [] | Some r \<Rightarrow> [r]) @ scan_ranges tick finished vs (tick v st)"

definition scan_blocks :: "(u64 \<times> u64) list \<Rightarrow> nat list" where
  "scan_blocks rs = concat (map (\<lambda>(a, b). [unat a ..< Suc (unat b)]) rs)"

locale log_scan =
  fixes tick :: "'l view \<Rightarrow> u64 \<times> 's \<Rightarrow> u64 \<times> 's"
    and finished :: "'l view \<Rightarrow> u64 \<times> 's \<Rightarrow> (u64 \<times> u64) option"
  assumes unfinished: "finished v (next, s) = None \<Longrightarrow> fst (tick v (next, s)) = next"
    and finished_range: "finished v (next, s) = Some (a, b) \<Longrightarrow>
      a = next \<and> a \<le> b \<and> fst v = Inr b \<and> fst (tick v (next, s)) = b + 1"
begin

theorem scan_contiguous:
  assumes "\<forall>v \<in> set vs. \<forall>h. fst v = Inr h \<longrightarrow> h \<noteq> - 1"
  shows "scan_blocks (scan_ranges tick finished vs (n, s)) = [unat n ..< unat (fst (scan_ticks tick vs (n, s)))]
    \<and> n \<le> fst (scan_ticks tick vs (n, s))"
  using assms
proof (induction vs arbitrary: n s)
  case Nil
  then show ?case by (simp add: scan_blocks_def)
next
  case (Cons v vs)
  obtain m s' where t: "tick v (n, s) = (m, s')" by (cases "tick v (n, s)")
  have IH: "scan_blocks (scan_ranges tick finished vs (m, s')) = [unat m ..< unat (fst (scan_ticks tick vs (m, s')))]" "m \<le> fst (scan_ticks tick vs (m, s'))"
    using Cons.IH [of m s'] Cons.prems by auto
  show ?case
  proof (cases "finished v (n, s)")
    case None
    with unfinished [OF None] t IH show ?thesis by (simp add: scan_blocks_def)
  next
    case (Some r)
    obtain a b where r: "r = (a, b)" by (cases r)
    from finished_range [OF Some [unfolded r]] t have f: "a = n" "n \<le> b" "fst v = Inr b" "m = b + 1" by auto
    from f(3) Cons.prems have "b \<noteq> - 1" by auto
    then have um: "unat m = Suc (unat b)" using f(4) unatSuc [of b]
      by (simp add: add.commute eq_neg_iff_add_eq_0)
    from f(2) have le: "unat n \<le> unat b" by (simp add: word_le_nat_alt)
    have "n \<le> m" using le um by (simp add: word_le_nat_alt)
    moreover have "[unat n ..< Suc (unat b)] @ [Suc (unat b) ..< unat (fst (scan_ticks tick vs (m, s')))]
        = [unat n ..< unat (fst (scan_ticks tick vs (m, s')))]"
      using IH(2) um le by (intro upt_join) (simp_all add: word_le_nat_alt)
    ultimately show ?thesis
      using IH um t Some r f(1) by (auto simp: scan_blocks_def simp del: upt_Suc)
  qed
qed

end

end
