(* ===== verification/Relay.thy ===== *)
theory Relay
  imports Chain
begin

text \<open>
  The result relay: the proxy client that fetches enclave results (\<open>services/internal/teeproxy\<close>) and the
  service that carries them to the controller (\<open>services/cmd/result-relay\<close>): routing table, the handling of
  one event, the tolerance for reverts, and the scan loop, an instance of \<open>log_scan\<close>.
\<close>

section \<open>The proxy client (teeproxy)\<close>

record Result =
  rsID :: hash32
  rsSubmissionTag :: string
  rsStatus :: u8
  rsLog :: string
  rsOPType :: hash32
  rsOPCommand :: hash32
  rsData :: bytes

record Response =
  rpResult :: Result
  rpSignature :: bytes
  rpProxySignature :: bytes

definition Succeeded :: "Response \<Rightarrow> bool" where
  "Succeeded r \<longleftrightarrow> rsStatus (rpResult r) = 1"

datatype proxy_error =
    ErrNotReady | ProxyBuild string | ProxyQuery string | ProxyReturned nat hash32 | ProxyDecoding string
  | WithoutSignature hash32 | NoResultData hash32

record proxy =
  pxBaseURL :: string
  pxBuild :: "string \<Rightarrow> string option"
  pxDo :: "string \<Rightarrow> string + http_response"
  pxDecode :: "bytes \<Rightarrow> string + Response"

definition proxy_URL :: "string \<Rightarrow> string" where
  "proxy_URL baseURL = trim_right baseURL (CHR ''/'')"

definition StatusNotFound :: nat where "StatusNotFound = 404"

definition proxy_Result :: "proxy \<Rightarrow> hash32 \<Rightarrow> proxy_error + Response" where
  "proxy_Result c actionID =
     (let url = pxBaseURL c @ ''/action/result/'' @ hash_hex actionID in
      case pxBuild c url of
        Some e \<Rightarrow> Inl (ProxyBuild e)
      | None \<Rightarrow>
     (case pxDo c url of
        Inl e \<Rightarrow> Inl (ProxyQuery e)
      | Inr res \<Rightarrow>
          if httpStatus res = StatusNotFound then Inl ErrNotReady
          else if httpStatus res \<noteq> StatusOK then Inl (ProxyReturned (httpStatus res) actionID)
          else case pxDecode c (httpBody res) of
              Inl e \<Rightarrow> Inl (ProxyDecoding e)
            | Inr out \<Rightarrow>
                if rpSignature out = [] then Inl (WithoutSignature actionID)
                else if rsData (rpResult out) = [] \<and> Succeeded out then Inl (NoResultData actionID)
                else Inr out))"

definition proxy_Info :: "proxy \<Rightarrow> (bytes \<Rightarrow> string + 'i) \<Rightarrow> proxy_error + 'i" where
  "proxy_Info c decode =
     (let url = pxBaseURL c @ ''/info'' in
      case pxBuild c url of
        Some e \<Rightarrow> Inl (ProxyBuild e)
      | None \<Rightarrow>
     (case pxDo c url of
        Inl e \<Rightarrow> Inl (ProxyQuery e)
      | Inr res \<Rightarrow>
          if httpStatus res \<noteq> StatusOK then Inl (ProxyReturned (httpStatus res) 0)
          else case decode (httpBody res) of Inl e \<Rightarrow> Inl (ProxyDecoding e) | Inr out \<Rightarrow> Inr out))"

section \<open>The routing table\<close>

record handler =
  hdEvent :: string
  hdMethod :: string
  hdSubject :: string

definition handlers :: "handler list" where
  "handlers =
     [\<lparr>hdEvent = ''TreasuryCreated'', hdMethod = ''bindTreasuryAddress'', hdSubject = ''treasury''\<rparr>,
      \<lparr>hdEvent = ''PolicyUpdateRequested'', hdMethod = ''confirmPolicy'', hdSubject = ''treasury''\<rparr>,
      \<lparr>hdEvent = ''PaymentRequested'', hdMethod = ''submitAuthorization'', hdSubject = ''request''\<rparr>,
      \<lparr>hdEvent = ''SignatureRequested'', hdMethod = ''submitSignedPayment'', hdSubject = ''request''\<rparr>]"

section \<open>Reverts that mean the result is not new\<close>

definition applied_markers :: "string list" where
  "applied_markers = [''would revert'', ''WrongState'', ''TreasuryAlreadyBound'', ''NoPendingPolicy'',
     ''ResultBindingMismatch'']"

definition isAlreadyApplied :: "send_error \<Rightarrow> bool" where
  "isAlreadyApplied err \<longleftrightarrow> list_ex (contains (send_error_string err)) applied_markers"

section \<open>Handling one event\<close>

record delivery =
  dlMethod :: string
  dlData :: bytes
  dlActionID :: hash32
  dlSubmissionTag :: string
  dlStatus :: u8
  dlSignature :: bytes

record relay =
  rlDone :: "hash32 list"
  rlFirstSeen :: "(hash32 \<times> int) list"

text \<open>What one call of \<open>handle\<close> meets: the event decoder, the proxy, the clock when the action is first
  seen and when its age is taken, and the chain.\<close>

record relay_env =
  reUnpack :: "string \<Rightarrow> bytes \<Rightarrow> string + goval list"
  reProxy :: "hash32 \<Rightarrow> proxy_error + Response"
  reNow :: int
  reLater :: int
  rePatience :: int
  reSend :: "delivery \<Rightarrow> send_error + receipt"

datatype relay_error =
    NotReady | DecodingEvent string string | NoFields string | NotInstructionId string
  | GivingUp hash32 int | ProxyFailed hash32 proxy_error | Calling hash32 string send_error

definition mark_done :: "hash32 \<Rightarrow> relay \<Rightarrow> relay" where
  "mark_done i s = s\<lparr>rlDone := List.insert i (rlDone s)\<rparr>"

definition mark_seen :: "hash32 \<Rightarrow> int \<Rightarrow> relay \<Rightarrow> relay" where
  "mark_seen i now s =
     (if map_of (rlFirstSeen s) i = None then s\<lparr>rlFirstSeen := (i, now) # rlFirstSeen s\<rparr> else s)"

definition delivery_of :: "handler \<Rightarrow> Response \<Rightarrow> delivery" where
  "delivery_of h res =
     \<lparr>dlMethod = (if Succeeded res then hdMethod h else ''submitFailure''),
      dlData = rsData (rpResult res), dlActionID = rsID (rpResult res),
      dlSubmissionTag = rsSubmissionTag (rpResult res), dlStatus = rsStatus (rpResult res),
      dlSignature = rpSignature res\<rparr>"

text \<open>The result: the new state, the transaction that was sent (with the action and the answer), the error.\<close>

type_synonym sent = "hash32 \<times> delivery \<times> (send_error + receipt)"

definition handle_action :: "relay_env \<Rightarrow> handler \<Rightarrow> hash32 \<Rightarrow> relay \<Rightarrow> relay \<times> sent option \<times> relay_error option" where
  "handle_action ev h actionID s =
     (let s1 = mark_seen actionID (reNow ev) s in
      case reProxy ev actionID of
        Inl e \<Rightarrow>
          if e = ErrNotReady then
            (if reLater ev - the (map_of (rlFirstSeen s1) actionID) > rePatience ev
             then (mark_done actionID s1, None, Some (GivingUp actionID (rePatience ev)))
             else (s1, None, Some NotReady))
          else (s1, None, Some (ProxyFailed actionID e))
      | Inr res \<Rightarrow>
          let dl = delivery_of h res in
          (case reSend ev dl of
             Inl e \<Rightarrow>
               if isAlreadyApplied e then (mark_done actionID s1, Some (actionID, dl, Inl e), None)
               else (s1, Some (actionID, dl, Inl e), Some (Calling actionID (dlMethod dl) e))
           | Inr r \<Rightarrow> (mark_done actionID s1, Some (actionID, dl, Inr r), None)))"

definition handle :: "relay_env \<Rightarrow> handler \<Rightarrow> log \<Rightarrow> relay \<Rightarrow> relay \<times> sent option \<times> relay_error option" where
  "handle ev h l s =
     (case reUnpack ev (hdEvent h) (lgData l) of
        Inl e \<Rightarrow> (s, None, Some (DecodingEvent (hdEvent h) e))
      | Inr values \<Rightarrow>
          if values = [] then (s, None, Some (NoFields (hdEvent h)))
          else case last values of
              VHash actionID \<Rightarrow>
                if actionID \<in> set (rlDone s) then (s, None, None) else handle_action ev h actionID s
            | _ \<Rightarrow> (s, None, Some (NotInstructionId (hdEvent h))))"

section \<open>The loop\<close>

text \<open>The logs of one range, each with what its handling meets. A log without topics cannot come out of
  the topic filter.\<close>

fun relay_logs ::
  "(hash32 \<Rightarrow> handler option) \<Rightarrow> (relay_env \<times> log) list \<Rightarrow> relay \<Rightarrow> bool \<Rightarrow> relay \<times> bool \<times> sent list" where
  "relay_logs byTopic [] s pending = (s, pending, [])"
| "relay_logs byTopic ((ev, l) # logs) s pending =
     (case lgTopics l of
        [] \<Rightarrow> relay_logs byTopic logs s pending
      | topic # _ \<Rightarrow>
     (case byTopic topic of
        None \<Rightarrow> relay_logs byTopic logs s pending
      | Some h \<Rightarrow>
          let (s', sent, err) = handle ev h l s;
              (s'', pending', sents) = relay_logs byTopic logs s' (pending \<or> err = Some NotReady)
          in (s'', pending', (case sent of None \<Rightarrow> [] | Some x \<Rightarrow> [x]) @ sents)))"

definition relay_tick ::
  "(hash32 \<Rightarrow> handler option) \<Rightarrow> (relay_env \<times> log) view \<Rightarrow> u64 \<times> relay \<Rightarrow> u64 \<times> relay" where
  "relay_tick byTopic v st =
     (let (next, s) = st in
      case fst v of
        Inl e \<Rightarrow> (next, s)
      | Inr head \<Rightarrow>
          if head \<ge> next then
            (case snd v next head of
               Inl e \<Rightarrow> (next, s)
             | Inr logs \<Rightarrow>
                 let (s', pending, sents) = relay_logs byTopic logs s False
                 in (if pending then next else head + 1, s'))
          else (next, s))"

definition relay_finished ::
  "(hash32 \<Rightarrow> handler option) \<Rightarrow> (relay_env \<times> log) view \<Rightarrow> u64 \<times> relay \<Rightarrow> (u64 \<times> u64) option" where
  "relay_finished byTopic v st =
     (let (next, s) = st in
      case fst v of
        Inl e \<Rightarrow> None
      | Inr head \<Rightarrow>
          if head \<ge> next then
            (case snd v next head of
               Inl e \<Rightarrow> None
             | Inr logs \<Rightarrow> if fst (snd (relay_logs byTopic logs s False)) then None else Some (next, head))
          else None)"

definition topic_table :: "(string \<Rightarrow> hash32 option) \<Rightarrow> hash32 \<Rightarrow> handler option" where
  "topic_table eventID t = find (\<lambda>h. eventID (hdEvent h) = Some t) (rev handlers)"

datatype run_error = NoEvent string | ReadingHead string

definition relay_start :: "(string \<Rightarrow> hash32 option) \<Rightarrow> u64 \<Rightarrow> string + u64 \<Rightarrow> run_error + u64" where
  "relay_start eventID fromBlock head =
     (case find (\<lambda>h. eventID (hdEvent h) = None) handlers of
        Some h \<Rightarrow> Inl (NoEvent (hdEvent h))
      | None \<Rightarrow>
          (case start_block 200 fromBlock head of Inl e \<Rightarrow> Inl (ReadingHead e) | Inr n \<Rightarrow> Inr n))"

interpretation relay_scan: log_scan "relay_tick byTopic" "relay_finished byTopic"
  by unfold_locales
    (auto simp: relay_tick_def relay_finished_def Let_def split: sum.splits if_splits prod.splits)

text \<open>The loop of \<open>run\<close>: one tick per view the context lets it make, a single one with \<open>once\<close>.\<close>

fun relay_run ::
  "(hash32 \<Rightarrow> handler option) \<Rightarrow> bool \<Rightarrow> (relay_env \<times> log) view list \<Rightarrow> u64 \<times> relay \<Rightarrow> u64 \<times> relay" where
  "relay_run byTopic once [] st = st"
| "relay_run byTopic once (v # vs) st =
     (let st' = relay_tick byTopic v st in if once then st' else relay_run byTopic once vs st')"

lemma relay_run_ticks: "relay_run byTopic False vs st = scan_ticks (relay_tick byTopic) vs st"
  by (induction vs arbitrary: st) (simp_all add: Let_def)

section \<open>Lemmas\<close>

lemma done_simps [simp]:
  "rlDone (mark_seen i n s) = rlDone s" "set (rlDone (mark_done i s)) = insert i (set (rlDone s))"
  by (simp_all add: mark_seen_def mark_done_def)

lemma handle_cases:
  obtains (no_send) s' e where "handle ev h l s = (s', None, e)" "set (rlDone s) \<subseteq> set (rlDone s')"
  | (send) i vals res where "reUnpack ev (hdEvent h) (lgData l) = Inr vals" "vals \<noteq> []"
      "last vals = VHash i" "i \<notin> set (rlDone s)" "reProxy ev i = Inr res"
      "fst (snd (handle ev h l s)) = Some (i, delivery_of h res, reSend ev (delivery_of h res))"
      "set (rlDone s) \<subseteq> set (rlDone (fst (handle ev h l s)))"
      "\<forall>r. reSend ev (delivery_of h res) = Inr r \<longrightarrow> i \<in> set (rlDone (fst (handle ev h l s)))"
proof (cases "fst (snd (handle ev h l s))")
  case None
  have "set (rlDone s) \<subseteq> set (rlDone (fst (handle ev h l s)))"
    by (auto simp: handle_def handle_action_def Let_def split: sum.splits goval.splits)
  with None show ?thesis by (cases "handle ev h l s") (auto intro: no_send)
next
  case (Some x)
  then show ?thesis
    by (auto simp: handle_def handle_action_def Let_def split: sum.splits goval.splits if_splits
        intro: send)
qed

text \<open>A successful delivery is recorded, so the same action is not delivered again.\<close>

definition delivered :: "sent list \<Rightarrow> hash32 list" where
  "delivered sents = map fst (filter (\<lambda>x. is_ok (snd (snd x))) sents)"

lemma relay_logs_delivered:
  "relay_logs byTopic logs s p = (s', p', sents) \<Longrightarrow>
     distinct (delivered sents) \<and> set (delivered sents) \<inter> set (rlDone s) = {}
     \<and> set (delivered sents) \<subseteq> set (rlDone s') \<and> set (rlDone s) \<subseteq> set (rlDone s')"
proof (induction byTopic logs s p arbitrary: s' p' sents rule: relay_logs.induct)
  case (1 byTopic s p)
  then show ?case by (simp add: delivered_def)
next
  case (2 byTopic ev l logs s p)
  show ?case
  proof (cases "lgTopics l")
    case Nil
    with 2 show ?thesis by simp
  next
    case (Cons topic ts)
    show ?thesis
    proof (cases "byTopic topic")
      case None
      with 2 Cons show ?thesis by simp
    next
      case (Some h)
      obtain s1 sent err where h: "handle ev h l s = (s1, sent, err)" by (metis prod_cases3)
      obtain s2 p2 rest where r: "relay_logs byTopic logs s1 (p \<or> err = Some NotReady) = (s2, p2, rest)"
        by (metis prod_cases3)
      from "2.prems" Cons Some h r have out: "s' = s2" "sents = (case sent of None \<Rightarrow> [] | Some x \<Rightarrow> [x]) @ rest"
        by (auto simp: Let_def)
      have IH: "distinct (delivered rest) \<and> set (delivered rest) \<inter> set (rlDone s1) = {}
          \<and> set (delivered rest) \<subseteq> set (rlDone s2) \<and> set (rlDone s1) \<subseteq> set (rlDone s2)"
        by (rule "2.IH"(3)[OF Cons Some h [symmetric] refl refl r])
      show ?thesis
      proof (cases rule: handle_cases [of ev h l s])
        case (no_send s0 e)
        with h out IH show ?thesis by auto
      next
        case (send i vals res)
        show ?thesis
        proof (cases "reSend ev (delivery_of h res)")
          case (Inl e)
          then have "delivered sents = delivered rest" using out send(6) h by (auto simp: delivered_def)
          with send(7) h out IH show ?thesis by auto
        next
          case (Inr x)
          then have "delivered sents = i # delivered rest" using out send(6) h by (auto simp: delivered_def)
          with Inr send(4,7,8) h out IH show ?thesis by auto
        qed
      qed
    qed
  qed
qed

lemma relay_logs_append:
  "relay_logs byTopic (xs @ ys) s p =
     (let (s1, p1, a) = relay_logs byTopic xs s p; (s2, p2, b) = relay_logs byTopic ys s1 p1 in (s2, p2, a @ b))"
proof (induction xs arbitrary: s p)
  case (Cons x xs)
  then show ?case
    by (cases x) (simp add: Let_def split_beta split: list.split option.split)
qed (simp add: Let_def split_beta)

lemma relay_logs_pending: "fst (snd (relay_logs byTopic logs s True))"
proof -
  have "p \<Longrightarrow> fst (snd (relay_logs byTopic logs s p))" for p
  proof (induction logs arbitrary: s p)
    case (Cons x xs)
    then show ?case
      by (cases x) (simp add: Let_def split_beta split: list.split option.split)
  qed simp
  then show ?thesis by simp
qed

text \<open>The state in which the log at the end of \<open>pre\<close> is handled.\<close>

definition state_after :: "(hash32 \<Rightarrow> handler option) \<Rightarrow> (relay_env \<times> log) list \<Rightarrow> relay \<Rightarrow> relay" where
  "state_after byTopic pre s = fst (relay_logs byTopic pre s False)"

lemma not_pending_all_ready:
  assumes "fst (snd (relay_logs byTopic (pre @ (ev, l) # post) s False)) = False"
    and "lgTopics l = topic # ts" "byTopic topic = Some h"
  shows "snd (snd (handle ev h l (state_after byTopic pre s))) \<noteq> Some NotReady"
proof
  assume nr: "snd (snd (handle ev h l (state_after byTopic pre s))) = Some NotReady"
  have "fst (snd (relay_logs byTopic ((ev, l) # post) (state_after byTopic pre s) p))" for p
    using assms(2,3) nr by (simp add: Let_def split_beta relay_logs_pending)
  with assms(1) show False
    by (simp add: relay_logs_append Let_def split_beta state_after_def del: relay_logs.simps)
qed

text \<open>Every failed gas estimation, whatever the node's reason, reads as a result that is already applied:
  the action is marked done and no error is reported, though nothing was delivered.\<close>

lemma estimate_failure_counts_as_applied: "isAlreadyApplied (EstimatingGas method reason)"
proof -
  have "contains (send_error_string (EstimatingGas method reason)) ''would revert''"
    unfolding contains_iff
    by (intro exI [of _ "''estimating gas for '' @ method @ '' (the call ''"] exI [of _ "''): '' @ reason"]) simp
  then show ?thesis by (simp add: isAlreadyApplied_def applied_markers_def)
qed

lemma estimate_failure_is_silent:
  assumes "reUnpack ev (hdEvent h) (lgData l) = Inr vals" "vals \<noteq> []" "last vals = VHash i"
    and "i \<notin> set (rlDone s)" "reProxy ev i = Inr res"
    and "reSend ev (delivery_of h res) = Inl (EstimatingGas method reason)"
  shows "snd (snd (handle ev h l s)) = None \<and> i \<in> set (rlDone (fst (handle ev h l s)))"
  using assms by (simp add: handle_def handle_action_def Let_def estimate_failure_counts_as_applied)

text \<open>An event whose delivery fails for another reason is only logged: the scan moves past it.\<close>

lemma failed_delivery_is_skipped:
  assumes "lgTopics l = [topic]" "byTopic topic = Some h" "head \<ge> next"
    and "snd (snd (handle ev h l s)) = Some (Calling i m e)"
  shows "fst (relay_tick byTopic (Inr head, \<lambda>_ _. Inr [(ev, l)]) (next, s)) = head + 1"
  using assms by (simp add: relay_tick_def Let_def split_beta)

section \<open>Properties\<close>

definition sample_result :: Response where
  "sample_result = \<lparr>rpResult = \<lparr>rsID = 5, rsSubmissionTag = ''tag'', rsStatus = 1, rsLog = ''ok'', rsOPType = 1,
     rsOPCommand = 2, rsData = [1, 2]\<rparr>, rpSignature = [9], rpProxySignature = []\<rparr>"

definition sample_relay_env :: relay_env where
  "sample_relay_env = \<lparr>reUnpack = (\<lambda>_ _. Inr [VHash 5]), reProxy = (\<lambda>_. Inr sample_result), reNow = 0, reLater = 0,
     rePatience = 300, reSend = (\<lambda>_. Inr \<lparr>rcStatus = 1, rcTxHash = 77, rcBlockNumber = 3\<rparr>)\<rparr>"

definition sample_log :: log where
  "sample_log = \<lparr>lgTopics = [7, 42], lgData = []\<rparr>"

definition sample_topics :: "hash32 \<Rightarrow> handler option" where
  "sample_topics t = (if t = 7 then Some (handlers ! 3) else None)"

definition idle_relay :: relay where
  "idle_relay = \<lparr>rlDone = [], rlFirstSeen = []\<rparr>"

lemmas relay_samples = sample_result_def sample_relay_env_def sample_log_def sample_topics_def idle_relay_def

text \<open>The relay delivers only what the enclave signed: any transaction it sends for an event carries,
  unchanged, the data, identifier, tag, status and signature the proxy returned for the instruction named in
  that event, to the method the routing table gives for the event, or to \<open>submitFailure\<close> exactly when the
  enclave reported a refusal; and it sends none for an action already done.\<close>
lemma relay_delivers_verbatim:
  assumes "handle ev h l s = (s', Some (i, dl, answer), err)"
  shows "\<exists>vals res. reUnpack ev (hdEvent h) (lgData l) = Inr vals \<and> vals \<noteq> [] \<and> last vals = VHash i
    \<and> i \<notin> set (rlDone s) \<and> reProxy ev i = Inr res \<and> answer = reSend ev dl
    \<and> dlMethod dl = (if rsStatus (rpResult res) = 1 then hdMethod h else ''submitFailure'')
    \<and> dlData dl = rsData (rpResult res) \<and> dlActionID dl = rsID (rpResult res)
    \<and> dlSubmissionTag dl = rsSubmissionTag (rpResult res) \<and> dlStatus dl = rsStatus (rpResult res)
    \<and> dlSignature dl = rpSignature res"
proof (cases rule: handle_cases [of ev h l s])
  case (no_send s0 e)
  with assms show ?thesis by simp
next
  case (send j vals res)
  with assms have "j = i" "dl = delivery_of h res" "answer = reSend ev dl" by auto
  with send show ?thesis by (auto simp: delivery_of_def Succeeded_def)
qed



text \<open>C28. The relay's position is sound: the ranges it finishes are consecutive, so from the start block to
  its position every block was scanned to completion exactly once; and it finishes a range only when the
  enclave had answered, or been given up on, for every event of it.\<close>
theorem relay_scans_every_block:
  assumes "\<forall>v \<in> set vs. \<forall>h. fst v = Inr h \<longrightarrow> h \<noteq> - 1"
  shows "scan_blocks (scan_ranges (relay_tick byTopic) (relay_finished byTopic) vs (n, s))
      = [unat n ..< unat (fst (relay_run byTopic False vs (n, s)))]
    \<and> (\<forall>logs pre ev l post topic ts h. relay_finished byTopic (Inr head, \<lambda>_ _. Inr logs) (m, s) \<noteq> None \<longrightarrow>
        logs = pre @ (ev, l) # post \<longrightarrow> lgTopics l = topic # ts \<longrightarrow> byTopic topic = Some h \<longrightarrow>
        snd (snd (handle ev h l (state_after byTopic pre s))) \<noteq> Some NotReady)"
proof (intro conjI allI impI)
  show "scan_blocks (scan_ranges (relay_tick byTopic) (relay_finished byTopic) vs (n, s))
      = [unat n ..< unat (fst (relay_run byTopic False vs (n, s)))]"
    using relay_scan.scan_contiguous [OF assms] by (simp add: relay_run_ticks)
next
  fix logs pre ev l post topic ts h
  assume f: "relay_finished byTopic (Inr head, \<lambda>_ _. Inr logs) (m, s) \<noteq> None"
    and l: "logs = pre @ (ev, l) # post" "lgTopics l = topic # ts" "byTopic topic = Some h"
  from f have "fst (snd (relay_logs byTopic (pre @ (ev, l) # post) s False)) = False"
    unfolding l(1) by (auto simp: relay_finished_def Let_def split: if_splits)
  then show "snd (snd (handle ev h l (state_after byTopic pre s))) \<noteq> Some NotReady"
    using l(2,3) by (rule not_pending_all_ready)
qed

theorem relay_scans_every_block_witness:
  "scan_blocks (scan_ranges (relay_tick sample_topics) (relay_finished sample_topics) [(Inr 10, \<lambda>_ _. Inr [(sample_relay_env, sample_log)])] (8, idle_relay))
     = [8 ..< unat (fst (relay_run sample_topics False
          [(Inr 10, \<lambda>_ _. Inr [(sample_relay_env, sample_log)])] (8, idle_relay)))]"
  using relay_scans_every_block [of "[(Inr 10, \<lambda>_ _. Inr [(sample_relay_env, sample_log)])]" sample_topics 8 idle_relay]
  by simp

end
