(* ===== verification/Broadcaster.thy ===== *)
theory Broadcaster
  imports Relay
begin

text \<open>
  Putting a signed payment on the XRP Ledger: the submission client (\<open>services/internal/xrplsubmit\<close>) and
  the broadcaster (\<open>services/cmd/broadcaster\<close>), which submits the blob of every PaymentSigned event and
  reports the predicted transaction id back on chain.
\<close>

section \<open>The submission client (xrplsubmit)\<close>

datatype xrpl_params = TxBlobParam string | TransactionParam string

datatype xrpl_call_error =
    XMarshalling string string | XBuilding string string | XPost string string
  | XReturned string nat bytes | XDecode string

record submit_out =
  soEngineResult :: string
  soEngineResultMessage :: string
  soAccepted :: bool
  soHash :: string
  soError :: string
  soErrorMessage :: string

record tx_out =
  toValidated :: bool
  toTransactionResult :: string
  toError :: string

record xrpl_http =
  xhMarshal :: "string \<Rightarrow> xrpl_params \<Rightarrow> string + bytes"
  xhBuild :: "bytes \<Rightarrow> string option"
  xhDo :: "bytes \<Rightarrow> string + http_response"
  xhSubmitOut :: "bytes \<Rightarrow> string + submit_out"
  xhTxOut :: "bytes \<Rightarrow> string + tx_out"

definition xrpl_call :: "xrpl_http \<Rightarrow> (bytes \<Rightarrow> string + 'o) \<Rightarrow> string \<Rightarrow> xrpl_params \<Rightarrow> xrpl_call_error + 'o" where
  "xrpl_call c decode method params =
     (case xhMarshal c method params of
        Inl e \<Rightarrow> Inl (XMarshalling method e)
      | Inr body \<Rightarrow>
     (case xhBuild c body of
        Some e \<Rightarrow> Inl (XBuilding method e)
      | None \<Rightarrow>
     (case xhDo c body of
        Inl e \<Rightarrow> Inl (XPost method e)
      | Inr resp \<Rightarrow>
          if httpStatus resp \<noteq> StatusOK
          then Inl (XReturned method (httpStatus resp) (take 512 (httpBody resp)))
          else case decode (httpBody resp) of Inl e \<Rightarrow> Inl (XDecode e) | Inr out \<Rightarrow> Inr out)))"

record submission =
  suEngineResult :: string
  suEngineResultMessage :: string
  suTxID :: string
  suAccepted :: bool
  suAlreadySubmitted :: bool

datatype submit_error = BlobNotHex hex_error | SubmitCall xrpl_call_error | SubmitRejected string string

definition classify :: "submit_out \<Rightarrow> submission" where
  "classify r =
     (let res = \<lparr>suEngineResult = soEngineResult r, suEngineResultMessage = soEngineResultMessage r,
        suTxID = to_upper (soHash r), suAccepted = False, suAlreadySubmitted = False\<rparr> in
      if soEngineResult r = ''tesSUCCESS'' \<or> has_prefix (soEngineResult r) ''ter''
      then res\<lparr>suAccepted := True\<rparr>
      else if soEngineResult r = ''tefALREADY'' \<or> soEngineResult r = ''tefPAST_SEQ''
      then res\<lparr>suAccepted := True, suAlreadySubmitted := True\<rparr>
      else res)"

definition Submit :: "xrpl_http \<Rightarrow> string \<Rightarrow> submit_error + submission" where
  "Submit c txBlobHex =
     (let blob = to_upper (trim_prefix txBlobHex ''0x'') in
      case hex_decode blob of
        Inl e \<Rightarrow> Inl (BlobNotHex e)
      | Inr _ \<Rightarrow>
     (case xrpl_call c (xhSubmitOut c) ''submit'' (TxBlobParam blob) of
        Inl e \<Rightarrow> Inl (SubmitCall e)
      | Inr r \<Rightarrow>
          if soError r \<noteq> [] then Inl (SubmitRejected (soError r) (soErrorMessage r))
          else Inr (classify r)))"

definition Validated :: "xrpl_http \<Rightarrow> string \<Rightarrow> xrpl_call_error + bool \<times> bool" where
  "Validated c txID =
     (case xrpl_call c (xhTxOut c) ''tx'' (TransactionParam (to_upper txID)) of
        Inl e \<Rightarrow> Inl e
      | Inr out \<Rightarrow>
          if toError out \<noteq> [] then Inr (False, False)
          else Inr (toValidated out, toTransactionResult out = ''tesSUCCESS''))"

datatype validation_error = ValidationCall xrpl_call_error | NotValidated string

fun WaitForValidation ::
  "(nat \<Rightarrow> xrpl_call_error + bool \<times> bool) \<Rightarrow> string \<Rightarrow> nat \<Rightarrow> nat \<Rightarrow> validation_error + bool" where
  "WaitForValidation validated txID i ticks =
     (case validated i of
        Inl e \<Rightarrow> Inl (ValidationCall e)
      | Inr (v, succeeded) \<Rightarrow>
          if v then Inr succeeded
          else (case ticks of 0 \<Rightarrow> Inl (NotValidated txID)
                | Suc n \<Rightarrow> WaitForValidation validated txID (Suc i) n))"

declare WaitForValidation.simps [simp del]

section \<open>Handling one event (broadcaster)\<close>

record broadcast_env =
  beUnpack :: "bytes \<Rightarrow> string + goval list"
  beSubmit :: "string \<Rightarrow> submit_error + submission"
  beReport :: "int \<Rightarrow> hash32 \<Rightarrow> send_error + receipt"

datatype broadcast_error =
    DecodingSigned string | SignedFields nat | NoRequestId | Submitting submit_error
  | Rejected string string | UnpredictedTx string hash32 | Reporting send_error

definition hash_upper :: "hash32 \<Rightarrow> string" where
  "hash_upper h = to_upper (hex_encode (word_bytes h))"

text \<open>The result: the set \<open>seen\<close>, the blob submitted, the report sent, and the error.\<close>

definition broadcast_handle ::
  "broadcast_env \<Rightarrow> log \<Rightarrow> string list
     \<Rightarrow> string list \<times> string option \<times> (int \<times> hash32) option \<times> broadcast_error option" where
  "broadcast_handle ev l seen =
     (case beUnpack ev (lgData l) of
        Inl e \<Rightarrow> (seen, None, None, Some (DecodingSigned e))
      | Inr vals \<Rightarrow>
      if length vals \<noteq> 3 then (seen, None, None, Some (SignedFields (length vals))) else
     (let expectedTxID = as_hash (vals ! 0);
          blob = as_bytes (vals ! 2) in
      if length (lgTopics l) < 2 then (seen, None, None, Some NoRequestId) else
     (let requestID = uint (lgTopics l ! 1);
          key = int_string requestID in
      if key \<in> set seen then (seen, None, None, None) else
     (let blobHex = to_upper (hex_encode blob) in
      case beSubmit ev blobHex of
        Inl e \<Rightarrow> (seen, Some blobHex, None, Some (Submitting e))
      | Inr res \<Rightarrow>
      if \<not> suAccepted res then
        (seen, Some blobHex, None, Some (Rejected (suEngineResult res) (suEngineResultMessage res)))
      else if suTxID res \<noteq> [] \<and> \<not> equal_fold (suTxID res) (hash_upper expectedTxID) then
        (seen, Some blobHex, None, Some (UnpredictedTx (suTxID res) expectedTxID))
      else
        (case beReport ev requestID expectedTxID of
           Inl e \<Rightarrow>
             if contains (send_error_string e) ''would revert''
             then (List.insert key seen, Some blobHex, Some (requestID, expectedTxID), None)
             else (seen, Some blobHex, Some (requestID, expectedTxID), Some (Reporting e))
         | Inr _ \<Rightarrow> (List.insert key seen, Some blobHex, Some (requestID, expectedTxID), None))))))"

definition requestIDOf :: "log \<Rightarrow> string" where
  "requestIDOf l = (if length (lgTopics l) < 2 then ''?'' else int_string (uint (lgTopics l ! 1)))"

section \<open>The loop\<close>

fun broadcast_logs :: "(broadcast_env \<times> log) list \<Rightarrow> string list \<Rightarrow> string list" where
  "broadcast_logs [] seen = seen"
| "broadcast_logs ((ev, l) # logs) seen = broadcast_logs logs (fst (broadcast_handle ev l seen))"

definition broadcast_tick :: "(broadcast_env \<times> log) view \<Rightarrow> u64 \<times> string list \<Rightarrow> u64 \<times> string list" where
  "broadcast_tick v st =
     (let (next, seen) = st in
      case fst v of
        Inl e \<Rightarrow> (next, seen)
      | Inr head \<Rightarrow>
          if head \<ge> next then
            (case snd v next head of
               Inl e \<Rightarrow> (next, seen)
             | Inr logs \<Rightarrow> (head + 1, broadcast_logs logs seen))
          else (next, seen))"

definition broadcast_finished :: "(broadcast_env \<times> log) view \<Rightarrow> u64 \<times> string list \<Rightarrow> (u64 \<times> u64) option" where
  "broadcast_finished v st =
     (let (next, seen) = st in
      case fst v of
        Inl e \<Rightarrow> None
      | Inr head \<Rightarrow>
          if head \<ge> next then
            (case snd v next head of Inl e \<Rightarrow> None | Inr logs \<Rightarrow> Some (next, head))
          else None)"

definition broadcast_start :: "u64 \<Rightarrow> string + u64 \<Rightarrow> string + u64" where
  "broadcast_start fromBlock head = start_block 100 fromBlock head"

interpretation broadcast_scan: log_scan broadcast_tick broadcast_finished
  by unfold_locales
    (auto simp: broadcast_tick_def broadcast_finished_def Let_def split: sum.splits if_splits)

fun broadcast_run :: "bool \<Rightarrow> (broadcast_env \<times> log) view list \<Rightarrow> u64 \<times> string list \<Rightarrow> u64 \<times> string list" where
  "broadcast_run once [] st = st"
| "broadcast_run once (v # vs) st =
     (let st' = broadcast_tick v st in if once then st' else broadcast_run once vs st')"

lemma broadcast_run_ticks: "broadcast_run False vs st = scan_ticks broadcast_tick vs st"
  by (induction vs arbitrary: st) (simp_all add: Let_def)

section \<open>Lemmas\<close>

lemma classify_accepted:
  "suAccepted (classify r) \<longleftrightarrow>
     soEngineResult r \<in> {''tesSUCCESS'', ''tefALREADY'', ''tefPAST_SEQ''} \<or> has_prefix (soEngineResult r) ''ter''"
  by (auto simp: classify_def Let_def)

lemma Submit_Inr:
  assumes "Submit c (to_upper (hex_encode blob)) = Inr res"
  shows "\<exists>r. xrpl_call c (xhSubmitOut c) ''submit'' (TxBlobParam (to_upper (hex_encode blob))) = Inr r
    \<and> soError r = [] \<and> res = classify r"
proof -
  have "to_upper (to_upper s) = to_upper s" for s by (simp add: to_upper_def upper_char_idem)
  with assms show ?thesis by (auto simp: Submit_def Let_def split: sum.splits if_splits)
qed

text \<open>As in the relay, any failed gas estimation counts as a report that is already on chain.\<close>

lemma broadcast_estimate_failure:
  assumes "beUnpack ev (lgData l) = Inr vals" "length vals = 3" "length (lgTopics l) \<ge> 2"
    and "int_string (uint (lgTopics l ! 1)) \<notin> set seen"
    and "beSubmit ev (to_upper (hex_encode (as_bytes (vals ! 2)))) = Inr res" "suAccepted res" "suTxID res = []"
    and "beReport ev (uint (lgTopics l ! 1)) (as_hash (vals ! 0)) = Inl (EstimatingGas m e)"
  shows "snd (snd (snd (broadcast_handle ev l seen))) = None
    \<and> int_string (uint (lgTopics l ! 1)) \<in> set (fst (broadcast_handle ev l seen))"
proof -
  have "contains (send_error_string (EstimatingGas m e)) ''would revert''"
    unfolding contains_iff
    by (intro exI [of _ "''estimating gas for '' @ m @ '' (the call ''"] exI [of _ "''): '' @ e"]) simp
  with assms show ?thesis by (simp add: broadcast_handle_def Let_def)
qed

text \<open>A payment whose submission fails is not retried by the run: the scan moves past it.\<close>

lemma broadcast_skips_failure:
  assumes "head \<ge> next"
  shows "fst (broadcast_tick (Inr head, \<lambda>_ _. Inr [(ev, l)]) (next, seen)) = head + 1"
  using assms by (simp add: broadcast_tick_def Let_def)

section \<open>Properties\<close>

definition sample_broadcast_env :: broadcast_env where
  "sample_broadcast_env = \<lparr>beUnpack = (\<lambda>_. Inr [VHash 0xAB, VHash 1, VBytes [0x12, 0xFF]]),
     beSubmit = (\<lambda>_. Inr \<lparr>suEngineResult = ''tesSUCCESS'', suEngineResultMessage = [], suTxID = [],
       suAccepted = True, suAlreadySubmitted = False\<rparr>),
     beReport = (\<lambda>_ _. Inr \<lparr>rcStatus = 1, rcTxHash = 77, rcBlockNumber = 3\<rparr>)\<rparr>"

text \<open>C29. All the broadcaster can do for a PaymentSigned event is submit exactly the event's blob and report
  exactly the event's predicted id for the event's request: the hex it submits decodes to the blob, it
  submits nothing for a request already seen, and it reports only after the ledger accepted the blob and
  returned no id other than the predicted one.\<close>
theorem broadcaster_only_forwards:
  assumes "broadcast_handle ev l seen = (seen', submitted, report, err)"
  shows "(\<forall>hex. submitted = Some hex \<longrightarrow>
      (\<exists>vals. beUnpack ev (lgData l) = Inr vals \<and> length vals = 3
        \<and> hex_decode hex = Inr (as_bytes (vals ! 2)) \<and> requestIDOf l \<notin> set seen))
    \<and> (\<forall>rid tx. report = Some (rid, tx) \<longrightarrow>
      (\<exists>vals hex res. beUnpack ev (lgData l) = Inr vals \<and> rid = uint (lgTopics l ! 1) \<and> tx = as_hash (vals ! 0)
        \<and> submitted = Some hex \<and> beSubmit ev hex = Inr res \<and> suAccepted res
        \<and> (suTxID res = [] \<or> equal_fold (suTxID res) (hash_upper tx))))
    \<and> set seen \<subseteq> set seen'"
proof (cases "beUnpack ev (lgData l)")
  case (Inl e)
  with assms show ?thesis by (auto simp: broadcast_handle_def)
next
  case (Inr vals)
  show ?thesis
  proof (cases "length vals = 3 \<and> 2 \<le> length (lgTopics l) \<and> requestIDOf l \<notin> set seen")
    case False
    with Inr assms show ?thesis by (auto simp: broadcast_handle_def Let_def requestIDOf_def split: if_splits)
  next
    case True
    let ?hex = "to_upper (hex_encode (as_bytes (vals ! 2)))"
    have "hex_decode ?hex = Inr (as_bytes (vals ! 2))" by simp
    with Inr True assms show ?thesis
      by (cases "beSubmit ev ?hex")
        (auto simp: broadcast_handle_def Let_def requestIDOf_def split: if_splits sum.splits)
  qed
qed

theorem broadcaster_only_forwards_witness:
  "\<exists>seen' hex. broadcast_handle sample_broadcast_env sample_log [] = (seen', Some hex, Some (42, 0xAB), None)
     \<and> hex_decode hex = Inr [0x12, 0xFF]"
proof -
  obtain seen' hex where h: "broadcast_handle sample_broadcast_env sample_log []
      = (seen', Some hex, Some (42, 0xAB), None)"
    by (simp add: broadcast_handle_def sample_broadcast_env_def sample_log_def Let_def)
  from broadcaster_only_forwards [OF h] h show ?thesis
    by (auto simp: sample_broadcast_env_def)
qed

text \<open>The blob reaches the ledger unchanged: a submission that is answered sent exactly the upper-case
  hex of the blob, and it is accepted exactly on tesSUCCESS, on a retryable ter code, and on the two codes
  that say the transaction is already known, which are the only ones reported as already submitted.\<close>
lemma submit_classifies:
  assumes "Submit c (to_upper (hex_encode blob)) = Inr res"
  shows "\<exists>r. xrpl_call c (xhSubmitOut c) ''submit'' (TxBlobParam (to_upper (hex_encode blob))) = Inr r
    \<and> soError r = [] \<and> suEngineResult res = soEngineResult r
    \<and> (suAccepted res \<longleftrightarrow> soEngineResult r \<in> {''tesSUCCESS'', ''tefALREADY'', ''tefPAST_SEQ''}
          \<or> has_prefix (soEngineResult r) ''ter'')
    \<and> (suAlreadySubmitted res \<longleftrightarrow> soEngineResult r \<in> {''tefALREADY'', ''tefPAST_SEQ''})"
proof -
  from Submit_Inr [OF assms] obtain r where r:
    "xrpl_call c (xhSubmitOut c) ''submit'' (TxBlobParam (to_upper (hex_encode blob))) = Inr r"
    "soError r = []" "res = classify r" by blast
  have "suAlreadySubmitted (classify r) \<longleftrightarrow> soEngineResult r \<in> {''tefALREADY'', ''tefPAST_SEQ''}"
    by (auto simp: classify_def Let_def has_prefix_def)
  moreover have "suEngineResult (classify r) = soEngineResult r" by (simp add: classify_def Let_def)
  ultimately show ?thesis using r classify_accepted [of r] by blast
qed

definition sample_xrpl :: xrpl_http where
  "sample_xrpl = \<lparr>xhMarshal = (\<lambda>_ _. Inr []), xhBuild = (\<lambda>_. None), xhDo = (\<lambda>_. Inr \<lparr>httpStatus = 200, httpBody = []\<rparr>),
     xhSubmitOut = (\<lambda>_. Inr \<lparr>soEngineResult = ''tefALREADY'', soEngineResultMessage = [], soAccepted = False,
       soHash = ''ab'', soError = [], soErrorMessage = []\<rparr>),
     xhTxOut = (\<lambda>_. Inl [])\<rparr>"

end
