(* ===== verification/FdcWorker.thy ===== *)
theory FdcWorker
  imports Fdc Broadcaster
begin

text \<open>
  The settlement worker (\<open>services/cmd/fdc-worker\<close>): for every PaymentBroadcast event it prepares an
  attestation request, submits it with the configured fee, waits for the voting round, fetches the proof and
  hands it to the verifier contract.
\<close>

section \<open>What one settlement meets\<close>

record worker_env =
  weUnpack :: "bytes \<Rightarrow> string + goval list"
  weGetRequest :: "int \<Rightarrow> string + goval list"
  wePrepare :: "string \<Rightarrow> string \<Rightarrow> prepare_error + bytes"
  weGetFee :: "bytes \<Rightarrow> string + goval list"
  weAttest :: "int \<Rightarrow> bytes \<Rightarrow> send_error + receipt"
  weBlockTimestamp :: "u64 \<Rightarrow> string + u64"
  weIsFinalized :: "u64 \<Rightarrow> nat \<Rightarrow> string + goval list"
  weRoundTicks :: nat
  weFetch :: "u64 \<Rightarrow> bytes \<Rightarrow> nat \<Rightarrow> fetch_error + Proof option"
  weProofTicks :: nat
  weFinalize :: "int \<Rightarrow> goval \<Rightarrow> send_error + receipt"

datatype worker_error =
    WNoRequestId | DecodingBroadcast string | Preparing prepare_error | ReadingFee string | FeeType
  | SubmittingAttestation send_error | ReadingBlockTime string | RoundNotFinalised u64
  | FetchingProof wait_error | Finalising send_error

section \<open>Reading the chain\<close>

definition requestFee :: "worker_env \<Rightarrow> bytes \<Rightarrow> worker_error + int" where
  "requestFee ev requestBytes =
     (case weGetFee ev requestBytes of
        Inl e \<Rightarrow> Inl (ReadingFee e)
      | Inr out \<Rightarrow> (case as_big (out ! 0) of None \<Rightarrow> Inl FeeType | Some fee \<Rightarrow> Inr fee))"

fun waitForRound :: "(nat \<Rightarrow> string + goval list) \<Rightarrow> u64 \<Rightarrow> nat \<Rightarrow> nat \<Rightarrow> worker_error option" where
  "waitForRound isFinalized round i ticks =
     (if (case isFinalized i of Inl e \<Rightarrow> False | Inr out \<Rightarrow> as_bool (out ! 0)) then None
      else (case ticks of 0 \<Rightarrow> Some (RoundNotFinalised round)
            | Suc n \<Rightarrow> waitForRound isFinalized round (Suc i) n))"

declare waitForRound.simps [simp del]

definition requestFields :: "gotype list" where
  "requestFields = [GBig, GAddress, GUint64, GUint64, GUint64, GHash, GHash, GBig, GHash, GHash, GHash, GHash,
     GUint8]"

fun as_u8 :: "goval \<Rightarrow> u8" where
  "as_u8 (VU8 w) = w" | "as_u8 _ = 0"

datatype settled_error = GetRequestFailed string | RequestShape codec_error

definition alreadySettled :: "worker_env \<Rightarrow> int \<Rightarrow> settled_error + bool" where
  "alreadySettled ev requestID =
     (case weGetRequest ev requestID of
        Inl e \<Rightarrow> Inl (GetRequestFailed e)
      | Inr out \<Rightarrow>
          (case CopyStruct requestFields (out ! 0) of
             Inl e \<Rightarrow> Inl (RequestShape e)
           | Inr r \<Rightarrow> Inr (as_u8 (r ! 12) = 5)))"

section \<open>Settling one payment\<close>

text \<open>The transactions a settlement sends, in order.\<close>

datatype worker_tx = RequestAttestation int bytes | FinalizePayment int goval

text \<open>Steps 1 to 5, after the checks on the event: the sent transactions and the error.\<close>

definition settle_payment ::
  "worker_env \<Rightarrow> string \<Rightarrow> int \<Rightarrow> hash32 \<Rightarrow> worker_tx list \<times> worker_error option" where
  "settle_payment ev verifier requestID txID =
     (case wePrepare ev (hash_upper txID) verifier of
        Inl e \<Rightarrow> ([], Some (Preparing e))
      | Inr requestBytes \<Rightarrow>
     (case requestFee ev requestBytes of
        Inl e \<Rightarrow> ([], Some e)
      | Inr fee \<Rightarrow>
     (let tx1 = RequestAttestation fee requestBytes in
      case weAttest ev fee requestBytes of
        Inl e \<Rightarrow> ([tx1], Some (SubmittingAttestation e))
      | Inr receipt \<Rightarrow>
     (case weBlockTimestamp ev (rcBlockNumber receipt) of
        Inl e \<Rightarrow> ([tx1], Some (ReadingBlockTime e))
      | Inr blockTime \<Rightarrow>
     (let round = VotingRoundFor blockTime in
      case waitForRound (weIsFinalized ev round) round 0 (weRoundTicks ev) of
        Some e \<Rightarrow> ([tx1], Some e)
      | None \<Rightarrow>
     (case WaitForProof (weFetch ev round requestBytes) round 0 (weProofTicks ev) of
        Inl e \<Rightarrow> ([tx1], Some (FetchingProof e))
      | Inr proof \<Rightarrow>
     (let tx2 = FinalizePayment requestID (toContractProof proof) in
      case weFinalize ev requestID (toContractProof proof) of
        Inl e \<Rightarrow> ([tx1, tx2], Some (Finalising e))
      | Inr _ \<Rightarrow> ([tx1, tx2], None))))))))"

definition settle ::
  "worker_env \<Rightarrow> string \<Rightarrow> log \<Rightarrow> string list \<Rightarrow> string list \<times> worker_tx list \<times> worker_error option" where
  "settle ev verifier l finished =
     (if length (lgTopics l) < 2 then (finished, [], Some WNoRequestId)
      else let requestID = uint (lgTopics l ! 1); key = int_string requestID in
      if key \<in> set finished then (finished, [], None)
      else case weUnpack ev (lgData l) of
        Inl e \<Rightarrow> (finished, [], Some (DecodingBroadcast e))
      | Inr vals \<Rightarrow>
          let txID = as_hash (vals ! 0) in
          if alreadySettled ev requestID = Inr True then (List.insert key finished, [], None)
          else (case settle_payment ev verifier requestID txID of
                  (txs, Some e) \<Rightarrow> (finished, txs, Some e)
                | (txs, None) \<Rightarrow> (List.insert key finished, txs, None)))"

section \<open>The loop\<close>

fun worker_logs :: "string \<Rightarrow> (worker_env \<times> log) list \<Rightarrow> string list \<Rightarrow> string list" where
  "worker_logs verifier [] finished = finished"
| "worker_logs verifier ((ev, l) # logs) finished =
     worker_logs verifier logs (fst (settle ev verifier l finished))"

definition worker_tick :: "string \<Rightarrow> (worker_env \<times> log) view \<Rightarrow> u64 \<times> string list \<Rightarrow> u64 \<times> string list" where
  "worker_tick verifier v st =
     (let (next, fin) = st in
      case fst v of
        Inl e \<Rightarrow> (next, fin)
      | Inr head \<Rightarrow>
          if head \<ge> next then
            (case snd v next head of
               Inl e \<Rightarrow> (next, fin)
             | Inr logs \<Rightarrow> (head + 1, worker_logs verifier logs fin))
          else (next, fin))"

definition worker_finished :: "(worker_env \<times> log) view \<Rightarrow> u64 \<times> string list \<Rightarrow> (u64 \<times> u64) option" where
  "worker_finished v st =
     (let (next, fin) = st in
      case fst v of
        Inl e \<Rightarrow> None
      | Inr head \<Rightarrow>
          if head \<ge> next then
            (case snd v next head of Inl e \<Rightarrow> None | Inr logs \<Rightarrow> Some (next, head))
          else None)"

definition worker_start :: "u64 \<Rightarrow> string + u64 \<Rightarrow> string + u64" where
  "worker_start fromBlock head = start_block 500 fromBlock head"

interpretation worker_scan: log_scan "worker_tick verifier" worker_finished
  by unfold_locales
    (auto simp: worker_tick_def worker_finished_def Let_def split: sum.splits if_splits)

fun worker_run :: "string \<Rightarrow> bool \<Rightarrow> (worker_env \<times> log) view list \<Rightarrow> u64 \<times> string list \<Rightarrow> u64 \<times> string list" where
  "worker_run verifier once [] st = st"
| "worker_run verifier once (v # vs) st =
     (let st' = worker_tick verifier v st in if once then st' else worker_run verifier once vs st')"

lemma worker_run_ticks: "worker_run verifier False vs st = scan_ticks (worker_tick verifier) vs st"
  by (induction vs arbitrary: st) (simp_all add: Let_def)

section \<open>Lemmas\<close>

lemma wait_round_None:
  "waitForRound f round i n = None \<Longrightarrow> \<exists>k. i \<le> k \<and> k \<le> i + n \<and> (\<exists>out. f k = Inr out \<and> as_bool (out ! 0))"
proof (induction n arbitrary: i)
  case 0
  then show ?case by (subst (asm) waitForRound.simps) (auto split: if_splits sum.splits)
next
  case (Suc n)
  show ?case
  proof (cases "\<exists>out. f i = Inr out \<and> as_bool (out ! 0)")
    case True
    then show ?thesis by (intro exI [of _ i]) simp
  next
    case False
    then have "\<not> (case f i of Inl e \<Rightarrow> False | Inr out \<Rightarrow> as_bool (out ! 0))" by (auto split: sum.splits)
    with Suc.prems have "waitForRound f round (Suc i) n = None" by (subst (asm) waitForRound.simps) simp
    from Suc.IH [OF this] obtain k where "Suc i \<le> k" "k \<le> Suc i + n" "\<exists>out. f k = Inr out \<and> as_bool (out ! 0)"
      by blast
    then show ?thesis by (intro exI [of _ k]) simp
  qed
qed

lemma wait_proof_Inr:
  "WaitForProof fetch r i n = Inr p \<Longrightarrow> \<exists>k. i \<le> k \<and> k \<le> i + n \<and> fetch k = Inr (Some p)"
proof (induction n arbitrary: i)
  case 0
  then show ?case by (subst (asm) WaitForProof.simps) (auto split: sum.splits option.splits)
next
  case (Suc n)
  show ?case
  proof (cases "fetch i = Inr None")
    case True
    with Suc.prems have "WaitForProof fetch r (Suc i) n = Inr p" by (subst (asm) WaitForProof.simps) simp
    from Suc.IH [OF this] obtain k where "Suc i \<le> k" "k \<le> Suc i + n" "fetch k = Inr (Some p)" by blast
    then show ?thesis by (intro exI [of _ k]) simp
  next
    case False
    with Suc.prems have "fetch i = Inr (Some p)"
      by (subst (asm) WaitForProof.simps) (auto split: sum.splits option.splits)
    then show ?thesis by (intro exI [of _ i]) simp
  qed
qed

text \<open>A finalisation is sent only at the end of the whole protocol.\<close>

lemma settle_payment_finalizes:
  assumes "settle_payment ev verifier rid txID = (txs, err)" "FinalizePayment r proofArg \<in> set txs"
  obtains requestBytes fee receipt blockTime i out k pf where
    "wePrepare ev (hash_upper txID) verifier = Inr requestBytes" "requestFee ev requestBytes = Inr fee"
    "weAttest ev fee requestBytes = Inr receipt" "weBlockTimestamp ev (rcBlockNumber receipt) = Inr blockTime"
    "weIsFinalized ev (VotingRoundFor blockTime) i = Inr out" "as_bool (out ! 0)"
    "weFetch ev (VotingRoundFor blockTime) requestBytes k = Inr (Some pf)"
    "r = rid" "proofArg = toContractProof pf"
    "txs = [RequestAttestation fee requestBytes, FinalizePayment rid (toContractProof pf)]"
    "err = None \<longleftrightarrow> (\<exists>receipt. weFinalize ev rid (toContractProof pf) = Inr receipt)"
proof -
  note sp = assms(1) [unfolded settle_payment_def Let_def]
  from sp assms(2) obtain req where 1: "wePrepare ev (hash_upper txID) verifier = Inr req"
    by (cases "wePrepare ev (hash_upper txID) verifier") auto
  from sp assms(2) 1 obtain fee where 2: "requestFee ev req = Inr fee"
    by (cases "requestFee ev req") auto
  from sp assms(2) 1 2 obtain rc where 3: "weAttest ev fee req = Inr rc"
    by (cases "weAttest ev fee req") auto
  from sp assms(2) 1 2 3 obtain bt where 4: "weBlockTimestamp ev (rcBlockNumber rc) = Inr bt"
    by (cases "weBlockTimestamp ev (rcBlockNumber rc)") auto
  let ?r = "VotingRoundFor bt"
  from sp assms(2) 1 2 3 4 have 5: "waitForRound (weIsFinalized ev ?r) ?r 0 (weRoundTicks ev) = None"
    by (cases "waitForRound (weIsFinalized ev ?r) ?r 0 (weRoundTicks ev)") auto
  from sp assms(2) 1 2 3 4 5 obtain pf where
    6: "WaitForProof (weFetch ev ?r req) ?r 0 (weProofTicks ev) = Inr pf"
    by (cases "WaitForProof (weFetch ev ?r req) ?r 0 (weProofTicks ev)") auto
  from wait_round_None [OF 5] obtain i out where i: "weIsFinalized ev ?r i = Inr out" "as_bool (out ! 0)"
    by blast
  from wait_proof_Inr [OF 6] obtain k where k: "weFetch ev ?r req k = Inr (Some pf)" by blast
  from sp 1 2 3 4 5 6
  have t: "txs = [RequestAttestation fee req, FinalizePayment rid (toContractProof pf)]"
    and e: "err = None \<longleftrightarrow> (\<exists>receipt. weFinalize ev rid (toContractProof pf) = Inr receipt)"
    by (cases "weFinalize ev rid (toContractProof pf)"; simp; blast?)+
  from t assms(2) have "r = rid" "proofArg = toContractProof pf" by auto
  from that [OF 1 2 3 4 i k this t e] show thesis .
qed

section \<open>Properties\<close>

definition sample_proof :: Proof where
  "sample_proof = \<lparr>pfMerkleProof = [1, 2], pfResponse = sample_response\<rparr>"

definition sample_worker_env :: worker_env where
  "sample_worker_env = \<lparr>weUnpack = (\<lambda>_. Inr [VHash 0xAB]), weGetRequest = (\<lambda>_. Inl ''rpc''),
     wePrepare = (\<lambda>_ _. Inr [1, 2, 3]), weGetFee = (\<lambda>_. Inr [VBig 1000]),
     weAttest = (\<lambda>_ _. Inr \<lparr>rcStatus = 1, rcTxHash = 5, rcBlockNumber = 9\<rparr>),
     weBlockTimestamp = (\<lambda>_. Inr 1700000000), weIsFinalized = (\<lambda>_ i. Inr [VBool (i = 2)]), weRoundTicks = 60,
     weFetch = (\<lambda>_ _ i. if i = 1 then Inr (Some sample_proof) else Inr None), weProofTicks = 60,
     weFinalize = (\<lambda>_ _. Inr \<lparr>rcStatus = 1, rcTxHash = 6, rcBlockNumber = 19\<rparr>)\<rparr>"

text \<open>C30. The worker settles by proof only. Any finalisation it sends is for the event's own request and
  carries, unaltered and injectively encoded, a proof that the Data Availability layer published for an
  attestation request of exactly the event's transaction with the verifier as proof owner, which the worker
  had submitted with the quoted fee, in the voting round of the block that included it, after the relay
  reported that round final. The attestation is always sent first, and the request counts as done only when
  the finalisation was accepted (or was on chain before).\<close>
theorem worker_settles_by_proof:
  assumes "settle ev verifier l fin = (fin', txs, err)" "FinalizePayment rid proofArg \<in> set txs"
  shows "\<exists>vals requestBytes fee receipt blockTime i out k pf.
    rid = uint (lgTopics l ! 1) \<and> weUnpack ev (lgData l) = Inr vals
    \<and> wePrepare ev (hash_upper (as_hash (vals ! 0))) verifier = Inr requestBytes
    \<and> requestFee ev requestBytes = Inr fee \<and> weAttest ev fee requestBytes = Inr receipt
    \<and> weBlockTimestamp ev (rcBlockNumber receipt) = Inr blockTime
    \<and> weIsFinalized ev (VotingRoundFor blockTime) i = Inr out \<and> as_bool (out ! 0)
    \<and> weFetch ev (VotingRoundFor blockTime) requestBytes k = Inr (Some pf)
    \<and> txs = [RequestAttestation fee requestBytes, FinalizePayment rid proofArg]
    \<and> proofArg = toContractProof pf \<and> (\<forall>q. toContractProof q = proofArg \<longrightarrow> q = pf)
    \<and> requestIDOf l \<notin> set fin \<and> (requestIDOf l \<in> set fin' \<longleftrightarrow> err = None)"
proof -
  from assms have l: "2 \<le> length (lgTopics l)" and new: "int_string (uint (lgTopics l ! 1)) \<notin> set fin"
    by (auto simp: settle_def Let_def split: if_splits)
  from assms l new obtain vals where u: "weUnpack ev (lgData l) = Inr vals"
    by (auto simp: settle_def Let_def split: sum.splits)
  from assms l new u have ns: "alreadySettled ev (uint (lgTopics l ! 1)) \<noteq> Inr True"
    by (auto simp: settle_def Let_def split: if_splits)
  obtain txs0 err0 where p: "settle_payment ev verifier (uint (lgTopics l ! 1)) (as_hash (vals ! 0)) = (txs0, err0)"
    by (cases "settle_payment ev verifier (uint (lgTopics l ! 1)) (as_hash (vals ! 0))")
  with assms(1) l new u ns have r: "txs0 = txs" "err0 = err"
    "fin' = (if err = None then List.insert (int_string (uint (lgTopics l ! 1))) fin else fin)"
    by (auto simp: settle_def Let_def split: option.splits)
  have ids: "requestIDOf l = int_string (uint (lgTopics l ! 1))" using l by (simp add: requestIDOf_def)
  show ?thesis
  proof (rule settle_payment_finalizes [OF p [unfolded r(1,2)] assms(2)])
    fix requestBytes fee receipt blockTime i out k pf
    assume "wePrepare ev (hash_upper (as_hash (vals ! 0))) verifier = Inr requestBytes"
      "requestFee ev requestBytes = Inr fee" "weAttest ev fee requestBytes = Inr receipt"
      "weBlockTimestamp ev (rcBlockNumber receipt) = Inr blockTime"
      "weIsFinalized ev (VotingRoundFor blockTime) i = Inr out" "as_bool (out ! 0)"
      "weFetch ev (VotingRoundFor blockTime) requestBytes k = Inr (Some pf)"
      "rid = uint (lgTopics l ! 1)" "proofArg = toContractProof pf"
      "txs = [RequestAttestation fee requestBytes, FinalizePayment (uint (lgTopics l ! 1)) (toContractProof pf)]"
    then show ?thesis
      using u new r(3) ids toContractProof_inj
      by - (rule exI [of _ vals], rule exI [of _ requestBytes], rule exI [of _ fee], rule exI [of _ receipt],
          rule exI [of _ blockTime], rule exI [of _ i], rule exI [of _ out], rule exI [of _ k],
          rule exI [of _ pf], auto)
  qed
qed

theorem worker_settles_by_proof_witness:
  "\<exists>fin' txs requestBytes pf. settle sample_worker_env ''0xVerifier'' sample_log [] = (fin', txs, None)
     \<and> FinalizePayment 42 (toContractProof pf) \<in> set txs \<and> requestBytes = [1, 2, 3 :: byte]
     \<and> pf = sample_proof"
proof -
  have t: "settle sample_worker_env ''0xVerifier'' sample_log []
      = ([int_string 42], [RequestAttestation 1000 [1, 2, 3], FinalizePayment 42 (toContractProof sample_proof)], None)"
    by (simp add: settle_def Let_def sample_log_def sample_worker_env_def alreadySettled_def settle_payment_def
        requestFee_def waitForRound.simps WaitForProof.simps)
  from worker_settles_by_proof [OF t] t show ?thesis by auto
qed

end
