(* ===== verification/Services.thy ===== *)
theory Services
  imports FdcWorker
begin

text \<open>
  The three services as processes: settings from flags and environment, the checks before the start, the
  wiring of each event loop to the chain client, the extension proxy, the XRP Ledger and the Data Connector
  (the \<open>main\<close> functions and the calls inside the handlers of \<open>services/cmd\<close>). What the network answers is a
  parameter: an \<open>eth\<close> value for each interaction with the node.
\<close>

section \<open>Settings\<close>

definition env_or :: "(string \<Rightarrow> string) \<Rightarrow> string \<Rightarrow> string \<Rightarrow> string" where
  "env_or getenv key fallback = (let v = getenv key in if v \<noteq> [] then v else fallback)"

definition chain_url :: "(string \<Rightarrow> string) \<Rightarrow> string" where
  "chain_url getenv = env_or getenv ''CHAIN_URL'' ''https://coston2-api.flare.network/ext/C/rpc''"

text \<open>Durations are in nanoseconds, as \<open>time.Duration\<close> has them.\<close>

definition seconds :: "int \<Rightarrow> int" where "seconds n = n * 1000000000"

record relay_flags =
  rgRpc :: string
  rgController :: string
  rgProxy :: string
  rgKey :: string
  rgFrom :: u64
  rgPoll :: int
  rgPatience :: int
  rgOnce :: bool

definition relay_defaults :: "(string \<Rightarrow> string) \<Rightarrow> relay_flags" where
  "relay_defaults getenv =
     \<lparr>rgRpc = chain_url getenv, rgController = env_or getenv ''BRIDGESAFE_CONTROLLER'' [],
      rgProxy = env_or getenv ''EXT_PROXY_URL'' [],
      rgKey = env_or getenv ''RELAY_PRIVATE_KEY'' (env_or getenv ''DEPLOYMENT_PRIVATE_KEY'' []),
      rgFrom = 0, rgPoll = seconds 5, rgPatience = seconds (5 * 60), rgOnce = False\<rparr>"

record broadcaster_flags =
  bfRpc :: string
  bfController :: string
  bfXrpl :: string
  bfKey :: string
  bfFrom :: u64
  bfPoll :: int
  bfOnce :: bool

definition broadcaster_defaults :: "(string \<Rightarrow> string) \<Rightarrow> broadcaster_flags" where
  "broadcaster_defaults getenv =
     \<lparr>bfRpc = chain_url getenv, bfController = env_or getenv ''BRIDGESAFE_CONTROLLER'' [],
      bfXrpl = env_or getenv ''XRPL_RPC_URL'' ''https://s.altnet.rippletest.net:51234/'',
      bfKey = env_or getenv ''BROADCASTER_PRIVATE_KEY'' (env_or getenv ''DEPLOYMENT_PRIVATE_KEY'' []),
      bfFrom = 0, bfPoll = seconds 5, bfOnce = False\<rparr>"

record worker_flags =
  wfRpc :: string
  wfController :: string
  wfVerifier :: string
  wfFdcHub :: string
  wfFeeConfig :: string
  wfRelay :: string
  wfVerifierURL :: string
  wfDaURL :: string
  wfApiKey :: string
  wfKey :: string
  wfFrom :: u64
  wfPoll :: int
  wfOnce :: bool

definition worker_defaults :: "(string \<Rightarrow> string) \<Rightarrow> worker_flags" where
  "worker_defaults getenv =
     \<lparr>wfRpc = chain_url getenv, wfController = env_or getenv ''BRIDGESAFE_CONTROLLER'' [],
      wfVerifier = env_or getenv ''BRIDGESAFE_FDC_VERIFIER'' [],
      wfFdcHub = env_or getenv ''FDC_HUB'' ''0x48aC463d7975828989331F4De43341627b9c5f1D'',
      wfFeeConfig = env_or getenv ''FDC_FEE_CONFIG'' ''0x191a1282Ac700edE65c5B0AaF313BAcC3eA7fC7e'',
      wfRelay = env_or getenv ''FLARE_RELAY'' ''0xa10B672D1c62e5457b17af63d4302add6A99d7dE'',
      wfVerifierURL = env_or getenv ''VERIFIER_URL_TESTNET'' ''https://fdc-verifiers-testnet.flare.network'',
      wfDaURL = env_or getenv ''COSTON2_DA_LAYER_URL'' ''https://ctn2-data-availability.flare.network'',
      wfApiKey = env_or getenv ''VERIFIER_API_KEY_TESTNET'' ''00000000-0000-0000-0000-000000000000'',
      wfKey = env_or getenv ''FDC_WORKER_PRIVATE_KEY'' (env_or getenv ''DEPLOYMENT_PRIVATE_KEY'' []),
      wfFrom = 0, wfPoll = seconds 10, wfOnce = False\<rparr>"

section \<open>What a process meets\<close>

text \<open>go-ethereum's and the system's functions, and the chain at start-up.\<close>

record service_host =
  hoDial :: "string \<Rightarrow> string + (string + int)"
  hoHexToKey :: "string \<Rightarrow> string + address"
  hoHexToAddress :: "string \<Rightarrow> address"
  hoAddressHex :: "address \<Rightarrow> string"
  hoEventID :: "string \<Rightarrow> hash32"
  hoStartHead :: eth
  hoCancelled :: bool                 \<comment> \<open>the context is done when \<open>run\<close> returns\<close>

text \<open>One pass of a loop: the node as it answers for the head and the logs, and what the handling of the
  \<open>i\<close>-th log meets.\<close>

record 'm pass =
  paEth :: eth
  paMeets :: "nat \<Rightarrow> 'm"

definition range_view ::
  "(eth \<Rightarrow> u64 \<Rightarrow> u64 \<Rightarrow> string + log list) \<Rightarrow> ('m \<Rightarrow> 'e) \<Rightarrow> 'm pass \<Rightarrow> ('e \<times> log) view" where
  "range_view fetch at p =
     (BlockNumber (paEth p),
      \<lambda>from until. case fetch (paEth p) from until of
          Inl e \<Rightarrow> Inl e
        | Inr logs \<Rightarrow> Inr (zip (map (\<lambda>i. at (paMeets p i)) [0..<length logs]) logs))"

text \<open>The log lines of \<open>Dial\<close>'s error.\<close>

fun dial_error_string :: "dial_error \<Rightarrow> string" where
  "dial_error_string (Connecting url e) = ''connecting to '' @ url @ '': '' @ e"
| "dial_error_string (ReadingChainId e) = ''reading chain id: '' @ e"
| "dial_error_string (ParsingKey e) = ''parsing private key: '' @ e"

text \<open>The event id of the controller's ABI, when it has the event.\<close>

definition controller_event :: "service_host \<Rightarrow> string \<Rightarrow> hash32 option" where
  "controller_event ho n = (case find_event controllerABI n of None \<Rightarrow> None | Some _ \<Rightarrow> Some (hoEventID ho n))"

text \<open>The node, as the dialled client reaches it: with its key or without.\<close>

definition client_of :: "chain \<Rightarrow> eth \<Rightarrow> eth" where
  "client_of dialled c = c\<lparr>ethHasKey := chKey dialled\<rparr>"

section \<open>The result relay\<close>

record relay_meets =
  rmEth :: eth
  rmProxy :: proxy
  rmNow :: int
  rmLater :: int

record relay_config =
  rcChain :: chain
  rcController :: address
  rcProxyURL :: string
  rcPatience :: int

definition delivery_args :: "delivery \<Rightarrow> goval list" where
  "delivery_args dl = [VBytes (dlData dl), VHash (dlActionID dl), VStr (dlSubmissionTag dl), VU8 (dlStatus dl),
     VBytes (dlSignature dl)]"

definition relay_env_at :: "relay_config \<Rightarrow> relay_meets \<Rightarrow> relay_env" where
  "relay_env_at cfg m =
     \<lparr>reUnpack = ethUnpackEvent (rmEth m) controllerABI,
      reProxy = proxy_Result ((rmProxy m)\<lparr>pxBaseURL := rcProxyURL cfg\<rparr>),
      reNow = rmNow m, reLater = rmLater m, rePatience = rcPatience cfg,
      reSend = (\<lambda>dl. Send (client_of (rcChain cfg) (rmEth m)) controllerABI (rcController cfg) None (dlMethod dl)
        (delivery_args dl))\<rparr>"

definition relay_topics :: "service_host \<Rightarrow> hash32 list" where
  "relay_topics ho = map (\<lambda>h. the (controller_event ho (hdEvent h))) handlers"

definition relay_view :: "service_host \<Rightarrow> relay_config \<Rightarrow> relay_meets pass \<Rightarrow> (relay_env \<times> log) view" where
  "relay_view ho cfg =
     range_view (\<lambda>c. FilterLogsAny c (rcController cfg) (relay_topics ho)) (relay_env_at cfg)"

fun run_error_string :: "run_error \<Rightarrow> string" where
  "run_error_string (NoEvent n) = ''controller ABI has no event '' @ n"
| "run_error_string (ReadingHead e) = ''reading head: '' @ e"

text \<open>The probe before the loop changes nothing: its outcome is a log line.\<close>

datatype probe = ProxyWarning proxy_error | EnclaveAt string | NoMachineData

definition relay_probe :: "proxy \<Rightarrow> (bytes \<Rightarrow> string + string option) \<Rightarrow> probe" where
  "relay_probe px decode =
     (case proxy_Info px decode of
        Inl e \<Rightarrow> ProxyWarning e
      | Inr (Some addr) \<Rightarrow> EnclaveAt addr
      | Inr None \<Rightarrow> NoMachineData)"

text \<open>The result of a service: the message of the fatal exit, or its last state, when it got to the loop.\<close>

definition stopped :: "service_host \<Rightarrow> string \<Rightarrow> (string + 's) \<Rightarrow> string + 's option" where
  "stopped ho name r =
     (case r of
        Inl e \<Rightarrow> if hoCancelled ho then Inr None else Inl (name @ '' stopped: '' @ e)
      | Inr s \<Rightarrow> Inr (Some s))"

definition relay_service ::
  "service_host \<Rightarrow> relay_config \<Rightarrow> u64 \<Rightarrow> bool \<Rightarrow> relay_meets pass list \<Rightarrow> string + (u64 \<times> relay)" where
  "relay_service ho cfg fromBlock once passes =
     (case relay_start (controller_event ho) fromBlock (BlockNumber (hoStartHead ho)) of
        Inl e \<Rightarrow> Inl (run_error_string e)
      | Inr next \<Rightarrow>
          Inr (relay_run (topic_table (controller_event ho)) once (map (relay_view ho cfg) passes)
            (next, \<lparr>rlDone = [], rlFirstSeen = []\<rparr>)))"

definition relay_main ::
  "service_host \<Rightarrow> relay_flags \<Rightarrow> proxy \<Rightarrow> (bytes \<Rightarrow> string + string option) \<Rightarrow> relay_meets pass list
     \<Rightarrow> string + probe \<times> (u64 \<times> relay) option" where
  "relay_main ho fl px decodeInfo passes =
     (if rgController fl = [] then Inl ''no controller address: set BRIDGESAFE_CONTROLLER or pass -controller''
      else if rgProxy fl = []
      then Inl ''no extension proxy URL: set EXT_PROXY_URL (scripts/tunnel.sh writes it) or pass -proxy''
      else if rgKey fl = [] then Inl ''no signing key: set RELAY_PRIVATE_KEY''
      else case Dial (hoDial ho) (hoHexToKey ho) (rgRpc fl) (rgKey fl) of
        Inl e \<Rightarrow> Inl (''connecting to Flare: '' @ dial_error_string e)
      | Inr chain \<Rightarrow>
          let cfg = \<lparr>rcChain = chain, rcController = hoHexToAddress ho (rgController fl),
                rcProxyURL = proxy_URL (rgProxy fl), rcPatience = rgPatience fl\<rparr> in
          (case stopped ho ''result-relay'' (relay_service ho cfg (rgFrom fl) (rgOnce fl) passes) of
             Inl e \<Rightarrow> Inl e
           | Inr st \<Rightarrow> Inr (relay_probe (px\<lparr>pxBaseURL := rcProxyURL cfg\<rparr>) decodeInfo, st)))"

section \<open>The broadcaster\<close>

record broadcast_meets =
  bmEth :: eth
  bmXrpl :: "string \<Rightarrow> xrpl_http"          \<comment> \<open>per endpoint\<close>

record broadcast_config =
  bcChain :: chain
  bcController :: address
  bcEndpoint :: string

definition broadcast_env_at :: "broadcast_config \<Rightarrow> broadcast_meets \<Rightarrow> broadcast_env" where
  "broadcast_env_at cfg m =
     \<lparr>beUnpack = ethUnpackEvent (bmEth m) controllerABI ''PaymentSigned'',
      beSubmit = Submit (bmXrpl m (bcEndpoint cfg)),
      beReport = (\<lambda>requestID tx.
        Send (client_of (bcChain cfg) (bmEth m)) controllerABI (bcController cfg) None ''reportBroadcast''
          [VBig requestID, VHash tx])\<rparr>"

definition broadcast_view :: "service_host \<Rightarrow> broadcast_config \<Rightarrow> broadcast_meets pass \<Rightarrow> (broadcast_env \<times> log) view" where
  "broadcast_view ho cfg =
     range_view (\<lambda>c. FilterLogs c (bcController cfg) (hoEventID ho ''PaymentSigned'')) (broadcast_env_at cfg)"

definition broadcast_service ::
  "service_host \<Rightarrow> broadcast_config \<Rightarrow> u64 \<Rightarrow> bool \<Rightarrow> broadcast_meets pass list \<Rightarrow> string + (u64 \<times> string list)" where
  "broadcast_service ho cfg fromBlock once passes =
     (case broadcast_start fromBlock (BlockNumber (hoStartHead ho)) of
        Inl e \<Rightarrow> Inl (''reading head: '' @ e)
      | Inr next \<Rightarrow> Inr (broadcast_run once (map (broadcast_view ho cfg) passes) (next, [])))"

definition broadcaster_main ::
  "service_host \<Rightarrow> broadcaster_flags \<Rightarrow> broadcast_meets pass list \<Rightarrow> string + (u64 \<times> string list) option" where
  "broadcaster_main ho fl passes =
     (if bfController fl = [] then Inl ''no controller address: set BRIDGESAFE_CONTROLLER or pass -controller''
      else if bfKey fl = [] then Inl ''no signing key: set BROADCASTER_PRIVATE_KEY''
      else case Dial (hoDial ho) (hoHexToKey ho) (bfRpc fl) (bfKey fl) of
        Inl e \<Rightarrow> Inl (''connecting to Flare: '' @ dial_error_string e)
      | Inr chain \<Rightarrow>
          let cfg = \<lparr>bcChain = chain, bcController = hoHexToAddress ho (bfController fl), bcEndpoint = bfXrpl fl\<rparr>
          in stopped ho ''broadcaster'' (broadcast_service ho cfg (bfFrom fl) (bfOnce fl) passes))"

section \<open>The settlement worker\<close>

text \<open>The interactions of one settlement with the node.\<close>

datatype worker_call = AtDecode | AtGetRequest | AtFee | AtAttest | AtBlock | AtRound nat | AtFinalize

record fdc_json =
  fjPrepare :: "prepare_request \<Rightarrow> string + bytes"
  fjPrepared :: "bytes \<Rightarrow> string + string \<times> string"
  fjFetch :: "u64 \<Rightarrow> string \<Rightarrow> string + bytes"
  fjFetched :: "bytes \<Rightarrow> string + string list \<times> bytes"
  fjResponse :: "bytes \<Rightarrow> string + daResponse"

record worker_meets =
  wmEth :: "worker_call \<Rightarrow> eth"
  wmPrepare :: fdc_http
  wmFetch :: "nat \<Rightarrow> fdc_http"
  wmRoundTicks :: nat
  wmProofTicks :: nat

record worker_config =
  wcChain :: chain
  wcController :: address
  wcVerifier :: address
  wcFdcHub :: address
  wcFeeConfig :: address
  wcRelay :: address
  wcFdc :: fdc_client

definition worker_env_at :: "fdc_json \<Rightarrow> worker_config \<Rightarrow> worker_meets \<Rightarrow> worker_env" where
  "worker_env_at js cfg m =
     \<lparr>weUnpack = ethUnpackEvent (wmEth m AtDecode) controllerABI ''PaymentBroadcast'',
      weGetRequest = (\<lambda>requestID.
        Call (wmEth m AtGetRequest) controllerABI (wcController cfg) ''getRequest'' [VBig requestID]),
      wePrepare = PrepareXRPPayment (wmPrepare m) (wcFdc cfg) (fjPrepare js) (fjPrepared js),
      weGetFee = (\<lambda>requestBytes.
        Call (wmEth m AtFee) feeConfigABI (wcFeeConfig cfg) ''getRequestFee'' [VBytes requestBytes]),
      weAttest = (\<lambda>fee requestBytes.
        Send (client_of (wcChain cfg) (wmEth m AtAttest)) fdcHubABI (wcFdcHub cfg) (Some fee) ''requestAttestation''
          [VBytes requestBytes]),
      weBlockTimestamp = BlockTimestamp (wmEth m AtBlock),
      weIsFinalized = (\<lambda>round i.
        Call (wmEth m (AtRound i)) relayABI (wcRelay cfg) ''isFinalized'' [VBig FdcProtocolID, VBig (uint round)]),
      weRoundTicks = wmRoundTicks m,
      weFetch = (\<lambda>round requestBytes i. FetchProof (wmFetch m i) (wcFdc cfg) (fjFetch js) (fjFetched js)
        (fjResponse js) round requestBytes),
      weProofTicks = wmProofTicks m,
      weFinalize = (\<lambda>requestID proofArg.
        Send (client_of (wcChain cfg) (wmEth m AtFinalize)) verifierABI (wcVerifier cfg) None ''finalizePayment''
          [VBig requestID, proofArg])\<rparr>"

definition worker_view ::
  "service_host \<Rightarrow> fdc_json \<Rightarrow> worker_config \<Rightarrow> worker_meets pass \<Rightarrow> (worker_env \<times> log) view" where
  "worker_view ho js cfg =
     range_view (\<lambda>c. FilterLogs c (wcController cfg) (hoEventID ho ''PaymentBroadcast'')) (worker_env_at js cfg)"

definition worker_service ::
  "service_host \<Rightarrow> fdc_json \<Rightarrow> worker_config \<Rightarrow> u64 \<Rightarrow> bool \<Rightarrow> worker_meets pass list \<Rightarrow> string + (u64 \<times> string list)" where
  "worker_service ho js cfg fromBlock once passes =
     (case worker_start fromBlock (BlockNumber (hoStartHead ho)) of
        Inl e \<Rightarrow> Inl (''reading head: '' @ e)
      | Inr next \<Rightarrow>
          Inr (worker_run (hoAddressHex ho (wcVerifier cfg)) once (map (worker_view ho js cfg) passes) (next, [])))"

definition worker_required :: "worker_flags \<Rightarrow> (string \<times> string) list" where
  "worker_required fl =
     [(''BRIDGESAFE_CONTROLLER'', wfController fl), (''BRIDGESAFE_FDC_VERIFIER'', wfVerifier fl),
      (''FDC_WORKER_PRIVATE_KEY'', wfKey fl)]"

definition worker_config_of :: "service_host \<Rightarrow> worker_flags \<Rightarrow> chain \<Rightarrow> worker_config" where
  "worker_config_of ho fl chain =
     \<lparr>wcChain = chain, wcController = hoHexToAddress ho (wfController fl), wcVerifier = hoHexToAddress ho (wfVerifier fl),
      wcFdcHub = hoHexToAddress ho (wfFdcHub fl), wcFeeConfig = hoHexToAddress ho (wfFeeConfig fl),
      wcRelay = hoHexToAddress ho (wfRelay fl),
      wcFdc = fdc_New (wfVerifierURL fl) (wfDaURL fl) (wfApiKey fl)\<rparr>"

text \<open>The required settings are a Go map: \<open>order\<close> is the order of its iteration.\<close>

definition worker_main ::
  "service_host \<Rightarrow> fdc_json \<Rightarrow> ((string \<times> string) list \<Rightarrow> (string \<times> string) list) \<Rightarrow> worker_flags
     \<Rightarrow> worker_meets pass list \<Rightarrow> string + (u64 \<times> string list) option" where
  "worker_main ho js order fl passes =
     (case find (\<lambda>(name, value). value = []) (order (worker_required fl)) of
        Some (name, _) \<Rightarrow> Inl (''missing '' @ name)
      | None \<Rightarrow>
     (case Dial (hoDial ho) (hoHexToKey ho) (wfRpc fl) (wfKey fl) of
        Inl e \<Rightarrow> Inl (''connecting to Flare: '' @ dial_error_string e)
      | Inr chain \<Rightarrow>
          stopped ho ''fdc-worker''
            (worker_service ho js (worker_config_of ho fl chain) (wfFrom fl) (wfOnce fl) passes)))"

section \<open>Labels\<close>

text \<open>The labels of the log lines: a hash shortened to its ends, around an ellipsis of three bytes, and the
  request of an event.\<close>

definition short :: "hash32 \<Rightarrow> string" where
  "short h =
     (let s = ''0x'' @ hex_encode (word_bytes h) in
      if length s < 14 then s
      else take 10 s @ [CHR 0xE2, CHR 0x80, CHR 0xA6] @ drop (length s - 4) s)"

definition worker_requestIDOf :: "log \<Rightarrow> string" where
  "worker_requestIDOf l = (if length (lgTopics l) < 2 then ''?'' else int_string (uint (lgTopics l ! 1)))"

text \<open>A hash is always shortened, to the same length; the worker and the broadcaster label a request alike, by the
  key they remember it with, which tells requests apart.\<close>

lemma length_short: "length (short h) = 17"
  by (simp add: short_def)

lemma request_labels_agree: "worker_requestIDOf = requestIDOf"
  by (simp add: fun_eq_iff worker_requestIDOf_def requestIDOf_def)

lemma request_label_inj:
  "length (lgTopics l) \<ge> 2 \<Longrightarrow> length (lgTopics l') \<ge> 2 \<Longrightarrow>
   requestIDOf l = requestIDOf l' \<longleftrightarrow> lgTopics l ! 1 = lgTopics l' ! 1"
  by (auto simp: requestIDOf_def word_uint_eq_iff dest: int_string_inj [THEN iffD1])

section \<open>Starting\<close>

text \<open>A service that starts has its settings and a key: none of its transactions is refused for a read-only
  client.\<close>

lemma Dial_key: "Dial dial hexToKey url key = Inr dialled \<Longrightarrow> key \<noteq> [] \<Longrightarrow> chKey dialled"
  by (auto simp: Dial_def split: sum.splits)

lemma SLOT_relay_main_starts:
  assumes "relay_main ho fl px decodeInfo passes = Inr r"
  shows "rgController fl \<noteq> [] \<and> rgProxy fl \<noteq> [] \<and> rgKey fl \<noteq> []
    \<and> (\<exists>dialled. Dial (hoDial ho) (hoHexToKey ho) (rgRpc fl) (rgKey fl) = Inr dialled \<and> chKey dialled)"
  using assms by (auto simp: relay_main_def Let_def dest: Dial_key split: if_splits sum.splits)

lemma broadcaster_main_starts:
  assumes "broadcaster_main ho fl passes = Inr r"
  shows "bfController fl \<noteq> [] \<and> bfKey fl \<noteq> []
    \<and> (\<exists>dialled. Dial (hoDial ho) (hoHexToKey ho) (bfRpc fl) (bfKey fl) = Inr dialled \<and> chKey dialled)"
  using assms by (auto simp: broadcaster_main_def Let_def dest: Dial_key split: if_splits sum.splits)

text \<open>For the worker this holds in any order in which the required settings are iterated.\<close>

lemma worker_main_starts:
  assumes "worker_main ho js order fl passes = Inr r" "set (order (worker_required fl)) = set (worker_required fl)"
  shows "wfController fl \<noteq> [] \<and> wfVerifier fl \<noteq> [] \<and> wfKey fl \<noteq> []
    \<and> (\<exists>dialled. Dial (hoDial ho) (hoHexToKey ho) (wfRpc fl) (wfKey fl) = Inr dialled \<and> chKey dialled)"
proof -
  from assms(1) have none: "find (\<lambda>(name, value). value = []) (order (worker_required fl)) = None"
    by (auto simp: worker_main_def split: option.splits)
  then have "\<forall>(n, v) \<in> set (worker_required fl). v \<noteq> []"
    using assms(2) by (auto simp: find_None_iff)
  then have keys: "wfController fl \<noteq> []" "wfVerifier fl \<noteq> []" "wfKey fl \<noteq> []"
    by (simp_all add: worker_required_def)
  with assms(1) none show ?thesis by (auto simp: worker_main_def dest: Dial_key split: sum.splits)
qed

end
