(* ===== verification/ServicesProps.thy ===== *)
theory ServicesProps
  imports Services
begin

text \<open>
  The services and the contracts they talk to: every call fits the interface of its contract, decoded answers
  have the shape the code indexes into, and what a service sends is what it was given.
\<close>

section \<open>The wiring\<close>

lemma controller_methods:
  "find_method controllerABI ''reportBroadcast''
     = Some \<lparr>amName = ''reportBroadcast'', amMutability = NonPayable,
         amInputs = [(''_requestId'', SUint 256), (''_xrplTxId'', SBytes32)], amOutputs = []\<rparr>"
  "find_method controllerABI ''getRequest''
     = Some \<lparr>amName = ''getRequest'', amMutability = View, amInputs = [(''_requestId'', SUint 256)],
         amOutputs = [([], STuple requestTuple)]\<rparr>"
  by (simp_all add: find_method_def controllerABI_def reportMethods_def)

lemma delivery_methods:
  assumes "h \<in> set handlers"
  shows "find_method controllerABI (dlMethod (delivery_of h res))
    = Some \<lparr>amName = dlMethod (delivery_of h res), amMutability = NonPayable, amInputs = resultInputs, amOutputs = []\<rparr>"
proof -
  have "dlMethod (delivery_of h res) \<in> {''bindTreasuryAddress'', ''confirmPolicy'', ''submitAuthorization'',
      ''submitSignedPayment'', ''submitFailure''}"
    using assms unfolding handlers_def delivery_of_def by auto
  moreover have "find_method controllerABI m = Some \<lparr>amName = m, amMutability = NonPayable, amInputs = resultInputs, amOutputs = []\<rparr>"
    if "m \<in> {''bindTreasuryAddress'', ''confirmPolicy'', ''submitAuthorization'', ''submitSignedPayment'', ''submitFailure''}" for m
    using that unfolding find_method_def controllerABI_def reportMethods_def resultMethods_def by (elim insertE) simp_all
  ultimately show ?thesis by blast
qed

lemma delivery_fits:
  assumes "h \<in> set handlers"
  shows "call_ok controllerABI (dlMethod (delivery_of h res)) (delivery_args (delivery_of h res))"
  by (simp add: call_ok_def delivery_methods [OF assms] delivery_args_def resultInputs_def)

lemma report_fits: "call_ok controllerABI ''reportBroadcast'' [VBig r, VHash tx]"
  and get_request_fits: "call_ok controllerABI ''getRequest'' [VBig r]"
  by (simp_all add: call_ok_def controller_methods)

lemma fee_fits: "call_ok feeConfigABI ''getRequestFee'' [VBytes b]"
  and attestation_fits: "call_ok fdcHubABI ''requestAttestation'' [VBytes b]"
  and finalized_fits: "call_ok relayABI ''isFinalized'' [VBig p, VBig r]"
  by (simp_all add: call_ok_def find_method_def feeConfigABI_def fdcHubABI_def relayABI_def)

lemma finalize_fits: "call_ok verifierABI ''finalizePayment'' [VBig r, toContractProof p]"
  by (simp add: call_ok_def find_method_def verifierABI_def toContractProof_def Let_def proofTuple_def
      requestBodyTuple_def responseBodyTuple_def list_all_iff)

text \<open>The Go struct types of \<open>toContractProof\<close>, by their field names: the ABI package pairs a field with the
  tuple component whose name, in camel case, is the field's name.\<close>

datatype go_names = Leaf | Fields "(string \<times> go_names) list"

definition responseBodyNames :: "string list" where
  "responseBodyNames =
     [''BlockNumber'', ''BlockTimestamp'', ''SourceAddress'', ''SourceAddressHash'', ''ReceivingAddressHash'',
      ''IntendedReceivingAddressHash'', ''SpentAmount'', ''IntendedSpentAmount'', ''ReceivedAmount'',
      ''IntendedReceivedAmount'', ''HasMemoData'', ''FirstMemoData'', ''HasDestinationTag'',
      ''DestinationTag'', ''Status'']"

definition proofNames :: go_names where
  "proofNames =
     Fields [(''MerkleProof'', Leaf),
       (''Data'', Fields
         [(''AttestationType'', Leaf), (''SourceId'', Leaf), (''VotingRound'', Leaf),
          (''LowestUsedTimestamp'', Leaf),
          (''RequestBody'', Fields [(''TransactionId'', Leaf), (''ProofOwner'', Leaf)]),
          (''ResponseBody'', Fields (map (\<lambda>n. (n, Leaf)) responseBodyNames))])]"

fun names_match :: "(string \<Rightarrow> string) \<Rightarrow> sol_ty \<Rightarrow> go_names \<Rightarrow> bool"
  and fields_match :: "(string \<Rightarrow> string) \<Rightarrow> (string \<times> sol_ty) list \<Rightarrow> (string \<times> go_names) list \<Rightarrow> bool" where
  "names_match camel (STuple fs) g = (case g of Fields gs \<Rightarrow> fields_match camel fs gs | Leaf \<Rightarrow> False)"
| "names_match camel t g = (g = Leaf)"
| "fields_match camel [] gs = (gs = [])"
| "fields_match camel ((n, t) # fs) gs =
     (case gs of [] \<Rightarrow> False
      | (m, g) # gs' \<Rightarrow> m = camel n \<and> names_match camel t g \<and> fields_match camel fs gs')"

text \<open>What the package's documentation says of a name without underscores.\<close>

definition camel_plain :: "(string \<Rightarrow> string) \<Rightarrow> bool" where
  "camel_plain camel \<longleftrightarrow> (\<forall>c s. CHR ''_'' \<notin> set (c # s) \<longrightarrow> camel (c # s) = upper_char c # s)"

lemma proof_names_match:
  assumes "camel_plain camel"
  shows "names_match camel (STuple proofTuple) proofNames"
proof -
  have c: "camel (c # s) = upper_char c # s" if "CHR ''_'' \<notin> set (c # s)" for c s
    using assms that by (simp add: camel_plain_def)
  show ?thesis
    unfolding proofNames_def proofTuple_def requestBodyTuple_def responseBodyTuple_def responseBodyNames_def
    by (simp add: c upper_char_def) code_simp
qed

section \<open>Decoded answers\<close>

lemma request_copies:
  assumes "args_conform requestTuple fs"
  shows "CopyStruct requestFields (VStruct fs) = Inr fs \<and> (\<exists>w. fs ! 12 = VU8 w)"
  using assms
  by (auto simp: requestTuple_def args_conform_Cons conforms_values CopyStruct_def requestFields_def
      simp del: conforms.simps)

text \<open>The non-indexed inputs of the events the services decode.\<close>

lemma signed_inputs:
  "Option.bind (find_event controllerABI ''PaymentSigned'') (\<lambda>ev. Some (NonIndexed ev))
     = Some [(''expectedTxId'', SBytes32), (''signedBlobHash'', SBytes32), (''signedTxBlob'', SBytes)]"
  "Option.bind (find_event controllerABI ''PaymentBroadcast'') (\<lambda>ev. Some (NonIndexed ev))
     = Some [(''xrplTxId'', SBytes32)]"
  by (simp_all add: find_event_def controllerABI_def paymentEvents_def NonIndexed_def)

lemma handler_events:
  assumes "h \<in> set handlers"
  obtains ev ps where "find_event controllerABI (hdEvent h) = Some ev"
    "NonIndexed ev = ps @ [(''instructionId'', SBytes32)]"
  using assms
  by (auto simp: handlers_def find_event_def controllerABI_def paymentEvents_def instructionEvents_def
      NonIndexed_def intro: that)

definition good_eth :: "eth \<Rightarrow> bool" where
  "good_eth c \<longleftrightarrow> abi_package (ethPack c) (ethUnpack c) (ethUnpackEvent c)"

lemma good_client [simp]: "good_eth (client_of dialled c) = good_eth c"
  by (simp add: good_eth_def client_of_def)

lemma client_of_simps [simp]:
  "ethPack (client_of dialled c) = ethPack c" "ethSignTx (client_of dialled c) = ethSignTx c"
  "ethSendTransaction (client_of dialled c) = ethSendTransaction c" "ethReceipt (client_of dialled c) = ethReceipt c"
  by (simp_all add: client_of_def)

lemma good_ethD: "good_eth c \<Longrightarrow> abi_package (ethPack c) (ethUnpack c) (ethUnpackEvent c)"
  by (simp add: good_eth_def)

lemma Call_Inr: "Call c a to m args = Inr out \<Longrightarrow> \<exists>bs. ethUnpack c a m bs = Inr out"
  by (auto simp: Call_def split: sum.splits)

lemma instruction_id_decoded:
  assumes "good_eth c" "h \<in> set handlers" "ethUnpackEvent c controllerABI (hdEvent h) bs = Inr vs"
  shows "vs \<noteq> [] \<and> (\<exists>i. last vs = VHash i)"
proof (rule handler_events [OF assms(2)])
  fix ev ps assume ev: "find_event controllerABI (hdEvent h) = Some ev" "NonIndexed ev = ps @ [(''instructionId'', SBytes32)]"
  have "args_conform (ps @ [(''instructionId'', SBytes32)]) vs"
    using abi_package.event_typed [OF good_ethD [OF assms(1)] ev(1) assms(3)] by (simp add: ev(2))
  then show ?thesis by (auto dest!: args_conform_last simp: conforms_values simp del: conforms.simps)
qed

lemma signed_event_decoded:
  assumes "good_eth c" "ethUnpackEvent c controllerABI ''PaymentSigned'' bs = Inr vs"
  shows "\<exists>tx blobHash blob. vs = [VHash tx, VHash blobHash, VBytes blob]"
proof -
  obtain ev where ev: "find_event controllerABI ''PaymentSigned'' = Some ev"
    "NonIndexed ev = [(''expectedTxId'', SBytes32), (''signedBlobHash'', SBytes32), (''signedTxBlob'', SBytes)]"
    using signed_inputs(1) by (auto simp: bind_eq_Some_conv)
  from abi_package.event_typed [OF good_ethD [OF assms(1)] ev(1) assms(2)] show ?thesis
    by (auto simp: ev(2) args_conform_Cons conforms_values simp del: conforms.simps)
qed

lemma broadcast_event_decoded:
  assumes "good_eth c" "ethUnpackEvent c controllerABI ''PaymentBroadcast'' bs = Inr vs"
  shows "\<exists>tx. vs = [VHash tx]"
proof -
  obtain ev where ev: "find_event controllerABI ''PaymentBroadcast'' = Some ev"
    "NonIndexed ev = [(''xrplTxId'', SBytes32)]"
    using signed_inputs(2) by (auto simp: bind_eq_Some_conv)
  from abi_package.event_typed [OF good_ethD [OF assms(1)] ev(1) assms(2)] show ?thesis
    by (auto simp: ev(2) args_conform_Cons conforms_values simp del: conforms.simps)
qed

lemma relay_no_shape_error:
  assumes "good_eth (rmEth m)" "h \<in> set handlers"
  shows "snd (snd (handle (relay_env_at cfg m) h l s)) \<noteq> Some (NoFields e)"
    and "snd (snd (handle (relay_env_at cfg m) h l s)) \<noteq> Some (NotInstructionId e)"
proof -
  have "vs \<noteq> [] \<and> (\<exists>i. last vs = VHash i)"
    if "reUnpack (relay_env_at cfg m) (hdEvent h) (lgData l) = Inr vs" for vs
    using instruction_id_decoded [OF assms] that by (simp add: relay_env_at_def)
  then show "snd (snd (handle (relay_env_at cfg m) h l s)) \<noteq> Some (NoFields e)"
    and "snd (snd (handle (relay_env_at cfg m) h l s)) \<noteq> Some (NotInstructionId e)"
    by (auto simp: handle_def handle_action_def Let_def split: sum.splits goval.splits)
qed

lemma Send_packs:
  assumes "good_eth c" "call_ok a m args"
  shows "Send c a to value m args \<noteq> Inl (PackingMethod m' e)"
proof -
  obtain bs where "ethPack c a m args = Inr bs"
    using abi_package.pack_total [OF good_ethD [OF assms(1)] assms(2)] by blast
  moreover have "waitForReceipt c h i n \<noteq> Inl (PackingMethod m' e)" for h i n
  proof (induction n arbitrary: i)
    case 0
    show ?case by (subst waitForReceipt.simps) (simp split: option.splits)
  next
    case (Suc n)
    then show ?case by (subst waitForReceipt.simps) (simp split: option.splits)
  qed
  ultimately show ?thesis
    by (auto simp: Send_def Let_def split: sum.splits option.splits if_splits)
qed

lemma fee_never_mistyped: "good_eth (wmEth m AtFee) \<Longrightarrow> requestFee (worker_env_at js cfg m) b \<noteq> Inl FeeType"
  by (auto simp: requestFee_def worker_env_at_def split: sum.splits
      dest!: Call_Inr abi_package.fee_is_big [OF good_ethD])

lemma state_is_read:
  assumes "good_eth (wmEth m AtGetRequest)"
    and "weGetRequest (worker_env_at js cfg m) r = Inr out"
  shows "\<exists>fs w. out = [VStruct fs] \<and> args_conform requestTuple fs \<and> fs ! 12 = VU8 w
    \<and> alreadySettled (worker_env_at js cfg m) r = Inr (w = 5)"
proof -
  from assms(2) obtain bs where "ethUnpack (wmEth m AtGetRequest) controllerABI ''getRequest'' bs = Inr out"
    by (auto simp: worker_env_at_def dest: Call_Inr)
  from abi_package.request_is_tuple [OF good_ethD [OF assms(1)] this] obtain fs
    where fs: "out = [VStruct fs]" "args_conform requestTuple fs" by blast
  with request_copies [OF fs(2)] assms(2) show ?thesis by (auto simp: alreadySettled_def)
qed

lemma Call_reaches_node:
  assumes "good_eth c" "call_ok a m args" "pre = ''calling '' @ m @ '': ''"
  shows "\<exists>data. Call c a to m args = (case ethCallContract c to data of
    Inl e \<Rightarrow> Inl (pre @ e) | Inr out \<Rightarrow> ethUnpack c a m out)"
proof -
  obtain data where "ethPack c a m args = Inr data"
    using abi_package.pack_total [OF good_ethD [OF assms(1)] assms(2)] by blast
  then have "Call c a to m args = (case ethCallContract c to data of
      Inl e \<Rightarrow> Inl (pre @ e) | Inr out \<Rightarrow> ethUnpack c a m out)"
    by (simp add: Call_def assms(3) split: sum.split)
  then show ?thesis ..
qed

section \<open>An example\<close>

definition sample_camel :: "string \<Rightarrow> string" where
  "sample_camel s = (case s of [] \<Rightarrow> [] | c # cs \<Rightarrow> upper_char c # cs)"

lemma sample_camel_plain: "camel_plain sample_camel"
  by (simp add: camel_plain_def sample_camel_def)

definition sample_eth :: eth where
  "sample_eth = \<lparr>ethHasKey = True, ethPack = sol_pack (\<lambda>_. [1, 2, 3, 4]), ethUnpack = sol_unpack,
     ethUnpackEvent = sol_unpack_event, ethCallContract = (\<lambda>_ _. Inr (be_fixed 32 1)),
     ethPendingNonce = Inr 0, ethSuggestGasPrice = Inr 25, ethEstimateGas = (\<lambda>_ _ _. Inr 50000),
     ethSignTx = (\<lambda>_. Inr 77), ethSendTransaction = (\<lambda>_. None),
     ethReceipt = (\<lambda>_ _. Some \<lparr>rcStatus = 1, rcTxHash = 77, rcBlockNumber = 3\<rparr>),
     ethBlockNumber = Inr 100, ethHeaderTime = (\<lambda>_. Inr 1700000000), ethFilterLogs = (\<lambda>_. Inr []),
     ethTicks = 3, ethCtxErr = []\<rparr>"

lemma sample_good: "good_eth sample_eth"
  using sol.abi_package_axioms by (simp add: good_eth_def sample_eth_def)

lemma sample_eth_simps [simp]:
  "ethHasKey sample_eth" "ethUnpackEvent sample_eth = sol_unpack_event" "ethPendingNonce sample_eth = Inr 0"
  "ethSuggestGasPrice sample_eth = Inr 25" "ethEstimateGas sample_eth a v b = Inr 50000"
  "ethSignTx sample_eth t = Inr 77" "ethSendTransaction sample_eth t = None"
  "ethReceipt sample_eth h i = Some \<lparr>rcStatus = 1, rcTxHash = 77, rcBlockNumber = 3\<rparr>"
  by (simp_all add: sample_eth_def)

lemma sample_sends:
  assumes "call_ok a m args"
  shows "Send sample_eth a to v m args = Inr \<lparr>rcStatus = 1, rcTxHash = 77, rcBlockNumber = 3\<rparr>"
proof -
  obtain data where p: "ethPack sample_eth a m args = Inr data"
    using abi_package.pack_total [OF good_ethD [OF sample_good] assms] by blast
  have w: "waitForReceipt sample_eth 77 0 n = Inr \<lparr>rcStatus = 1, rcTxHash = 77, rcBlockNumber = 3\<rparr>" for n
    by (subst waitForReceipt.simps) simp
  show ?thesis by (simp add: Send_def p w Let_def)
qed

definition sample_relay_meets :: relay_meets where
  "sample_relay_meets = \<lparr>rmEth = sample_eth,
     rmProxy = \<lparr>pxBaseURL = ''http://proxy'', pxBuild = (\<lambda>_. None),
       pxDo = (\<lambda>_. Inr \<lparr>httpStatus = 200, httpBody = []\<rparr>), pxDecode = (\<lambda>_. Inr sample_result)\<rparr>,
     rmNow = 0, rmLater = 0\<rparr>"

definition sample_broadcast_meets :: broadcast_meets where
  "sample_broadcast_meets = \<lparr>bmEth = sample_eth, bmXrpl = (\<lambda>_. \<lparr>xhMarshal = (\<lambda>_ _. Inr []), xhBuild = (\<lambda>_. None),
     xhDo = (\<lambda>_. Inr \<lparr>httpStatus = 200, httpBody = []\<rparr>),
     xhSubmitOut = (\<lambda>_. Inr \<lparr>soEngineResult = ''tesSUCCESS'', soEngineResultMessage = [], soAccepted = True,
       soHash = [], soError = [], soErrorMessage = []\<rparr>),
     xhTxOut = (\<lambda>_. Inl [])\<rparr>)\<rparr>"

definition sample_worker_meets :: worker_meets where
  "sample_worker_meets = \<lparr>wmEth = (\<lambda>_. sample_eth),
     wmPrepare = \<lparr>fhBuild = (\<lambda>_ _. None), fhDo = (\<lambda>_ _ _. Inr \<lparr>httpStatus = 200, httpBody = []\<rparr>)\<rparr>,
     wmFetch = (\<lambda>_. \<lparr>fhBuild = (\<lambda>_ _. None), fhDo = (\<lambda>_ _ _. Inr \<lparr>httpStatus = 200, httpBody = []\<rparr>)\<rparr>),
     wmRoundTicks = 60, wmProofTicks = 60\<rparr>"

definition sample_chain :: chain where
  "sample_chain = \<lparr>chChainID = 114, chKey = True, chFrom = 1\<rparr>"

lemma sample_client [simp]: "client_of sample_chain sample_eth = sample_eth"
  by (simp add: client_of_def sample_chain_def sample_eth_def)

definition sample_broadcast_config :: broadcast_config where
  "sample_broadcast_config = \<lparr>bcChain = sample_chain, bcController = 0xC0FFEE, bcEndpoint = ''http://xrpl''\<rparr>"

definition sample_relay_config :: relay_config where
  "sample_relay_config = \<lparr>rcChain = sample_chain, rcController = 0xC0FFEE, rcProxyURL = ''http://proxy'', rcPatience = seconds 300\<rparr>"

definition sample_worker_config :: worker_config where
  "sample_worker_config = \<lparr>wcChain = sample_chain, wcController = 0xC0FFEE, wcVerifier = 2, wcFdcHub = 3, wcFeeConfig = 4, wcRelay = 5,
     wcFdc = fdc_New ''http://verifier/'' ''http://da/'' ''key''\<rparr>"

section \<open>Properties\<close>

text \<open>C38. Every call the services make is one its contract has, with arguments of the right number and types,
  so none fails while its data is encoded: the delivery of any result to any of the routed methods, the
  report of a broadcast, the attestation request and the finalisation with any proof are never refused by the
  encoder, and the three view calls always get to the node. The structs of the proof have the field names
  their tuples need.\<close>
theorem calls_fit_interfaces:
  assumes "good_eth (rmEth rm)" "good_eth (bmEth bm)" "\<And>k. good_eth (wmEth wm k)"
    and "h \<in> set handlers" "camel_plain camel"
  shows "reSend (relay_env_at rcfg rm) (delivery_of h res) \<noteq> Inl (PackingMethod m e)
    \<and> beReport (broadcast_env_at bcfg bm) rid tx \<noteq> Inl (PackingMethod m e)
    \<and> weAttest (worker_env_at js wcfg wm) fee req \<noteq> Inl (PackingMethod m e)
    \<and> weFinalize (worker_env_at js wcfg wm) rid (toContractProof pf) \<noteq> Inl (PackingMethod m e)
    \<and> (\<exists>data. weGetRequest (worker_env_at js wcfg wm) rid
        = (case ethCallContract (wmEth wm AtGetRequest) (wcController wcfg) data of
             Inl x \<Rightarrow> Inl (''calling getRequest: '' @ x)
           | Inr out \<Rightarrow> ethUnpack (wmEth wm AtGetRequest) controllerABI ''getRequest'' out))
    \<and> (\<exists>data. weGetFee (worker_env_at js wcfg wm) req
        = (case ethCallContract (wmEth wm AtFee) (wcFeeConfig wcfg) data of
             Inl x \<Rightarrow> Inl (''calling getRequestFee: '' @ x)
           | Inr out \<Rightarrow> ethUnpack (wmEth wm AtFee) feeConfigABI ''getRequestFee'' out))
    \<and> (\<exists>data. weIsFinalized (worker_env_at js wcfg wm) round i
        = (case ethCallContract (wmEth wm (AtRound i)) (wcRelay wcfg) data of
             Inl x \<Rightarrow> Inl (''calling isFinalized: '' @ x)
           | Inr out \<Rightarrow> ethUnpack (wmEth wm (AtRound i)) relayABI ''isFinalized'' out))
    \<and> names_match camel (STuple proofTuple) proofNames"
proof (intro conjI)
  show "reSend (relay_env_at rcfg rm) (delivery_of h res) \<noteq> Inl (PackingMethod m e)"
    using Send_packs [OF _ delivery_fits [OF assms(4)]] assms(1) by (simp add: relay_env_at_def)
  show "beReport (broadcast_env_at bcfg bm) rid tx \<noteq> Inl (PackingMethod m e)"
    using Send_packs [OF _ report_fits] assms(2) by (simp add: broadcast_env_at_def)
  show "weAttest (worker_env_at js wcfg wm) fee req \<noteq> Inl (PackingMethod m e)"
    using Send_packs [OF _ attestation_fits] assms(3) by (simp add: worker_env_at_def)
  show "weFinalize (worker_env_at js wcfg wm) rid (toContractProof pf) \<noteq> Inl (PackingMethod m e)"
    using Send_packs [OF _ finalize_fits] assms(3) by (simp add: worker_env_at_def)
  show "names_match camel (STuple proofTuple) proofNames" by (rule proof_names_match [OF assms(5)])
qed (use Call_reaches_node [OF assms(3) [of AtGetRequest] get_request_fits [of rid], of "''calling getRequest: ''" "wcController wcfg"]
       Call_reaches_node [OF assms(3) [of AtFee] fee_fits [of req], of "''calling getRequestFee: ''" "wcFeeConfig wcfg"]
       Call_reaches_node [OF assms(3) [of "AtRound i"] finalized_fits [of FdcProtocolID "uint round"],
         of "''calling isFinalized: ''" "wcRelay wcfg"]
     in \<open>simp_all add: worker_env_at_def\<close>)

theorem calls_fit_interfaces_witness:
  "beReport (broadcast_env_at sample_broadcast_config sample_broadcast_meets) 42 7 \<noteq> Inl (PackingMethod [] [])
   \<and> names_match sample_camel (STuple proofTuple) proofNames"
proof -
  have g: "good_eth (rmEth sample_relay_meets)" "good_eth (bmEth sample_broadcast_meets)"
    "good_eth (wmEth sample_worker_meets k)" for k
    by (simp_all add: sample_relay_meets_def sample_broadcast_meets_def sample_worker_meets_def sample_good)
  have h: "hd handlers \<in> set handlers" by (simp add: handlers_def)
  from calls_fit_interfaces [OF g h sample_camel_plain] show ?thesis by blast
qed

text \<open>C39. What the services decode has the shape they index into: no event of the routing table lacks its
  instruction id, a PaymentSigned event has its three fields and a PaymentBroadcast event its one, the quoted
  fee is a number, the finality answer a boolean, and \<open>alreadySettled\<close> reads exactly the component \<open>state\<close> of
  the request tuple. So none of the corresponding errors, nor a panic of an index, can occur.\<close>
theorem answers_have_shape:
  assumes "good_eth (rmEth rm)" "good_eth (bmEth bm)" "\<And>k. good_eth (wmEth wm k)" "h \<in> set handlers"
  shows "snd (snd (handle (relay_env_at rcfg rm) h l s))
      \<notin> {Some (NoFields (hdEvent h)), Some (NotInstructionId (hdEvent h))}
    \<and> (beUnpack (broadcast_env_at bcfg bm) bs = Inr vs
        \<longrightarrow> (\<exists>tx blobHash blob. vs = [VHash tx, VHash blobHash, VBytes blob]))
    \<and> (weUnpack (worker_env_at js wcfg wm) bs = Inr vs \<longrightarrow> (\<exists>tx. vs = [VHash tx]))
    \<and> requestFee (worker_env_at js wcfg wm) req \<noteq> Inl FeeType
    \<and> (weIsFinalized (worker_env_at js wcfg wm) round i = Inr vs \<longrightarrow> (\<exists>b. vs = [VBool b]))
    \<and> (weGetRequest (worker_env_at js wcfg wm) rid = Inr vs
        \<longrightarrow> (\<exists>fs w. vs = [VStruct fs] \<and> map fst requestTuple ! 12 = ''state'' \<and> fs ! 12 = VU8 w
              \<and> alreadySettled (worker_env_at js wcfg wm) rid = Inr (w = 5)))"
proof (intro conjI impI)
  show "snd (snd (handle (relay_env_at rcfg rm) h l s))
      \<notin> {Some (NoFields (hdEvent h)), Some (NotInstructionId (hdEvent h))}"
    using relay_no_shape_error [OF assms(1,4)] by simp
  show "\<exists>tx blobHash blob. vs = [VHash tx, VHash blobHash, VBytes blob]"
    if "beUnpack (broadcast_env_at bcfg bm) bs = Inr vs"
    using signed_event_decoded [OF assms(2)] that by (simp add: broadcast_env_at_def)
  show "\<exists>tx. vs = [VHash tx]" if "weUnpack (worker_env_at js wcfg wm) bs = Inr vs"
    using broadcast_event_decoded [OF assms(3)] that by (simp add: worker_env_at_def)
  show "requestFee (worker_env_at js wcfg wm) req \<noteq> Inl FeeType" by (rule fee_never_mistyped [OF assms(3)])
  show "\<exists>b. vs = [VBool b]" if "weIsFinalized (worker_env_at js wcfg wm) round i = Inr vs"
    using that by (auto simp: worker_env_at_def dest!: Call_Inr abi_package.finalized_is_bool [OF good_ethD [OF assms(3)]])
  show "\<exists>fs w. vs = [VStruct fs] \<and> map fst requestTuple ! 12 = ''state'' \<and> fs ! 12 = VU8 w
      \<and> alreadySettled (worker_env_at js wcfg wm) rid = Inr (w = 5)"
    if "weGetRequest (worker_env_at js wcfg wm) rid = Inr vs"
    using state_is_read [OF assms(3) that] by (auto simp: requestTuple_def)
qed

definition sample_json :: fdc_json where
  "sample_json = \<lparr>fjPrepare = (\<lambda>_. Inr []), fjPrepared = (\<lambda>_. Inr (''VALID'', ''0x01'')),
     fjFetch = (\<lambda>_ _. Inr []), fjFetched = (\<lambda>_. Inl ''no proof''), fjResponse = (\<lambda>_. Inl [])\<rparr>"

theorem answers_have_shape_witness:
  "snd (snd (handle (relay_env_at sample_relay_config sample_relay_meets) (hd handlers) sample_log idle_relay))
      \<noteq> Some (NoFields (hdEvent (hd handlers)))
    \<and> requestFee (worker_env_at sample_json sample_worker_config sample_worker_meets) [1] \<noteq> Inl FeeType"
proof -
  have g: "good_eth (rmEth sample_relay_meets)" "good_eth (bmEth sample_broadcast_meets)"
    "good_eth (wmEth sample_worker_meets k)" for k
    by (simp_all add: sample_relay_meets_def sample_broadcast_meets_def sample_worker_meets_def sample_good)
  have h: "hd handlers \<in> set handlers" by (simp add: handlers_def)
  from answers_have_shape [OF g h] show ?thesis by blast
qed

text \<open>C25. What the relay puts on chain is what the enclave signed: a delivery that counts as accepted is a
  transaction of no value to the controller whose data encode, for the method of the event (or
  \<open>submitFailure\<close>, exactly when the enclave reported a refusal), exactly the data, action id, tag, status and signature that the proxy serves for the
  event's instruction; the result is signed; the node took the transaction and its receipt reports success; and
  the action is done afterwards and was not before.\<close>
theorem relay_transaction_carries_result:
  assumes "handle (relay_env_at cfg m) h l s = (s', Some (i, dl, Inr receipt), err)"
  shows "\<exists>vals res data tx hash k. ethUnpackEvent (rmEth m) controllerABI (hdEvent h) (lgData l) = Inr vals
    \<and> vals \<noteq> [] \<and> last vals = VHash i
    \<and> proxy_Result ((rmProxy m)\<lparr>pxBaseURL := rcProxyURL cfg\<rparr>) i = Inr res \<and> rpSignature res \<noteq> []
    \<and> ethPack (rmEth m) controllerABI (if Succeeded res then hdMethod h else ''submitFailure'')
        [VBytes (rsData (rpResult res)), VHash (rsID (rpResult res)), VStr (rsSubmissionTag (rpResult res)),
         VU8 (rsStatus (rpResult res)), VBytes (rpSignature res)] = Inr data
    \<and> txTo tx = rcController cfg \<and> txValue tx = 0 \<and> txData tx = data
    \<and> ethSignTx (rmEth m) tx = Inr hash \<and> ethSendTransaction (rmEth m) tx = None
    \<and> ethReceipt (rmEth m) hash k = Some receipt \<and> rcStatus receipt = 1
    \<and> i \<notin> set (rlDone s) \<and> i \<in> set (rlDone s')"
proof (cases rule: handle_cases [of "relay_env_at cfg m" h l s])
  case (no_send s0 e)
  with assms show ?thesis by simp
next
  case (send i' vals res)
  with assms have r: "i' = i" "dl = delivery_of h res"
    and sent: "Send (client_of (rcChain cfg) (rmEth m)) controllerABI (rcController cfg) None (dlMethod dl) (delivery_args dl) = Inr receipt"
    by (auto simp: relay_env_at_def)
  have ev: "ethUnpackEvent (rmEth m) controllerABI (hdEvent h) (lgData l) = Inr vals" "last vals = VHash i"
    using send(1,3) r by (simp_all add: relay_env_at_def)
  have px: "proxy_Result ((rmProxy m)\<lparr>pxBaseURL := rcProxyURL cfg\<rparr>) i = Inr res" using send(5) r by (simp add: relay_env_at_def)
  then have sig: "rpSignature res \<noteq> []" by (auto simp: proxy_Result_def Let_def split: option.splits sum.splits if_splits)
  have fin: "i \<notin> set (rlDone s)" "i \<in> set (rlDone s')"
    using send(4,8) r sent assms by (auto simp: relay_env_at_def)
  from sent show ?thesis
  proof (rule Send_Inr)
    fix data nonce gasPrice gas hash k
    let ?tx = "tx_for (client_of (rcChain cfg) (rmEth m)) (rcController cfg) (case None of None \<Rightarrow> 0 | Some v \<Rightarrow> v) data nonce gasPrice gas"
    assume "ethPack (client_of (rcChain cfg) (rmEth m)) controllerABI (dlMethod dl) (delivery_args dl) = Inr data"
      "ethSendTransaction (client_of (rcChain cfg) (rmEth m)) ?tx = None"
      "ethSignTx (client_of (rcChain cfg) (rmEth m)) ?tx = Inr hash"
      "ethReceipt (client_of (rcChain cfg) (rmEth m)) hash k = Some receipt" "rcStatus receipt = 1"
    then have t: "ethPack (rmEth m) controllerABI (dlMethod dl) (delivery_args dl) = Inr data"
      "ethSendTransaction (rmEth m) ?tx = None" "ethSignTx (rmEth m) ?tx = Inr hash"
      "ethReceipt (rmEth m) hash k = Some receipt" "rcStatus receipt = 1" by simp_all
    have p: "ethPack (rmEth m) controllerABI (if Succeeded res then hdMethod h else ''submitFailure'')
        [VBytes (rsData (rpResult res)), VHash (rsID (rpResult res)), VStr (rsSubmissionTag (rpResult res)),
         VU8 (rsStatus (rpResult res)), VBytes (rpSignature res)] = Inr data"
      using t(1) by (simp add: r(2) delivery_of_def delivery_args_def)
    have tx: "txTo ?tx = rcController cfg" "txValue ?tx = 0" "txData ?tx = data" by (simp_all add: tx_for_def)
    show ?thesis
      by (intro exI conjI, rule ev(1), rule send(2), rule ev(2), rule px, rule sig, rule p, rule tx(1), rule tx(2), rule tx(3), rule t(3), rule t(2),
          rule t(4), rule t(5), rule fin(1), rule fin(2))
  qed
qed

definition signature_event :: log where
  "signature_event = \<lparr>lgTopics = [7, 42], lgData = be_fixed 32 5\<rparr>"

theorem relay_transaction_carries_result_witness:
  "\<exists>s' dl receipt. handle (relay_env_at sample_relay_config sample_relay_meets) (handlers ! 3) signature_event
       idle_relay = (s', Some (5, dl, Inr receipt), None) \<and> rcStatus receipt = 1 \<and> 5 \<in> set (rlDone s')"
proof -
  have u: "sol_unpack_event controllerABI ''SignatureRequested'' (be_fixed 32 5) = Inr [VHash 5]"
    by code_simp
  have px: "proxy_Result ((rmProxy sample_relay_meets)\<lparr>pxBaseURL := ''http://proxy''\<rparr>) 5 = Inr sample_result"
    by (simp add: proxy_Result_def sample_relay_meets_def sample_result_def Succeeded_def StatusNotFound_def
        StatusOK_def Let_def)
  have h3: "handlers ! 3 \<in> set handlers" "hdEvent (handlers ! 3) = ''SignatureRequested''" by (simp_all add: handlers_def)
  let ?dl = "delivery_of (handlers ! 3) sample_result"
  have "Send sample_eth controllerABI a None (dlMethod ?dl) (delivery_args ?dl)
      = Inr \<lparr>rcStatus = 1, rcTxHash = 77, rcBlockNumber = 3\<rparr>" for a
    by (rule sample_sends [OF delivery_fits [OF h3(1)]])
  then obtain s' where h: "handle (relay_env_at sample_relay_config sample_relay_meets) (handlers ! 3) signature_event
      idle_relay = (s', Some (5, ?dl, Inr \<lparr>rcStatus = 1, rcTxHash = 77, rcBlockNumber = 3\<rparr>), None)"
    using u px h3(2)
    by (simp add: handle_def handle_action_def relay_env_at_def signature_event_def idle_relay_def
        sample_relay_meets_def sample_relay_config_def Let_def)
  from relay_transaction_carries_result [OF h] h show ?thesis by auto
qed

end
