(* ===== verification/Pipeline.thy ===== *)
theory Pipeline
  imports EnclaveProps ServicesProps
begin

text \<open>
  The path of a signed payment through the components: from the enclave's published result, over the event
  the controller emits for it, to the XRP Ledger.
\<close>

section \<open>The event of a signed payment\<close>

text \<open>What the controller's \<open>submitSignedPayment\<close> documents: it decodes the result data it is given and emits
  PaymentSigned with the request id as second topic, and the transaction id, a hash and the blob as data.\<close>

definition emits_signed :: "(abi_ty list \<Rightarrow> bytes \<Rightarrow> string + goval list) \<Rightarrow> eth \<Rightarrow> bytes \<Rightarrow> log \<Rightarrow> bool" where
  "emits_signed unpack c data l \<longleftrightarrow>
     (\<exists>chain ctrl rid memo tx blob blobHash topic.
        unpack argsSignedPayment data
          = Inr [VBig chain, VAddr ctrl, VBig rid, VHash memo, VHash tx, VBytes blob]
        \<and> lgTopics l = [topic, of_int rid]
        \<and> ethUnpackEvent c controllerABI ''PaymentSigned'' (lgData l) = Inr [VHash tx, VHash blobHash, VBytes blob])"

lemma signed_data_decodes:
  assumes "abi_codec pack unpack" "uint256 chain" "uint256 rid" "length blob < 2 ^ 32"
    and "EncodeSignedPayment pack chain ctrl rid memo tx blob = Inr data"
  shows "unpack argsSignedPayment data = Inr [VBig chain, VAddr ctrl, VBig rid, VHash memo, VHash tx, VBytes blob]"
proof (rule abi_codec.unpack_pack [OF assms(1)])
  show "wts argsSignedPayment [VBig chain, VAddr ctrl, VBig rid, VHash memo, VHash tx, VBytes blob]"
    using assms(2,3) by (simp add: argsSignedPayment_def)
  show "abi_fits [VBig chain, VAddr ctrl, VBig rid, VHash memo, VHash tx, VBytes blob]"
    using assms(4) by (simp add: abi_fits_def)
  show "pack argsSignedPayment [VBig chain, VAddr ctrl, VBig rid, VHash memo, VHash tx, VBytes blob] = Inr data"
    using assms(5) by (simp add: EncodeSignedPayment_def)
qed

lemma signed_blob_small: "signs d t au seq lastLedger txID blob \<Longrightarrow> length blob < 2 ^ 32"
  by (auto simp: signs_def length_payment_wire Validate_None MaxMemoLength_def)

lemma signs_serializes:
  assumes "signs d t au seq lastLedger txID blob"
  obtains dest p der where "DecodeClassicAddress (auDestination au) = Inr dest"
    "p = payment_for d t au dest seq lastLedger" "serialize p (Some der) = Inr blob"
    "txID = bytes_word (sha512Half (prefixTransactionID @ blob))"
  using assms by (auto simp: signs_def serialize_valid intro: that)

text \<open>What the broadcaster does with such an event.\<close>

lemma broadcast_signed:
  assumes "ethUnpackEvent (bmEth m) controllerABI ''PaymentSigned'' (lgData l) = Inr [VHash tx, VHash bh, VBytes blob]"
    and "lgTopics l = [topic, rid]"
    and "broadcast_handle (broadcast_env_at cfg m) l seen = (seen', submitted, report, err)"
  shows "(submitted = Some hex \<longrightarrow> hex_decode hex = Inr blob)
    \<and> (report = Some (r, x) \<longrightarrow> r = uint rid \<and> x = tx \<and> submitted \<noteq> None)"
  using assms
  by (auto simp: broadcast_handle_def broadcast_env_at_def Let_def numeral_eq_Suc split: if_splits sum.splits)

section \<open>Properties\<close>

text \<open>C7. What the enclave signed is what the ledger gets. Take any accepted signing instruction, and the
  PaymentSigned event the controller emits for the data the enclave published: whatever the broadcaster then
  submits decodes to the serialization of the payment of the stored authorization, from the treasury's account
  to the authorized destination, and whatever it reports is, for the same request, the transaction id
  of exactly that serialization.\<close>
theorem signed_payment_reaches_ledger:
  assumes "abi_deps d" "handleSignPayment d ev a df st = (st', r)" "rStatus r = 1" "rData r = Some data"
    and "emits_signed (dUnpack d) (bmEth m) data l"
    and "broadcast_handle (broadcast_env_at cfg m) l seen = (seen', submitted, report, err)"
  shows "\<exists>h au t dest seq current p der blob.
    DecodeHeader (dUnpack d) (OriginalMessage df) = Inr h
    \<and> authorization_of st (hRequestId h) = Some au \<and> treasury_of st (auTreasuryID au) = Some t
    \<and> DecodeClassicAddress (auDestination au) = Inr dest
    \<and> p = payment_for d t au dest seq (lastLedgerFor (nowUnix ev) current (auExpiresAt au))
    \<and> serialize p (Some der) = Inr blob
    \<and> (\<forall>hex. submitted = Some hex \<longrightarrow> hex_decode hex = Inr blob)
    \<and> (\<forall>rid tx. report = Some (rid, tx) \<longrightarrow> rid = hRequestId h \<and> submitted \<noteq> None
          \<and> tx = bytes_word (sha512Half (prefixTransactionID @ blob)))"
proof (cases rule: handleSign_cases [of d ev a df st])
  case (refused e)
  with assms show ?thesis by auto
next
  case (signed h au t seq current txID blob)
  from assms(2,3,4) signed(6) have
    "EncodeSignedPayment (dPack d) (hChainId h) (hController h) (hRequestId h) (hMemoRef h) txID blob = Inr data"
    by (auto simp: encoded_def split: sum.splits)
  moreover have h: "uint256 (hChainId h)" "uint256 (hRequestId h)"
    using abi_codec.decoded_header [OF assms(1) signed(1)] by (simp_all add: header_ok_def)
  ultimately have u: "dUnpack d argsSignedPayment data = Inr [VBig (hChainId h), VAddr (hController h),
      VBig (hRequestId h), VHash (hMemoRef h), VHash txID, VBytes blob]"
    by (intro signed_data_decodes [OF assms(1) h signed_blob_small [OF signed(5)]])
  with assms(5) obtain topic bh where l: "lgTopics l = [topic, of_int (hRequestId h)]"
    and e: "ethUnpackEvent (bmEth m) controllerABI ''PaymentSigned'' (lgData l) = Inr [VHash txID, VHash bh, VBytes blob]"
    by (auto simp: emits_signed_def)
  have rid: "uint (of_int (hRequestId h) :: hash32) = hRequestId h"
    using h(2) by (simp add: uint_word_of_int_eq take_bit_int_eq_self)
  note b = broadcast_signed [OF e l assms(6)]
  have look: "authorization_of st (hRequestId h) = Some au" "treasury_of st (auTreasuryID au) = Some t"
    using signed(2) unfolding sign_lookup_Inr by blast+
  show ?thesis
  proof (rule signs_serializes [OF signed(5)])
    fix dest p der assume s: "DecodeClassicAddress (auDestination au) = Inr dest"
      "p = payment_for d t au dest seq (lastLedgerFor (nowUnix ev) current (auExpiresAt au))"
      "serialize p (Some der) = Inr blob" "txID = bytes_word (sha512Half (prefixTransactionID @ blob))"
    have hex: "\<forall>hex. submitted = Some hex \<longrightarrow> hex_decode hex = Inr blob" using b by blast
    have rep: "\<forall>rid tx. report = Some (rid, tx) \<longrightarrow> rid = hRequestId h \<and> submitted \<noteq> None
        \<and> tx = bytes_word (sha512Half (prefixTransactionID @ blob))"
      using b by (auto simp: rid s(4) [symmetric])
    show ?thesis
      by (intro exI conjI, rule signed(1), rule look(1), rule look(2), rule s(1), rule s(2), rule s(3),
          rule hex, rule rep)
  qed
qed

definition event_meets :: "hash32 \<Rightarrow> bytes \<Rightarrow> broadcast_meets" where
  "event_meets tx blob = sample_broadcast_meets
     \<lparr>bmEth := sample_eth\<lparr>ethUnpackEvent := \<lambda>_ _ _. Inr [VHash tx, VHash 0, VBytes blob]\<rparr>\<rparr>"

lemma event_submitted:
  "\<exists>seen' report err. broadcast_handle (broadcast_env_at a (event_meets tx blob)) sample_log []
     = (seen', Some (to_upper (hex_encode blob)), report, err)"
proof -
  have u: "beUnpack (broadcast_env_at a (event_meets tx blob)) (lgData sample_log) = Inr [VHash tx, VHash 0, VBytes blob]"
    by (simp add: broadcast_env_at_def event_meets_def)
  show ?thesis
    unfolding broadcast_handle_def u
    by (auto simp: sample_log_def Let_def split: sum.split)
qed

theorem signed_payment_reaches_ledger_witness:
  "\<exists>tx blob0 seen' hex report err p der blob.
     broadcast_handle (broadcast_env_at sample_broadcast_config (event_meets tx blob0)) sample_log [] = (seen', Some hex, report, err)
     \<and> serialize p (Some der) = Inr blob \<and> hex_decode hex = Inr blob"
proof -
  let ?d = "demo_deps OPCommandSignXRPLPayment"
  let ?df = "demo_df OPCommandSignXRPLPayment (sign_msg 1 42)"
  have dec: "DecodeHeader (dUnpack ?d) (OriginalMessage ?df) = Inr (demo_header 1 42)"
    by (simp add: demo_df_def demo_sign_decodes)
  obtain txID blob where s: "signs ?d demo_treasury demo_auth 7
      (lastLedgerFor (nowUnix demo_env) 19500000 (auExpiresAt demo_auth)) txID blob"
    using demo_signs by blast
  have acc: "AccountSequence demo_env (tAddress demo_treasury) = Inr 7" "CurrentLedger demo_env = Inr 19500000"
    by (simp_all add: demo_env_def)
  from sign_accepted [OF demo_abi dec demo_lookup acc s, of "demo_action []"] obtain data where
    h: "handleSignPayment ?d demo_env (demo_action []) ?df approved
      = (without_authorization approved (hRequestId (demo_header 1 42)), accept (demo_action []) ?df data)"
    and e: "EncodeSignedPayment (dPack ?d) (hChainId (demo_header 1 42)) (hController (demo_header 1 42))
      (hRequestId (demo_header 1 42)) (hMemoRef (demo_header 1 42)) txID blob = Inr data" by blast
  have "dUnpack ?d argsSignedPayment data = Inr [VBig 114, VAddr 0xC0FFEE, VBig 42, VHash 0xABCD, VHash txID, VBytes blob]"
    using signed_data_decodes [OF demo_abi _ _ signed_blob_small [OF s] e] by (simp add: demo_header_def)
  then have ev: "emits_signed (dUnpack ?d) (bmEth (event_meets txID blob)) data sample_log"
    by (simp add: emits_signed_def event_meets_def sample_log_def)
  obtain seen' report err where b: "broadcast_handle (broadcast_env_at sample_broadcast_config (event_meets txID blob)) sample_log []
      = (seen', Some (to_upper (hex_encode blob)), report, err)"
    using event_submitted by blast
  from signed_payment_reaches_ledger [OF demo_abi h _ _ ev b]
  obtain p der blob' where "serialize p (Some der) = Inr blob'" "hex_decode (to_upper (hex_encode blob)) = Inr blob'"
    by auto
  with b show ?thesis by blast
qed

end
