(* ===== verification/SolCodec.thy ===== *)
theory SolCodec
  imports ContractAbi
begin

text \<open>
  The reference encoder of \<open>ContractAbi\<close> and its decoder are inverse, for nested dynamic types: what is encoded
  by the ABI specification is decoded to the same values.
\<close>

section \<open>Frames\<close>

text \<open>A part of a frame takes its length, or a word for its offset, in the head.\<close>

definition part_head :: "bool \<times> bytes \<Rightarrow> nat" where
  "part_head p = (if fst p then 32 else length (snd p))"

lemma part_head_simps [simp]: "part_head (True, b) = 32" "part_head (False, b) = length b"
  by (simp_all add: part_head_def)

definition tails :: "(bool \<times> bytes) list \<Rightarrow> bytes" where
  "tails ps = concat (map snd (filter fst ps))"

lemma tails_simps [simp]:
  "tails [] = []" "tails ((d, b) # ps) = (if d then b else []) @ tails ps" "tails (ps @ qs) = tails ps @ tails qs"
  by (simp_all add: tails_def)

lemma frame_eq: "frame ps = sol_heads (sum_list (map part_head ps)) ps @ tails ps"
proof -
  have "part_head = (\<lambda>(d, b). if d then 32 else length b)" by (auto simp: part_head_def fun_eq_iff)
  then show ?thesis by (simp add: frame_def tails_def)
qed

lemma length_sol_heads [simp]: "length (sol_heads off ps) = sum_list (map part_head ps)"
  by (induction off ps rule: sol_heads.induct) (auto simp: part_head_def)

lemma length_frame: "length (frame ps) = sum_list (map part_head ps) + length (tails ps)"
  by (simp add: frame_eq)

lemma sol_heads_append:
  "sol_heads off (pre @ qs) = sol_heads off pre @ sol_heads (off + length (tails pre)) qs"
  by (induction off pre rule: sol_heads.induct) (auto simp: add.assoc)

text \<open>Where a part of a frame is found.\<close>

lemma frame_at_part:
  fixes pre d b post
  defines "ps \<equiv> pre @ (d, b) # post"
  defines "off \<equiv> sum_list (map part_head ps) + length (tails pre)"
  shows "\<exists>rest. drop (sum_list (map part_head pre)) (frame ps @ post') = (if d then be_fixed 32 off else b) @ rest"
    and "d \<Longrightarrow> \<exists>rest. drop off (frame ps @ post') = b @ rest" and "off \<le> length (frame ps)"
proof -
  let ?base = "sum_list (map part_head ps)"
  let ?heads = "sol_heads ?base ps"
  have heads: "\<exists>h. ?heads = sol_heads ?base pre @ (if d then be_fixed 32 off else b) @ h"
    by (simp add: ps_def off_def sol_heads_append)
  then show "\<exists>rest. drop (sum_list (map part_head pre)) (frame ps @ post') = (if d then be_fixed 32 off else b) @ rest"
    by (auto simp: frame_eq)
  show "off \<le> length (frame ps)" by (simp add: length_frame off_def) (simp add: ps_def)
  have "length (?heads @ tails pre) = off" by (simp add: off_def)
  then have "drop off ((?heads @ tails pre) @ rest) = rest" for rest by (metis append_eq_conv_conj)
  moreover have "frame ps @ post' = (?heads @ tails pre) @ b @ tails post @ post'" if d
    using that by (simp add: frame_eq) (simp add: ps_def)
  ultimately show "\<exists>rest. drop off (frame ps @ post') = b @ rest" if d using that by metis
qed

lemma word_at_fixed:
  assumes "drop pos f = be_fixed 32 n @ rest" "n < 2 ^ 256"
  shows "word_at f pos = Some n"
proof -
  have "length (drop pos f) \<ge> 32" using assms(1) by simp
  then have "pos + 32 \<le> length f" by simp
  with assms show ?thesis by (simp add: word_at_def be_val_fixed)
qed

section \<open>Values that can be encoded\<close>

fun sol_ok :: "sol_ty \<Rightarrow> goval \<Rightarrow> bool" where
  "sol_ok (SUint n) v = (conforms (SUint n) v \<and> n \<le> 256 \<and> (case v of VBig i \<Rightarrow> 0 \<le> i \<and> i < 2 ^ n | _ \<Rightarrow> True))"
| "sol_ok (SInt n) v = (n = 256 \<and> (case v of VBig i \<Rightarrow> - (2 ^ 255) \<le> i \<and> i < 2 ^ 255 | _ \<Rightarrow> False))"
| "sol_ok (SArray t) v = (case v of VStruct vs \<Rightarrow> list_all (sol_ok t) vs \<and> sol_head t \<ge> 32 | _ \<Rightarrow> False)"
| "sol_ok (STuple fs) v = (case v of VStruct vs \<Rightarrow> list_all2 (\<lambda>(_, t). sol_ok t) fs vs | _ \<Rightarrow> False)"
| "sol_ok t v = conforms t v"

definition args_ok :: "(string \<times> sol_ty) list \<Rightarrow> goval list \<Rightarrow> bool" where
  "args_ok fs vs = list_all2 (\<lambda>(_, t). sol_ok t) fs vs"

lemma args_ok_simps [simp]:
  "args_ok [] vs \<longleftrightarrow> vs = []" "args_ok ((n, t) # fs) [] \<longleftrightarrow> False"
  "args_ok ((n, t) # fs) (v # vs) \<longleftrightarrow> sol_ok t v \<and> args_ok fs vs"
  by (auto simp: args_ok_def)

lemma sol_ok_tuple: "sol_ok (STuple fs) v \<longleftrightarrow> (\<exists>vs. v = VStruct vs \<and> args_ok fs vs)"
  by (cases v) (simp_all add: args_ok_def)

declare sol_ok.simps(4) [simp del]

lemma sol_ok_array: "sol_ok (SArray t) v \<longleftrightarrow> (\<exists>vs. v = VStruct vs \<and> list_all (sol_ok t) vs \<and> sol_head t \<ge> 32)"
  by (cases v) simp_all

section \<open>Decoding an encoded value\<close>

text \<open>A value stands at a position of a frame: in place, or at the offset written there.\<close>

definition placed :: "sol_ty \<Rightarrow> goval \<Rightarrow> bytes \<Rightarrow> nat \<Rightarrow> bool" where
  "placed t v f pos \<longleftrightarrow>
     (if dynamic_sol t then \<exists>off. word_at f pos = Some off \<and> (\<exists>rest. drop off f = enc_sol t v @ rest)
      else \<exists>rest. drop pos f = enc_sol t v @ rest)"

fun fields_placed :: "(string \<times> sol_ty) list \<Rightarrow> goval list \<Rightarrow> bytes \<Rightarrow> nat \<Rightarrow> bool" where
  "fields_placed ((_, t) # fs) (v # vs) f pos \<longleftrightarrow> placed t v f pos \<and> fields_placed fs vs f (pos + sol_head t)"
| "fields_placed fs vs f pos \<longleftrightarrow> fs = [] \<and> vs = []"

lemma dynamic_head: "dynamic_sol t \<Longrightarrow> sol_head t = 32"
  by (cases t) simp_all

lemma enc_parts_map:
  "args_ok fs vs \<Longrightarrow> enc_parts fs vs = map2 (\<lambda>(_, t) v. (dynamic_sol t, enc_sol t v)) fs vs"
  by (induction fs vs rule: list_induct2') auto

lemma static_fields_frame:
  assumes "\<And>n t v. (n, t) \<in> set fs \<Longrightarrow> \<not> dynamic_sol t \<Longrightarrow> sol_ok t v \<Longrightarrow> length (enc_sol t v) = sol_head t"
    and "\<not> list_ex (\<lambda>(_, t). dynamic_sol t) fs" "args_ok fs vs"
  shows "sum_list (map part_head (enc_parts fs vs)) = sum_list (map (\<lambda>(_, t). sol_head t) fs)
    \<and> tails (enc_parts fs vs) = []"
  using assms
proof (induction fs arbitrary: vs)
  case (Cons f fs)
  obtain n t where f: "f = (n, t)" by (cases f)
  then obtain v ws where vs: "vs = v # ws" "sol_ok t v" "args_ok fs ws"
    using Cons.prems(3) by (cases vs) auto
  have "length (enc_sol t v) = sol_head t" using Cons.prems(1) [of n t v] Cons.prems(2) vs f by auto
  moreover have "sum_list (map part_head (enc_parts fs ws)) = sum_list (map (\<lambda>(_, t). sol_head t) fs)
    \<and> tails (enc_parts fs ws) = []"
    using Cons.IH [of ws] Cons.prems(1,2) vs(3) f by auto
  ultimately show ?case using Cons.prems(2) f vs(1) by simp
qed simp

lemma length_enc_in_place: "\<not> dynamic_sol t \<Longrightarrow> sol_ok t v \<Longrightarrow> length (enc_sol t v) = sol_head t"
proof (induction t arbitrary: v)
  case (STuple fs)
  then obtain vs where v: "v = VStruct vs" "args_ok fs vs" by (auto simp: sol_ok_tuple)
  have "\<And>n t v. (n, t) \<in> set fs \<Longrightarrow> \<not> dynamic_sol t \<Longrightarrow> sol_ok t v \<Longrightarrow> length (enc_sol t v) = sol_head t"
    using STuple.IH by fastforce
  then have "sum_list (map part_head (enc_parts fs vs)) = sum_list (map (\<lambda>(_, t). sol_head t) fs)
    \<and> tails (enc_parts fs vs) = []"
    using static_fields_frame [OF _ _ v(2)] STuple.prems(1) by simp
  then show ?case using STuple.prems(1) v(1) by (simp add: length_frame)
qed auto

lemma part_head_enc: "sol_ok t v \<Longrightarrow> part_head (dynamic_sol t, enc_sol t v) = sol_head t"
  by (simp add: part_head_def dynamic_head length_enc_in_place)

text \<open>Every part of a frame stands where the heads before it end.\<close>

lemma frame_placed:
  assumes "f = frame (pre @ (dynamic_sol t, enc_sol t v) # post) @ post'" "length f < 2 ^ 256"
  shows "placed t v f (sum_list (map part_head pre))"
proof -
  let ?ps = "pre @ (dynamic_sol t, enc_sol t v) # post"
  let ?off = "sum_list (map part_head ?ps) + length (tails pre)"
  note at = frame_at_part [where pre = pre and d = "dynamic_sol t" and b = "enc_sol t v" and post = post]
  show ?thesis
  proof (cases "dynamic_sol t")
    case True
    have "?off < 2 ^ 256" using at(3) assms by simp
    moreover obtain rest where "drop (sum_list (map part_head pre)) f = be_fixed 32 ?off @ rest"
      using at(1) True assms(1) by fastforce
    ultimately have "word_at f (sum_list (map part_head pre)) = Some ?off" by (rule word_at_fixed [rotated])
    with at(2) [OF True] True assms(1) show ?thesis by (auto simp: placed_def)
  next
    case False
    with at(1) assms(1) show ?thesis by (simp add: placed_def)
  qed
qed

lemma frame_fields_placed:
  "f = frame (pre @ enc_parts fs vs) @ post' \<Longrightarrow> length f < 2 ^ 256 \<Longrightarrow> args_ok fs vs \<Longrightarrow>
   fields_placed fs vs f (sum_list (map part_head pre))"
proof (induction fs arbitrary: pre vs)
  case (Cons p fs)
  obtain n t where p: "p = (n, t)" by (cases p)
  then obtain v ws where vs: "vs = v # ws" "sol_ok t v" "args_ok fs ws" using Cons.prems(3) by (cases vs) auto
  let ?part = "(dynamic_sol t, enc_sol t v)"
  have f: "f = frame ((pre @ [?part]) @ enc_parts fs ws) @ post'" using Cons.prems(1) p vs(1) by simp
  from Cons.IH [OF f Cons.prems(2) vs(3)]
  have "fields_placed fs ws f (sum_list (map part_head pre) + sol_head t)"
    using part_head_enc [OF vs(2)] by simp
  moreover have "placed t v f (sum_list (map part_head pre))"
    using f Cons.prems(2) by (intro frame_placed [where post = "enc_parts fs ws" and post' = post']) simp_all
  ultimately show ?case using p vs(1) by simp
qed simp

lemma fields_placed_shift:
  "\<not> list_ex (\<lambda>(_, t). dynamic_sol t) fs \<Longrightarrow>
   fields_placed fs vs (drop pos f) k \<longleftrightarrow> fields_placed fs vs f (pos + k)"
proof (induction fs arbitrary: vs k)
  case (Cons p fs)
  then show ?case by (cases p; cases vs) (simp_all add: placed_def add.commute add.left_commute)
qed simp

text \<open>Byte strings are padded to whole words and cut to the length written before them.\<close>

lemma bytes_at_enc:
  assumes "drop off f = enc_dyn b @ rest" "length f < 2 ^ 256"
  shows "bytes_at f off = Some b"
proof -
  have drop_off: "drop off f = be_fixed 32 (length b) @ b @ replicate ((32 - length b mod 32) mod 32) 0 @ rest"
    using assms(1) by (simp add: enc_dyn_def pad32_def)
  have "length (drop off f) \<ge> 32 + length b" using drop_off by simp
  then have len: "off + 32 + length b \<le> length f" by simp
  have "word_at f off = Some (length b)"
    using drop_off len assms(2) by (intro word_at_fixed) simp_all
  moreover have "drop (off + 32) f = b @ replicate ((32 - length b mod 32) mod 32) 0 @ rest"
    using arg_cong [OF drop_off, of "drop 32"] by (simp add: add.commute)
  ultimately show ?thesis using len by (simp add: bytes_at_def)
qed

lemma placed_dynamic:
  "placed t v f pos \<Longrightarrow> dynamic_sol t \<Longrightarrow> \<exists>off rest. word_at f pos = Some off \<and> drop off f = enc_sol t v @ rest"
  by (auto simp: placed_def)

lemma word_at_sol:
  "placed t v f pos \<Longrightarrow> \<not> dynamic_sol t \<Longrightarrow> enc_sol t v = be_fixed 32 n \<Longrightarrow> n < 2 ^ 256 \<Longrightarrow> word_at f pos = Some n"
  by (auto simp: placed_def intro: word_at_fixed)

lemma decode_uint: "sol_ok (SUint n) v \<Longrightarrow> sol_word v < 2 ^ 256 \<and> sol_uint n (sol_word v) = Some v"
proof (cases v)
  case (VBig i)
  assume ok: "sol_ok (SUint n) v"
  have "(2 :: int) ^ n \<le> 2 ^ 256" using ok by (intro power_increasing) auto
  with ok VBig have i: "0 \<le> i" "i < 2 ^ n" "i < 2 ^ 256" by auto
  then have "nat i < 2 ^ n" by (simp add: nat_less_iff)
  then show ?thesis using ok VBig i by (simp add: sol_uint_def)
next
  case (VU64 w)
  assume "sol_ok (SUint n) v"
  moreover have "unat w < 2 ^ 64" using unsigned_less [of w] by simp
  ultimately show ?thesis using VU64 by (simp add: sol_uint_def)
next
  case (VU32 w)
  assume "sol_ok (SUint n) v"
  moreover have "unat w < 2 ^ 32" using unsigned_less [of w] by simp
  ultimately show ?thesis using VU32 by (simp add: sol_uint_def)
next
  case (VU8 w)
  assume "sol_ok (SUint n) v"
  moreover have "\<not> 256 \<le> unat w" using unsigned_less [of w] by (simp add: not_le del: unsigned_less)
  ultimately show ?thesis using VU8 by (simp add: sol_uint_def)
qed auto

lemma decode_int: "sol_ok (SInt n) v \<Longrightarrow> sol_word v < 2 ^ 256 \<and> sol_int n (sol_word v) = Some v"
proof (cases v)
  case (VBig i)
  assume ok: "sol_ok (SInt n) v"
  show ?thesis
  proof (cases "0 \<le> i")
    case True
    with ok VBig show ?thesis by (simp add: sol_int_def nat_less_iff)
  next
    case False
    then have "(i + 2 ^ 256) mod 2 ^ 256 = i + 2 ^ 256" using ok VBig by (intro mod_pos_pos_trivial) simp_all
    then have "i mod 2 ^ 256 = i + 2 ^ 256" by simp
    with False ok VBig show ?thesis by (simp add: sol_int_def nat_less_iff not_less le_nat_iff)
  qed
qed auto

text \<open>The fields of a tuple and the elements of an array, given the round trip of each.\<close>

lemma decode_fields:
  assumes "\<And>n t v pos. (n, t) \<in> set fs \<Longrightarrow> sol_ok t v \<Longrightarrow> placed t v f pos \<Longrightarrow> dec_sol t f pos = Some v"
    and "args_ok fs vs" "fields_placed fs vs f pos"
  shows "dec_fields fs f pos = Some vs"
  using assms
proof (induction fs arbitrary: vs pos)
  case (Cons p fs)
  obtain n t where p: "p = (n, t)" by (cases p)
  then obtain v ws where vs: "vs = v # ws" "sol_ok t v" "args_ok fs ws" using Cons.prems(2) by (cases vs) auto
  have "dec_sol t f pos = Some v" using Cons.prems(1) [of n t] Cons.prems(3) p vs by simp
  moreover have "dec_fields fs f (pos + sol_head t) = Some ws"
    using Cons.prems(1,3) p vs by (intro Cons.IH) auto
  ultimately show ?case using p vs(1) by simp
qed simp

lemma those_map_Some: "(\<And>x. x \<in> set xs \<Longrightarrow> g x = Some (h x)) \<Longrightarrow> those (map g xs) = Some (map h xs)"
  by (induction xs) auto

lemma those_nth: "(\<And>i. i < length vs \<Longrightarrow> g i = Some (vs ! i)) \<Longrightarrow> those (map g [0..<length vs]) = Some vs"
  using those_map_Some [of "[0..<length vs]" g "(!) vs"] by (simp add: map_nth)

lemma decode_elements:
  assumes IH: "\<And>v pos. sol_ok t v \<Longrightarrow> placed t v F pos \<Longrightarrow> dec_sol t F pos = Some v"
    and vs: "list_all (sol_ok t) vs" and F: "F = frame (map (\<lambda>v. (dynamic_sol t, enc_sol t v)) vs) @ rest"
    and len: "length F < 2 ^ 256"
  shows "those (map (\<lambda>i. dec_sol t F (i * sol_head t)) [0..<length vs]) = Some vs"
proof (rule those_nth)
  fix i assume i: "i < length vs"
  let ?part = "\<lambda>v. (dynamic_sol t, enc_sol t v)"
  have "map ?part vs = map ?part (take i vs) @ ?part (vs ! i) # map ?part (drop (Suc i) vs)"
    by (metis (no_types, lifting) i id_take_nth_drop map_append list.simps(9))
  then have "placed t (vs ! i) F (sum_list (map part_head (map ?part (take i vs))))"
    using F len by (intro frame_placed) simp_all
  moreover have "\<forall>v \<in> set (take i vs). part_head (?part v) = sol_head t"
    using vs by (auto simp: part_head_enc list_all_iff dest: in_set_takeD)
  then have "sum_list (map part_head (map ?part (take i vs))) = i * sol_head t"
    using i sum_list_triv [of "sol_head t" "take i vs"] by (simp add: comp_def cong: map_cong)
  moreover have "sol_ok t (vs ! i)" using vs i by (simp add: list_all_length)
  ultimately show "dec_sol t F (i * sol_head t) = Some (vs ! i)" using IH by simp
qed

section \<open>The round trip\<close>

lemma decode_bytes:
  assumes "placed SBytes v f pos \<and> v = VBytes b \<or> placed SString v f pos \<and> v = VStr (bytes_str b)"
    and "length f < 2 ^ 256"
  obtains off where "word_at f pos = Some off" "bytes_at f off = Some b"
proof -
  obtain off rest where "word_at f pos = Some off" "drop off f = enc_dyn b @ rest"
    using assms(1) by (auto simp: placed_def)
  with bytes_at_enc assms(2) that show thesis by blast
qed

lemma decode_array:
  assumes IH: "\<And>v f pos. sol_ok t v \<Longrightarrow> length f < 2 ^ 256 \<Longrightarrow> placed t v f pos \<Longrightarrow> dec_sol t f pos = Some v"
    and ok: "sol_ok (SArray t) v" and len: "length f < 2 ^ 256" and at: "placed (SArray t) v f pos"
  shows "dec_sol (SArray t) f pos = Some v"
proof -
  from ok obtain vs where v: "v = VStruct vs" "list_all (sol_ok t) vs" "sol_head t \<ge> 32"
    by (auto simp: sol_ok_array simp del: sol_ok.simps)
  define fr where "fr = frame (map (\<lambda>v. (dynamic_sol t, enc_sol t v)) vs)"
  obtain off rest where off: "word_at f pos = Some off" "drop off f = be_fixed 32 (length vs) @ fr @ rest"
    using placed_dynamic [OF at] v(1) by (auto simp: fr_def)
  have fr_drop: "drop (off + 32) f = fr @ rest"
    using arg_cong [OF off(2), of "drop 32"] by (simp add: add.commute)
  have "\<forall>w \<in> set vs. part_head (dynamic_sol t, enc_sol t w) = sol_head t"
    using v(2) by (auto simp: part_head_enc list_all_iff)
  then have "length fr \<ge> length vs * sol_head t"
    using sum_list_triv [of "sol_head t" vs] by (simp add: fr_def length_frame comp_def cong: map_cong)
  moreover have "length vs * sol_head t \<ge> length vs * 32" using v(3) by (rule mult_le_mono2)
  ultimately have "length (drop off f) \<ge> 32 + 32 * length vs"
    unfolding off(2) length_append length_be_fixed by linarith
  then have size: "off + 32 + 32 * length vs \<le> length f" by simp
  have "word_at f off = Some (length vs)" using off(2) size len by (intro word_at_fixed) simp_all
  moreover have "length (drop (off + 32) f) < 2 ^ 256" using len by simp
  then have "those (map (\<lambda>i. dec_sol t (drop (off + 32) f) (i * sol_head t)) [0..<length vs]) = Some vs"
    using decode_elements [OF IH v(2) fr_drop [unfolded fr_def]] by blast
  ultimately show ?thesis using off(1) size v(1) by simp
qed

lemma decode_tuple:
  assumes IH: "\<And>n t v f pos. (n, t) \<in> set fs \<Longrightarrow> sol_ok t v \<Longrightarrow> length f < 2 ^ 256 \<Longrightarrow> placed t v f pos \<Longrightarrow>
      dec_sol t f pos = Some v"
    and ok: "sol_ok (STuple fs) v" and len: "length f < 2 ^ 256" and at: "placed (STuple fs) v f pos"
  shows "dec_sol (STuple fs) f pos = Some v"
proof -
  from ok obtain vs where v: "v = VStruct vs" "args_ok fs vs" by (auto simp: sol_ok_tuple)
  have fields: "dec_fields fs F p = Some vs" if "length F < 2 ^ 256" "fields_placed fs vs F p" for F p
    using IH that v(2) by (intro decode_fields)
  have placed: "fields_placed fs vs (drop k f) 0" if "drop k f = frame (enc_parts fs vs) @ rest" for k rest
  proof -
    have "length (drop k f) < 2 ^ 256" using len by simp
    from frame_fields_placed [of "drop k f" "[]" fs vs rest, OF _ this v(2)] that show ?thesis by simp
  qed
  show ?thesis
  proof (cases "dynamic_sol (STuple fs)")
    case True
    then obtain off rest where off: "word_at f pos = Some off" "drop off f = frame (enc_parts fs vs) @ rest"
      using placed_dynamic [OF at] v(1) by auto
    have "length (drop off f) < 2 ^ 256" using len by simp
    from fields [OF this placed [OF off(2)]] True off(1) v(1) show ?thesis by simp
  next
    case False
    then obtain rest where "drop pos f = frame (enc_parts fs vs) @ rest" using at v(1) by (auto simp: placed_def)
    from placed [OF this] have "fields_placed fs vs f pos" using False fields_placed_shift [of fs vs pos f 0] by simp
    with fields len False v(1) show ?thesis by simp
  qed
qed

lemma decode_placed:
  "sol_ok t v \<Longrightarrow> length f < 2 ^ 256 \<Longrightarrow> placed t v f pos \<Longrightarrow> dec_sol t f pos = Some v"
proof (induction t arbitrary: v f pos)
  case (SUint n)
  then show ?case using decode_uint [of n v] word_at_sol [of "SUint n" v f pos "sol_word v"] by simp
next
  case (SInt n)
  then show ?case using decode_int [of n v] word_at_sol [of "SInt n" v f pos "sol_word v"] by simp
next
  case SAddress
  then obtain a where "v = VAddr a" by (cases v) auto
  then show ?case using SAddress.prems(3) word_at_sol [OF _ _ _ unat_less_256(5), of SAddress v f pos a] by simp
next
  case SBytes32
  then obtain h where "v = VHash h" by (cases v) auto
  then show ?case using SBytes32.prems(3) word_at_sol [OF _ _ _ unat_less_256(6), of SBytes32 v f pos h] by simp
next
  case SBool
  then obtain b where "v = VBool b" by (cases v) auto
  then show ?case using SBool.prems(3) word_at_sol [of SBool v f pos "sol_word v"] by simp
next
  case SBytes
  then obtain b where v: "v = VBytes b" by (cases v) auto
  with SBytes.prems(2,3) obtain off where "word_at f pos = Some off" "bytes_at f off = Some b"
    using decode_bytes by blast
  then show ?case using v by simp
next
  case SString
  then obtain s where v: "v = VStr (bytes_str (str_bytes s))" by (cases v) auto
  with SString.prems(2,3) obtain off where "word_at f pos = Some off" "bytes_at f off = Some (str_bytes s)"
    using decode_bytes by blast
  then show ?case using v by simp
next
  case (SArray t)
  then show ?case by (intro decode_array)
next
  case (STuple fs)
  then show ?case by (intro decode_tuple) fastforce+
qed

lemma args_decode:
  assumes "args_ok fs vs" "length (frame (enc_parts fs vs)) < 2 ^ 256"
  shows "dec_fields fs (frame (enc_parts fs vs)) 0 = Some vs"
  using assms frame_fields_placed [of "frame (enc_parts fs vs)" "[]" fs vs "[]"]
  by (intro decode_fields) (auto intro: decode_placed)

end
