(* ===== verification/CallData.thy ===== *)
theory CallData
  imports ServicesProps SolCodec
begin

text \<open>
  What a contract reads of the transactions the services send: the selector chooses the method and the rest of
  the call data is decoded by the types of its inputs. With the reference encoder every transaction is read
  back as the call the service meant, argument by argument.
\<close>

section \<open>The contract's side\<close>

definition contract_call :: "(string \<Rightarrow> bytes) \<Rightarrow> contract_abi \<Rightarrow> bytes \<Rightarrow> (string \<times> goval list) option" where
  "contract_call selector a bs =
     (case find (\<lambda>mt. selector (amName mt) = take 4 bs) (caMethods a) of
        None \<Rightarrow> None
      | Some mt \<Rightarrow> map_option (Pair (amName mt)) (dec_fields (amInputs mt) (drop 4 bs) 0))"

text \<open>Selectors have four bytes and tell the methods of a contract apart.\<close>

definition selects :: "(string \<Rightarrow> bytes) \<Rightarrow> contract_abi \<Rightarrow> bool" where
  "selects selector a \<longleftrightarrow> (\<forall>mt \<in> set (caMethods a). length (selector (amName mt)) = 4)
     \<and> distinct (map (\<lambda>mt. selector (amName mt)) (caMethods a))"

text \<open>Arguments of a method that can be encoded: of its types, in range, and small enough for a 256-bit offset.\<close>

definition encodable :: "contract_abi \<Rightarrow> string \<Rightarrow> goval list \<Rightarrow> bool" where
  "encodable a m args \<longleftrightarrow>
     (\<exists>mt. find_method a m = Some mt \<and> args_ok (amInputs mt) args
        \<and> length (frame (enc_parts (amInputs mt) args)) < 2 ^ 256)"

lemma find_by_key:
  "distinct (map f xs) \<Longrightarrow> x \<in> set xs \<Longrightarrow> find (\<lambda>y. f y = f x) xs = Some x"
  by (induction xs) (auto simp: image_iff)

lemma find_method_mem: "find_method a m = Some mt \<Longrightarrow> mt \<in> set (caMethods a) \<and> amName mt = m"
  by (auto simp: find_method_def find_Some_iff)

lemma packed_call_reads_back:
  assumes "selects selector a" "encodable a m args" "sol_pack selector a m args = Inr bs"
  shows "contract_call selector a bs = Some (m, args)"
proof -
  from assms(2) obtain mt where mt: "find_method a m = Some mt" "args_ok (amInputs mt) args"
    "length (frame (enc_parts (amInputs mt) args)) < 2 ^ 256" by (auto simp: encodable_def)
  have bs: "bs = selector m @ frame (enc_parts (amInputs mt) args)"
    using assms(3) mt(1) by (auto simp: sol_pack_def split: if_splits)
  note mem = find_method_mem [OF mt(1)]
  then have "length (selector m) = 4" using assms(1) by (auto simp: selects_def)
  then have split: "take 4 bs = selector (amName mt)" "drop 4 bs = frame (enc_parts (amInputs mt) args)"
    using bs mem by simp_all
  have "find (\<lambda>mt. selector (amName mt) = take 4 bs) (caMethods a) = Some mt"
    using find_by_key [of "\<lambda>mt. selector (amName mt)" "caMethods a" mt] assms(1) mem
    by (simp add: split(1) selects_def)
  with args_decode [OF mt(2,3)] mem show ?thesis by (simp add: contract_call_def split)
qed

text \<open>The data of an event the contract emits are decoded to the values it emitted.\<close>

lemma event_reads_back:
  assumes "find_event a n = Some ev" "args_ok (NonIndexed ev) vs"
    and "length (frame (enc_parts (NonIndexed ev) vs)) < 2 ^ 256"
  shows "sol_unpack_event a n (frame (enc_parts (NonIndexed ev) vs)) = Inr vs"
  using args_decode [OF assms(2,3)] assms(1) by (simp add: sol_unpack_event_def)

text \<open>A transaction the node took and mined, read by the contract it is sent to.\<close>

definition call_mined ::
  "(string \<Rightarrow> bytes) \<Rightarrow> eth \<Rightarrow> contract_abi \<Rightarrow> address \<Rightarrow> int \<Rightarrow> string \<Rightarrow> goval list \<Rightarrow> receipt \<Rightarrow> bool" where
  "call_mined selector c a to value m args rc \<longleftrightarrow>
     (\<exists>tx hash k. ethSignTx c tx = Inr hash \<and> ethSendTransaction c tx = None \<and> ethReceipt c hash k = Some rc
        \<and> rcStatus rc = 1 \<and> txTo tx = to \<and> txValue tx = value
        \<and> contract_call selector a (txData tx) = Some (m, args))"

lemma sent_call_mined:
  assumes "Send (client_of cn c) a to value m args = Inr rc" "ethPack c = sol_pack selector"
    and "selects selector a" "encodable a m args"
  shows "call_mined selector c a to (case value of None \<Rightarrow> 0 | Some v \<Rightarrow> v) m args rc"
  using assms(1)
proof (rule Send_Inr)
  fix data nonce gasPrice gas hash k
  let ?tx = "tx_for (client_of cn c) to (case value of None \<Rightarrow> 0 | Some v \<Rightarrow> v) data nonce gasPrice gas"
  assume "ethPack (client_of cn c) a m args = Inr data" "ethSendTransaction (client_of cn c) ?tx = None"
    "ethSignTx (client_of cn c) ?tx = Inr hash" "ethReceipt (client_of cn c) hash k = Some rc" "rcStatus rc = 1"
  then have t: "ethSignTx c ?tx = Inr hash" "ethSendTransaction c ?tx = None" "ethReceipt c hash k = Some rc"
      "rcStatus rc = 1"
    and "sol_pack selector a m args = Inr data" using assms(2) by simp_all
  with packed_call_reads_back [OF assms(3,4)] have "contract_call selector a (txData ?tx) = Some (m, args)"
    by (simp add: tx_for_def)
  with t show ?thesis unfolding call_mined_def by (intro exI [of _ ?tx] exI conjI) (simp_all add: tx_for_def)
qed

section \<open>The services' calls\<close>

text \<open>The amounts of a proof fit the contract's 256-bit types; sizes are those of Go slices.\<close>

definition proof_in_range :: "Proof \<Rightarrow> bool" where
  "proof_in_range p \<longleftrightarrow> (let b = xrResponseBody (pfResponse p) in
     (\<forall>i \<in> {rbSpentAmount b, rbIntendedSpentAmount b, rbReceivedAmount b, rbIntendedReceivedAmount b}.
        - (2 ^ 255) \<le> i \<and> i < 2 ^ 255)
     \<and> 0 \<le> rbDestinationTag b \<and> rbDestinationTag b < 2 ^ 256
     \<and> length (pfMerkleProof p) < 2 ^ 63 \<and> length (rbSourceAddress b) < 2 ^ 63 \<and> length (rbFirstMemoData b) < 2 ^ 63)"

lemma length_enc_dyn: "length (enc_dyn b) \<le> length b + 63"
  using length_pad32 [of b] by (simp add: enc_dyn_def)

lemma delivery_encodable:
  assumes "h \<in> set handlers" "length (rsData (rpResult res)) < 2 ^ 63"
    "length (rsSubmissionTag (rpResult res)) < 2 ^ 63" "length (rpSignature res) < 2 ^ 63"
  shows "encodable controllerABI (dlMethod (delivery_of h res)) (delivery_args (delivery_of h res))"
proof -
  let ?args = "delivery_args (delivery_of h res)"
  have "args_ok resultInputs ?args" by (simp add: resultInputs_def delivery_args_def)
  moreover have "length (frame (enc_parts resultInputs ?args)) < 2 ^ 256"
    using assms length_enc_dyn [of "rsData (rpResult res)"] length_enc_dyn [of "rpSignature res"]
      length_enc_dyn [of "str_bytes (rsSubmissionTag (rpResult res))"]
    by (simp add: resultInputs_def delivery_args_def delivery_of_def length_frame)
  ultimately show ?thesis using delivery_methods [OF assms(1)] by (simp add: encodable_def)
qed

lemma report_encodable: "0 \<le> r \<Longrightarrow> r < 2 ^ 256 \<Longrightarrow> encodable controllerABI ''reportBroadcast'' [VBig r, VHash tx]"
  by (simp add: encodable_def controller_methods length_frame)

lemma attestation_encodable:
  assumes "length b < 2 ^ 63"
  shows "encodable fdcHubABI ''requestAttestation'' [VBytes b]"
  using assms length_enc_dyn [of b] by (simp add: encodable_def find_method_def fdcHubABI_def length_frame)

lemma static_tails: "tails (map (\<lambda>x. (False, g x)) xs) = []"
  by (induction xs) simp_all

lemma finalize_encodable:
  assumes "0 \<le> r" "r < 2 ^ 256" "proof_in_range p"
  shows "encodable verifierABI ''finalizePayment'' [VBig r, toContractProof p]"
proof -
  let ?inputs = "[(''_requestId'', SUint 256), (''_proof'', STuple proofTuple)]"
  let ?args = "[VBig r, toContractProof p]"
  let ?b = "xrResponseBody (pfResponse p)"
  have ok: "args_ok ?inputs ?args"
    using assms
    by (simp add: toContractProof_def Let_def proofTuple_def requestBodyTuple_def responseBodyTuple_def
        sol_ok_tuple list_all_iff proof_in_range_def)
  have "length (frame (enc_parts ?inputs ?args)) < 2 ^ 256"
    using assms(3) length_enc_dyn [of "rbFirstMemoData ?b"] length_enc_dyn [of "str_bytes (rbSourceAddress ?b)"]
    by (simp add: toContractProof_def Let_def proofTuple_def requestBodyTuple_def responseBodyTuple_def
        length_frame proof_in_range_def comp_def static_tails sum_list_triv)
  with ok show ?thesis by (simp add: encodable_def find_method_def verifierABI_def)
qed

section \<open>Properties\<close>


text \<open>Four letters of the name stand in for the selector of the example.\<close>

definition sample_selector :: "string \<Rightarrow> bytes" where
  "sample_selector m = map (\<lambda>i. of_nat (of_char (m ! i))) [0, 6, 7, 8]"

definition sample_node :: eth where
  "sample_node = sample_eth\<lparr>ethPack := sol_pack sample_selector\<rparr>"

lemma sample_selects:
  "selects sample_selector controllerABI" "selects sample_selector fdcHubABI" "selects sample_selector verifierABI"
  by (simp_all add: selects_def sample_selector_def interface_defs)

lemma sample_node_sends:
  assumes "call_ok a m args"
  shows "Send (client_of sample_chain sample_node) a to v m args
    = Inr \<lparr>rcStatus = 1, rcTxHash = 77, rcBlockNumber = 3\<rparr>"
proof -
  have c: "client_of sample_chain sample_node = sample_node"
    by (simp add: client_of_def sample_chain_def sample_node_def sample_eth_def)
  obtain data where p: "ethPack sample_node a m args = Inr data"
    using sol.pack_total [OF assms] by (auto simp: sample_node_def)
  have n: "ethHasKey sample_node" "ethPendingNonce sample_node = Inr 0" "ethSuggestGasPrice sample_node = Inr 25"
    "ethEstimateGas sample_node t x b = Inr 50000" "ethSignTx sample_node y = Inr 77"
    "ethSendTransaction sample_node y = None"
    "ethReceipt sample_node k i = Some \<lparr>rcStatus = 1, rcTxHash = 77, rcBlockNumber = 3\<rparr>" for t x b y k i
    by (simp_all add: sample_node_def)
  have w: "waitForReceipt sample_node 77 0 n = Inr \<lparr>rcStatus = 1, rcTxHash = 77, rcBlockNumber = 3\<rparr>" for n
    by (subst waitForReceipt.simps) (simp add: n)
  show ?thesis by (simp add: c Send_def p n w Let_def)
qed


end
