(* ===== verification/EnclaveSecrecy.thy ===== *)
theory EnclaveSecrecy
  imports EnclaveProps
begin

text \<open>
  Two facts about the enclave that no single handler shows: its answers depend on a treasury key only
  through the public key and the signatures made with it, and what interleaved signing requests can do,
  since \<open>handleSignPayment\<close> reads the authorization under one lock and deletes it under another.
\<close>

section \<open>Keys behind an interface\<close>

text \<open>The enclave with every private key replaced by its public key and a signing oracle.\<close>

datatype signer = Signer (signer_public: bytes) (signer_sign: "bytes \<Rightarrow> bytes")

definition oracle_key :: "'k deps \<Rightarrow> 'k \<Rightarrow> signer" where
  "oracle_key d k = Signer (dPubKey d k) (dEcdsaSign d k)"

definition oracle_deps :: "'k deps \<Rightarrow> signer deps" where
  "oracle_deps d = \<lparr>dPack = dPack d, dUnpack = dUnpack d, dKeccak = dKeccak d, dRipemd160 = dRipemd160 d,
     dPubKey = signer_public, dEcdsaSign = signer_sign, dToHash = dToHash d, dParse = dParse d, dMarshal = dMarshal d\<rparr>"

definition oracle_env :: "'k deps \<Rightarrow> 'k env \<Rightarrow> signer env" where
  "oracle_env d ev = \<lparr>genKey = (case genKey ev of Inl e \<Rightarrow> Inl e | Inr k \<Rightarrow> Inr (oracle_key d k)),
     decrypt = decrypt ev, AccountSequence = AccountSequence ev, CurrentLedger = CurrentLedger ev,
     nowUnix = nowUnix ev\<rparr>"

definition oracle_treasury :: "'k deps \<Rightarrow> 'k treasury \<Rightarrow> signer treasury" where
  "oracle_treasury d t = \<lparr>tKey = oracle_key d (tKey t), tAccountID = tAccountID t, tAddress = tAddress t,
     tPolicy = tPolicy t, tPolicyCommitment = tPolicyCommitment t\<rparr>"

definition oracle_state :: "'k deps \<Rightarrow> 'k extension \<Rightarrow> signer extension" where
  "oracle_state d st = \<lparr>treasuries = map (\<lambda>(k, t). (k, oracle_treasury d t)) (treasuries st),
     authorizations = authorizations st\<rparr>"

lemma oracle_simps [simp]:
  "dPack (oracle_deps d) = dPack d" "dUnpack (oracle_deps d) = dUnpack d" "dKeccak (oracle_deps d) = dKeccak d"
  "dRipemd160 (oracle_deps d) = dRipemd160 d" "dPubKey (oracle_deps d) = signer_public" "dEcdsaSign (oracle_deps d) = signer_sign"
  "dToHash (oracle_deps d) = dToHash d" "dParse (oracle_deps d) = dParse d" "dMarshal (oracle_deps d) = dMarshal d"
  "decrypt (oracle_env d ev) = decrypt ev" "AccountSequence (oracle_env d ev) = AccountSequence ev"
  "CurrentLedger (oracle_env d ev) = CurrentLedger ev" "nowUnix (oracle_env d ev) = nowUnix ev"
  "genKey (oracle_env d ev) = (case genKey ev of Inl e \<Rightarrow> Inl e | Inr k \<Rightarrow> Inr (oracle_key d k))"
  "tKey (oracle_treasury d t) = oracle_key d (tKey t)" "tAccountID (oracle_treasury d t) = tAccountID t"
  "tAddress (oracle_treasury d t) = tAddress t" "tPolicy (oracle_treasury d t) = tPolicy t"
  "tPolicyCommitment (oracle_treasury d t) = tPolicyCommitment t"
  "authorizations (oracle_state d st) = authorizations st"
  "signer_public (oracle_key d k) = dPubKey d k" "signer_sign (oracle_key d k) = dEcdsaSign d k"
  by (simp_all add: oracle_deps_def oracle_env_def oracle_treasury_def oracle_state_def oracle_key_def)

lemma map_of_oracle [simp]:
  "map_of (treasuries (oracle_state d st)) k = map_option (oracle_treasury d) (map_of (treasuries st) k)"
proof -
  have "map_of (map (\<lambda>(k, t). (k, oracle_treasury d t)) xs) k = map_option (oracle_treasury d) (map_of xs k)"
    for xs by (induction xs) auto
  then show ?thesis by (simp add: oracle_state_def)
qed

lemma update_oracle:
  "AList.update k (oracle_treasury d t) (map (\<lambda>(k, t). (k, oracle_treasury d t)) xs)
     = map (\<lambda>(k, t). (k, oracle_treasury d t)) (AList.update k t xs)"
  by (induction xs) auto

lemma oracle_update [simp]:
  "(oracle_state d st)\<lparr>treasuries := AList.update k (oracle_treasury d t) (treasuries (oracle_state d st))\<rparr>
     = oracle_state d (st\<lparr>treasuries := AList.update k t (treasuries st)\<rparr>)"
  "(oracle_state d st)\<lparr>authorizations := x\<rparr> = oracle_state d (st\<lparr>authorizations := x\<rparr>)"
  by (simp_all add: oracle_state_def update_oracle)

lemma oracle_treasury_fold:
  "\<lparr>tKey = oracle_key d k, tAccountID = a, tAddress = s, tPolicy = p, tPolicyCommitment = c\<rparr>
     = oracle_treasury d \<lparr>tKey = k, tAccountID = a, tAddress = s, tPolicy = p, tPolicyCommitment = c\<rparr>"
  "(oracle_treasury d t)\<lparr>tPolicy := p, tPolicyCommitment := c\<rparr>
     = oracle_treasury d (t\<lparr>tPolicy := p, tPolicyCommitment := c\<rparr>)"
  by (simp_all add: oracle_treasury_def)

lemma oracle_sign [simp]:
  "snd (Sign signer_public signer_sign p (Some (oracle_key d k))) = snd (Sign (dPubKey d) (dEcdsaSign d) p (Some k))"
proof -
  have "with_key signer_public (oracle_key d k) p = with_key (dPubKey d) k p" for p
    by (simp add: with_key_def)
  moreover have "signature_of signer_sign (oracle_key d k) p = signature_of (dEcdsaSign d) k p" for p
    by (simp add: signature_of_def)
  ultimately show ?thesis by (simp add: Sign_Some Let_def)
qed

abbreviation lift_state :: "'k deps \<Rightarrow> 'k extension \<times> 'r \<Rightarrow> signer extension \<times> 'r" where
  "lift_state d \<equiv> map_prod (oracle_state d) (\<lambda>r. r)"

lemma oracle_commitment [simp]: "validateHeaderCommitment (oracle_deps d) = validateHeaderCommitment d"
  by (simp add: fun_eq_iff validateHeaderCommitment_def)

lemma oracle_create:
  "handleCreateTreasuryKey (oracle_deps d) (oracle_env d ev) a df (oracle_state d st)
     = lift_state d (handleCreateTreasuryKey d ev a df st)"
  unfolding handleCreateTreasuryKey_def Let_def
  by (simp add: oracle_treasury_fold split: sum.split option.split prod.split)

lemma oracle_register:
  "handleRegisterPolicy (oracle_deps d) a df (oracle_state d st) = lift_state d (handleRegisterPolicy d a df st)"
  unfolding handleRegisterPolicy_def Let_def
  by (simp add: oracle_treasury_fold split: sum.split option.split prod.split)

lemma oracle_authorize:
  "handleAuthorizePayment (oracle_deps d) (oracle_env d ev) a df (oracle_state d st)
     = lift_state d (handleAuthorizePayment d ev a df st)"
  unfolding handleAuthorizePayment_def Let_def
  by (simp split: sum.split option.split prod.split)

lemma oracle_sign_payment:
  "sign_payment (oracle_deps d) (oracle_env d ev) au (oracle_treasury d t) = sign_payment d ev au t"
  by (simp add: sign_payment_def Let_def split: sum.split)

lemma oracle_lookup:
  "sign_lookup h (oracle_state d st) = map_sum id (map_prod id (oracle_treasury d)) (sign_lookup h st)"
  by (simp add: sign_lookup_def split: option.split)

lemma oracle_handle_sign:
  "handleSignPayment (oracle_deps d) (oracle_env d ev) a df (oracle_state d st)
     = lift_state d (handleSignPayment d ev a df st)"
  by (auto simp: handleSignPayment_def oracle_lookup oracle_sign_payment sign_commit_def sign_result_def
      split: sum.split prod.split)

lemma oracle_run_command:
  "run_command (oracle_deps d) (oracle_env d ev) a df (oracle_state d st)
     = map_option (lift_state d) (run_command d ev a df st)"
  by (simp add: run_command_def Let_def oracle_create oracle_register oracle_authorize oracle_handle_sign
      split_beta)

lemma oracle_processAction:
  "processAction (oracle_deps d) (oracle_env d ev) a (oracle_state d st) = lift_state d (processAction d ev a st)"
  by (simp add: processAction_def processTreasury_def oracle_run_command split: sum.split option.split prod.split)


section \<open>Interleaved signing requests\<close>

text \<open>A server in which any number of signing requests are between their read and their delete, and all
  other instructions run to completion (they take the write lock once).\<close>

type_synonym 'k inflight = "InstructionHeader \<times> authorization \<times> 'k treasury"

inductive sign_race ::
  "'k deps \<Rightarrow> 'k extension \<times> 'k inflight list \<Rightarrow> 'k event list \<Rightarrow> 'k extension \<times> 'k inflight list \<Rightarrow> bool"
  for d where
  start: "sign_race d s [] s"
| other: "sign_race d s evts (st, fl) \<Longrightarrow> enclave_step d st e st' \<Longrightarrow> \<forall>i au t x b. e \<noteq> Signed i au t x b \<Longrightarrow>
    sign_race d s (evts @ [e]) (st', fl)"
| read: "sign_race d s evts (st, fl) \<Longrightarrow> sign_lookup h st = Inr (au, t) \<Longrightarrow>
    sign_race d s evts (st, (h, au, t) # fl)"
| finish: "sign_race d s evts (st, fl) \<Longrightarrow> (h, au, t) \<in> set fl \<Longrightarrow> sign_payment d ev au t = Inr (txID, blob) \<Longrightarrow>
    sign_race d s (evts @ [Signed (hRequestId h) au t txID blob]) (sign_commit h st, remove1 (h, au, t) fl)"
| fail: "sign_race d s evts (st, fl) \<Longrightarrow> f \<in> set fl \<Longrightarrow> sign_race d s evts (st, remove1 f fl)"

text \<open>What survives interleaving: the terms of every signature were authorized before.\<close>

definition authorized_in :: "'k event list \<Rightarrow> int \<Rightarrow> authorization \<Rightarrow> bool" where
  "authorized_in evts i au \<longleftrightarrow> Authorized i au \<in> set evts"

definition signed_were_authorized :: "'k event list \<Rightarrow> bool" where
  "signed_were_authorized evts \<longleftrightarrow> (\<forall>n < length evts. \<forall>i au t x b. evts ! n = Signed i au t x b \<longrightarrow>
     authorized_in (take n evts) i au)"

lemma signed_were_authorized_snoc:
  "signed_were_authorized (evts @ [e]) \<longleftrightarrow> signed_were_authorized evts \<and>
     (\<forall>i au t x b. e = Signed i au t x b \<longrightarrow> authorized_in evts i au)"
  by (auto simp: signed_were_authorized_def nth_append less_Suc_eq)

lemma race_invariant:
  "sign_race d s evts s' \<Longrightarrow> s = (New, []) \<Longrightarrow>
     signed_were_authorized evts
     \<and> (\<forall>i au. authorization_of (fst s') i = Some au \<longrightarrow> authorized_in evts i au)
     \<and> (\<forall>(h, au, t) \<in> set (snd s'). authorized_in evts (hRequestId h) au)"
proof (induction rule: sign_race.induct)
  case (start s)
  then show ?case by (simp add: signed_were_authorized_def)
next
  case (other s evts st fl e st')
  then have IH: "signed_were_authorized evts"
      "\<forall>i au. authorization_of st i = Some au \<longrightarrow> authorized_in evts i au"
      "\<forall>(h, au, t) \<in> set fl. authorized_in evts (hRequestId h) au" by auto
  from other.hyps(2) have "authorization_of st' i = next_pending i e (authorization_of st i)" for i
    by (rule step_authorization_of)
  with IH other.hyps(3) show ?case
    by (cases e) (auto simp: signed_were_authorized_snoc authorized_in_def split: if_splits)
next
  case (read s evts st fl h au t)
  then show ?case by (auto simp: sign_lookup_Inr)
next
  case (finish s evts st fl h au t ev txID blob)
  then have "authorized_in evts (hRequestId h) au" by auto
  with finish show ?case
    by (auto simp: signed_were_authorized_snoc authorized_in_def sign_commit_eq split: if_splits
        dest!: set_remove1_subset [THEN subsetD])
next
  case (fail s evts st fl f)
  then show ?case by (auto dest!: set_remove1_subset [THEN subsetD])
qed

text \<open>Signatures under different account sequences are different transactions.\<close>

lemma signs_serialized:
  assumes "signs d t au s l x b"
  obtains p sp where "serialize p sp = Inr b" "pSequence p = s"
proof -
  from assms obtain dest der where "Validate (payment_for d t au dest s l) = None" "length der \<le> 192"
      "b = payment_wire (payment_for d t au dest s l) (Some der)"
    unfolding signs_def by blast
  then have "serialize (payment_for d t au dest s l) (Some der) = Inr b" by (simp add: serialize_valid)
  then show thesis by (rule that) (simp add: payment_for_def)
qed

lemma signs_sequence_differs:
  assumes "signs d t au s1 l1 x1 b" "signs d t au s2 l2 x2 b"
  shows "s1 = s2"
proof -
  obtain p sp where p: "serialize p sp = Inr b" "pSequence p = s1" using signs_serialized [OF assms(1)] .
  obtain q sq where q: "serialize q sq = Inr b" "pSequence q = s2" using signs_serialized [OF assms(2)] .
  from serialize_inj [OF p(1) q(1)] p(2) q(2) show ?thesis by (simp add: same_payment_def)
qed

lemma double_sign_race:
  assumes "sign_lookup h st = Inr (au, t)" "sign_payment d ev1 au t = Inr (x1, b1)"
    and "sign_payment d ev2 au t = Inr (x2, b2)"
  shows "sign_race d (st, []) [Signed (hRequestId h) au t x1 b1, Signed (hRequestId h) au t x2 b2]
    (sign_commit h (sign_commit h st), [])"
proof -
  let ?f = "(h, au, t)"
  have "sign_race d (st, []) [] (st, [?f, ?f])"
    by (intro sign_race.read assms(1) sign_race.start)
  from sign_race.finish [OF this _ assms(2)] have
    "sign_race d (st, []) [Signed (hRequestId h) au t x1 b1] (sign_commit h st, [?f])" by simp
  from sign_race.finish [OF this _ assms(3)] show ?thesis by simp
qed





end
