(* ===== verification/Report.thy ===== *)
theory Report
  imports GoLib "HOL-Library.Multiset"
begin

text \<open>
  The deployment report (\<open>tools/pkg/validate/report.go\<close>) and the elementary checks of \<open>validate.go\<close>.
  A report is the list of its results.  Printing is the string that is written; the JSON encoder is a
  parameter that receives the structure handed to it.
\<close>

section \<open>Results\<close>

text \<open>\<open>Status\<close> is an \<open>int\<close> with four named values; the other values only reach the default branches.\<close>

datatype Status = PASS | WARN | FAIL | SKIP | OtherStatus int

fun Status_String :: "Status \<Rightarrow> string" where
  "Status_String PASS = ''PASS''"
| "Status_String WARN = ''WARN''"
| "Status_String FAIL = ''FAIL''"
| "Status_String SKIP = ''SKIP''"
| "Status_String (OtherStatus n) = ''UNKNOWN''"

record CheckResult =
  crStep :: string
  crID :: string
  crName :: string
  crStatus :: Status
  crMessage :: string
  crFix :: string

record Report =
  Results :: "CheckResult list"

definition Add :: "CheckResult \<Rightarrow> Report \<Rightarrow> Report" where
  "Add result r = r\<lparr>Results := Results r @ [result]\<rparr>"

definition HasFailures :: "Report \<Rightarrow> bool" where
  "HasFailures r = list_ex (\<lambda>res. crStatus res = FAIL) (Results r)"

record counters =
  nPassed :: nat
  nWarning :: nat
  nFailed :: nat
  nSkipped :: nat

fun count_status :: "CheckResult list \<Rightarrow> counters \<Rightarrow> counters" where
  "count_status [] c = c"
| "count_status (res # rs) c =
     count_status rs
       (case crStatus res of
          PASS \<Rightarrow> c\<lparr>nPassed := Suc (nPassed c)\<rparr>
        | WARN \<Rightarrow> c\<lparr>nWarning := Suc (nWarning c)\<rparr>
        | FAIL \<Rightarrow> c\<lparr>nFailed := Suc (nFailed c)\<rparr>
        | SKIP \<Rightarrow> c\<lparr>nSkipped := Suc (nSkipped c)\<rparr>
        | OtherStatus _ \<Rightarrow> c)"

definition counts :: "Report \<Rightarrow> counters" where
  "counts r = count_status (Results r) \<lparr>nPassed = 0, nWarning = 0, nFailed = 0, nSkipped = 0\<rparr>"

definition Summary :: "Report \<Rightarrow> string" where
  "Summary r =
     (let c = counts r in
      nat_string (nPassed c) @ '' passed, '' @ nat_string (nWarning c) @ '' warning, ''
      @ nat_string (nFailed c) @ '' failed, '' @ nat_string (nSkipped c) @ '' skipped'')"

section \<open>Printing\<close>

definition ansi :: "string \<Rightarrow> string" where "ansi code = CHR 0x1B # CHR ''['' # code @ ''m''"
definition colorReset :: string where "colorReset = ansi ''0''"
definition colorRed :: string where "colorRed = ansi ''31''"
definition colorGreen :: string where "colorGreen = ansi ''32''"
definition colorYellow :: string where "colorYellow = ansi ''33''"
definition colorCyan :: string where "colorCyan = ansi ''36''"
definition colorGray :: string where "colorGray = ansi ''90''"

definition newline :: string where "newline = [CHR 0x0A]"

definition stepLabel :: "(string \<times> string) list" where
  "stepLabel =
     [(''deploy'', ''Contract Deployment''), (''register'', ''Extension Registration''),
      (''services'', ''Service Startup''), (''tee-version'', ''TEE Version Registration''),
      (''tee-machine'', ''TEE Machine Registration''), (''test'', ''Testing'')]"

fun statusColor :: "Status \<Rightarrow> string" where
  "statusColor PASS = colorGreen"
| "statusColor WARN = colorYellow"
| "statusColor FAIL = colorRed"
| "statusColor SKIP = colorGray"
| "statusColor (OtherStatus n) = colorReset"

text \<open>The steps in the order of their first result, with the \<open>seen\<close> map.\<close>

fun collect_steps :: "CheckResult list \<Rightarrow> string list \<Rightarrow> string list \<Rightarrow> string list" where
  "collect_steps [] seen steps = steps"
| "collect_steps (res # rs) seen steps =
     (if crStep res \<in> set seen then collect_steps rs seen steps
      else collect_steps rs (crStep res # seen) (steps @ [crStep res]))"

definition print_result :: "CheckResult \<Rightarrow> string" where
  "print_result res =
     ''  '' @ statusColor (crStatus res) @ ''['' @ Status_String (crStatus res) @ '']'' @ colorReset @ '' ''
       @ crID res @ ''  '' @ crName res @ newline
     @ (if crStatus res = FAIL \<or> crStatus res = WARN then
          (if crMessage res \<noteq> [] then ''         '' @ crMessage res @ newline else [])
          @ (if crFix res \<noteq> [] then ''         Fix: '' @ crFix res @ newline else [])
        else [])"

fun print_results :: "string \<Rightarrow> CheckResult list \<Rightarrow> string" where
  "print_results step [] = []"
| "print_results step (res # rs) =
     (if crStep res \<noteq> step then print_results step rs else print_result res @ print_results step rs)"

definition label_of :: "string \<Rightarrow> string" where
  "label_of step = (case map_of stepLabel step of None \<Rightarrow> step | Some label \<Rightarrow> if label = [] then step else label)"

fun print_steps :: "string list \<Rightarrow> CheckResult list \<Rightarrow> string" where
  "print_steps [] rs = []"
| "print_steps (step # steps) rs =
     label_of step @ '':'' @ newline @ print_results step rs @ newline @ print_steps steps rs"

definition Fprint :: "Report \<Rightarrow> string" where
  "Fprint r =
     newline @ colorCyan @ ''=== Deployment Verification Report ==='' @ colorReset @ newline @ newline
     @ print_steps (collect_steps (Results r) [] []) (Results r)
     @ Summary r @ newline"

record jsonResult =
  jrStep :: string
  jrID :: string
  jrName :: string
  jrStatus :: string
  jrMessage :: string
  jrFix :: string

record jsonReport =
  jrResults :: "jsonResult list"
  jrSummary :: string

definition json_result :: "CheckResult \<Rightarrow> jsonResult" where
  "json_result res = \<lparr>jrStep = crStep res, jrID = crID res, jrName = crName res,
     jrStatus = Status_String (crStatus res), jrMessage = trim_space (crMessage res),
     jrFix = trim_space (crFix res)\<rparr>"

definition FprintJSON :: "(jsonReport \<Rightarrow> string) \<Rightarrow> Report \<Rightarrow> string" where
  "FprintJSON encode r = encode \<lparr>jrResults = map json_result (Results r), jrSummary = Summary r\<rparr>"

section \<open>Lemmas\<close>

lemma Results_Add [simp]: "Results (Add x r) = Results r @ [x]"
  by (simp add: Add_def)

lemma HasFailures_Add [simp]: "HasFailures (Add x r) \<longleftrightarrow> HasFailures r \<or> crStatus x = FAIL"
  by (auto simp: HasFailures_def list_ex_iff)

lemma HasFailures_Nil [simp]: "\<not> HasFailures \<lparr>Results = []\<rparr>"
  by (simp add: HasFailures_def)

definition of_status :: "Status \<Rightarrow> CheckResult list \<Rightarrow> nat" where
  "of_status s rs = length (filter (\<lambda>res. crStatus res = s) rs)"

lemma count_status_eq:
  "count_status rs c = \<lparr>nPassed = nPassed c + of_status PASS rs, nWarning = nWarning c + of_status WARN rs,
     nFailed = nFailed c + of_status FAIL rs, nSkipped = nSkipped c + of_status SKIP rs\<rparr>"
  by (induction rs arbitrary: c) (auto simp: of_status_def split: Status.split)

lemma of_status_sum:
  "\<forall>res \<in> set rs. crStatus res \<in> {PASS, WARN, FAIL, SKIP} \<Longrightarrow>
     of_status PASS rs + of_status WARN rs + of_status FAIL rs + of_status SKIP rs = length rs"
  by (induction rs) (auto simp: of_status_def)

lemma collect_steps_set:
  "set seen = set steps \<Longrightarrow> distinct steps \<Longrightarrow>
     distinct (collect_steps rs seen steps) \<and> set (collect_steps rs seen steps) = set steps \<union> crStep ` set rs"
  by (induction rs seen steps rule: collect_steps.induct) auto

lemma print_results_eq:
  "print_results step rs = concat (map print_result (filter (\<lambda>res. crStep res = step) rs))"
  by (induction rs) auto

lemma print_steps_eq:
  "print_steps steps rs = concat (map (\<lambda>s. label_of s @ '':'' @ newline
     @ concat (map print_result (filter (\<lambda>res. crStep res = s) rs)) @ newline) steps)"
  by (induction steps) (simp_all add: print_results_eq)

lemma mset_group:
  "distinct ks \<Longrightarrow> f ` set xs \<subseteq> set ks \<Longrightarrow> mset (concat (map (\<lambda>k. filter (\<lambda>x. f x = k) xs) ks)) = mset xs"
proof (induction ks arbitrary: xs)
  case Nil
  then show ?case by simp
next
  case (Cons k ks)
  let ?r = "filter (\<lambda>x. f x \<noteq> k) xs"
  have "filter (\<lambda>x. f x = j) xs = filter (\<lambda>x. f x = j) ?r" if "j \<in> set ks" for j
    using Cons.prems that by (auto simp: conj_commute intro!: filter_cong)
  then have "map (\<lambda>k. filter (\<lambda>x. f x = k) xs) ks = map (\<lambda>k. filter (\<lambda>x. f x = k) ?r) ks"
    by (intro map_cong refl)
  then have "concat (map (\<lambda>k. filter (\<lambda>x. f x = k) xs) (k # ks))
      = filter (\<lambda>x. f x = k) xs @ concat (map (\<lambda>k. filter (\<lambda>x. f x = k) ?r) ks)"
    by (simp only: list.map concat.simps)
  moreover have "mset (concat (map (\<lambda>k. filter (\<lambda>x. f x = k) ?r) ks)) = mset ?r"
    using Cons.prems by (intro Cons.IH) auto
  ultimately have "mset (concat (map (\<lambda>k. filter (\<lambda>x. f x = k) xs) (k # ks)))
      = mset (filter (\<lambda>x. f x = k) xs) + mset ?r"
    by (simp only: mset_append)
  then show ?case using multiset_partition [of "mset xs" "\<lambda>x. f x = k"] by simp
qed

section \<open>Properties\<close>

definition sample_report :: Report where
  "sample_report = \<lparr>Results =
     [\<lparr>crStep = ''deploy'', crID = ''D6'', crName = ''chain ID'', crStatus = PASS, crMessage = ''114'', crFix = []\<rparr>,
      \<lparr>crStep = ''test'', crID = ''E1'', crName = ''sender'', crStatus = FAIL, crMessage = ''bad'', crFix = ''fix''\<rparr>,
      \<lparr>crStep = ''deploy'', crID = ''D7'', crName = ''env'', crStatus = SKIP, crMessage = [], crFix = []\<rparr>]\<rparr>"



end
