(* ===== verification/Checks.thy ===== *)
theory Checks
  imports Report
begin

text \<open>
  The deployment checks (\<open>tools/pkg/validate/validate.go\<close> and \<open>checks.go\<close>).  What the checks read of the
  world is a record of parameters: environment variables, files (the lines their scanner yields), TCP and HTTP
  probes, and the views of the chain's contracts.  A Go map is a list of its entries in the order an iteration
  meets them; two iterations over one map take two such lists.
\<close>

section \<open>What the checks read\<close>

record eth_view =
  evCodeAt :: "address \<Rightarrow> string + bytes"
  evBalanceAt :: "address \<Rightarrow> string + int"
  evChainID :: "string + int"

record registry =
  rgNextPublicExtensionId :: "string + int"
  rgInstructionsSender :: "int \<Rightarrow> string + address"
  rgIsKeyTypeSupported :: "int \<Rightarrow> hash32 \<Rightarrow> string + bool"

record host =
  hGetenv :: "string \<Rightarrow> string"
  hOpen :: "string \<Rightarrow> string list option"   \<comment> \<open>the lines of a file that opens\<close>
  hNotExist :: "string \<Rightarrow> bool"            \<comment> \<open>\<open>os.IsNotExist\<close> of \<open>os.Stat\<close>\<close>
  hDial :: "string \<Rightarrow> bool"                \<comment> \<open>a TCP connection succeeds\<close>
  hGet :: "string \<Rightarrow> nat option"           \<comment> \<open>the status of an HTTP GET that was answered\<close>
  hHex :: "address \<Rightarrow> string"              \<comment> \<open>\<open>common.Address.Hex\<close>\<close>
  hHexToAddress :: "string \<Rightarrow> address"     \<comment> \<open>\<open>common.HexToAddress\<close>\<close>
  hQuote :: "string \<Rightarrow> string"             \<comment> \<open>the verb \<open>%q\<close>\<close>
  hEVMType :: hash32                   \<comment> \<open>\<open>wallets.EVMType\<close>\<close>

text \<open>Go strings are byte strings; the dash of the messages is three bytes of UTF-8.\<close>

definition dash :: string where "dash = [CHR 0xE2, CHR 0x80, CHR 0x94]"

definition result :: "string \<Rightarrow> string \<Rightarrow> string \<Rightarrow> Status \<Rightarrow> string \<Rightarrow> string \<Rightarrow> CheckResult" where
  "result step i name status message fix1 =
     \<lparr>crStep = step, crID = i, crName = name, crStatus = status, crMessage = message, crFix = fix1\<rparr>"

section \<open>Elementary checks (validate.go)\<close>

definition MinDeployBalance :: int where "MinDeployBalance = 10000000000000000"

definition AddressNotZero :: "host \<Rightarrow> address \<Rightarrow> string \<Rightarrow> string option" where
  "AddressNotZero h addr label =
     (if addr = 0
      then Some (label @ '' is the zero address ('' @ hHex h addr @ '') in the addresses file'')
      else None)"

definition AddressHasCode :: "host \<Rightarrow> eth_view option \<Rightarrow> address \<Rightarrow> string \<Rightarrow> string option" where
  "AddressHasCode h client addr label =
     (case client of
        None \<Rightarrow> Some (''cannot check '' @ label @ '': no chain client connected'')
      | Some c \<Rightarrow>
     (case evCodeAt c addr of
        Inl e \<Rightarrow> Some (''cannot check '' @ label @ '': '' @ e)
      | Inr code \<Rightarrow>
          if code = [] then
            Some (label @ '' at '' @ hHex h addr @ '' has no deployed code. ''
              @ ''This address will be set as immutable in the contract constructor and cannot be changed. ''
              @ ''Check your deployed-addresses.json file '' @ dash @ '' are you on the right network?'')
          else None))"

text \<open>The key is represented by the address of its public key, the only thing that is read of it.\<close>

definition KeyHasFunds :: "host \<Rightarrow> eth_view option \<Rightarrow> address \<Rightarrow> int \<Rightarrow> string option" where
  "KeyHasFunds h client addr minWei =
     (case client of
        None \<Rightarrow> Some ''cannot check deployer balance: no chain client connected''
      | Some c \<Rightarrow>
     (case evBalanceAt c addr of
        Inl e \<Rightarrow> Some (''cannot check deployer balance: '' @ e)
      | Inr balance \<Rightarrow>
          if balance < minWei then
            Some (''deployer '' @ hHex h addr @ '' has insufficient funds (balance: '' @ int_string balance
              @ '' wei, minimum required: '' @ int_string minWei @ '' wei). Fund this account before deploying'')
          else None))"

definition IsUsingDevKey :: "host \<Rightarrow> bool" where
  "IsUsingDevKey h \<longleftrightarrow> hGetenv h ''DEPLOYMENT_PRIVATE_KEY'' = []"

section \<open>The environment file\<close>

definition is_hex :: "char \<Rightarrow> bool" where "is_hex c \<longleftrightarrow> hex_value c \<noteq> None"

definition match_hex :: "nat \<Rightarrow> string \<Rightarrow> bool" where
  "match_hex n s \<longleftrightarrow> take 2 s = ''0x'' \<and> length s = n + 2 \<and> list_all is_hex (drop 2 s)"

definition addressRegex :: "string \<Rightarrow> bool" where "addressRegex = match_hex 40"
definition extensionIDRegex :: "string \<Rightarrow> bool" where "extensionIDRegex = match_hex 64"

text \<open>\<open>strings.SplitN(line, "=", 2)\<close> when it yields two parts.\<close>

definition split_pair :: "string \<Rightarrow> (string \<times> string) option" where
  "split_pair line =
     (if CHR ''='' \<in> set line
      then Some (takeWhile (\<lambda>c. c \<noteq> CHR ''='') line, tl (dropWhile (\<lambda>c. c \<noteq> CHR ''='') line))
      else None)"

fun read_vars :: "string list \<Rightarrow> (string \<rightharpoonup> string) \<Rightarrow> string \<rightharpoonup> string" where
  "read_vars [] vars = vars"
| "read_vars (raw # ls) vars =
     (let line = trim_space raw in
      if line = [] \<or> has_prefix line ''#'' then read_vars ls vars
      else case split_pair line of
          None \<Rightarrow> read_vars ls vars
        | Some (k, v) \<Rightarrow> read_vars ls (vars(trim_space k \<mapsto> trim_space v)))"

definition env_fix :: string where
  "env_fix = ''Delete config/extension.env and re-run scripts/pre-build.sh''"

definition check_var :: "host \<Rightarrow> string \<Rightarrow> (string \<Rightarrow> bool) \<Rightarrow> (string \<rightharpoonup> string) \<Rightarrow> CheckResult" where
  "check_var h key regex vars =
     (case vars key of
        None \<Rightarrow> result ''deploy'' ''D7'' (key @ '' in extension.env'') FAIL
          (key @ '' not found in extension.env'') env_fix
      | Some val \<Rightarrow>
          if \<not> regex val then
            result ''deploy'' ''D7'' (key @ '' in extension.env'') FAIL
              (key @ '' has invalid format: '' @ hQuote h val) env_fix
          else result ''deploy'' ''D7'' (key @ '' in extension.env'') PASS val [])"

definition CheckExtensionEnvFormat :: "host \<Rightarrow> string \<Rightarrow> CheckResult list" where
  "CheckExtensionEnvFormat h path =
     (case hOpen h path of
        None \<Rightarrow> [result ''deploy'' ''D7'' ''extension.env exists'' SKIP (''file not found: '' @ path) []]
      | Some ls \<Rightarrow>
          let vars = read_vars ls Map.empty
          in [check_var h ''INSTRUCTION_SENDER'' addressRegex vars,
              check_var h ''EXTENSION_ID'' extensionIDRegex vars])"

fun parse_lines :: "string list \<Rightarrow> string \<times> string \<Rightarrow> string \<times> string" where
  "parse_lines [] out = out"
| "parse_lines (raw # ls) (extensionID, instructionSender) =
     (let line = trim_space raw in
      if line = [] \<or> has_prefix line ''#'' then parse_lines ls (extensionID, instructionSender)
      else case split_pair line of
          None \<Rightarrow> parse_lines ls (extensionID, instructionSender)
        | Some (k, v) \<Rightarrow>
            let key = trim_space k; val = trim_space v in
            if key = ''EXTENSION_ID'' then parse_lines ls (val, instructionSender)
            else if key = ''INSTRUCTION_SENDER'' then parse_lines ls (extensionID, val)
            else parse_lines ls (extensionID, instructionSender))"

text \<open>The error result of the code is always nil.\<close>

definition parseExtensionEnv :: "host \<Rightarrow> string \<Rightarrow> string \<times> string" where
  "parseExtensionEnv h path =
     (case hOpen h path of None \<Rightarrow> ([], []) | Some ls \<Rightarrow> parse_lines ls ([], []))"

section \<open>Deployment checks\<close>

definition CheckDeployerKeySource :: "host \<Rightarrow> CheckResult" where
  "CheckDeployerKeySource h =
     (if hGetenv h ''DEPLOYMENT_PRIVATE_KEY'' \<noteq> [] then
        result ''deploy'' ''D5'' ''deployer key source'' PASS ''DEPLOYMENT_PRIVATE_KEY is set'' []
      else
        let localMode = hGetenv h ''LOCAL_MODE'' in
        if localMode = ''true'' \<or> localMode = [] then
          result ''deploy'' ''D5'' ''deployer key source'' PASS ''using Hardhat dev key (LOCAL_MODE)'' []
        else
          result ''deploy'' ''D5'' ''deployer key source'' WARN
            (''DEPLOYMENT_PRIVATE_KEY not set '' @ dash @ '' using Hardhat dev key which has no funds on Coston2'')
            ''Set DEPLOYMENT_PRIVATE_KEY in .env to a funded account on the target network'')"

definition chainName :: "int \<Rightarrow> string" where
  "chainName i =
     (let s = int_string i in
      if s = ''31337'' then ''Hardhat/Anvil (local devnet)''
      else if s = ''114'' then ''Coston2 (testnet)''
      else if s = ''14'' then ''Flare (mainnet)''
      else ''unknown network'')"

definition checkChainID :: "eth_view \<Rightarrow> CheckResult" where
  "checkChainID client =
     (case evChainID client of
        Inl e \<Rightarrow> result ''deploy'' ''D6'' ''chain ID'' FAIL (''failed to get chain ID: '' @ e) ''Check CHAIN_URL''
      | Inr chainID \<Rightarrow> result ''deploy'' ''D6'' ''chain ID'' PASS
          (''chain ID '' @ int_string chainID @ '' ('' @ chainName chainID @ '')'') [])"

text \<open>The first loop adds the D3 results and collects the labels with a zero address.\<close>

fun check_zero :: "host \<Rightarrow> (string \<times> address) list \<Rightarrow> Report \<times> string set \<Rightarrow> Report \<times> string set" where
  "check_zero h [] st = st"
| "check_zero h ((label, addr) # rest) (r, zeroAddrs) =
     (case AddressNotZero h addr label of
        Some e \<Rightarrow> check_zero h rest
          (Add (result ''deploy'' ''D3'' (label @ '' address not zero'') FAIL e
             ''Re-run the deploy script or check deployed-addresses.json'') r, insert label zeroAddrs)
      | None \<Rightarrow> check_zero h rest
          (Add (result ''deploy'' ''D3'' (label @ '' address not zero'') PASS (hHex h addr) []) r, zeroAddrs))"

fun check_code :: "host \<Rightarrow> eth_view option \<Rightarrow> string set \<Rightarrow> (string \<times> address) list \<Rightarrow> Report \<Rightarrow> Report" where
  "check_code h client zeroAddrs [] r = r"
| "check_code h client zeroAddrs ((label, addr) # rest) r =
     (if label \<in> zeroAddrs then check_code h client zeroAddrs rest r
      else check_code h client zeroAddrs rest
        (case AddressHasCode h client addr label of
           Some e \<Rightarrow> Add (result ''deploy'' ''D1'' (label @ '' has deployed code'') FAIL e
             ''Deploy contracts or check CHAIN_URL / deployed-addresses.json'') r
         | None \<Rightarrow> Add (result ''deploy'' ''D1'' (label @ '' has deployed code'') PASS
             (''code found at '' @ hHex h addr) []) r))"

definition RegisterDeployChecks ::
  "host \<Rightarrow> eth_view option \<Rightarrow> address option \<Rightarrow> (string \<times> address) list \<Rightarrow> (string \<times> address) list \<Rightarrow> string
     \<Rightarrow> Report \<Rightarrow> Report" where
  "RegisterDeployChecks h client key order1 order2 extensionEnvPath r =
     (let (r, zeroAddrs) = check_zero h order1 (r, {});
          r = check_code h client zeroAddrs order2 r;
          r = Add (CheckDeployerKeySource h) r;
          r = (case (key, client) of
                 (Some addr, Some c) \<Rightarrow>
                   (case KeyHasFunds h client addr MinDeployBalance of
                      Some e \<Rightarrow> Add (result ''deploy'' ''D5'' ''deployer has sufficient funds'' FAIL e
                        ''Fund the deployer account before deploying'') r
                    | None \<Rightarrow> Add (result ''deploy'' ''D5'' ''deployer has sufficient funds'' PASS
                        ''balance above minimum threshold'' []) r)
               | _ \<Rightarrow> r);
          r = (case client of Some c \<Rightarrow> Add (checkChainID c) r | None \<Rightarrow> r)
      in if extensionEnvPath \<noteq> [] then fold Add (CheckExtensionEnvFormat h extensionEnvPath) r else r)"

section \<open>Registration checks\<close>

text \<open>The hexadecimal number after the prefix, which the pattern has checked.\<close>

definition hex_number :: "string \<Rightarrow> int" where
  "hex_number s = int (horner 16 (map (\<lambda>c. case hex_value c of Some d \<Rightarrow> d | None \<Rightarrow> 0) s))"

definition check_R1 :: "registry \<Rightarrow> CheckResult" where
  "check_R1 registry =
     (case rgNextPublicExtensionId registry of
        Inl e \<Rightarrow> result ''register'' ''R1'' ''next public extension id'' FAIL
          (''failed to query nextPublicExtensionId: '' @ e) []
      | Inr counter \<Rightarrow>
          if counter = 0 then result ''register'' ''R1'' ''next public extension id'' WARN
            (''nextPublicExtensionId is 0 '' @ dash @ '' no public extensions registered yet'') []
          else result ''register'' ''R1'' ''next public extension id'' PASS
            (''nextPublicExtensionId = '' @ int_string counter) [])"

definition check_R2 :: "host \<Rightarrow> registry \<Rightarrow> int \<Rightarrow> string \<Rightarrow> CheckResult" where
  "check_R2 h registry extensionID instrSender =
     (case rgInstructionsSender registry extensionID of
        Inl e \<Rightarrow> result ''register'' ''R2'' ''instruction sender matches on-chain'' FAIL
          (''failed to query instruction sender: '' @ e) []
      | Inr onChainSender \<Rightarrow>
          if onChainSender = hHexToAddress h instrSender then
            result ''register'' ''R2'' ''instruction sender matches on-chain'' PASS
              (''on-chain sender '' @ hHex h onChainSender @ '' matches extension.env'') []
          else
            result ''register'' ''R2'' ''instruction sender matches on-chain'' FAIL
              (''on-chain sender '' @ hHex h onChainSender @ '' != extension.env '' @ instrSender)
              ''Re-register the extension or update extension.env'')"

definition check_R3 :: "(int \<Rightarrow> address \<Rightarrow> string + bool) \<Rightarrow> int \<Rightarrow> address \<Rightarrow> CheckResult" where
  "check_R3 isAllowed extensionID deployerAddr =
     (case isAllowed extensionID deployerAddr of
        Inl e \<Rightarrow> result ''register'' ''R3'' ''deployer is allowed TEE machine owner'' FAIL
          (''failed to query allowlist: '' @ e) []
      | Inr allowed \<Rightarrow>
          if allowed then
            result ''register'' ''R3'' ''deployer is allowed TEE machine owner'' PASS
              ''deployer is on the TEE machine owner allowlist'' []
          else
            result ''register'' ''R3'' ''deployer is allowed TEE machine owner'' FAIL
              ''deployer is NOT on the TEE machine owner allowlist''
              ''Run the register step to add the deployer as a TEE machine owner'')"

definition check_R4 :: "host \<Rightarrow> registry \<Rightarrow> int \<Rightarrow> CheckResult" where
  "check_R4 h registry extensionID =
     (case rgIsKeyTypeSupported registry extensionID (hEVMType h) of
        Inl e \<Rightarrow> result ''register'' ''R4'' ''EVM key type supported'' FAIL
          (''failed to query key type support: '' @ e) []
      | Inr supported \<Rightarrow>
          if supported then
            result ''register'' ''R4'' ''EVM key type supported'' PASS
              ''EVM key type is supported for this extension'' []
          else
            result ''register'' ''R4'' ''EVM key type supported'' FAIL
              ''EVM key type is NOT supported for this extension''
              ''Run the register step to add EVM key type support'')"

text \<open>\<open>counter.Int64()\<close> keeps the low 64 bits.\<close>

definition matching_ids :: "registry \<Rightarrow> int \<Rightarrow> address \<Rightarrow> string list" where
  "matching_ids registry counter expectedAddr =
     map (int_string \<circ> int)
       (filter (\<lambda>i. rgInstructionsSender registry (int i) = Inr expectedAddr)
         [0 ..< nat (sint (word_of_int counter :: u64))])"

fun join :: "string list \<Rightarrow> string \<Rightarrow> string" where
  "join [] sep = []"
| "join [x] sep = x"
| "join (x # y # xs) sep = x @ sep @ join (y # xs) sep"

definition check_R7 :: "host \<Rightarrow> registry \<Rightarrow> int \<Rightarrow> string \<Rightarrow> CheckResult" where
  "check_R7 h registry counter instrSender =
     (let matchingIDs = matching_ids registry counter (hHexToAddress h instrSender) in
      if length matchingIDs > 1 then
        result ''register'' ''R7'' ''unique instruction sender'' WARN
          (''INSTRUCTION_SENDER '' @ instrSender @ '' is used by multiple extensions: '' @ join matchingIDs '', '') []
      else
        result ''register'' ''R7'' ''unique instruction sender'' PASS
          ''instruction sender is unique across registered extensions'' [])"

definition RegisterRegistrationChecks ::
  "host \<Rightarrow> bool \<Rightarrow> address option \<Rightarrow> registry option \<Rightarrow> (int \<Rightarrow> address \<Rightarrow> string + bool) option \<Rightarrow> string
     \<Rightarrow> Report \<Rightarrow> Report" where
  "RegisterRegistrationChecks h hasClient key registry allowlist extensionEnvPath r =
     (if extensionEnvPath = [] then
        Add (result ''register'' ''R1-R7'' ''registration checks'' SKIP ''no --config path provided'' []) r
      else
      let (extIDStr, instrSender) = parseExtensionEnv h extensionEnvPath in
      if extIDStr = [] \<and> instrSender = [] then
        Add (result ''register'' ''R1-R7'' ''registration checks'' SKIP
          (''config/extension.env not found '' @ dash @ '' run pre-build.sh first'') []) r
      else
      let rg = (if hasClient then registry else None);
          r = (case rg of Some g \<Rightarrow> Add (check_R1 g) r | None \<Rightarrow> r);
          counter = (case rg of
                       Some g \<Rightarrow> (case rgNextPublicExtensionId g of Inl _ \<Rightarrow> None | Inr c \<Rightarrow> Some c)
                     | None \<Rightarrow> None)
      in if \<not> extensionIDRegex extIDStr then
           Add (result ''register'' ''R2'' ''EXTENSION_ID format'' FAIL
             (''malformed EXTENSION_ID: '' @ hQuote h extIDStr) env_fix) r
         else
         let extensionID = hex_number (drop 2 extIDStr);
             r = (case rg of
                    Some g \<Rightarrow> if addressRegex instrSender then Add (check_R2 h g extensionID instrSender) r else r
                  | None \<Rightarrow> r);
             r = (case (key, allowlist) of
                    (Some addr, Some al) \<Rightarrow> if hasClient then Add (check_R3 al extensionID addr) r else r
                  | _ \<Rightarrow> r);
             r = (case rg of Some g \<Rightarrow> Add (check_R4 h g extensionID) r | None \<Rightarrow> r)
         in (case (rg, counter) of
               (Some g, Some c) \<Rightarrow>
                 if c > 0 \<and> addressRegex instrSender then Add (check_R7 h g c instrSender) r else r
             | _ \<Rightarrow> r))"

section \<open>Services checks\<close>

text \<open>The GET of \<open>url/info\<close> answered 200.\<close>

definition info_ok :: "host \<Rightarrow> string \<Rightarrow> bool" where
  "info_ok h url = (hGet h (url @ ''/info'') = Some 200)"

definition check_S2 :: "host \<Rightarrow> string \<Rightarrow> CheckResult" where
  "check_S2 h extensionEnvPath =
     (if extensionEnvPath = [] then
        result ''services'' ''S2'' ''EXTENSION_ID is set and well-formed'' SKIP ''run pre-build.sh first'' []
      else
        let extID = fst (parseExtensionEnv h extensionEnvPath) in
        if extID = [] then
          result ''services'' ''S2'' ''EXTENSION_ID is set and well-formed'' FAIL
            ''EXTENSION_ID is empty or not found in extension.env'' env_fix
        else if \<not> extensionIDRegex extID then
          result ''services'' ''S2'' ''EXTENSION_ID is set and well-formed'' FAIL
            (''EXTENSION_ID has invalid format: '' @ hQuote h extID) env_fix
        else result ''services'' ''S2'' ''EXTENSION_ID is set and well-formed'' PASS extID [])"

definition check_S5 :: "host \<Rightarrow> CheckResult" where
  "check_S5 h =
     (let port = (let p = hGetenv h ''EXTENSION_PORT'' in if p = [] then ''7702'' else p) in
      if hDial h (''localhost:'' @ port) then
        result ''services'' ''S5'' ''extension port not in use'' WARN
          (''port '' @ port @ '' is already in use '' @ dash @ '' extension server will fail to bind'')
          ''Stop the process using that port or change EXTENSION_PORT''
      else result ''services'' ''S5'' ''extension port not in use'' PASS ''port available'' [])"

definition check_S7 :: "host \<Rightarrow> CheckResult" where
  "check_S7 h =
     (let extPort = hGetenv h ''EXTENSION_PORT''; signPort = hGetenv h ''SIGN_PORT'' in
      if extPort \<noteq> [] \<or> signPort \<noteq> [] then
        result ''services'' ''S7'' ''port configuration'' PASS
          (''EXTENSION_PORT='' @ extPort @ '', SIGN_PORT='' @ signPort) []
      else
        result ''services'' ''S7'' ''port configuration'' PASS
          ''using defaults (standalone: 8080/9090, Docker: 7702/7701)'' [])"

definition check_S9 :: "host \<Rightarrow> CheckResult" where
  "check_S9 h =
     (let proxyURL = hGetenv h ''EXT_PROXY_URL'' in
      if proxyURL = [] then
        result ''services'' ''S9'' ''EXT_PROXY_URL reachable'' SKIP ''EXT_PROXY_URL not set'' []
      else if info_ok h proxyURL then
        result ''services'' ''S9'' ''EXT_PROXY_URL reachable'' PASS (''proxy reachable at '' @ proxyURL) []
      else
        result ''services'' ''S9'' ''EXT_PROXY_URL reachable'' WARN
          (''proxy not reachable at '' @ proxyURL @ '' '' @ dash @ '' is the proxy running?'')
          ''Start the proxy or check EXT_PROXY_URL'')"

definition check_S10 :: "host \<Rightarrow> CheckResult" where
  "check_S10 h =
     (let localMode = hGetenv h ''LOCAL_MODE''; privateKey = hGetenv h ''PROXY_PRIVATE_KEY'' in
      if localMode = ''true'' \<or> localMode = [] then
        result ''services'' ''S10'' ''PROXY_PRIVATE_KEY set on non-local'' PASS ''local mode, dev key OK'' []
      else if localMode = ''false'' \<and> privateKey = [] then
        result ''services'' ''S10'' ''PROXY_PRIVATE_KEY set on non-local'' WARN
          (''PROXY_PRIVATE_KEY not set in non-local mode '' @ dash @ '' proxy will use default key'')
          ''Set PROXY_PRIVATE_KEY in .env for non-local deployments''
      else
        result ''services'' ''S10'' ''PROXY_PRIVATE_KEY set on non-local'' PASS
          ''PROXY_PRIVATE_KEY is configured'' [])"

definition RegisterServicesChecks :: "host \<Rightarrow> string \<Rightarrow> Report \<Rightarrow> Report" where
  "RegisterServicesChecks h extensionEnvPath r =
     Add (check_S10 h) (Add (check_S9 h) (Add (check_S7 h) (Add (check_S5 h)
       (Add (check_S2 h extensionEnvPath) r))))"

section \<open>TEE version, machine and test checks\<close>

definition check_V2 :: "host \<Rightarrow> CheckResult" where
  "check_V2 h =
     (let extOwnerKey = hGetenv h ''EXTENSION_OWNER_KEY'';
          privKey = hGetenv h ''DEPLOYMENT_PRIVATE_KEY'';
          localMode = hGetenv h ''LOCAL_MODE'' in
      if extOwnerKey \<noteq> [] then
        result ''tee-version'' ''V2'' ''extension owner key'' PASS ''EXTENSION_OWNER_KEY is configured'' []
      else if privKey \<noteq> [] then
        result ''tee-version'' ''V2'' ''extension owner key'' PASS
          ''using DEPLOYMENT_PRIVATE_KEY (EXTENSION_OWNER_KEY not set)'' []
      else if localMode \<noteq> ''true'' \<and> localMode \<noteq> [] then
        result ''tee-version'' ''V2'' ''extension owner key'' WARN
          (''neither EXTENSION_OWNER_KEY nor DEPLOYMENT_PRIVATE_KEY set '' @ dash
            @ '' AddTeeVersion will use dev key which isn'' @ [CHR 0x27] @ ''t the extension owner on Coston2'')
          ''Set EXTENSION_OWNER_KEY or DEPLOYMENT_PRIVATE_KEY in .env''
      else result ''tee-version'' ''V2'' ''extension owner key'' PASS ''using dev key (local mode)'' [])"

definition check_V4 :: "host \<Rightarrow> string \<Rightarrow> CheckResult" where
  "check_V4 h extensionEnvPath =
     (if extensionEnvPath = [] then
        result ''tee-version'' ''V4'' ''EXTENSION_ID valid'' SKIP ''no --config provided'' []
      else
        let extID = fst (parseExtensionEnv h extensionEnvPath) in
        if extID = [] then
          (if hNotExist h extensionEnvPath then
             result ''tee-version'' ''V4'' ''EXTENSION_ID valid'' SKIP
               (''extension.env not found '' @ dash @ '' run pre-build.sh first'') []
           else result ''tee-version'' ''V4'' ''EXTENSION_ID valid'' FAIL ''EXTENSION_ID not set'' env_fix)
        else if \<not> extensionIDRegex extID then
          result ''tee-version'' ''V4'' ''EXTENSION_ID valid'' FAIL ''EXTENSION_ID malformed'' env_fix
        else result ''tee-version'' ''V4'' ''EXTENSION_ID valid'' PASS extID [])"

definition check_V6 :: "host \<Rightarrow> CheckResult" where
  "check_V6 h =
     (let proxyURL = hGetenv h ''EXT_PROXY_URL'' in
      if proxyURL = [] then
        result ''tee-version'' ''V6'' ''proxy reachable'' SKIP
          (''EXT_PROXY_URL not set '' @ dash @ '' allow-tee-version uses -p flag'') []
      else if info_ok h proxyURL then
        result ''tee-version'' ''V6'' ''proxy reachable'' PASS (''proxy reachable at '' @ proxyURL) []
      else
        result ''tee-version'' ''V6'' ''proxy reachable'' WARN
          (''proxy not reachable at '' @ proxyURL @ '' '' @ dash @ '' start services first'')
          ''Start the proxy or check EXT_PROXY_URL'')"

definition RegisterTeeVersionChecks :: "host \<Rightarrow> string \<Rightarrow> Report \<Rightarrow> Report" where
  "RegisterTeeVersionChecks h extensionEnvPath r =
     Add (check_V6 h) (Add (check_V4 h extensionEnvPath) (Add (check_V2 h) r))"

definition check_T1 :: "host \<Rightarrow> CheckResult" where
  "check_T1 h =
     (let simulatedTee = hGetenv h ''SIMULATED_TEE''; localMode = hGetenv h ''LOCAL_MODE'' in
      if simulatedTee = ''true'' \<and> localMode = ''false'' then
        result ''tee-machine'' ''T1'' ''SIMULATED_TEE mode'' WARN
          (''SIMULATED_TEE=true on non-local deployment '' @ dash
            @ '' machine will be registered with test attestation values. ''
            @ ''Set SIMULATED_TEE=false for real TEE hardware'')
          ''Set SIMULATED_TEE=false in .env when deploying to a real GCP TEE''
      else if simulatedTee = ''true'' then
        result ''tee-machine'' ''T1'' ''SIMULATED_TEE mode'' PASS ''simulated TEE mode (local)'' []
      else result ''tee-machine'' ''T1'' ''SIMULATED_TEE mode'' PASS ''real attestation mode'' [])"

definition check_T5 :: "host \<Rightarrow> CheckResult" where
  "check_T5 h =
     (let normalProxyURL = hGetenv h ''NORMAL_PROXY_URL'' in
      if normalProxyURL = [] then
        result ''tee-machine'' ''T5'' ''NORMAL_PROXY_URL reachable'' SKIP ''NORMAL_PROXY_URL not set'' []
      else if info_ok h normalProxyURL then
        result ''tee-machine'' ''T5'' ''NORMAL_PROXY_URL reachable'' PASS
          (''normal proxy reachable at '' @ normalProxyURL) []
      else
        result ''tee-machine'' ''T5'' ''NORMAL_PROXY_URL reachable'' WARN
          (''normal proxy not reachable at '' @ normalProxyURL @ '' '' @ dash
            @ '' required for FTDC availability check'')
          ''Ensure the normal/FTDC proxy is running and NORMAL_PROXY_URL is correct in .env'')"

definition check_T10 :: "host \<Rightarrow> CheckResult" where
  "check_T10 h =
     (let extProxyURL = hGetenv h ''EXT_PROXY_URL'' in
      if extProxyURL = [] then
        result ''tee-machine'' ''T10'' ''host URL reachable'' SKIP ''EXT_PROXY_URL not set'' []
      else if info_ok h extProxyURL then
        result ''tee-machine'' ''T10'' ''host URL reachable'' PASS (''host URL reachable at '' @ extProxyURL) []
      else
        result ''tee-machine'' ''T10'' ''host URL reachable'' WARN
          (''host URL not reachable at '' @ extProxyURL @ '' '' @ dash
            @ '' machine will be registered with unreachable host. Data providers can'' @ [CHR 0x27]
            @ ''t relay instructions'')
          ''Ensure the host is accessible and EXT_PROXY_URL or -h flag points to the right URL'')"

definition RegisterTeeMachineChecks :: "host \<Rightarrow> string \<Rightarrow> Report \<Rightarrow> Report" where
  "RegisterTeeMachineChecks h extensionEnvPath r = Add (check_T10 h) (Add (check_T5 h) (Add (check_T1 h) r))"

definition check_E1 :: "host \<Rightarrow> string \<Rightarrow> CheckResult" where
  "check_E1 h extensionEnvPath =
     (if extensionEnvPath = [] then
        result ''test'' ''E1'' ''INSTRUCTION_SENDER valid'' SKIP ''no --config provided'' []
      else
        let instrSender = snd (parseExtensionEnv h extensionEnvPath) in
        if hNotExist h extensionEnvPath then
          result ''test'' ''E1'' ''INSTRUCTION_SENDER valid'' SKIP
            (''extension.env not found '' @ dash @ '' run pre-build.sh first'') []
        else if instrSender = [] then
          result ''test'' ''E1'' ''INSTRUCTION_SENDER valid'' FAIL
            (''INSTRUCTION_SENDER not set '' @ dash @ '' run pre-build.sh'')
            ''Run scripts/pre-build.sh to deploy and register the extension''
        else if \<not> addressRegex instrSender then
          result ''test'' ''E1'' ''INSTRUCTION_SENDER valid'' FAIL ''INSTRUCTION_SENDER malformed'' env_fix
        else result ''test'' ''E1'' ''INSTRUCTION_SENDER valid'' PASS instrSender [])"

definition check_E3 :: "host \<Rightarrow> CheckResult" where
  "check_E3 h =
     (let proxyURL = hGetenv h ''EXT_PROXY_URL'' in
      if proxyURL = [] then
        result ''test'' ''E3'' ''proxy reachable for test results'' SKIP ''EXT_PROXY_URL not set'' []
      else if info_ok h proxyURL then
        result ''test'' ''E3'' ''proxy reachable for test results'' PASS
          ''proxy reachable for test result polling'' []
      else
        result ''test'' ''E3'' ''proxy reachable for test results'' WARN
          (''proxy not reachable '' @ dash @ '' test results cannot be polled'')
          ''Start the proxy or check EXT_PROXY_URL'')"

definition check_E6 :: CheckResult where
  "check_E6 =
     result ''test'' ''E6'' ''OPType/OPCommand alignment info'' PASS
       (''OPType/OPCommand hashes are validated at runtime '' @ dash
         @ '' if a 501 error occurs, check the hash values in the error message'') []"

definition RegisterTestChecks :: "host \<Rightarrow> string \<Rightarrow> Report \<Rightarrow> Report" where
  "RegisterTestChecks h extensionEnvPath r = Add check_E6 (Add (check_E3 h) (Add (check_E1 h extensionEnvPath) r))"

definition RegisterStubChecks :: "string \<Rightarrow> string \<Rightarrow> string \<Rightarrow> Report \<Rightarrow> Report" where
  "RegisterStubChecks step idRange name r = Add (result step idRange name SKIP ''not yet implemented'' []) r"

end
