(* ===== verification/ChecksProps.thy ===== *)
theory ChecksProps
  imports Checks
begin

text \<open>
  What the deployment checks promise: they only append well-formed results, the deployment verdict is exactly
  the conjunction of the conditions it stands for, and the two readers of \<open>extension.env\<close> agree.
\<close>

section \<open>Appending\<close>

lemma result_simps [simp]:
  "crStep (result s i n st m f) = s" "crID (result s i n st m f) = i" "crName (result s i n st m f) = n"
  "crStatus (result s i n st m f) = st" "crMessage (result s i n st m f) = m" "crFix (result s i n st m f) = f"
  by (simp_all add: result_def)

definition appends :: "Report \<Rightarrow> CheckResult list \<Rightarrow> Report" where
  "appends r rs = r\<lparr>Results := Results r @ rs\<rparr>"

lemma appends_simps [simp]:
  "Results (appends r rs) = Results r @ rs" "appends (appends r rs) ss = appends r (rs @ ss)"
  "appends r [] = r" "Add x r = appends r [x]"
  by (simp_all add: appends_def Add_def)

lemma fold_Add [simp]: "fold Add rs r = appends r rs"
  by (induction rs arbitrary: r) simp_all

lemma HasFailures_appends: "HasFailures (appends r rs) \<longleftrightarrow> HasFailures r \<or> (\<exists>res \<in> set rs. crStatus res = FAIL)"
  by (auto simp: HasFailures_def list_ex_iff)

definition zero_result :: "host \<Rightarrow> string \<times> address \<Rightarrow> CheckResult" where
  "zero_result h la =
     (case AddressNotZero h (snd la) (fst la) of
        Some e \<Rightarrow> result ''deploy'' ''D3'' (fst la @ '' address not zero'') FAIL e
          ''Re-run the deploy script or check deployed-addresses.json''
      | None \<Rightarrow> result ''deploy'' ''D3'' (fst la @ '' address not zero'') PASS (hHex h (snd la)) [])"

definition code_result :: "host \<Rightarrow> eth_view option \<Rightarrow> string \<times> address \<Rightarrow> CheckResult" where
  "code_result h client la =
     (case AddressHasCode h client (snd la) (fst la) of
        Some e \<Rightarrow> result ''deploy'' ''D1'' (fst la @ '' has deployed code'') FAIL e
          ''Deploy contracts or check CHAIN_URL / deployed-addresses.json''
      | None \<Rightarrow> result ''deploy'' ''D1'' (fst la @ '' has deployed code'') PASS
          (''code found at '' @ hHex h (snd la)) [])"

lemma check_zero_eq:
  "check_zero h xs (r, Z) = (appends r (map (zero_result h) xs), Z \<union> fst ` {la \<in> set xs. snd la = 0})"
proof (induction xs arbitrary: r Z)
  case (Cons x xs)
  obtain l a where x: "x = (l, a)" by (cases x)
  have "{la \<in> set (x # xs). snd la = 0} = (if a = 0 then insert x {la \<in> set xs. snd la = 0}
      else {la \<in> set xs. snd la = 0})"
    using x by auto
  then have "fst ` {la \<in> set (x # xs). snd la = 0} = (if a = 0 then insert l (fst ` {la \<in> set xs. snd la = 0})
      else fst ` {la \<in> set xs. snd la = 0})"
    using x by simp
  then show ?case
    using x Cons.IH by (simp add: zero_result_def AddressNotZero_def del: set_simps)
qed simp

lemma check_code_eq:
  "check_code h client Z xs r = appends r (map (code_result h client) (filter (\<lambda>la. fst la \<notin> Z) xs))"
proof (induction xs arbitrary: r)
  case (Cons x xs)
  then show ?case
    by (cases x) (auto simp: code_result_def split: option.split)
qed simp

definition funds_results :: "host \<Rightarrow> eth_view option \<Rightarrow> address option \<Rightarrow> CheckResult list" where
  "funds_results h client key =
     (case (key, client) of
        (Some addr, Some c) \<Rightarrow>
          (case KeyHasFunds h client addr MinDeployBalance of
             Some e \<Rightarrow> [result ''deploy'' ''D5'' ''deployer has sufficient funds'' FAIL e
               ''Fund the deployer account before deploying'']
           | None \<Rightarrow> [result ''deploy'' ''D5'' ''deployer has sufficient funds'' PASS
               ''balance above minimum threshold'' []])
      | _ \<Rightarrow> [])"

lemma deploy_eq:
  "RegisterDeployChecks h client key o1 o2 path r = appends r
     (map (zero_result h) o1
      @ map (code_result h client) (filter (\<lambda>la. fst la \<notin> fst ` {la \<in> set o1. snd la = 0}) o2)
      @ [CheckDeployerKeySource h] @ funds_results h client key
      @ (case client of Some c \<Rightarrow> [checkChainID c] | None \<Rightarrow> [])
      @ (if path \<noteq> [] then CheckExtensionEnvFormat h path else []))"
  by (simp add: RegisterDeployChecks_def check_zero_eq check_code_eq funds_results_def Let_def split: option.split)

section \<open>When a deployment check fails\<close>

lemma zero_result_FAIL: "crStatus (zero_result h la) = FAIL \<longleftrightarrow> snd la = 0"
  by (simp add: zero_result_def AddressNotZero_def)

lemma code_result_FAIL:
  "crStatus (code_result h client la) = FAIL \<longleftrightarrow>
     \<not> (\<exists>c code. client = Some c \<and> evCodeAt c (snd la) = Inr code \<and> code \<noteq> [])"
  by (auto simp: code_result_def AddressHasCode_def split: option.split sum.split)

lemma key_source_not_FAIL: "crStatus (CheckDeployerKeySource h) \<noteq> FAIL"
  by (simp add: CheckDeployerKeySource_def Let_def)

lemma KeyHasFunds_None:
  "KeyHasFunds h (Some c) addr minWei = None \<longleftrightarrow> (\<exists>b. evBalanceAt c addr = Inr b \<and> minWei \<le> b)"
  by (auto simp: KeyHasFunds_def split: sum.split)

lemma funds_FAIL:
  "(\<exists>res \<in> set (funds_results h client key). crStatus res = FAIL) \<longleftrightarrow>
     (\<exists>addr c. key = Some addr \<and> client = Some c
       \<and> \<not> (\<exists>b. evBalanceAt c addr = Inr b \<and> MinDeployBalance \<le> b))"
proof (cases "\<exists>addr c. key = Some addr \<and> client = Some c")
  case True
  then obtain addr c where k: "key = Some addr" "client = Some c" by blast
  show ?thesis
    using KeyHasFunds_None [of h c addr MinDeployBalance]
    by (cases "KeyHasFunds h client addr MinDeployBalance") (auto simp: k funds_results_def)
qed (auto simp: funds_results_def split: option.split)

lemma chain_FAIL: "crStatus (checkChainID c) = FAIL \<longleftrightarrow> \<not> is_ok (evChainID c)"
  by (auto simp: checkChainID_def is_ok_def split: sum.split)

definition env_ok :: "(string \<rightharpoonup> string) \<Rightarrow> bool" where
  "env_ok vars \<longleftrightarrow> (\<exists>s. vars ''INSTRUCTION_SENDER'' = Some s \<and> addressRegex s)
     \<and> (\<exists>i. vars ''EXTENSION_ID'' = Some i \<and> extensionIDRegex i)"

lemma check_var_FAIL: "crStatus (check_var h k re vars) = FAIL \<longleftrightarrow> \<not> (\<exists>v. vars k = Some v \<and> re v)"
  by (auto simp: check_var_def split: option.split)

lemma env_FAIL:
  "(\<exists>res \<in> set (CheckExtensionEnvFormat h path). crStatus res = FAIL) \<longleftrightarrow>
     (\<exists>ls. hOpen h path = Some ls \<and> \<not> env_ok (read_vars ls Map.empty))"
  by (auto simp: CheckExtensionEnvFormat_def env_ok_def check_var_FAIL Let_def split: option.split)

section \<open>The two readers of extension.env\<close>

definition value_of :: "(string \<rightharpoonup> string) \<Rightarrow> string \<Rightarrow> string" where
  "value_of vars k = (case vars k of None \<Rightarrow> [] | Some v \<Rightarrow> v)"

lemma parse_lines_eq:
  "parse_lines ls (value_of m ''EXTENSION_ID'', value_of m ''INSTRUCTION_SENDER'')
     = (value_of (read_vars ls m) ''EXTENSION_ID'', value_of (read_vars ls m) ''INSTRUCTION_SENDER'')"
proof (induction ls arbitrary: m)
  case (Cons raw ls)
  show ?case
  proof (cases "trim_space raw = [] \<or> has_prefix (trim_space raw) ''#'' \<or> split_pair (trim_space raw) = None")
    case True
    with Cons show ?thesis by (auto simp: Let_def)
  next
    case False
    then obtain k v where s: "split_pair (trim_space raw) = Some (k, v)" by auto
    let ?m = "m(trim_space k \<mapsto> trim_space v)"
    have "parse_lines (raw # ls) (value_of m ''EXTENSION_ID'', value_of m ''INSTRUCTION_SENDER'')
        = parse_lines ls (value_of ?m ''EXTENSION_ID'', value_of ?m ''INSTRUCTION_SENDER'')"
      using False s by (simp add: Let_def value_of_def)
    also have "\<dots> = (value_of (read_vars ls ?m) ''EXTENSION_ID'', value_of (read_vars ls ?m) ''INSTRUCTION_SENDER'')"
      by (rule Cons.IH)
    finally show ?thesis using False s by (simp add: Let_def)
  qed
qed simp

lemma parse_read:
  "hOpen h path = Some ls \<Longrightarrow> parseExtensionEnv h path =
     (value_of (read_vars ls Map.empty) ''EXTENSION_ID'', value_of (read_vars ls Map.empty) ''INSTRUCTION_SENDER'')"
  using parse_lines_eq [of ls Map.empty] by (simp add: parseExtensionEnv_def value_of_def)

lemma regex_nonempty: "addressRegex s \<Longrightarrow> s \<noteq> []" "extensionIDRegex s \<Longrightarrow> s \<noteq> []"
  by (auto simp: addressRegex_def extensionIDRegex_def match_hex_def)


section \<open>Well-formed results\<close>

definition wf_result :: "CheckResult \<Rightarrow> bool" where
  "wf_result res \<longleftrightarrow> map_of stepLabel (crStep res) \<noteq> None \<and> crID res \<noteq> [] \<and> crName res \<noteq> []
     \<and> crStatus res \<in> {PASS, WARN, FAIL, SKIP}
     \<and> (crStatus res \<in> {WARN, FAIL} \<longrightarrow> crMessage res \<noteq> [])"

lemma wf_resultI:
  "map_of stepLabel s \<noteq> None \<Longrightarrow> i \<noteq> [] \<Longrightarrow> n \<noteq> [] \<Longrightarrow> st \<in> {PASS, WARN, FAIL, SKIP} \<Longrightarrow>
     st = PASS \<or> st = SKIP \<or> m \<noteq> [] \<Longrightarrow> wf_result (result s i n st m f)"
  by (auto simp: wf_result_def)

lemma stepLabels:
  "map_of stepLabel ''deploy'' \<noteq> None" "map_of stepLabel ''register'' \<noteq> None"
  "map_of stepLabel ''services'' \<noteq> None" "map_of stepLabel ''tee-version'' \<noteq> None"
  "map_of stepLabel ''tee-machine'' \<noteq> None" "map_of stepLabel ''test'' \<noteq> None"
  by (simp_all add: stepLabel_def)

lemma wf_deploy_results:
  "wf_result (zero_result h la)" "wf_result (code_result h client la)" "wf_result (CheckDeployerKeySource h)"
  "wf_result (checkChainID c)" "wf_result (check_var h k re vars)"
  by (auto simp: zero_result_def code_result_def CheckDeployerKeySource_def checkChainID_def check_var_def
      AddressNotZero_def AddressHasCode_def Let_def intro!: wf_resultI stepLabels split: option.split sum.split)

lemma wf_funds: "list_all wf_result (funds_results h client key)"
  by (auto simp: funds_results_def KeyHasFunds_def Let_def intro!: wf_resultI stepLabels
      split: option.split sum.split if_splits)

lemma wf_env: "list_all wf_result (CheckExtensionEnvFormat h path)"
  by (auto simp: CheckExtensionEnvFormat_def Let_def intro!: wf_resultI stepLabels wf_deploy_results split: option.split)

lemma wf_register_results:
  "wf_result (check_R1 g)" "wf_result (check_R2 h g i s)" "wf_result (check_R3 al i a)"
  "wf_result (check_R4 h g i)" "wf_result (check_R7 h g c s)"
  by (auto simp: check_R1_def check_R2_def check_R3_def check_R4_def check_R7_def Let_def
      intro!: wf_resultI stepLabels split: sum.split)

lemma wf_service_results:
  "wf_result (check_S2 h path)" "wf_result (check_S5 h)" "wf_result (check_S7 h)" "wf_result (check_S9 h)"
  "wf_result (check_S10 h)"
  by (auto simp: check_S2_def check_S5_def check_S7_def check_S9_def check_S10_def Let_def
      intro!: wf_resultI stepLabels)

lemma wf_tee_results:
  "wf_result (check_V2 h)" "wf_result (check_V4 h path)" "wf_result (check_V6 h)" "wf_result (check_T1 h)"
  "wf_result (check_T5 h)" "wf_result (check_T10 h)" "wf_result (check_E1 h path)" "wf_result (check_E3 h)"
  "wf_result check_E6"
  by (auto simp: check_V2_def check_V4_def check_V6_def check_T1_def check_T5_def check_T10_def check_E1_def
      check_E3_def check_E6_def Let_def intro!: wf_resultI stepLabels)

lemmas wf_results = wf_deploy_results wf_register_results wf_service_results wf_tee_results

text \<open>The second report is the first with well-formed results appended.\<close>

definition extends :: "Report \<Rightarrow> Report \<Rightarrow> bool" where
  "extends r r' \<longleftrightarrow> (\<exists>rs. Results r' = Results r @ rs \<and> list_all wf_result rs)"

lemma extends_refl [intro!]: "extends r r"
  by (simp add: extends_def)

lemma extends_Add [intro!]: "extends r r' \<Longrightarrow> wf_result x \<Longrightarrow> extends r (Add x r')"
  by (auto simp: extends_def)

lemma extends_fold [intro!]: "extends r r' \<Longrightarrow> list_all wf_result rs \<Longrightarrow> extends r (fold Add rs r')"
  by (auto simp: extends_def)

lemma extends_zero: "extends r r' \<Longrightarrow> extends r (fst (check_zero h xs (r', Z)))"
  by (auto simp: extends_def check_zero_eq list_all_iff wf_results)

lemma extends_code: "extends r r' \<Longrightarrow> extends r (check_code h client Z xs r')"
  by (auto simp: extends_def check_code_eq list_all_iff wf_results)

lemma deploy_extends: "extends r (RegisterDeployChecks h client key o1 o2 path r)"
  unfolding deploy_eq extends_def
  by (auto simp: list_all_append wf_results wf_funds wf_env list_all_iff [of wf_result "map f xs" for f xs]
      split: option.split)

text \<open>The registration checks add results of these forms only; what every such addition preserves, they do.\<close>

definition registration_result :: "host \<Rightarrow> CheckResult \<Rightarrow> bool" where
  "registration_result h x \<longleftrightarrow>
     (\<exists>m. x = result ''register'' ''R1-R7'' ''registration checks'' SKIP m [])
     \<or> (\<exists>m. m \<noteq> [] \<and> x = result ''register'' ''R2'' ''EXTENSION_ID format'' FAIL m env_fix)
     \<or> (\<exists>g. x = check_R1 g) \<or> (\<exists>g i s. x = check_R2 h g i s) \<or> (\<exists>al i a. x = check_R3 al i a)
     \<or> (\<exists>g i. x = check_R4 h g i) \<or> (\<exists>g c s. x = check_R7 h g c s)"

lemma registration_results:
  "registration_result h (result ''register'' ''R1-R7'' ''registration checks'' SKIP m [])"
  "m \<noteq> [] \<Longrightarrow> registration_result h (result ''register'' ''R2'' ''EXTENSION_ID format'' FAIL m env_fix)"
  "registration_result h (check_R1 g)" "registration_result h (check_R2 h g i s)"
  "registration_result h (check_R3 al i a)" "registration_result h (check_R4 h g i)"
  "registration_result h (check_R7 h g c s)"
  unfolding registration_result_def by blast+

lemma option_closed: "P R \<Longrightarrow> (\<And>y. P R \<Longrightarrow> P (F y)) \<Longrightarrow> P (case z of None \<Rightarrow> R | Some y \<Rightarrow> F y)"
  by (cases z) simp_all

lemma registration_closed:
  assumes "E r" and add: "\<And>R x. E R \<Longrightarrow> registration_result h x \<Longrightarrow> E (Add x R)"
  shows "E (RegisterRegistrationChecks h hasClient key g al path r)"
proof -
  note opt = option_closed [where P = E]
  have cond: "E (if c then S else R)" if "E R" "E R \<Longrightarrow> E S" for c R S using that by simp
  obtain i s where e: "parseExtensionEnv h path = (i, s)" by (cases "parseExtensionEnv h path")
  show ?thesis
    unfolding RegisterRegistrationChecks_def Let_def e prod.case
    by (assumption | rule add cond opt assms(1) registration_results | simp)+
qed

lemma registration_wf: "registration_result h x \<Longrightarrow> wf_result x"
  by (auto simp: registration_result_def intro!: wf_results wf_resultI stepLabels)

lemma registration_extends: "extends r (RegisterRegistrationChecks h hasClient key g al path r)"
  using extends_Add registration_wf by (intro registration_closed [where E = "extends r"]) blast+

lemma steps_extend:
  "extends r (RegisterServicesChecks h path r)" "extends r (RegisterTeeVersionChecks h path r)"
  "extends r (RegisterTeeMachineChecks h path r)" "extends r (RegisterTestChecks h path r)"
  unfolding RegisterServicesChecks_def RegisterTeeVersionChecks_def RegisterTeeMachineChecks_def
    RegisterTestChecks_def
  by (intro extends_Add extends_refl wf_results)+

section \<open>Properties\<close>

definition sample_chain_view :: eth_view where
  "sample_chain_view = \<lparr>evCodeAt = (\<lambda>a. Inr (if a = 7 then [1] else [])), evBalanceAt = (\<lambda>_. Inr (10 ^ 18)),
     evChainID = Inr 114\<rparr>"

definition sample_id :: string where "sample_id = ''0x'' @ replicate 64 (CHR ''a'')"
definition sample_sender :: string where "sample_sender = ''0x'' @ replicate 40 (CHR ''1'')"

definition sample_lines :: "string list" where
  "sample_lines = [''# comment'', '' EXTENSION_ID = '' @ sample_id, ''INSTRUCTION_SENDER='' @ sample_sender]"

definition sample_host :: host where
  "sample_host = \<lparr>hGetenv = (\<lambda>_. []),
     hOpen = (\<lambda>_. Some sample_lines),
     hNotExist = (\<lambda>_. False), hDial = (\<lambda>_. False), hGet = (\<lambda>_. None), hHex = (\<lambda>_. ''0x''),
     hHexToAddress = (\<lambda>_. 7), hQuote = (\<lambda>s. s), hEVMType = 1\<rparr>"

lemma sample_vars:
  "read_vars sample_lines Map.empty
     = [''EXTENSION_ID'' \<mapsto> sample_id, ''INSTRUCTION_SENDER'' \<mapsto> sample_sender]"
  by (simp add: sample_lines_def sample_id_def sample_sender_def trim_space_def is_space_def has_prefix_def split_pair_def Let_def
      numeral_eq_Suc)

lemma sample_env_ok: "env_ok [''EXTENSION_ID'' \<mapsto> sample_id, ''INSTRUCTION_SENDER'' \<mapsto> sample_sender]"
  by (simp add: env_ok_def sample_id_def sample_sender_def addressRegex_def extensionIDRegex_def match_hex_def
      is_hex_def hex_value_def list_all_iff)

text \<open>Every deployment check only appends to the report, and what it appends is well formed: its step has
  a label in the report, its identifier and name are not empty, its status is one of the four named ones, and a
  warning or failure says what was found.\<close>
lemma checks_append_wellformed:
  "extends r (RegisterDeployChecks h client key o1 o2 path r)
   \<and> extends r (RegisterRegistrationChecks h hasClient key g al path r)
   \<and> extends r (RegisterServicesChecks h path r) \<and> extends r (RegisterTeeVersionChecks h path r)
   \<and> extends r (RegisterTeeMachineChecks h path r) \<and> extends r (RegisterTestChecks h path r)"
  by (intro conjI deploy_extends registration_extends steps_extend)

text \<open>C32. The verdict on a deployment is exact: the deployment checks add no failure if and only if every
  configured address is not zero and has code on the connected chain, the deployer (when both a key and a
  client are given) holds at least the minimum balance, the chain id can be read, and an environment file that
  opens defines a well-formed sender and extension id.  It does not depend on the order in which Go iterates
  over the map of addresses, even when the two loops iterate differently.\<close>
theorem deploy_verdict_exact:
  assumes "distinct (map fst o1)" "set o1 = set o2"
  shows "HasFailures (RegisterDeployChecks h client key o1 o2 path \<lparr>Results = []\<rparr>) \<longleftrightarrow>
    \<not> ((\<forall>(label, addr) \<in> set o1. addr \<noteq> 0 \<and>
           (\<exists>c code. client = Some c \<and> evCodeAt c addr = Inr code \<and> code \<noteq> []))
      \<and> (\<forall>addr c. key = Some addr \<longrightarrow> client = Some c \<longrightarrow>
           (\<exists>b. evBalanceAt c addr = Inr b \<and> MinDeployBalance \<le> b))
      \<and> (\<forall>c. client = Some c \<longrightarrow> is_ok (evChainID c))
      \<and> (path \<noteq> [] \<longrightarrow> (\<forall>ls. hOpen h path = Some ls \<longrightarrow> env_ok (read_vars ls Map.empty))))"
proof -
  let ?Z = "fst ` {la \<in> set o1. snd la = 0}"
  have zero: "fst la \<in> ?Z \<longleftrightarrow> snd la = 0" if "la \<in> set o1" for la
    using that assms(1) by (auto simp: distinct_map inj_on_def)
  let ?code = "\<lambda>la. \<exists>c code. client = Some c \<and> evCodeAt c (snd la) = Inr code \<and> code \<noteq> []"
  have a: "(\<exists>res \<in> set (map (zero_result h) o1). crStatus res = FAIL) \<longleftrightarrow> (\<exists>la \<in> set o1. snd la = 0)"
    by (auto simp: zero_result_FAIL)
  have b: "(\<exists>res \<in> set (map (code_result h client) (filter (\<lambda>la. fst la \<notin> ?Z) o2)). crStatus res = FAIL)
      \<longleftrightarrow> (\<exists>la \<in> set o1. snd la \<noteq> 0 \<and> \<not> ?code la)"
  proof -
    have "filter (\<lambda>la. fst la \<notin> ?Z) o2 = filter (\<lambda>la. snd la \<noteq> 0) o2"
      using assms(2) zero by (intro filter_cong) auto
    then show ?thesis using assms(2) by (simp add: Bex_def code_result_FAIL del: split_paired_Ex)
  qed
  have c: "(\<exists>res \<in> set (case client of Some c \<Rightarrow> [checkChainID c] | None \<Rightarrow> []). crStatus res = FAIL) \<longleftrightarrow>
      (\<exists>c. client = Some c \<and> \<not> is_ok (evChainID c))"
    by (auto simp: chain_FAIL split: option.split)
  have d: "(\<exists>res \<in> set (if path \<noteq> [] then CheckExtensionEnvFormat h path else []). crStatus res = FAIL) \<longleftrightarrow>
      path \<noteq> [] \<and> (\<exists>ls. hOpen h path = Some ls \<and> \<not> env_ok (read_vars ls Map.empty))"
    by (cases "path = []") (simp, simp only: if_P env_FAIL simp_thms)
  have split: "(\<forall>(label, addr) \<in> set o1. addr \<noteq> 0 \<and> ?code (label, addr)) \<longleftrightarrow>
      \<not> (\<exists>la \<in> set o1. snd la = 0) \<and> \<not> (\<exists>la \<in> set o1. snd la \<noteq> 0 \<and> \<not> ?code la)"
    by (auto split: prod.split)
  show ?thesis
    unfolding deploy_eq HasFailures_appends set_append bex_Un a b c d funds_FAIL
    using split key_source_not_FAIL [of h] by simp
qed

theorem deploy_verdict_exact_witness:
  "\<not> HasFailures (RegisterDeployChecks sample_host (Some sample_chain_view) (Some 5) [(''Hub'', 7)] [(''Hub'', 7)]
        ''extension.env'' \<lparr>Results = []\<rparr>)"
  by (subst deploy_verdict_exact)
    (simp_all add: sample_chain_view_def MinDeployBalance_def sample_host_def sample_vars sample_env_ok)

text \<open>The two readers of the environment file agree.  On every file that opens, the reader that keeps two
  variables yields the entries of the reader that keeps them all (the last assignment wins in both, a missing
  key reads as the empty string), so the checks that use the one and the check that uses the other give the
  same verdict on the extension id.\<close>
lemma env_readers_agree:
  assumes "hOpen h path = Some ls" "path \<noteq> []"
  shows "parseExtensionEnv h path =
      (value_of (read_vars ls Map.empty) ''EXTENSION_ID'', value_of (read_vars ls Map.empty) ''INSTRUCTION_SENDER'')
    \<and> (crStatus (check_S2 h path) = PASS \<longleftrightarrow>
        crStatus (check_var h ''EXTENSION_ID'' extensionIDRegex (read_vars ls Map.empty)) = PASS)
    \<and> (crStatus (check_V4 h path) = PASS \<longleftrightarrow> crStatus (check_S2 h path) = PASS)"
proof (intro conjI)
  show p: "parseExtensionEnv h path =
      (value_of (read_vars ls Map.empty) ''EXTENSION_ID'', value_of (read_vars ls Map.empty) ''INSTRUCTION_SENDER'')"
    by (rule parse_read [OF assms(1)])
  have "extensionIDRegex [] = False" using regex_nonempty(2) by blast
  then show "crStatus (check_S2 h path) = PASS \<longleftrightarrow>
      crStatus (check_var h ''EXTENSION_ID'' extensionIDRegex (read_vars ls Map.empty)) = PASS"
    using assms(2) by (auto simp: check_S2_def check_var_def p value_of_def Let_def split: option.split)
  show "crStatus (check_V4 h path) = PASS \<longleftrightarrow> crStatus (check_S2 h path) = PASS"
    using assms(2) by (simp add: check_S2_def check_V4_def Let_def)
qed

end
