(* ===== verification/PayloadBuilder.thy ===== *)
theory PayloadBuilder
  imports EnclaveIO EnclaveProps
begin

text \<open>
  The payload builder (\<open>extension/go/cmd/payload-builder\<close>): a loopback service that checks the terms of a
  payment, encodes them and seals them to the enclave's public key.  HTTP, JSON, the ABI package, Keccak, the
  curve and ECIES are parameters.  The last part composes it with the enclave: what it seals is what the
  enclave authorizes.
\<close>

section \<open>Requests and replies\<close>

record sealRequest =
  sqChainID :: u64
  sqController :: string
  sqTreasuryID :: string
  sqRequestID :: string
  sqDestination :: string
  sqAmountDrops :: string
  sqDestinationTag :: u32
  sqHasDestinationTag :: bool
  sqReference :: string
  sqTeePublicKey :: string

record proxy_info =
  pxEciesKey :: string
  pxMachineKey :: string
  pxPublicKey :: string

text \<open>The \<open>server\<close> and what it calls; \<open>'p\<close> is the type of points of the curve.\<close>

record 'p builder =
  pbProxy :: string
  pbGet :: "string \<Rightarrow> string + http_response"
  pbDecodeInfo :: "bytes \<Rightarrow> string + proxy_info"
  pbDecodeRequest :: "bytes \<Rightarrow> string + sealRequest"
  pbHexToAddress :: "string \<Rightarrow> address"
  pbPack :: "abi_ty list \<Rightarrow> goval list \<Rightarrow> string + bytes"
  pbKeccak :: "bytes \<Rightarrow> bytes"
  pbUnmarshal :: "bytes \<Rightarrow> 'p option"
  pbDecompress :: "bytes \<Rightarrow> string + 'p"
  pbEncrypt :: "'p \<Rightarrow> bytes \<Rightarrow> string + bytes"

datatype key_fetch_error =
    NoProxy | ReadingInfo string string | InfoReturned string nat | DecodingInfo string | NoUsableKey

datatype seal_error =
    BadRequest string | InvalidDestination string xrpl_error | InvalidAmount string | InvalidTreasuryID
  | InvalidRequestID | EncodingPayload string | KeyNotHex | KeyFetch key_fetch_error
  | NotAPoint nat | SealingFailed string

datatype builder_reply =
    ErrorReply nat seal_error
  | KeyReply string
  | SealReply string nat string   \<comment> \<open>ciphertext, plaintext size, payload hash\<close>

definition StatusBadGateway :: nat where "StatusBadGateway = 502"
definition StatusNoContent :: nat where "StatusNoContent = 204"

section \<open>The enclave's key\<close>

fun first_key :: "string list \<Rightarrow> bytes option" where
  "first_key [] = None"
| "first_key (candidate # cs) =
     (if candidate = [] then first_key cs
      else case hex_decode (trim_prefix candidate ''0x'') of
          Inl e \<Rightarrow> first_key cs
        | Inr b \<Rightarrow> if length b \<ge> 33 then Some b else first_key cs)"

definition teePublicKey :: "'p builder \<Rightarrow> key_fetch_error + bytes" where
  "teePublicKey s =
     (if pbProxy s = [] then Inl NoProxy
      else case pbGet s (pbProxy s @ ''/info'') of
        Inl e \<Rightarrow> Inl (ReadingInfo (pbProxy s) e)
      | Inr resp \<Rightarrow>
          if httpStatus resp \<noteq> StatusOK then Inl (InfoReturned (pbProxy s) (httpStatus resp))
          else (case pbDecodeInfo s (httpBody resp) of
                  Inl e \<Rightarrow> Inl (DecodingInfo e)
                | Inr info \<Rightarrow>
                    (case first_key [pxEciesKey info, pxMachineKey info, pxPublicKey info] of
                       None \<Rightarrow> Inl NoUsableKey | Some b \<Rightarrow> Inr b)))"

definition handlePublicKey :: "'p builder \<Rightarrow> builder_reply" where
  "handlePublicKey s =
     (case teePublicKey s of
        Inl e \<Rightarrow> ErrorReply StatusBadGateway (KeyFetch e)
      | Inr key \<Rightarrow> KeyReply (''0x'' @ hex_encode key))"

section \<open>Sealing\<close>

definition unmarshalSecp256k1 :: "'p builder \<Rightarrow> bytes \<Rightarrow> 'p option" where
  "unmarshalSecp256k1 s pubKey =
     (if length pubKey = 65 then pbUnmarshal s pubKey
      else if length pubKey = 64 then pbUnmarshal s (0x04 # pubKey)
      else if length pubKey = 33 then
        (case pbDecompress s pubKey of Inl e \<Rightarrow> None | Inr pk \<Rightarrow> Some pk)
      else None)"

definition sealToEnclave :: "'p builder \<Rightarrow> bytes \<Rightarrow> bytes \<Rightarrow> seal_error + bytes" where
  "sealToEnclave s pubKey plaintext =
     (case unmarshalSecp256k1 s pubKey of
        None \<Rightarrow> Inl (NotAPoint (length pubKey))
      | Some point \<Rightarrow>
          (case pbEncrypt s point plaintext of Inl e \<Rightarrow> Inl (SealingFailed e) | Inr c \<Rightarrow> Inr c))"

definition hashOf :: "'p builder \<Rightarrow> bytes \<Rightarrow> bytes" where
  "hashOf s b = word_bytes (Keccak256Hash (pbKeccak s) b)"

text \<open>The key to seal to: the request's own, or the proxy's; an error comes with its HTTP status.\<close>

definition seal_key :: "'p builder \<Rightarrow> sealRequest \<Rightarrow> (nat \<times> seal_error) + bytes" where
  "seal_key s req =
     (if sqTeePublicKey req \<noteq> [] then
        (case hex_decode (trim_prefix (sqTeePublicKey req) ''0x'') of
           Inl e \<Rightarrow> Inl (StatusBadRequest, KeyNotHex)
         | Inr pubKey \<Rightarrow> Inr pubKey)
      else (case teePublicKey s of
              Inl e \<Rightarrow> Inl (StatusBadGateway, KeyFetch e)
            | Inr pubKey \<Rightarrow> Inr pubKey))"

definition instruction_of :: "'p builder \<Rightarrow> sealRequest \<Rightarrow> int \<Rightarrow> int \<Rightarrow> int \<Rightarrow> PaymentInstruction" where
  "instruction_of s req treasuryID requestID amount =
     \<lparr>piChainId = Some (uint (sqChainID req)), piController = pbHexToAddress s (sqController req),
      piTreasuryId = Some treasuryID, piRequestId = Some requestID, piDestination = sqDestination req,
      piAmountDrops = Some amount, piDestinationTag = sqDestinationTag req,
      piHasDestinationTag = sqHasDestinationTag req, piReference = sqReference req\<rparr>"

definition handleSeal :: "'p builder \<Rightarrow> bytes \<Rightarrow> builder_reply" where
  "handleSeal s body =
     (case pbDecodeRequest s (take (2 ^ 16) body) of
        Inl e \<Rightarrow> ErrorReply StatusBadRequest (BadRequest e)
      | Inr req \<Rightarrow>
     (case ValidateClassicAddress (sqDestination req) of
        Some e \<Rightarrow> ErrorReply StatusBadRequest (InvalidDestination (sqDestination req) e)
      | None \<Rightarrow>
     (case set_string (sqAmountDrops req) of
        None \<Rightarrow> ErrorReply StatusBadRequest (InvalidAmount (sqAmountDrops req))
      | Some amount \<Rightarrow>
      if amount \<le> 0 then ErrorReply StatusBadRequest (InvalidAmount (sqAmountDrops req)) else
     (case set_string (sqTreasuryID req) of
        None \<Rightarrow> ErrorReply StatusBadRequest InvalidTreasuryID
      | Some treasuryID \<Rightarrow>
     (case set_string (sqRequestID req) of
        None \<Rightarrow> ErrorReply StatusBadRequest InvalidRequestID
      | Some requestID \<Rightarrow>
     (case EncodePaymentInstruction (pbPack s) (instruction_of s req treasuryID requestID amount) of
        Inl e \<Rightarrow> ErrorReply StatusInternalServerError (EncodingPayload e)
      | Inr plaintext \<Rightarrow>
     (case seal_key s req of
        Inl (status, e) \<Rightarrow> ErrorReply status e
      | Inr pubKey \<Rightarrow>
     (case sealToEnclave s pubKey plaintext of
        Inl e \<Rightarrow> ErrorReply StatusInternalServerError e
      | Inr ciphertext \<Rightarrow>
          SealReply (''0x'' @ hex_encode ciphertext) (length plaintext)
            (''0x'' @ hex_encode (hashOf s ciphertext))))))))))"

section \<open>The service around it\<close>

text \<open>The listen addresses \<open>main\<close> accepts.\<close>

definition loopback_address :: "string \<Rightarrow> bool" where
  "loopback_address addr \<longleftrightarrow> has_prefix addr ''127.0.0.1:'' \<or> has_prefix addr ''localhost:''"

datatype 'r cors_reply = NoContent | Served 'r

definition withCORS :: "('q \<Rightarrow> 'r) \<Rightarrow> string \<Rightarrow> string \<Rightarrow> 'q \<Rightarrow> (string \<times> string) list \<times> 'r cors_reply" where
  "withCORS serve method origin req =
     ((if has_prefix origin ''http://localhost:'' \<or> has_prefix origin ''http://127.0.0.1:'' then
         [(''Access-Control-Allow-Origin'', origin), (''Access-Control-Allow-Headers'', ''Content-Type''),
          (''Access-Control-Allow-Methods'', ''GET, POST, OPTIONS'')]
       else []),
      if method = ''OPTIONS'' then NoContent else Served (serve req))"

definition envOr :: "(string \<Rightarrow> string) \<Rightarrow> string \<Rightarrow> string \<Rightarrow> string" where
  "envOr getenv key fallback = (let v = trim_space (getenv key) in if v \<noteq> [] then v else fallback)"

text \<open>The routes of \<open>main\<close>, as \<open>net/http\<close> matches them: a GET pattern also serves HEAD, and a known path with another
  method is refused as such.\<close>

datatype route = Health | Handled builder_reply | NotFound | MethodNotAllowed

definition builder_route :: "'p builder \<Rightarrow> string \<Rightarrow> string \<Rightarrow> bytes \<Rightarrow> route" where
  "builder_route s method path body =
     (let get = method = ''GET'' \<or> method = ''HEAD'' in
      if path = ''/health'' then (if get then Health else MethodNotAllowed)
      else if path = ''/tee-public-key'' then (if get then Handled (handlePublicKey s) else MethodNotAllowed)
      else if path = ''/seal'' then (if method = ''POST'' then Handled (handleSeal s body) else MethodNotAllowed)
      else NotFound)"

text \<open>\<open>main\<close>: refused, or the address it listens on and what it serves there, method by method. The flags are
  functions of their defaults.\<close>

definition builder_main ::
  "(string \<Rightarrow> string) \<Rightarrow> (string \<Rightarrow> string) \<Rightarrow> (string \<Rightarrow> string) \<Rightarrow> 'p builder
     \<Rightarrow> string + string \<times> (string \<Rightarrow> string \<Rightarrow> string \<Rightarrow> bytes \<Rightarrow> (string \<times> string) list \<times> route cors_reply)" where
  "builder_main getenv addrFlag proxyFlag host =
     (let addr = addrFlag ''127.0.0.1:8110'';
          proxy = proxyFlag (envOr getenv ''EXT_PROXY_URL'' []) in
      if \<not> loopback_address addr
      then Inl (''refusing to listen on '' @ addr
             @ '': this service handles plaintext payment terms and must stay on loopback'')
      else let s = host\<lparr>pbProxy := trim_right proxy (CHR ''/'')\<rparr>
           in Inr (addr, \<lambda>origin method path body. withCORS (builder_route s method path) method origin body))"

section \<open>Lemmas\<close>

text \<open>Plaintext terms are only accepted on loopback, and a page of another origin gets no CORS header.\<close>

lemma builder_stays_on_loopback:
  assumes "builder_main getenv addrFlag proxyFlag host = Inr (addr, serve)"
  shows "(has_prefix addr ''127.0.0.1:'' \<or> has_prefix addr ''localhost:'')
    \<and> (\<not> has_prefix origin ''http://localhost:'' \<and> \<not> has_prefix origin ''http://127.0.0.1:''
        \<longrightarrow> fst (serve origin method path body) = [])"
  using assms by (auto simp: builder_main_def loopback_address_def withCORS_def Let_def split: if_splits)

lemma handleSeal_SealReply:
  assumes "handleSeal s body = SealReply c n ph"
  obtains req amount treasuryID requestID plaintext key point ciphertext where
    "pbDecodeRequest s (take (2 ^ 16) body) = Inr req" "ValidateClassicAddress (sqDestination req) = None"
    "set_string (sqAmountDrops req) = Some amount" "0 < amount"
    "set_string (sqTreasuryID req) = Some treasuryID" "set_string (sqRequestID req) = Some requestID"
    "EncodePaymentInstruction (pbPack s) (instruction_of s req treasuryID requestID amount) = Inr plaintext"
    "seal_key s req = Inr key" "unmarshalSecp256k1 s key = Some point"
    "pbEncrypt s point plaintext = Inr ciphertext"
    "c = ''0x'' @ hex_encode ciphertext" "n = length plaintext"
    "ph = ''0x'' @ hex_encode (hashOf s ciphertext)"
proof -
  note h = assms [unfolded handleSeal_def]
  from h obtain req where 1: "pbDecodeRequest s (take (2 ^ 16) body) = Inr req"
    by (cases "pbDecodeRequest s (take (2 ^ 16) body)") auto
  from h 1 have 2: "ValidateClassicAddress (sqDestination req) = None"
    by (cases "ValidateClassicAddress (sqDestination req)") auto
  from h 1 2 obtain amount where 3: "set_string (sqAmountDrops req) = Some amount" "0 < amount"
    by (cases "set_string (sqAmountDrops req)") (auto split: if_splits)
  from h 1 2 3 obtain tid where 4: "set_string (sqTreasuryID req) = Some tid"
    by (cases "set_string (sqTreasuryID req)") auto
  from h 1 2 3 4 obtain rid where 5: "set_string (sqRequestID req) = Some rid"
    by (cases "set_string (sqRequestID req)") auto
  let ?e = "EncodePaymentInstruction (pbPack s) (instruction_of s req tid rid amount)"
  from h 1 2 3 4 5 obtain plaintext where 6: "?e = Inr plaintext" by (cases ?e) auto
  from h 1 2 3 4 5 6 obtain key where 7: "seal_key s req = Inr key" by (cases "seal_key s req") auto
  from h 1 2 3 4 5 6 7 obtain ct where 8: "sealToEnclave s key plaintext = Inr ct"
    by (cases "sealToEnclave s key plaintext") auto
  from 8 obtain point where 9: "unmarshalSecp256k1 s key = Some point" "pbEncrypt s point plaintext = Inr ct"
    by (auto simp: sealToEnclave_def split: option.splits sum.splits)
  from h 1 2 3 4 5 6 7 8 have "c = ''0x'' @ hex_encode ct" "n = length plaintext"
    "ph = ''0x'' @ hex_encode (hashOf s ct)" by simp_all
  from that [OF 1 2 3 4 5 6 7 9 this] show thesis .
qed

lemma valid_address_length: "ValidateClassicAddress a = None \<Longrightarrow> length a \<le> 75"
  using ValidateClassicAddress_None encode_decode_address address_shape by blast

text \<open>The terms of a request, as the enclave stores them for a header.\<close>

definition requested_terms ::
  "(bytes \<Rightarrow> bytes) \<Rightarrow> sealRequest \<Rightarrow> InstructionHeader \<Rightarrow> bytes \<Rightarrow> int \<Rightarrow> authorization" where
  "requested_terms keccak req h ciphertext amount =
     \<lparr>auTreasuryID = hTreasuryId h, auDestination = sqDestination req, auAmountDrops = of_int amount,
      auTag = sqDestinationTag req, auHasTag = sqHasDestinationTag req, auMemoRef = hMemoRef h,
      auExpiresAt = hExpiresAt h, auPayloadHash = Keccak256Hash keccak ciphertext\<rparr>"

text \<open>The header that the contract dispatches names what the owner typed.\<close>

definition header_matches :: "'p builder \<Rightarrow> sealRequest \<Rightarrow> InstructionHeader \<Rightarrow> bool" where
  "header_matches s req h \<longleftrightarrow>
     hChainId h = uint (sqChainID req) \<and> hController h = pbHexToAddress s (sqController req)
     \<and> set_string (sqTreasuryID req) = Some (hTreasuryId h)
     \<and> set_string (sqRequestID req) = Some (hRequestId h)"

section \<open>From the owner's form to the authorization\<close>

definition sample_request :: sealRequest where
  "sample_request = \<lparr>sqChainID = 114, sqController = ''0xC0FFEE'', sqTreasuryID = int_string 1,
     sqRequestID = int_string 42, sqDestination = demo_address 7, sqAmountDrops = int_string 1000,
     sqDestinationTag = 0, sqHasDestinationTag = False, sqReference = [], sqTeePublicKey = hex_encode (replicate 64 9)\<rparr>"

definition sample_builder :: "bytes builder" where
  "sample_builder = \<lparr>pbProxy = [], pbGet = (\<lambda>_. Inl ''down''), pbDecodeInfo = (\<lambda>_. Inl ''bad''),
     pbDecodeRequest = (\<lambda>_. Inr sample_request), pbHexToAddress = (\<lambda>_. 0xC0FFEE), pbPack = ref_pack,
     pbKeccak = (\<lambda>_. replicate 32 5), pbUnmarshal = Some, pbDecompress = (\<lambda>_. Inl ''bad''),
     pbEncrypt = (\<lambda>_ m. if m = [] then Inl ''empty'' else Inr m)\<rparr>"

text \<open>C33. What the payload builder seals, the enclave authorizes.  If the builder answers a request with a
  ciphertext, ECIES to the key it used is decrypted by the enclave, the dispatched header names the
  request's chain, controller, treasury and request, and the treasury's policy admits the amount, then the
  enclave accepts the instruction and stores exactly the terms the owner typed, under the payload hash the
  builder reported.\<close>
theorem sealed_request_authorized:
  assumes "abi_deps d" "pbPack s = dPack d" "pbKeccak s = dKeccak d"
    and "handleSeal s body = SealReply c n ph"
    and "pbDecodeRequest s (take (2 ^ 16) body) = Inr req" "length (sqReference req) < 2 ^ 32"
    and "seal_key s req = Inr key" "unmarshalSecp256k1 s key = Some point"
    and ecies: "\<And>m e. pbEncrypt s point m = Inr e \<Longrightarrow> decrypt ev e = Inr m \<and> e \<noteq> []"
    and "DecodeHeaderAndPayload (dUnpack d) (OriginalMessage df) = Inr (h, ciphertext)"
    and "hex_decode (trim_prefix c ''0x'') = Inr ciphertext" "header_matches s req h"
    and "treasury_of st (hTreasuryId h) = Some t" "hPolicyCommitment h = tPolicyCommitment t"
    and "sqDestination req \<noteq> tAddress t"
    and "set_string (sqAmountDrops req) = Some amount" "amount < 2 ^ 64" "policy_allows (tPolicy t) amount"
  shows "\<exists>r. handleAuthorizePayment d ev a df st
        = (with_authorization st (hRequestId h) (requested_terms (dKeccak d) req h ciphertext amount), Some r)
      \<and> rStatus r = 1
      \<and> ph = ''0x'' @ hex_encode (word_bytes (auPayloadHash (requested_terms (dKeccak d) req h ciphertext amount)))"
proof -
  obtain req' amount' tid rid plaintext key' point' ct where
    f: "pbDecodeRequest s (take (2 ^ 16) body) = Inr req'" "ValidateClassicAddress (sqDestination req') = None"
      "set_string (sqAmountDrops req') = Some amount'" "0 < amount'"
      "set_string (sqTreasuryID req') = Some tid" "set_string (sqRequestID req') = Some rid"
      "EncodePaymentInstruction (pbPack s) (instruction_of s req' tid rid amount') = Inr plaintext"
      "seal_key s req' = Inr key'" "unmarshalSecp256k1 s key' = Some point'"
      "pbEncrypt s point' plaintext = Inr ct"
      "c = ''0x'' @ hex_encode ct" "n = length plaintext" "ph = ''0x'' @ hex_encode (hashOf s ct)"
    by (rule handleSeal_SealReply [OF assms(4)])
  have "ct = ciphertext"
    using assms(11) unfolding f(11) trim_prefix_append hex_decode_encode by simp
  with assms f have eq: "req' = req" "amount' = amount" "key' = key" "point' = point" "ct = ciphertext"
    "tid = hTreasuryId h" "rid = hRequestId h" by (auto simp: header_matches_def)
  note f = f [unfolded eq]
  let ?pi = "instruction_of s req (hTreasuryId h) (hRequestId h) amount"
  have "header_ok h" using abi_codec.decoded_header_payload [OF assms(1) assms(10)] .
  then have "payment_ok ?pi"
    using valid_address_length [OF f(2)] f(4) assms(6,17)
    by (simp add: payment_ok_def instruction_of_def header_ok_def unsigned_less [of "sqChainID req", THEN less_trans])
  from abi_codec.payment_roundtrip [OF assms(1) this] f(7) assms(2)
  have "DecodePaymentInstruction (dUnpack d) plaintext = Inr ?pi" by auto
  with ecies [OF f(10)] f assms have auth: "authorizes d ev df st h ciphertext t ?pi amount"
    by (auto simp: authorizes_def bound_to_def instruction_of_def header_matches_def is_uint64_def)
  have terms: "terms_of d h ciphertext ?pi amount = requested_terms (dKeccak d) req h ciphertext amount"
    by (simp add: terms_of_def requested_terms_def instruction_of_def)
  have "ph = ''0x'' @ hex_encode (word_bytes (auPayloadHash (requested_terms (dKeccak d) req h ciphertext amount)))"
    using f(13) assms(3) by (simp add: hashOf_def requested_terms_def)
  with authorizes_stored [OF assms(1) auth] show ?thesis by (auto simp: terms)
qed

lemma sample_instruction: "instruction_of sample_builder sample_request 1 42 1000 = demo_payment 1 42 1000"
  by (simp add: instruction_of_def sample_builder_def sample_request_def demo_payment_def)

lemma sample_key:
  "seal_key sample_builder sample_request = Inr (replicate 64 9)"
  "unmarshalSecp256k1 sample_builder (replicate 64 9) = Some (0x04 # replicate 64 9)"
proof -
  have "hex_encode (replicate 64 9) \<noteq> []"
    using length_hex_encode [of "replicate 64 9"] by (metis list.size(3) length_replicate mult_eq_0_iff numeral_neq_zero)
  then show "seal_key sample_builder sample_request = Inr (replicate 64 9)"
    by (simp add: seal_key_def sample_request_def)
  show "unmarshalSecp256k1 sample_builder (replicate 64 9) = Some (0x04 # replicate 64 9)"
    by (simp add: unmarshalSecp256k1_def sample_builder_def)
qed

lemma sample_seal:
  "handleSeal sample_builder [] = SealReply (''0x'' @ hex_encode (sealed 1 42 1000)) (length (sealed 1 42 1000))
     (''0x'' @ hex_encode (hashOf sample_builder (sealed 1 42 1000)))"
proof -
  have enc: "EncodePaymentInstruction (pbPack sample_builder) (demo_payment 1 42 1000) = Inr (sealed 1 42 1000)"
    using ref_abi.payment_roundtrip [OF demo_payment_ok, of 1 42 1000]
    by (auto simp: sealed_def demo_bytes_def sample_builder_def)
  have dec: "pbDecodeRequest sample_builder b = Inr sample_request" for b
    by (simp add: sample_builder_def)
  have fields: "sqDestination sample_request = demo_address 7" "set_string (sqAmountDrops sample_request) = Some 1000"
    "set_string (sqTreasuryID sample_request) = Some 1" "set_string (sqRequestID sample_request) = Some 42"
    by (simp_all add: sample_request_def)
  have "sealed 1 42 1000 \<noteq> []" using sealed_decodes [of 1 42 1000] by simp
  then have ecies: "pbEncrypt sample_builder p (sealed 1 42 1000) = Inr (sealed 1 42 1000)" for p
    by (simp add: sample_builder_def)
  show ?thesis
    by (simp add: handleSeal_def dec fields sample_instruction enc sample_key sealToEnclave_def ecies)
qed

theorem sealed_request_authorized_witness:
  "\<exists>r. handleAuthorizePayment (demo_deps OPCommandAuthorizePayment) demo_env (demo_action [])
      (demo_df OPCommandAuthorizePayment (authorize_msg 1 42 1000)) funded
    = (with_authorization funded 42 demo_auth, Some r) \<and> rStatus r = 1"
proof -
  let ?d = "demo_deps OPCommandAuthorizePayment"
  let ?df = "demo_df OPCommandAuthorizePayment (authorize_msg 1 42 1000)"
  let ?h = "demo_header 1 42"
  have dec: "DecodeHeaderAndPayload (dUnpack ?d) (OriginalMessage ?df) = Inr (?h, sealed 1 42 1000)"
    using demo_authorize_decodes [of 1 42 1000] by (simp add: demo_df_def)
  have ct: "hex_decode (trim_prefix (''0x'' @ hex_encode (sealed 1 42 1000)) ''0x'') = Inr (sealed 1 42 1000)"
    unfolding trim_prefix_append hex_decode_encode ..
  have t: "requested_terms (dKeccak ?d) sample_request ?h (sealed 1 42 1000) 1000 = demo_auth"
    by (simp add: requested_terms_def sample_request_def demo_header_def demo_auth_def)
  have m: "header_matches sample_builder sample_request ?h"
    by (simp add: header_matches_def demo_header_def sample_builder_def sample_request_def)
  have tr: "treasury_of funded (hTreasuryId ?h) = Some demo_treasury"
      "hPolicyCommitment ?h = tPolicyCommitment demo_treasury" "sqDestination sample_request \<noteq> tAddress demo_treasury"
      "policy_allows (tPolicy demo_treasury) 1000"
    by (simp_all add: funded_def demo_header_def demo_treasury_def sample_request_def demo_address_inj
        policy_allows_def sample_policy_def)
  have "\<exists>r. handleAuthorizePayment ?d demo_env (demo_action []) ?df funded
      = (with_authorization funded (hRequestId ?h)
          (requested_terms (dKeccak ?d) sample_request ?h (sealed 1 42 1000) 1000), Some r) \<and> rStatus r = 1
      \<and> ''0x'' @ hex_encode (hashOf sample_builder (sealed 1 42 1000)) = ''0x'' @ hex_encode (word_bytes
          (auPayloadHash (requested_terms (dKeccak ?d) sample_request ?h (sealed 1 42 1000) 1000)))"
  proof (rule sealed_request_authorized [OF demo_abi _ _ sample_seal _ _ sample_key _ dec ct m tr(1-3) _ _ tr(4)])
    show "decrypt demo_env e = Inr m \<and> e \<noteq> []" if "pbEncrypt sample_builder (0x04 # replicate 64 9) m = Inr e" for m e
      using that by (simp add: sample_builder_def demo_env_def split: if_splits)
  qed (simp_all add: sample_builder_def sample_request_def)
  then show ?thesis unfolding t by (auto simp: demo_header_def)
qed

end
