(* ===== verification/Support.thy ===== *)
theory Support
  imports Chain
begin

text \<open>
  The deployment tools' support package (\<open>tools/pkg/support/support.go\<close>) and the revert decoding of
  \<open>tools/pkg/fccutils/revert.go\<close> and \<open>diag.go\<close>: waiting for a transaction, explaining why one failed,
  reading the address file and the private key.  The RPC client, the contract bindings and go-ethereum's
  \<open>abi.UnpackRevert\<close> are parameters.
\<close>

section \<open>Errors of the RPC client\<close>

text \<open>What \<open>ErrorData()\<close> returns when an error has it and it is not nil.\<close>

datatype error_data = DataString string | DataBytes bytes | DataOther

record rpc_error =
  rxMessage :: string
  rxData :: "error_data option"

section \<open>Revert reasons (revert.go)\<close>

definition decodeRevertHex :: "(bytes \<Rightarrow> string option) \<Rightarrow> string \<Rightarrow> string" where
  "decodeRevertHex unpackRevert raw =
     (let hexStr = trim_prefix raw ''0x'' in
      case hex_decode hexStr of
        Inl e \<Rightarrow> []
      | Inr decoded \<Rightarrow>
          if length decoded < 4 then []
          else (case unpackRevert decoded of Some reason \<Rightarrow> reason | None \<Rightarrow> ''0x'' @ hexStr))"

definition DecodeRevertReason :: "(bytes \<Rightarrow> string option) \<Rightarrow> rpc_error option \<Rightarrow> string" where
  "DecodeRevertReason unpackRevert err =
     (case err of
        None \<Rightarrow> []
      | Some e \<Rightarrow> (case rxData e of Some (DataString hexStr) \<Rightarrow> decodeRevertHex unpackRevert hexStr | _ \<Rightarrow> []))"

definition SimulateAndDecodeRevert :: "(bytes \<Rightarrow> string option) \<Rightarrow> (rpc_error + bytes) \<Rightarrow> string" where
  "SimulateAndDecodeRevert unpackRevert answer =
     (case answer of
        Inl e \<Rightarrow>
          (let reason = DecodeRevertReason unpackRevert (Some e) in if reason \<noteq> [] then reason else rxMessage e)
      | Inr res \<Rightarrow> if length res \<ge> 4 then decodeRevertHex unpackRevert (hex_encode res) else [])"

text \<open>\<open>extractRevertData\<close> of diag.go; \<open>common.FromHex\<close> is a parameter.\<close>

definition extractRevertData :: "(string \<Rightarrow> bytes) \<Rightarrow> rpc_error option \<Rightarrow> bytes" where
  "extractRevertData fromHex err =
     (case err of
        None \<Rightarrow> []
      | Some e \<Rightarrow>
          (case rxData e of Some (DataString s) \<Rightarrow> fromHex s | Some (DataBytes b) \<Rightarrow> b | _ \<Rightarrow> []))"

section \<open>Diagnosing a revert (diag.go)\<close>

text \<open>What the two diagnostic functions log last.  An interface lists its custom errors, in the order in which
  Go's iteration meets them, with their selectors and argument decoders.\<close>

datatype diagnosis =
    DiagABI string | DiagPack string | DiagSucceeded | DiagNoData rpc_error | DiagShort bytes
  | DiagReason string | DiagCustom string string "string + string" | DiagUnknown bytes bytes

record custom_error =
  ceName :: string
  ceSelector :: bytes
  ceUnpack :: "bytes \<Rightarrow> string + string"

definition error_selector :: bytes where "error_selector = [0x08, 0xc3, 0x79, 0xa0]"

text \<open>The first interface with an error of that selector.\<close>

fun match_custom :: "bytes \<Rightarrow> (string \<times> (custom_error list) option) list \<Rightarrow> (string \<times> custom_error) option" where
  "match_custom selector [] = None"
| "match_custom selector ((name, None) # srcs) = match_custom selector srcs"
| "match_custom selector ((name, Some errs) # srcs) =
     (case find (\<lambda>e. take 4 (ceSelector e) = selector) errs of
        None \<Rightarrow> match_custom selector srcs
      | Some e \<Rightarrow> Some (name, e))"

definition diag_revert ::
  "(bytes \<Rightarrow> string option) \<Rightarrow> (string \<Rightarrow> bytes) \<Rightarrow> (string \<times> (custom_error list) option) list
     \<Rightarrow> string option \<Rightarrow> string option \<Rightarrow> rpc_error option \<Rightarrow> diagnosis" where
  "diag_revert unpackRevert fromHex srcs abiErr packErr callErr =
     (case abiErr of Some e \<Rightarrow> DiagABI e | None \<Rightarrow>
     (case packErr of Some e \<Rightarrow> DiagPack e | None \<Rightarrow>
     (case callErr of None \<Rightarrow> DiagSucceeded | Some e \<Rightarrow>
        (let revertData = extractRevertData fromHex (Some e) in
         if revertData = [] then DiagNoData e
         else if length revertData < 4 then DiagShort revertData
         else
           let selector = take 4 revertData;
               custom = (case match_custom selector srcs of
                           Some (name, err) \<Rightarrow> DiagCustom name (ceName err) (ceUnpack err (drop 4 revertData))
                         | None \<Rightarrow> DiagUnknown selector revertData)
           in if selector = error_selector
              then (case unpackRevert revertData of Some reason \<Rightarrow> DiagReason reason | None \<Rightarrow> custom)
              else custom))))"

text \<open>The interfaces that are searched, each with its parsed errors, None when its ABI does not load.\<close>

definition diag_sources :: "(string \<Rightarrow> (custom_error list) option) \<Rightarrow> (string \<times> (custom_error list) option) list" where
  "diag_sources getAbi =
     map (\<lambda>n. (n, getAbi n)) [''Verification'', ''Fdc2Hub'', ''MachineManager'', ''ExtensionManager'']"

text \<open>The node's side of a replay: the packer of the call data and \<open>eth_call\<close> from the deployer to the diamond
  with the value the transaction carried.\<close>

record 'a replay_env =
  rpABI :: "string option"
  rpPack :: "'a \<Rightarrow> string + bytes"
  rpCall :: "address \<Rightarrow> int \<Rightarrow> bytes \<Rightarrow> rpc_error option"
  rpErrors :: "string \<Rightarrow> (custom_error list) option"
  rpUnpackRevert :: "bytes \<Rightarrow> string option"
  rpFromHex :: "string \<Rightarrow> bytes"

definition diag_replay :: "'a replay_env \<Rightarrow> address \<Rightarrow> int \<Rightarrow> 'a \<Rightarrow> diagnosis" where
  "diag_replay ev flareTeeManager value args =
     (case rpPack ev args of
        Inl e \<Rightarrow> diag_revert (rpUnpackRevert ev) (rpFromHex ev) (diag_sources (rpErrors ev)) (rpABI ev) (Some e) None
      | Inr calldata \<Rightarrow>
          diag_revert (rpUnpackRevert ev) (rpFromHex ev) (diag_sources (rpErrors ev)) (rpABI ev) None
            (rpCall ev flareTeeManager value calldata))"

definition diagAvailabilityCheckRevert ::
  "(address \<times> hash32 \<times> address \<times> address \<times> address) replay_env \<Rightarrow> address \<Rightarrow> int
     \<Rightarrow> address \<Rightarrow> hash32 \<Rightarrow> address \<Rightarrow> address \<Rightarrow> address \<Rightarrow> diagnosis" where
  "diagAvailabilityCheckRevert ev flareTeeManager value teeID instructionID externalTeeID proofOwner claimBack =
     diag_replay ev flareTeeManager value (teeID, instructionID, externalTeeID, proofOwner, claimBack)"

definition diagToProductionRevert :: "'p replay_env \<Rightarrow> address \<Rightarrow> int \<Rightarrow> 'p \<Rightarrow> diagnosis" where
  "diagToProductionRevert ev flareTeeManager value pf = diag_replay ev flareTeeManager value pf"

section \<open>Waiting for a transaction (support.go)\<close>

record 'l mined =
  mdStatus :: u64
  mdTxHash :: hash32
  mdLogs :: "'l list"

text \<open>A submitted transaction, as the node answers about it: its hash, its receipt within two minutes, and for
  a failed one the lookup, the sender and the replayed call.\<close>

record 'l sent_tx =
  stHash :: hash32
  stWaitMined :: "string + 'l mined"
  stLookup :: "string option"      \<comment> \<open>error of \<open>TransactionByHash\<close>\<close>
  stSender :: "string option"      \<comment> \<open>error of \<open>types.Sender\<close>\<close>
  stReplay :: "rpc_error + bytes"

definition decodeRevertFromError :: "(bytes \<Rightarrow> string option) \<Rightarrow> rpc_error \<Rightarrow> string" where
  "decodeRevertFromError unpackRevert e =
     (case rxData e of
        Some (DataString hexStr) \<Rightarrow>
          (case hex_decode (trim_prefix hexStr ''0x'') of
             Inl _ \<Rightarrow> []
           | Inr decoded \<Rightarrow> (case unpackRevert decoded of Some reason \<Rightarrow> reason | None \<Rightarrow> []))
      | _ \<Rightarrow> [])"

definition getFailingMessage :: "(bytes \<Rightarrow> string option) \<Rightarrow> 'l sent_tx \<Rightarrow> string + string" where
  "getFailingMessage unpackRevert tx =
     (case stLookup tx of Some e \<Rightarrow> Inl e | None \<Rightarrow>
     (case stSender tx of Some e \<Rightarrow> Inl e | None \<Rightarrow>
     (case stReplay tx of
        Inl e \<Rightarrow>
          (let reason = decodeRevertFromError unpackRevert e in
           Inr (if reason \<noteq> [] then reason else rxMessage e))
      | Inr res \<Rightarrow>
          (case unpackRevert res of
             Some reason \<Rightarrow> Inr reason
           | None \<Rightarrow> Inr (if res \<noteq> [] then ''0x'' @ hex_encode res else ''unknown revert reason'')))))"

datatype check_error = NotMined hash32 string | FailingMessage string | TransactionFail string

definition CheckTx :: "(bytes \<Rightarrow> string option) \<Rightarrow> 'l sent_tx \<Rightarrow> check_error + 'l mined" where
  "CheckTx unpackRevert tx =
     (case stWaitMined tx of
        Inl e \<Rightarrow> Inl (NotMined (stHash tx) e)
      | Inr receipt \<Rightarrow>
          if mdStatus receipt = 0 then
            (case getFailingMessage unpackRevert tx of
               Inl e \<Rightarrow> Inl (FailingMessage e) | Inr reason \<Rightarrow> Inl (TransactionFail reason))
          else Inr receipt)"

section \<open>Addresses and keys (support.go)\<close>

record Addresses =
  adFlareSystemManager :: address
  adFdc2Hub :: address
  adFlareTeeManager :: address

record RawContract =
  rawName :: string
  rawContractName :: string
  rawAddress :: string

definition no_addresses :: Addresses where
  "no_addresses = \<lparr>adFlareSystemManager = 0, adFdc2Hub = 0, adFlareTeeManager = 0\<rparr>"

text \<open>\<open>fieldMap\<close>: the JSON tag of a field names it; the field is given by its update.\<close>

definition fieldMap :: "string \<Rightarrow> (address \<Rightarrow> Addresses \<Rightarrow> Addresses) option" where
  "fieldMap key =
     map_of [(''FlareSystemsManager'', \<lambda>a. adFlareSystemManager_update (\<lambda>_. a)),
             (''Fdc2Hub'', \<lambda>a. adFdc2Hub_update (\<lambda>_. a)),
             (''FlareTeeManager'', \<lambda>a. adFlareTeeManager_update (\<lambda>_. a))] key"

fun set_addresses :: "(string \<Rightarrow> address) \<Rightarrow> RawContract list \<Rightarrow> Addresses \<Rightarrow> Addresses" where
  "set_addresses hexToAddress [] addrs = addrs"
| "set_addresses hexToAddress (c # cs) addrs =
     set_addresses hexToAddress cs
       (case fieldMap (rawName c) of Some dest \<Rightarrow> dest (hexToAddress (rawAddress c)) addrs | None \<Rightarrow> addrs)"

definition ParseAddresses ::
  "(string \<Rightarrow> string + bytes) \<Rightarrow> (bytes \<Rightarrow> string + RawContract list) \<Rightarrow> (string \<Rightarrow> address) \<Rightarrow> string
     \<Rightarrow> string + Addresses" where
  "ParseAddresses readFile unmarshal hexToAddress filePath =
     (case readFile filePath of Inl e \<Rightarrow> Inl e | Inr file \<Rightarrow>
     (case unmarshal file of Inl e \<Rightarrow> Inl e | Inr raw \<Rightarrow> Inr (set_addresses hexToAddress raw no_addresses)))"

text \<open>The key after \<open>.env\<close> was loaded; None stands for the development key.\<close>

definition DefaultPrivateKey ::
  "(string \<Rightarrow> string) \<Rightarrow> (string \<Rightarrow> string + 'k) \<Rightarrow> string + 'k option" where
  "DefaultPrivateKey getenv hexToECDSA =
     (let s = getenv ''DEPLOYMENT_PRIVATE_KEY'' in
      if s = [] then Inr None
      else let s = (if has_prefix s ''0x'' \<or> has_prefix s ''0X'' then drop 2 s else s) in
        case hexToECDSA s of Inl e \<Rightarrow> Inl e | Inr k \<Rightarrow> Inr (Some k))"

record 'k support =
  suPrv :: "'k option"
  suAddresses :: Addresses
  suChainID :: int
  suBindings :: "(string \<times> address) list"  \<comment> \<open>each binding with the address it is bound to\<close>

text \<open>The bindings in the order they are created: all TEE facets sit behind one proxy.\<close>

definition bindings :: "Addresses \<Rightarrow> (string \<times> address) list" where
  "bindings addresses =
     (let diamond = adFlareTeeManager addresses in
      [(''MachineManager'', diamond), (''WalletManager'', diamond), (''WalletKeyManager'', diamond),
       (''WalletProjectManager'', diamond), (''FlareSystemsManager'', adFlareSystemManager addresses),
       (''Fdc2Hub'', adFdc2Hub addresses), (''Verification'', diamond), (''ExtensionManager'', diamond),
       (''OwnerAllowlist'', diamond), (''ExtensionGovernance'', diamond)])"

fun first_error :: "(string \<times> address \<Rightarrow> string option) \<Rightarrow> (string \<times> address) list \<Rightarrow> string option" where
  "first_error new [] = None"
| "first_error new (b # bs) = (case new b of Some e \<Rightarrow> Some e | None \<Rightarrow> first_error new bs)"

definition NewSupport ::
  "(string \<times> address \<Rightarrow> string option) \<Rightarrow> string + int \<Rightarrow> 'k option \<Rightarrow> Addresses \<Rightarrow> string + 'k support" where
  "NewSupport new chainID prv addresses =
     (case first_error new (bindings addresses) of
        Some e \<Rightarrow> Inl e
      | None \<Rightarrow>
     (case chainID of
        Inl e \<Rightarrow> Inl e
      | Inr i \<Rightarrow> Inr \<lparr>suPrv = prv, suAddresses = addresses, suChainID = i, suBindings = bindings addresses\<rparr>))"

definition DefaultSupport ::
  "(string \<Rightarrow> string + Addresses) \<Rightarrow> (string \<Rightarrow> string + Addresses) \<Rightarrow> string option \<Rightarrow> string + 'k option
     \<Rightarrow> (string \<times> address \<Rightarrow> string option) \<Rightarrow> string + int \<Rightarrow> string \<Rightarrow> string + 'k support" where
  "DefaultSupport readAddresses parseAddresses dialErr key new chainID path =
     (case (case readAddresses path of Inr a \<Rightarrow> Inr a | Inl _ \<Rightarrow> parseAddresses path) of
        Inl e \<Rightarrow> Inl e
      | Inr addr \<Rightarrow>
     (case dialErr of
        Some e \<Rightarrow> Inl e
      | None \<Rightarrow>
     (case key of Inl e \<Rightarrow> Inl e | Inr prv \<Rightarrow> NewSupport new chainID prv addr)))"

end
