(* ===== verification/NodeAccess.thy ===== *)
theory NodeAccess
  imports Support
begin

text \<open>
  Talking to a TEE node and its proxy (\<open>tools/pkg/fccutils/tee_calls.go\<close>, \<open>common.go\<close>): polling for a result,
  the node's identity and its proxy's, the attested code hash, the three configuration calls, and the
  availability proof of \<open>registration.go\<close>.  HTTP, JSON, the attestation token and the curve are parameters.
\<close>

section \<open>Polling and calling a node (tee\_calls.go, common.go)\<close>

definition repeats :: nat where "repeats = 15"

text \<open>The attempts of \<open>ActionResult\<close>: the first good answer, or the last one.\<close>

fun attempts :: "(nat \<Rightarrow> string + http_response) \<Rightarrow> nat \<Rightarrow> nat \<Rightarrow> string + http_response" where
  "attempts get i 0 = get i"
| "attempts get i (Suc n) =
     (case get i of
        Inr resp \<Rightarrow> if httpStatus resp = StatusOK then Inr resp else attempts get (Suc i) n
      | Inl e \<Rightarrow> attempts get (Suc i) n)"

datatype call_error =
    GetFailed string | StatusNotOK nat | DecodeFailed string | ParseKeyFailed string | HashFailed string
  | RecoverFailed string | ClaimsFailed string | CodeHashMismatch hash32 hash32 | PlatformMismatch hash32 hash32
  | MarshalFailed string | PostError string

definition ActionResult_poll ::
  "(nat \<Rightarrow> string + http_response) \<Rightarrow> (bytes \<Rightarrow> string + 'r) \<Rightarrow> call_error + 'r" where
  "ActionResult_poll get decode =
     (case attempts get 0 (repeats - 1) of
        Inl e \<Rightarrow> Inl (GetFailed e)
      | Inr resp \<Rightarrow>
          if httpStatus resp \<noteq> StatusOK then Inl (StatusNotOK (httpStatus resp))
          else (case decode (httpBody resp) of Inl e \<Rightarrow> Inl (DecodeFailed e) | Inr r \<Rightarrow> Inr r))"

definition fetch_ActionResult ::
  "(string \<Rightarrow> nat \<Rightarrow> string + http_response) \<Rightarrow> (bytes \<Rightarrow> string + 'r) \<Rightarrow> string \<Rightarrow> hash32 \<Rightarrow> call_error + 'r" where
  "fetch_ActionResult get decode nodeURL actionID =
     ActionResult_poll (get (nodeURL @ ''/action/result/'' @ hash_hex actionID)) decode"

record machine_data =
  mcExtensionId :: int
  mcInitialOwner :: address
  mcCodeHash :: hash32
  mcPlatform :: hash32
  mcPublicKey :: "hash32 \<times> hash32"
  mcGovernanceHash :: hash32

record tee_info =
  tiPublicKey :: "hash32 \<times> hash32"
  tiChainID :: int
  tiProxySignature :: bytes
  tiAttestation :: string
  tiLastSigningPolicyID :: u32
  tiHash :: "string + bytes"              \<comment> \<open>\<open>TeeInfo.Hash()\<close>\<close>
  tiDataSignature :: bytes
  tiExtensionID :: hash32
  tiData :: machine_data                  \<comment> \<open>its extension id is \<open>tiExtensionID\<close> as a number\<close>

record identity_env =
  idParsePubKey :: "hash32 \<times> hash32 \<Rightarrow> string + hash32 \<times> hash32"
  idAddress :: "hash32 \<times> hash32 \<Rightarrow> address"
  idSignHash :: "int \<Rightarrow> hash32 \<Rightarrow> string + hash32"  \<comment> \<open>the domain-separated payload's hash\<close>
  idTextHash :: "hash32 \<Rightarrow> bytes"
  idSigToPub :: "bytes \<Rightarrow> bytes \<Rightarrow> string + hash32 \<times> hash32"
  idBytesToHash :: "bytes \<Rightarrow> hash32"
  idClaims :: "string \<Rightarrow> string + (string + hash32) \<times> (string + hash32)"
  idGetenv :: "string \<Rightarrow> string"

definition TeeInfo :: "(string \<Rightarrow> string + bytes) \<Rightarrow> (bytes \<Rightarrow> string + tee_info) \<Rightarrow> string \<Rightarrow> call_error + tee_info" where
  "TeeInfo get decode nodeURL =
     (case get (nodeURL @ ''/info'') of
        Inl e \<Rightarrow> Inl (GetFailed e)
      | Inr body \<Rightarrow> (case decode body of Inl e \<Rightarrow> Inl (DecodeFailed e) | Inr i \<Rightarrow> Inr i))"

definition TeeProxyId :: "identity_env \<Rightarrow> tee_info \<Rightarrow> call_error + address \<times> address" where
  "TeeProxyId ev info =
     (case idParsePubKey ev (tiPublicKey info) of
        Inl e \<Rightarrow> Inl (ParseKeyFailed e)
      | Inr pubKey \<Rightarrow>
     (case tiHash info of
        Inl e \<Rightarrow> Inl (HashFailed e)
      | Inr hash \<Rightarrow>
     (case idSignHash ev (tiChainID info) (idBytesToHash ev hash) of
        Inl e \<Rightarrow> Inl (HashFailed e)
      | Inr infoSignHash \<Rightarrow>
     (case idSigToPub ev (idTextHash ev infoSignHash) (tiProxySignature info) of
        Inl e \<Rightarrow> Inl (RecoverFailed e)
      | Inr proxyPubKey \<Rightarrow> Inr (idAddress ev pubKey, idAddress ev proxyPubKey)))))"

definition GetTeeProxyID ::
  "identity_env \<Rightarrow> (string \<Rightarrow> string + bytes) \<Rightarrow> (bytes \<Rightarrow> string + tee_info) \<Rightarrow> string
     \<Rightarrow> call_error + address \<times> address" where
  "GetTeeProxyID ev get decode proxyURL =
     (case TeeInfo get decode proxyURL of Inl e \<Rightarrow> Inl e | Inr info \<Rightarrow> TeeProxyId ev info)"

definition CodeHashAndPlatform :: "identity_env \<Rightarrow> string \<Rightarrow> call_error + hash32 \<times> hash32" where
  "CodeHashAndPlatform ev attestation =
     (case idClaims ev attestation of
        Inl e \<Rightarrow> Inl (ClaimsFailed e)
      | Inr (codeHash, platform) \<Rightarrow>
     (case codeHash of
        Inl e \<Rightarrow> Inl (ClaimsFailed e)
      | Inr c \<Rightarrow> (case platform of Inl e \<Rightarrow> Inl (ClaimsFailed e) | Inr p \<Rightarrow> Inr (c, p))))"

definition TeeCodeHash :: hash32 where
  "TeeCodeHash = 0x194844cf417dde867073e5ab7199fa4d21fd82b5dbe2bdea8b3d7fc18d10fdc2"

definition TestPlatform :: hash32 where
  "TestPlatform = 0x544553545f504c4154464f524d00000000000000000000000000000000000000"

definition GetCodeHashAndPlatform :: "identity_env \<Rightarrow> tee_info \<Rightarrow> call_error + hash32 \<times> hash32" where
  "GetCodeHashAndPlatform ev info =
     (case (if idGetenv ev ''SIMULATED_TEE'' = ''true'' then Inr (TeeCodeHash, TestPlatform)
            else CodeHashAndPlatform ev (tiAttestation info)) of
        Inl e \<Rightarrow> Inl e
      | Inr (codeHash, platform) \<Rightarrow>
          if codeHash \<noteq> mcCodeHash (tiData info) then Inl (CodeHashMismatch codeHash (mcCodeHash (tiData info)))
          else if platform \<noteq> mcPlatform (tiData info) then Inl (PlatformMismatch platform (mcPlatform (tiData info)))
          else Inr (codeHash, platform))"

text \<open>The three configuration calls post a JSON body to a local port.\<close>

definition configure ::
  "(string \<Rightarrow> bytes \<Rightarrow> string + nat) \<Rightarrow> string + bytes \<Rightarrow> string \<Rightarrow> int \<Rightarrow> call_error option" where
  "configure post body path port =
     (case body of
        Inl e \<Rightarrow> Some (MarshalFailed e)
      | Inr b \<Rightarrow>
     (case post (''http://localhost:'' @ int_string port @ path) b of
        Inl e \<Rightarrow> Some (PostError e)
      | Inr status \<Rightarrow> if status \<noteq> StatusOK then Some (StatusNotOK status) else None))"

definition SetProxyUrl :: "(string \<Rightarrow> bytes \<Rightarrow> string + nat) \<Rightarrow> (string \<Rightarrow> string + bytes) \<Rightarrow> int \<Rightarrow> int \<Rightarrow> call_error option" where
  "SetProxyUrl post marshalURL configurationPort proxyPort =
     configure post (marshalURL (''http://localhost:'' @ int_string proxyPort)) ''/proxy'' configurationPort"

definition SetInitialOwner :: "(string \<Rightarrow> bytes \<Rightarrow> string + nat) \<Rightarrow> (address \<Rightarrow> string + bytes) \<Rightarrow> int \<Rightarrow> address \<Rightarrow> call_error option" where
  "SetInitialOwner post marshalOwner configurationPort owner =
     configure post (marshalOwner owner) ''/initial-owner'' configurationPort"

definition SetExtensionID :: "(string \<Rightarrow> bytes \<Rightarrow> string + nat) \<Rightarrow> (hash32 \<Rightarrow> string + bytes) \<Rightarrow> int \<Rightarrow> hash32 \<Rightarrow> call_error option" where
  "SetExtensionID post marshalID configurationPort extensionID =
     configure post (marshalID extensionID) ''/extension-id'' configurationPort"

section \<open>The availability proof (registration.go)\<close>

record ftdc_env =
  ftGet :: "string \<Rightarrow> nat \<Rightarrow> string + http_response"              \<comment> \<open>per URL and attempt\<close>
  ftDecode :: "bytes \<Rightarrow> string + bytes"                         \<comment> \<open>the result's data\<close>
  ftUnmarshal :: "bytes \<Rightarrow> string + bytes \<times> bytes \<times> bytes \<times> bytes list"
    \<comment> \<open>header, request, response, signatures\<close>
  ftHeader :: "bytes \<Rightarrow> string + bytes"
  ftRequest :: "bytes \<Rightarrow> string + address \<times> bytes"
  ftResponse :: "bytes \<Rightarrow> string + bytes"

text \<open>The decoded header and bodies are passed on; only the node's id is read.\<close>

record availability_proof =
  avSignatures :: "bytes list"
  avHeader :: bytes
  avTeeId :: address
  avRequestRest :: bytes
  avResponse :: bytes

definition GetFTDCAvailabilityCheckResult :: "ftdc_env \<Rightarrow> string \<Rightarrow> hash32 \<Rightarrow> call_error + availability_proof" where
  "GetFTDCAvailabilityCheckResult ev hostURL instructionId =
     (case fetch_ActionResult (ftGet ev) (ftDecode ev) hostURL instructionId of
        Inl e \<Rightarrow> Inl e
      | Inr data \<Rightarrow>
     (case ftUnmarshal ev data of
        Inl e \<Rightarrow> Inl (DecodeFailed e)
      | Inr (header, request, response, sigs) \<Rightarrow>
     (case ftHeader ev header of
        Inl e \<Rightarrow> Inl (DecodeFailed e)
      | Inr h \<Rightarrow>
     (case ftRequest ev request of
        Inl e \<Rightarrow> Inl (DecodeFailed e)
      | Inr (teeId, rest) \<Rightarrow>
     (case ftResponse ev response of
        Inl e \<Rightarrow> Inl (DecodeFailed e)
      | Inr r \<Rightarrow>
          Inr \<lparr>avSignatures = sigs, avHeader = h, avTeeId = teeId, avRequestRest = rest, avResponse = r\<rparr>)))))"

end
