(* ===== verification/Registration.thy ===== *)
theory Registration
  imports NodeAccess
begin

text \<open>
  Registering a TEE node (\<open>tools/pkg/fccutils/registration.go\<close>, \<open>policy_consistency.go\<close>): the
  resumable sequence of transactions with its state file, the policy gate before the availability check and
  the idempotent move to production.  What the
  chain, the node and the file system answer is a record of functions of the transactions sent so far; a
  transaction is recorded in the world when the binding accepted it.
\<close>

section \<open>The world of the tools\<close>

record registrationState =
  CompletedSteps :: string
  TeeAttestInstructionID :: hash32
  InstructionID :: hash32

definition fresh_state :: registrationState where
  "fresh_state = \<lparr>CompletedSteps = [], TeeAttestInstructionID = 0, InstructionID = 0\<rparr>"

text \<open>The state file: absent, with parsed contents, or unreadable with an error.\<close>

datatype state_file = NoFile | Saved registrationState | Unreadable string

record signature =
  sgV :: byte
  sgR :: bytes
  sgS :: bytes

datatype tool_tx =
    TxRegister int machine_data signature address string address
  | TxAttest int address address
  | TxAvailability int address hash32 address address address
  | TxProduction availability_proof
  | TxGovernance int "address list" u64
  | TxTeeVersion int bytes hash32 "hash32 list"
  | TxRegisterExtension address address
  | TxMachineOwners int "address list"
  | TxProjectOwners int "address list"
  | TxKeyTypes int "hash32 list"

record world =
  wTxs :: "tool_tx list"
  wFile :: state_file

record chain_env =
  ceTransactor :: "string option"          \<comment> \<open>error of \<open>NewKeyedTransactorWithChainID\<close>\<close>
  ceFrom :: address
  ceSubmit :: "tool_tx list \<Rightarrow> tool_tx \<Rightarrow> string + bytes sent_tx"
  ceUnpackRevert :: "bytes \<Rightarrow> string option"
  ceInstructionsSent :: "bytes \<Rightarrow> string + hash32"       \<comment> \<open>instruction id of the parsed event\<close>
  ceAttestationRequested :: "bytes \<Rightarrow> string + hash32"   \<comment> \<open>challenge of the parsed event\<close>
  ceMachine :: "tool_tx list \<Rightarrow> address \<Rightarrow> string + address"  \<comment> \<open>\<open>GetTeeMachine(teeID).TeeId\<close>\<close>
  ceStatus :: "tool_tx list \<Rightarrow> address \<Rightarrow> string + u8"       \<comment> \<open>\<open>GetTeeMachineStatus(teeID)\<close>\<close>
  ceTransformVRS :: "bytes \<Rightarrow> string + bytes"
  ceSave :: "tool_tx list \<Rightarrow> registrationState \<Rightarrow> state_file option"
    \<comment> \<open>None when the file was written, else what the failed write left\<close>
  ceRemoves :: bool                        \<comment> \<open>\<open>os.Remove\<close> of the state file succeeds\<close>
  ceFtdc :: ftdc_env
  ceIdentity :: identity_env
  ceHttpGet :: "string \<Rightarrow> string + bytes"
  ceDecodeInfo :: "bytes \<Rightarrow> string + tee_info"
  ceRewardEpoch :: "string + int option"   \<comment> \<open>\<open>GetCurrentRewardEpochId\<close>; the number may be nil\<close>

definition instruction_fee :: int where "instruction_fee = 1000000000"

definition zero_address :: address where "zero_address = 0"

section \<open>The state file\<close>

definition loadState :: "world \<Rightarrow> string + registrationState" where
  "loadState w = (case wFile w of NoFile \<Rightarrow> Inr fresh_state | Saved s \<Rightarrow> Inr s | Unreadable e \<Rightarrow> Inl e)"

text \<open>A failed save is only logged.\<close>

definition saveState :: "chain_env \<Rightarrow> registrationState \<Rightarrow> world \<Rightarrow> world" where
  "saveState ev s w =
     (case ceSave ev (wTxs w) s of None \<Rightarrow> w\<lparr>wFile := Saved s\<rparr> | Some f \<Rightarrow> w\<lparr>wFile := f\<rparr>)"

definition remove_state :: "chain_env \<Rightarrow> world \<Rightarrow> world" where
  "remove_state ev w = (if ceRemoves ev then w\<lparr>wFile := NoFile\<rparr> else w)"

section \<open>Sending\<close>

datatype tool_error =
    NoTransactor string | Submitting tool_tx string | Checking check_error | UnexpectedLogs | ParsingEvent string
  | LoadingState string | IdentifyingTee call_error | SignatureError | TransformingSignature string
  | PolicyOutOfSync u64 u64 | FtdcResult call_error | ReadingMachine string | NotSetUp | VersionTooLong string
  | NoSigners | InvalidThreshold u64 nat | HashingGovernance string

definition send_tx :: "chain_env \<Rightarrow> tool_tx \<Rightarrow> world \<Rightarrow> world \<times> (tool_error + bytes mined)" where
  "send_tx ev tx w =
     (case ceSubmit ev (wTxs w) tx of
        Inl e \<Rightarrow> (w, Inl (Submitting tx e))
      | Inr sent \<Rightarrow>
          (w\<lparr>wTxs := wTxs w @ [tx]\<rparr>,
           case CheckTx (ceUnpackRevert ev) sent of Inl e \<Rightarrow> Inl (Checking e) | Inr receipt \<Rightarrow> Inr receipt))"

definition PreRegistration ::
  "chain_env \<Rightarrow> string \<Rightarrow> address \<Rightarrow> tee_info \<Rightarrow> world \<Rightarrow> world \<times> (tool_error + hash32 \<times> hash32)" where
  "PreRegistration ev hostURL proxyID info w =
     (case ceTransactor ev of Some e \<Rightarrow> (w, Inl (NoTransactor e)) | None \<Rightarrow>
      if length (tiDataSignature info) \<noteq> 65 then (w, Inl SignatureError) else
     (case ceTransformVRS ev (tiDataSignature info) of
        Inl e \<Rightarrow> (w, Inl (TransformingSignature e))
      | Inr vrs \<Rightarrow>
     (let sg = \<lparr>sgV = vrs ! 0, sgR = take 32 (drop 1 vrs), sgS = take 32 (drop 33 vrs)\<rparr>;
          md = (tiData info)\<lparr>mcExtensionId := uint (tiExtensionID info)\<rparr> in
      case send_tx ev (TxRegister instruction_fee md sg proxyID hostURL (ceFrom ev)) w of
        (w, Inl e) \<Rightarrow> (w, Inl e)
      | (w, Inr receipt) \<Rightarrow>
          (w,
           if length (mdLogs receipt) < 2 then Inl UnexpectedLogs
           else case ceAttestationRequested ev (mdLogs receipt ! 1) of
               Inl e \<Rightarrow> Inl (ParsingEvent e)
             | Inr challenge \<Rightarrow>
             (case ceInstructionsSent ev (mdLogs receipt ! 0) of
                Inl e \<Rightarrow> Inl (ParsingEvent e)
              | Inr instructionID \<Rightarrow> Inr (challenge, instructionID))))))"

definition RequestTeeAttestation :: "chain_env \<Rightarrow> address \<Rightarrow> world \<Rightarrow> world \<times> (tool_error + hash32)" where
  "RequestTeeAttestation ev teeID w =
     (case ceTransactor ev of Some e \<Rightarrow> (w, Inl (NoTransactor e)) | None \<Rightarrow>
     (case send_tx ev (TxAttest instruction_fee teeID (ceFrom ev)) w of
        (w, Inl e) \<Rightarrow> (w, Inl e)
      | (w, Inr receipt) \<Rightarrow>
          (w,
           if length (mdLogs receipt) < 2 then Inl UnexpectedLogs
           else case ceInstructionsSent ev (mdLogs receipt ! 0) of
               Inl e \<Rightarrow> Inl (ParsingEvent e) | Inr instructionID \<Rightarrow> Inr instructionID)))"

definition RequestFTDCAvailabilityCheck ::
  "chain_env \<Rightarrow> address \<Rightarrow> address \<Rightarrow> hash32 \<Rightarrow> world \<Rightarrow> world \<times> (tool_error + hash32)" where
  "RequestFTDCAvailabilityCheck ev teeID externalTeeID teeAttestInstructionID w =
     (case ceTransactor ev of Some e \<Rightarrow> (w, Inl (NoTransactor e)) | None \<Rightarrow>
     (case send_tx ev (TxAvailability instruction_fee teeID teeAttestInstructionID externalTeeID (ceFrom ev) (ceFrom ev)) w of
        (w, Inl e) \<Rightarrow> (w, Inl e)
      | (w, Inr receipt) \<Rightarrow>
          (w,
           if mdLogs receipt = [] then Inl UnexpectedLogs
           else case ceInstructionsSent ev (mdLogs receipt ! 0) of
               Inl e \<Rightarrow> Inl (ParsingEvent e) | Inr instructionID \<Rightarrow> Inr instructionID)))"

definition teeStatusProduction :: u8 where "teeStatusProduction = 2"

definition ToProduction :: "chain_env \<Rightarrow> availability_proof \<Rightarrow> world \<Rightarrow> world \<times> tool_error option" where
  "ToProduction ev pf w =
     (if ceStatus ev (wTxs w) (avTeeId pf) = Inr teeStatusProduction then (w, None)
      else case ceTransactor ev of Some e \<Rightarrow> (w, Some (NoTransactor e)) | None \<Rightarrow>
     (case send_tx ev (TxProduction pf) w of
        (w, Inl e) \<Rightarrow> (w, Some e)
      | (w, Inr receipt) \<Rightarrow>
          (w,
           case ceMachine ev (wTxs w) (avTeeId pf) of
             Inl e \<Rightarrow> Some (ReadingMachine e)
           | Inr teeId \<Rightarrow> if teeId \<noteq> avTeeId pf then Some NotSetUp else None)))"

section \<open>The policy gate (policy\_consistency.go)\<close>

definition policyInSync :: "u64 \<Rightarrow> u64 \<Rightarrow> bool" where
  "policyInSync onchainEpoch proxyPolicyID \<longleftrightarrow>
     proxyPolicyID = onchainEpoch \<or> proxyPolicyID = onchainEpoch + 1"

definition outOfSync_relation :: "u64 \<Rightarrow> u64 \<Rightarrow> string" where
  "outOfSync_relation onchainEpoch proxyPolicyID =
     (if proxyPolicyID < onchainEpoch
      then ''proxy is '' @ nat_string (unat (onchainEpoch - proxyPolicyID)) @ '' epoch(s) behind''
      else ''proxy is '' @ nat_string (unat (proxyPolicyID - onchainEpoch)) @ '' epoch(s) ahead'')"

definition CheckFTDCProxyPolicyConsistency :: "chain_env \<Rightarrow> string \<Rightarrow> tool_error option" where
  "CheckFTDCProxyPolicyConsistency ev ftdcProxyURL =
     (case ceRewardEpoch ev of
        Inl e \<Rightarrow> None
      | Inr None \<Rightarrow> None
      | Inr (Some onchain) \<Rightarrow>
     (case TeeInfo (ceHttpGet ev) (ceDecodeInfo ev) ftdcProxyURL of
        Inl e \<Rightarrow> None
      | Inr info \<Rightarrow>
          let onchainEpoch = word_of_int onchain; proxyPolicyID = ucast (tiLastSigningPolicyID info)
          in if \<not> policyInSync onchainEpoch proxyPolicyID
             then Some (PolicyOutOfSync onchainEpoch proxyPolicyID) else None))"

section \<open>The registration\<close>

definition step_done :: "string \<Rightarrow> registrationState \<Rightarrow> bool" where
  "step_done c s = contains (CompletedSteps s) c"

text \<open>The three resumable steps: each yields the world, and the state with the id it found or made.\<close>

definition step_register ::
  "chain_env \<Rightarrow> string \<Rightarrow> address \<Rightarrow> address \<Rightarrow> tee_info \<Rightarrow> registrationState \<Rightarrow> world
     \<Rightarrow> world \<times> (tool_error + registrationState \<times> hash32)" where
  "step_register ev hostURL teeID proxyID info s w =
     (if step_done ''r'' s then (w, Inr (s, TeeAttestInstructionID s))
      else
        let registered = (case ceMachine ev (wTxs w) teeID of Inl e \<Rightarrow> False | Inr teeId \<Rightarrow> teeId \<noteq> zero_address);
            (w, r) = (if registered then RequestTeeAttestation ev teeID w
                      else (case PreRegistration ev hostURL proxyID info w of
                              (w, Inl e) \<Rightarrow> (w, Inl e) | (w, Inr (_, i)) \<Rightarrow> (w, Inr i)))
        in case r of
             Inl e \<Rightarrow> (w, Inl e)
           | Inr i \<Rightarrow>
               let s = s\<lparr>CompletedSteps := CompletedSteps s @ ''r'', TeeAttestInstructionID := i\<rparr>
               in (saveState ev s w, Inr (s, i)))"

definition step_attest ::
  "chain_env \<Rightarrow> address \<Rightarrow> registrationState \<Rightarrow> world \<Rightarrow> world \<times> (tool_error + registrationState \<times> hash32)" where
  "step_attest ev teeID s w =
     (if step_done ''R'' s then (w, Inr (s, TeeAttestInstructionID s))
      else case RequestTeeAttestation ev teeID w of
          (w, Inl e) \<Rightarrow> (w, Inl e)
        | (w, Inr i) \<Rightarrow>
            let s = s\<lparr>CompletedSteps := CompletedSteps s @ ''R'', TeeAttestInstructionID := i\<rparr>
            in (saveState ev s w, Inr (s, i)))"

definition step_available ::
  "chain_env \<Rightarrow> string \<Rightarrow> address \<Rightarrow> address \<Rightarrow> hash32 \<Rightarrow> registrationState \<Rightarrow> world
     \<Rightarrow> world \<times> (tool_error + registrationState \<times> hash32)" where
  "step_available ev ftdcTeeURL teeID ftdcTee teeAttestInstructionID s w =
     (if step_done ''a'' s then (w, Inr (s, InstructionID s))
      else case CheckFTDCProxyPolicyConsistency ev ftdcTeeURL of
          Some e \<Rightarrow> (w, Inl e)
        | None \<Rightarrow>
            (case RequestFTDCAvailabilityCheck ev teeID ftdcTee teeAttestInstructionID w of
               (w, Inl e) \<Rightarrow> (w, Inl e)
             | (w, Inr i) \<Rightarrow>
                 let s = s\<lparr>CompletedSteps := CompletedSteps s @ ''a'', InstructionID := i\<rparr>
                 in (saveState ev s w, Inr (s, i))))"

definition step_production :: "chain_env \<Rightarrow> string \<Rightarrow> hash32 \<Rightarrow> world \<Rightarrow> world \<times> tool_error option" where
  "step_production ev ftdcTeeURL instructionID w =
     (case GetFTDCAvailabilityCheckResult (ceFtdc ev) ftdcTeeURL instructionID of
        Inl e \<Rightarrow> (w, Some (FtdcResult e))
      | Inr pf \<Rightarrow> ToProduction ev pf w)"

definition RegisterNode ::
  "chain_env \<Rightarrow> tee_info \<Rightarrow> string \<Rightarrow> string \<Rightarrow> address \<Rightarrow> string \<Rightarrow> hash32 \<Rightarrow> world
     \<Rightarrow> world \<times> tool_error option" where
  "RegisterNode ev info hostURL ftdcTeeURL ftdcTee command instructionIDarg w =
     (case TeeProxyId (ceIdentity ev) info of Inl e \<Rightarrow> (w, Some (IdentifyingTee e)) | Inr (teeID, proxyID) \<Rightarrow>
     (case loadState w of Inl e \<Rightarrow> (w, Some (LoadingState e)) | Inr s \<Rightarrow>
     (case (if contains command ''r'' then step_register ev hostURL teeID proxyID info s w else (w, Inr (s, 0))) of
        (w, Inl e) \<Rightarrow> (w, Some e)
      | (w, Inr (s, teeAttestInstructionID)) \<Rightarrow>
     (case (if contains command ''R'' then step_attest ev teeID s w else (w, Inr (s, teeAttestInstructionID))) of
        (w, Inl e) \<Rightarrow> (w, Some e)
      | (w, Inr (s, teeAttestInstructionID)) \<Rightarrow>
     (case (if contains command ''a'' then step_available ev ftdcTeeURL teeID ftdcTee teeAttestInstructionID s w
            else (w, Inr (s, instructionIDarg))) of
        (w, Inl e) \<Rightarrow> (w, Some e)
      | (w, Inr (s, instructionID)) \<Rightarrow>
     (case (if contains command ''p'' then step_production ev ftdcTeeURL instructionID w else (w, None)) of
        (w, Some e) \<Rightarrow> (w, Some e)
      | (w, None) \<Rightarrow> (remove_state ev w, None)))))))"

end
