(* ===== verification/Governance.thy ===== *)
theory Governance
  imports Registration
begin

text \<open>
  Governance of an extension's nodes and their versions (\<open>tools/pkg/fccutils/governance.go\<close>, and
  \<open>AddTeeVersion\<close> of \<open>registration.go\<close>).
\<close>

section \<open>Governance and versions\<close>

definition SetTeeGovernance ::
  "chain_env \<Rightarrow> (address list \<Rightarrow> u64 \<Rightarrow> string + hash32) \<Rightarrow> (int \<Rightarrow> string + hash32) \<Rightarrow> int \<Rightarrow> address list \<Rightarrow> u64
     \<Rightarrow> world \<Rightarrow> world \<times> tool_error option" where
  "SetTeeGovernance ev governanceHash latestHash extensionId signers threshold w =
     (if signers = [] then (w, Some NoSigners)
      else if threshold = 0 \<or> threshold > of_nat (length signers)
        then (w, Some (InvalidThreshold threshold (length signers)))
      else case governanceHash signers threshold of
        Inl e \<Rightarrow> (w, Some (HashingGovernance e))
      | Inr desiredHash \<Rightarrow>
          if latestHash extensionId = Inr desiredHash then (w, None)
          else (case ceTransactor ev of
                  Some e \<Rightarrow> (w, Some (NoTransactor e))
                | None \<Rightarrow>
                    (case send_tx ev (TxGovernance extensionId signers threshold) w of
                       (w, Inl e) \<Rightarrow> (w, Some e) | (w, Inr _) \<Rightarrow> (w, None))))"

definition stringToBytes32 :: "string \<Rightarrow> tool_error + bytes" where
  "stringToBytes32 s =
     (if length s > 32 then Inl (VersionTooLong s) else Inr (str_bytes s @ replicate (32 - length s) 0))"

definition AddTeeVersion :: "chain_env \<Rightarrow> int \<Rightarrow> hash32 \<Rightarrow> hash32 \<Rightarrow> string \<Rightarrow> world \<Rightarrow> world \<times> tool_error option" where
  "AddTeeVersion ev extensionId codeHash platform version w =
     (case ceTransactor ev of
        Some e \<Rightarrow> (w, Some (NoTransactor e))
      | None \<Rightarrow>
     (case stringToBytes32 version of
        Inl e \<Rightarrow> (w, Some e)
      | Inr versionBytes \<Rightarrow>
          (case send_tx ev (TxTeeVersion extensionId versionBytes codeHash [platform]) w of
             (w, Inl e) \<Rightarrow> (w, Some e) | (w, Inr _) \<Rightarrow> (w, None))))"

end
