(* ===== verification/RegistrationProps.thy ===== *)
theory RegistrationProps
  imports Registration
begin

text \<open>
  What a registration run may send, and what its state file records: completed steps are not repeated, each
  step sends at most one transaction, and the file after an interrupted run names exactly the completed steps.
\<close>

section \<open>Kinds of transactions\<close>

fun is_register :: "tool_tx \<Rightarrow> bool" where
  "is_register (TxRegister _ _ _ _ _ _) = True" | "is_register _ = False"
fun is_attest :: "tool_tx \<Rightarrow> bool" where
  "is_attest (TxAttest _ _ _) = True" | "is_attest _ = False"
fun is_availability :: "tool_tx \<Rightarrow> bool" where
  "is_availability (TxAvailability _ _ _ _ _ _) = True" | "is_availability _ = False"
fun is_production :: "tool_tx \<Rightarrow> bool" where
  "is_production (TxProduction _) = True" | "is_production _ = False"

lemma kinds_exclusive:
  "is_attest tx \<Longrightarrow> \<not> is_register tx" "is_availability tx \<Longrightarrow> \<not> is_register tx \<and> \<not> is_attest tx"
  "is_production tx \<Longrightarrow> \<not> is_register tx \<and> \<not> is_attest tx \<and> \<not> is_availability tx"
  by (cases tx; simp)+

text \<open>The first world leads to the second by sending at most one transaction, of the given kind.\<close>

definition sends :: "(tool_tx \<Rightarrow> bool) \<Rightarrow> world \<Rightarrow> world \<Rightarrow> bool" where
  "sends P w w' \<longleftrightarrow> (\<exists>txs. wTxs w' = wTxs w @ txs \<and> length txs \<le> 1 \<and> list_all P txs)"

lemma sends_refl [simp]: "sends P w w"
  by (simp add: sends_def)

lemma sends_file [simp]: "sends P w (w'\<lparr>wFile := f\<rparr>) \<longleftrightarrow> sends P w w'"
  by (simp add: sends_def)

lemma sends_mono: "sends P w w' \<Longrightarrow> (\<And>tx. P tx \<Longrightarrow> Q tx) \<Longrightarrow> sends Q w w'"
  by (auto simp: sends_def list_all_iff)

lemma send_tx_outcome:
  "send_tx ev tx w = (w', r) \<Longrightarrow> P tx \<Longrightarrow> sends P w w' \<and> wFile w' = wFile w"
  by (auto simp: send_tx_def sends_def split: sum.splits)

section \<open>The operations\<close>

lemma saveState_txs [simp]: "wTxs (saveState ev s w) = wTxs w"
  by (simp add: saveState_def split: option.split)

lemma remove_state_txs [simp]: "wTxs (remove_state ev w) = wTxs w"
  by (simp add: remove_state_def)

lemma remove_state_file [simp]: "ceRemoves ev \<Longrightarrow> wFile (remove_state ev w) = NoFile"
  by (simp add: remove_state_def)

lemma sends_saveState [simp]: "sends P w (saveState ev s w') \<longleftrightarrow> sends P w w'"
  by (simp add: sends_def)

definition saves_ok :: "chain_env \<Rightarrow> bool" where
  "saves_ok ev \<longleftrightarrow> (\<forall>txs s. ceSave ev txs s = None)"

lemma saveState_ok: "saves_ok ev \<Longrightarrow> wFile (saveState ev s w) = Saved s"
  by (simp add: saveState_def saves_ok_def)

lemma preregistration_outcome:
  "PreRegistration ev host proxy info w = (w', r) \<Longrightarrow> sends is_register w w' \<and> wFile w' = wFile w"
  by (auto simp: PreRegistration_def Let_def split: option.splits if_splits sum.splits prod.splits
      dest: send_tx_outcome [where P = is_register])

lemma attestation_outcome:
  "RequestTeeAttestation ev teeID w = (w', r) \<Longrightarrow> sends is_attest w w' \<and> wFile w' = wFile w"
  by (auto simp: RequestTeeAttestation_def split: option.splits if_splits sum.splits prod.splits
      dest: send_tx_outcome [where P = is_attest])

definition challenges :: "hash32 \<Rightarrow> tool_tx \<Rightarrow> bool" where
  "challenges i tx \<longleftrightarrow> is_availability tx \<and> (\<exists>fee t e a b. tx = TxAvailability fee t i e a b)"

lemma availability_outcome:
  "RequestFTDCAvailabilityCheck ev teeID ext i w = (w', r) \<Longrightarrow> sends (challenges i) w w' \<and> wFile w' = wFile w"
  by (auto simp: RequestFTDCAvailabilityCheck_def challenges_def split: option.splits if_splits sum.splits prod.splits
      dest: send_tx_outcome [where P = "challenges i"])

lemma production_outcome:
  "ToProduction ev pf w = (w', r) \<Longrightarrow> sends is_production w w' \<and> wFile w' = wFile w"
  by (auto simp: ToProduction_def split: option.splits if_splits sum.splits prod.splits
      dest: send_tx_outcome [where P = is_production])

section \<open>The steps\<close>

text \<open>What a resumable step \<open>c\<close> does: nothing when it is recorded as done; else it sends at most one
  transaction of its kind, and when it succeeds it is recorded with the id it returns.\<close>

definition step_post ::
  "chain_env \<Rightarrow> string \<Rightarrow> (tool_tx \<Rightarrow> bool) \<Rightarrow> registrationState \<Rightarrow> world
     \<Rightarrow> world \<times> (tool_error + registrationState \<times> hash32) \<Rightarrow> (registrationState \<Rightarrow> hash32) \<Rightarrow> bool" where
  "step_post ev c P s w out getid \<longleftrightarrow>
     (case out of
        (w', Inl e) \<Rightarrow> \<not> step_done c s \<and> sends P w w' \<and> wFile w' = wFile w
      | (w', Inr (s', i)) \<Rightarrow> getid s' = i \<and>
          (if step_done c s then w' = w \<and> s' = s
           else sends P w w' \<and> CompletedSteps s' = CompletedSteps s @ c
             \<and> (saves_ok ev \<longrightarrow> wFile w' = Saved s')))"

lemma step_register_post:
  "step_post ev ''r'' (\<lambda>tx. is_register tx \<or> is_attest tx) s w (step_register ev host teeID proxyID info s w)
     TeeAttestInstructionID"
proof -
  have a: "sends (\<lambda>tx. is_register tx \<or> is_attest tx) w w' \<and> wFile w' = wFile w"
    if "RequestTeeAttestation ev teeID w = (w', r)" for w' r
    using attestation_outcome [OF that] by (auto elim: sends_mono)
  have b: "sends (\<lambda>tx. is_register tx \<or> is_attest tx) w w' \<and> wFile w' = wFile w"
    if "PreRegistration ev host proxyID info w = (w', r)" for w' r
    using preregistration_outcome [OF that] by (auto elim: sends_mono)
  show ?thesis
    unfolding step_post_def step_register_def Let_def
    by (auto simp: saveState_ok split: prod.splits sum.splits if_splits dest: a b)
qed

lemma step_attest_post:
  "step_post ev ''R'' is_attest s w (step_attest ev teeID s w) TeeAttestInstructionID"
  unfolding step_post_def step_attest_def Let_def
  by (auto simp: saveState_ok split: prod.splits sum.splits if_splits dest: attestation_outcome)

lemma step_available_post:
  "step_post ev ''a'' (challenges i) s w (step_available ev url teeID ext i s w) InstructionID"
  unfolding step_post_def step_available_def Let_def
  by (auto simp: saveState_ok split: prod.splits sum.splits if_splits option.splits dest: availability_outcome)

lemma step_available_keeps:
  "step_available ev url teeID ext i s w = (w', Inr (s', j)) \<Longrightarrow> TeeAttestInstructionID s' = TeeAttestInstructionID s"
  by (auto simp: step_available_def Let_def split: if_splits option.splits prod.splits sum.splits)

lemma step_production_outcome:
  "step_production ev url i w = (w', r) \<Longrightarrow> sends is_production w w' \<and> wFile w' = wFile w"
  by (auto simp: step_production_def split: sum.splits dest: production_outcome)

lemma contains_single: "contains s [c] \<longleftrightarrow> c \<in> set s"
  by (induction s) (auto simp: has_prefix_def)

lemma step_done_append: "step_done [c] s' \<longleftrightarrow> step_done [c] s \<or> c = d"
  if "CompletedSteps s' = CompletedSteps s @ [d]"
  using that by (auto simp: step_done_def contains_single)

section \<open>A whole run\<close>

lemma loadState_file: "wFile w' = wFile w \<Longrightarrow> loadState w' = loadState w"
  by (simp add: loadState_def)

lemma opt_step:
  assumes "(if b then stp else (w, Inr (s, d))) = (w1, o1)" "step_post ev c P s w stp getid"
  obtains txs where "wTxs w1 = wTxs w @ txs" "length txs \<le> 1" "list_all P txs" "step_done c s \<longrightarrow> txs = []"
    "\<forall>e. o1 = Inl e \<longrightarrow> loadState w1 = loadState w"
    "\<forall>s1 i. o1 = Inr (s1, i) \<longrightarrow> (CompletedSteps s1 = CompletedSteps s \<or> CompletedSteps s1 = CompletedSteps s @ c)
       \<and> (if b then getid s1 = i else s1 = s \<and> i = d)
       \<and> (saves_ok ev \<longrightarrow> loadState w = Inr s \<longrightarrow> loadState w1 = Inr s1)"
proof (cases b)
  case False
  with assms(1) show ?thesis by (intro that [of "[]"]) auto
next
  case True
  with assms have post: "step_post ev c P s w (w1, o1) getid" by simp
  show ?thesis
  proof (cases "step_done c s")
    case True
    with post \<open>b\<close> show ?thesis
      by (intro that [of "[]"]) (auto simp: step_post_def split: sum.splits prod.splits)
  next
    case False
    with post have "sends P w w1" by (auto simp: step_post_def split: sum.splits prod.splits)
    then obtain txs where "wTxs w1 = wTxs w @ txs" "length txs \<le> 1" "list_all P txs" by (auto simp: sends_def)
    with post False \<open>b\<close> show ?thesis
      by (intro that [of txs]) (auto simp: step_post_def loadState_def split: sum.splits prod.splits)
  qed
qed

definition run_steps :: "string \<Rightarrow> string \<Rightarrow> bool" where
  "run_steps before after \<longleftrightarrow> (\<exists>new \<in> set (subseqs ''rRa''). after = before @ new)"

lemma run_steps_cases:
  "run_steps b c \<longleftrightarrow> c = b @ ''rRa'' \<or> c = b @ ''rR'' \<or> c = b @ ''ra'' \<or> c = b @ ''r'' \<or> c = b @ ''Ra''
     \<or> c = b @ ''R'' \<or> c = b @ ''a'' \<or> c = b"
  by (simp add: run_steps_def)

text \<open>What one run sends, as the transactions of its four steps, and what it leaves.\<close>

definition run_post ::
  "chain_env \<Rightarrow> string \<Rightarrow> registrationState \<Rightarrow> world \<Rightarrow> world \<Rightarrow> tool_error option \<Rightarrow> bool" where
  "run_post ev command s w w' err \<longleftrightarrow>
     (\<exists>r R a p s'. wTxs w' = wTxs w @ r @ R @ a @ p
        \<and> length r \<le> 1 \<and> length R \<le> 1 \<and> length a \<le> 1 \<and> length p \<le> 1
        \<and> list_all (\<lambda>tx. is_register tx \<or> is_attest tx) r \<and> list_all is_attest R
        \<and> list_all is_availability a \<and> list_all is_production p
        \<and> (step_done ''r'' s \<longrightarrow> r = []) \<and> (step_done ''R'' s \<longrightarrow> R = []) \<and> (step_done ''a'' s \<longrightarrow> a = [])
        \<and> ((contains command ''r'' \<or> contains command ''R'') \<longrightarrow> list_all (challenges (TeeAttestInstructionID s')) a)
        \<and> run_steps (CompletedSteps s) (CompletedSteps s')
        \<and> (err = None \<and> ceRemoves ev \<longrightarrow> wFile w' = NoFile)
        \<and> (saves_ok ev \<and> err \<noteq> None \<longrightarrow> loadState w' = Inr s'))"

lemma run_postI:
  assumes "wTxs w' = wTxs w @ r @ R @ a @ p" "length r \<le> 1" "length R \<le> 1" "length a \<le> 1" "length p \<le> 1"
    "list_all (\<lambda>tx. is_register tx \<or> is_attest tx) r" "list_all is_attest R" "list_all is_availability a"
    "list_all is_production p" "step_done ''r'' s \<longrightarrow> r = []" "step_done ''R'' s \<longrightarrow> R = []"
    "step_done ''a'' s \<longrightarrow> a = []"
    "(contains command ''r'' \<or> contains command ''R'') \<longrightarrow> list_all (challenges (TeeAttestInstructionID s')) a"
    "run_steps (CompletedSteps s) (CompletedSteps s')" "err = None \<and> ceRemoves ev \<longrightarrow> wFile w' = NoFile"
    "saves_ok ev \<and> err \<noteq> None \<longrightarrow> loadState w' = Inr s'"
  shows "run_post ev command s w w' err"
  using assms unfolding run_post_def by (intro exI conjI)

lemma step_done_more: "CompletedSteps s1 = CompletedSteps s \<or> CompletedSteps s1 = CompletedSteps s @ d \<Longrightarrow>
    step_done c s \<Longrightarrow> step_done c s1"
  using contains_append [of "CompletedSteps s" c "[]"] by (auto simp: step_done_def)

text \<open>How a run ends, from a phase that starts with state \<open>s\<close> to the last saved state \<open>s'\<close>.\<close>

definition ended ::
  "chain_env \<Rightarrow> registrationState \<Rightarrow> registrationState \<Rightarrow> world \<Rightarrow> world \<Rightarrow> tool_error option \<Rightarrow> bool" where
  "ended ev s s' w w' err \<longleftrightarrow> (err = None \<and> ceRemoves ev \<longrightarrow> wFile w' = NoFile)
     \<and> (saves_ok ev \<and> err \<noteq> None \<and> loadState w = Inr s \<longrightarrow> loadState w' = Inr s')"

lemma ended_step: "saves_ok ev \<longrightarrow> loadState w = Inr s \<longrightarrow> loadState w1 = Inr s1 \<Longrightarrow>
    ended ev s1 s' w1 w' err \<Longrightarrow> ended ev s s' w w' err"
  by (auto simp: ended_def)

lemma ended_fail: "loadState w' = loadState w \<Longrightarrow> ended ev s s w w' (Some e)"
  by (simp add: ended_def)

text \<open>The run from its last step on, then from the one before, and so on.\<close>

definition from_production where
  "from_production ev url command i w =
     (case (if contains command ''p'' then step_production ev url i w else (w, None)) of
        (w, Some e) \<Rightarrow> (w, Some e)
      | (w, None) \<Rightarrow> (remove_state ev w, None))"

definition from_available where
  "from_available ev url teeID ext command arg i s w =
     (case (if contains command ''a'' then step_available ev url teeID ext i s w else (w, Inr (s, arg))) of
        (w, Inl e) \<Rightarrow> (w, Some e)
      | (w, Inr (s, j)) \<Rightarrow> from_production ev url command j w)"

definition from_attest where
  "from_attest ev url teeID ext command arg i s w =
     (case (if contains command ''R'' then step_attest ev teeID s w else (w, Inr (s, i))) of
        (w, Inl e) \<Rightarrow> (w, Some e)
      | (w, Inr (s, i)) \<Rightarrow> from_available ev url teeID ext command arg i s w)"

lemma RegisterNode_from:
  "RegisterNode ev info host url ext command arg w =
     (case TeeProxyId (ceIdentity ev) info of Inl e \<Rightarrow> (w, Some (IdentifyingTee e)) | Inr (teeID, proxyID) \<Rightarrow>
     (case loadState w of Inl e \<Rightarrow> (w, Some (LoadingState e)) | Inr s \<Rightarrow>
     (case (if contains command ''r'' then step_register ev host teeID proxyID info s w else (w, Inr (s, 0))) of
        (w, Inl e) \<Rightarrow> (w, Some e)
      | (w, Inr (s, i)) \<Rightarrow> from_attest ev url teeID ext command arg i s w)))"
  unfolding RegisterNode_def from_attest_def from_available_def from_production_def by (rule refl)

lemma from_production_run:
  assumes "from_production ev url command i w = (w', err)"
  obtains p where "wTxs w' = wTxs w @ p" "length p \<le> 1" "list_all is_production p" "ended ev s s w w' err"
proof -
  obtain w4 o4 where 4: "(if contains command ''p'' then step_production ev url i w else (w, None)) = (w4, o4)"
    by fastforce
  then have "sends is_production w w4 \<and> wFile w4 = wFile w"
    using step_production_outcome by (auto split: if_splits)
  then obtain p where p: "wTxs w4 = wTxs w @ p" "length p \<le> 1" "list_all is_production p" "wFile w4 = wFile w"
    by (auto simp: sends_def)
  have w': "w' = (case o4 of None \<Rightarrow> remove_state ev w4 | Some _ \<Rightarrow> w4)" "err = o4"
    using assms unfolding from_production_def 4 by (auto split: option.splits)
  show thesis
    by (rule that [OF _ p(2,3)]) (use p w' loadState_file [of w4 w] in \<open>auto simp: ended_def split: option.split\<close>)
qed

lemma from_available_run:
  assumes run: "from_available ev url teeID ext command arg i s w = (w', err)"
  obtains a p s' where "wTxs w' = wTxs w @ a @ p" "length a \<le> 1" "length p \<le> 1" "list_all (challenges i) a"
    "list_all is_production p" "step_done ''a'' s \<longrightarrow> a = []"
    "CompletedSteps s' = CompletedSteps s \<or> CompletedSteps s' = CompletedSteps s @ ''a''"
    "TeeAttestInstructionID s' = TeeAttestInstructionID s" "ended ev s s' w w' err"
proof -
  obtain w1 o1 where 1: "(if contains command ''a'' then step_available ev url teeID ext i s w
      else (w, Inr (s, arg))) = (w1, o1)" by fastforce
  note 2 = run [unfolded from_available_def 1]
  show thesis
  proof (rule opt_step [OF 1 step_available_post], cases o1)
    fix a e assume a: "wTxs w1 = wTxs w @ a" "length a \<le> 1" "list_all (challenges i) a" "step_done ''a'' s \<longrightarrow> a = []"
      "\<forall>e. o1 = Inl e \<longrightarrow> loadState w1 = loadState w" and o1: "o1 = Inl e"
    with 2 show thesis by (intro that [of a "[]" s]) (auto intro: ended_fail)
  next
    fix a si assume a: "wTxs w1 = wTxs w @ a" "length a \<le> 1" "list_all (challenges i) a" "step_done ''a'' s \<longrightarrow> a = []"
      and post: "\<forall>s1 j. o1 = Inr (s1, j) \<longrightarrow>
        (CompletedSteps s1 = CompletedSteps s \<or> CompletedSteps s1 = CompletedSteps s @ ''a'')
        \<and> (if contains command ''a'' then InstructionID s1 = j else s1 = s \<and> j = arg)
        \<and> (saves_ok ev \<longrightarrow> loadState w = Inr s \<longrightarrow> loadState w1 = Inr s1)"
      and "o1 = Inr si"
    then obtain s1 j where o1: "o1 = Inr (s1, j)" by (cases si) auto
    note s1 = post [rule_format, OF o1]
    have "from_production ev url command j w1 = (w', err)" using 2 o1 by simp
    then obtain p where p: "wTxs w' = wTxs w1 @ p" "length p \<le> 1" "list_all is_production p" "ended ev s1 s1 w1 w' err"
      by (rule from_production_run)
    have "TeeAttestInstructionID s1 = TeeAttestInstructionID s"
      using 1 o1 step_available_keeps by (auto split: if_splits)
    with a p s1 show thesis by (intro that [of a p s1]) (auto intro: ended_step)
  qed
qed

lemma from_attest_run:
  assumes run: "from_attest ev url teeID ext command arg i s w = (w', err)"
  obtains R a p s' where "wTxs w' = wTxs w @ R @ a @ p" "length R \<le> 1" "length a \<le> 1" "length p \<le> 1"
    "list_all is_attest R" "list_all is_availability a" "list_all is_production p"
    "step_done ''R'' s \<longrightarrow> R = []" "step_done ''a'' s \<longrightarrow> a = []"
    "contains command ''R'' \<or> TeeAttestInstructionID s = i \<longrightarrow> list_all (challenges (TeeAttestInstructionID s')) a"
    "CompletedSteps s' \<in> {CompletedSteps s @ c |c. c \<in> {[], ''R'', ''a'', ''Ra''}}" "ended ev s s' w w' err"
proof -
  obtain w1 o1 where 1: "(if contains command ''R'' then step_attest ev teeID s w else (w, Inr (s, i))) = (w1, o1)"
    by fastforce
  note 2 = run [unfolded from_attest_def 1]
  show thesis
  proof (rule opt_step [OF 1 step_attest_post], cases o1)
    fix R e assume R: "wTxs w1 = wTxs w @ R" "length R \<le> 1" "list_all is_attest R" "step_done ''R'' s \<longrightarrow> R = []"
      "\<forall>e. o1 = Inl e \<longrightarrow> loadState w1 = loadState w" and o1: "o1 = Inl e"
    with 2 show thesis by (intro that [of R "[]" "[]" s]) (auto intro: ended_fail)
  next
    fix R si assume R: "wTxs w1 = wTxs w @ R" "length R \<le> 1" "list_all is_attest R" "step_done ''R'' s \<longrightarrow> R = []"
      and post: "\<forall>s1 j. o1 = Inr (s1, j) \<longrightarrow>
        (CompletedSteps s1 = CompletedSteps s \<or> CompletedSteps s1 = CompletedSteps s @ ''R'')
        \<and> (if contains command ''R'' then TeeAttestInstructionID s1 = j else s1 = s \<and> j = i)
        \<and> (saves_ok ev \<longrightarrow> loadState w = Inr s \<longrightarrow> loadState w1 = Inr s1)"
      and "o1 = Inr si"
    then obtain s1 j where o1: "o1 = Inr (s1, j)" by (cases si) auto
    note s1 = post [rule_format, OF o1]
    have "from_available ev url teeID ext command arg j s1 w1 = (w', err)" using 2 o1 by simp
    then obtain a p s' where t: "wTxs w' = wTxs w1 @ a @ p" "length a \<le> 1" "length p \<le> 1" "list_all (challenges j) a"
      "list_all is_production p" "step_done ''a'' s1 \<longrightarrow> a = []"
      "CompletedSteps s' = CompletedSteps s1 \<or> CompletedSteps s' = CompletedSteps s1 @ ''a''"
      "TeeAttestInstructionID s' = TeeAttestInstructionID s1" "ended ev s1 s' w1 w' err"
      by (rule from_available_run)
    have "list_all is_availability a" using t(4) by (auto simp: list_all_iff challenges_def)
    moreover have "step_done ''a'' s \<longrightarrow> a = []" using t(6) s1 step_done_more by blast
    moreover have "contains command ''R'' \<or> TeeAttestInstructionID s = i \<longrightarrow>
        list_all (challenges (TeeAttestInstructionID s')) a"
      using t(4,8) s1 by (auto split: if_splits)
    moreover have "ended ev s s' w w' err" using s1 t(9) by (blast intro: ended_step)
    ultimately show thesis
      using R t(1-3,5,7) s1 by (intro that [of R a p s']) auto
  qed
qed

lemma register_node_run:
  assumes run: "RegisterNode ev info host url ext command arg w = (w', err)" and load: "loadState w = Inr s"
  shows "run_post ev command s w w' err"
proof (cases "TeeProxyId (ceIdentity ev) info")
  case (Inl e)
  with run load show ?thesis
    by (intro run_postI [where r = "[]" and R = "[]" and a = "[]" and p = "[]" and s' = s])
      (auto simp: RegisterNode_from run_steps_cases)
next
  case (Inr ids)
  then obtain teeID proxyID where id: "TeeProxyId (ceIdentity ev) info = Inr (teeID, proxyID)" by (cases ids) auto
  obtain w1 o1 where 1: "(if contains command ''r'' then step_register ev host teeID proxyID info s w
      else (w, Inr (s, 0))) = (w1, o1)" by fastforce
  note 2 = run [unfolded RegisterNode_from id load 1 sum.case prod.case]
  obtain r where r: "wTxs w1 = wTxs w @ r" "length r \<le> 1" "list_all (\<lambda>tx. is_register tx \<or> is_attest tx) r"
      "step_done ''r'' s \<longrightarrow> r = []" "\<forall>e. o1 = Inl e \<longrightarrow> loadState w1 = loadState w"
      "\<forall>s1 i. o1 = Inr (s1, i) \<longrightarrow>
        (CompletedSteps s1 = CompletedSteps s \<or> CompletedSteps s1 = CompletedSteps s @ ''r'')
        \<and> (if contains command ''r'' then TeeAttestInstructionID s1 = i else s1 = s \<and> i = 0)
        \<and> (saves_ok ev \<longrightarrow> loadState w = Inr s \<longrightarrow> loadState w1 = Inr s1)"
    by (rule opt_step [OF 1 step_register_post])
  show ?thesis
  proof (cases o1)
    case (Inl e)
    with 2 r load show ?thesis
      by (intro run_postI [where r = r and R = "[]" and a = "[]" and p = "[]" and s' = s])
        (auto simp: run_steps_cases)
  next
    case (Inr si)
    then obtain s1 i where o1: "o1 = Inr (s1, i)" by (cases si) auto
    note s1 = r(6) [rule_format, OF o1]
    have "from_attest ev url teeID ext command arg i s1 w1 = (w', err)" using 2 o1 by simp
    then show ?thesis
    proof (rule from_attest_run)
      fix R a p s' assume t: "wTxs w' = wTxs w1 @ R @ a @ p" "length R \<le> 1" "length a \<le> 1" "length p \<le> 1"
        "list_all is_attest R" "list_all is_availability a" "list_all is_production p"
        "step_done ''R'' s1 \<longrightarrow> R = []" "step_done ''a'' s1 \<longrightarrow> a = []"
        "contains command ''R'' \<or> TeeAttestInstructionID s1 = i \<longrightarrow> list_all (challenges (TeeAttestInstructionID s')) a"
        "CompletedSteps s' \<in> {CompletedSteps s1 @ c |c. c \<in> {[], ''R'', ''a'', ''Ra''}}" "ended ev s1 s' w1 w' err"
      have "run_steps (CompletedSteps s) (CompletedSteps s')" using t(11) s1 unfolding run_steps_cases by auto
      moreover have "step_done ''R'' s \<longrightarrow> R = []" "step_done ''a'' s \<longrightarrow> a = []" using t(8,9) s1 step_done_more by blast+
      moreover have "ended ev s s' w w' err" using s1 t(12) by (blast intro: ended_step)
      ultimately show ?thesis
        using r(1-4) t(1-7,10) s1 load
        by (intro run_postI [where r = r and R = R and a = a and p = p and s' = s'])
          (auto simp: ended_def split: if_splits)
    qed
  qed
qed

lemma run_post_sends:
  assumes "run_post ev command s w w' err"
  obtains new where "wTxs w' = wTxs w @ new"
    "step_done ''r'' s \<longrightarrow> filter is_register new = []"
    "step_done ''r'' s \<and> step_done ''R'' s \<longrightarrow> filter is_attest new = []"
    "step_done ''a'' s \<longrightarrow> filter is_availability new = []"
    "length (filter is_register new) \<le> 1" "length (filter is_availability new) \<le> 1"
    "length (filter is_production new) \<le> 1" "length (filter is_attest new) \<le> 2"
proof -
  from assms obtain r R a p where n: "wTxs w' = wTxs w @ r @ R @ a @ p"
      "length r \<le> 1" "length R \<le> 1" "length a \<le> 1" "length p \<le> 1"
    and k: "list_all (\<lambda>tx. is_register tx \<or> is_attest tx) r" "list_all is_attest R"
      "list_all is_availability a" "list_all is_production p"
    and d: "step_done ''r'' s \<longrightarrow> r = []" "step_done ''R'' s \<longrightarrow> R = []" "step_done ''a'' s \<longrightarrow> a = []"
    unfolding run_post_def by blast
  have none: "filter P xs = []" if "list_all Q xs" "\<And>tx. Q tx \<Longrightarrow> \<not> P tx" for P Q xs
    using that by (auto simp: list_all_iff filter_empty_conv)
  have R: "filter is_register R = []" "filter is_availability R = []" "filter is_production R = []"
    by (rule none [OF k(2)], use kinds_exclusive in blast)+
  have r: "filter is_availability r = []" "filter is_production r = []"
    by (rule none [OF k(1)], use kinds_exclusive in blast)+
  have a: "filter is_register a = []" "filter is_attest a = []" "filter is_production a = []"
    by (rule none [OF k(3)], use kinds_exclusive in blast)+
  have p: "filter is_register p = []" "filter is_attest p = []" "filter is_availability p = []"
    by (rule none [OF k(4)], use kinds_exclusive in blast)+
  have le: "length (filter P xs) \<le> 1" if "length xs \<le> 1" for P :: "tool_tx \<Rightarrow> bool" and xs
    using that length_filter_le [of P xs] by linarith
  have "length (filter is_attest r) + length (filter is_attest R) \<le> 2"
    using le [OF n(2), of is_attest] le [OF n(3), of is_attest] by linarith
  with n d r R a p le [OF n(2), of is_register] le [OF n(4), of is_availability] le [OF n(5), of is_production]
  show ?thesis
    by (intro that [of "r @ R @ a @ p"]) auto
qed

text \<open>Run with the availability step alone, the check is requested for the zero challenge, whatever
  attestation the state file records.\<close>

lemma availability_without_attestation:
  assumes "loadState w = Inr s" "\<not> step_done ''a'' s" "CheckFTDCProxyPolicyConsistency ev url = None"
    and "TeeProxyId (ceIdentity ev) info = Inr (teeID, proxyID)"
    and "ceTransactor ev = None"
    and "ceSubmit ev (wTxs w) (TxAvailability instruction_fee teeID 0 ftdc (ceFrom ev) (ceFrom ev)) = Inr sent"
  shows "wTxs (fst (RegisterNode ev info host url ftdc ''a'' arg w))
     = wTxs w @ [TxAvailability instruction_fee teeID 0 ftdc (ceFrom ev) (ceFrom ev)]"
  using assms
  by (simp add: RegisterNode_def step_available_def RequestFTDCAvailabilityCheck_def send_tx_def has_prefix_def
      Let_def split: sum.split)

section \<open>Properties\<close>

definition demo_info :: tee_info where
  "demo_info =
     \<lparr>tiPublicKey = (5, 6), tiChainID = 114, tiProxySignature = [1], tiAttestation = [], tiLastSigningPolicyID = 6,
      tiHash = Inr [4], tiDataSignature = replicate 65 1, tiExtensionID = 3,
      tiData = \<lparr>mcExtensionId = 3, mcInitialOwner = 8, mcCodeHash = 1, mcPlatform = 2, mcPublicKey = (5, 6),
        mcGovernanceHash = 4\<rparr>\<rparr>"

definition demo_identity :: identity_env where
  "demo_identity =
     \<lparr>idParsePubKey = Inr, idAddress = (\<lambda>k. if k = (5, 6) then 9 else 10), idSignHash = (\<lambda>_ h. Inr h),
      idTextHash = (\<lambda>_. [7]), idSigToPub = (\<lambda>_ _. Inr (1, 2)), idBytesToHash = (\<lambda>_. 4),
      idClaims = (\<lambda>_. Inr (Inr 1, Inr 2)), idGetenv = (\<lambda>_. [])\<rparr>"

definition demo_ftdc :: ftdc_env where
  "demo_ftdc =
     \<lparr>ftGet = (\<lambda>_ i. if i = 0 then Inl ''not ready'' else Inr \<lparr>httpStatus = 200, httpBody = [1]\<rparr>),
      ftDecode = Inr, ftUnmarshal = (\<lambda>b. Inr (b, b, b, [b])), ftHeader = Inr, ftRequest = (\<lambda>b. Inr (9, b)),
      ftResponse = Inr\<rparr>"

definition demo_sent :: "bytes sent_tx" where
  "demo_sent = \<lparr>stHash = 77, stWaitMined = Inr \<lparr>mdStatus = 1, mdTxHash = 77, mdLogs = [[1], [2]]\<rparr>,
     stLookup = None, stSender = None, stReplay = Inr []\<rparr>"

lemma demo_proof:
  "GetFTDCAvailabilityCheckResult demo_ftdc url i =
     Inr \<lparr>avSignatures = [[1]], avHeader = [1], avTeeId = 9, avRequestRest = [1], avResponse = [1]\<rparr>"
  by (simp add: GetFTDCAvailabilityCheckResult_def fetch_ActionResult_def ActionResult_poll_def demo_ftdc_def
      repeats_def StatusOK_def eval_nat_numeral)

text \<open>A node whose availability check is refused, or (with the flag) accepted.\<close>

definition demo_chain :: "bool \<Rightarrow> chain_env" where
  "demo_chain available =
     \<lparr>ceTransactor = None, ceFrom = 8,
      ceSubmit = (\<lambda>txs tx. if is_availability tx \<and> \<not> available then Inl ''reverted'' else Inr demo_sent),
      ceUnpackRevert = (\<lambda>_. None), ceInstructionsSent = (\<lambda>_. Inr 11), ceAttestationRequested = (\<lambda>_. Inr 12),
      ceMachine = (\<lambda>txs _. if txs = [] then Inr 0 else Inr 9), ceStatus = (\<lambda>_ _. Inr 1), ceTransformVRS = Inr,
      ceSave = (\<lambda>_ _. None), ceRemoves = True, ceFtdc = demo_ftdc, ceIdentity = demo_identity,
      ceHttpGet = (\<lambda>_. Inr []), ceDecodeInfo = (\<lambda>_. Inr demo_info), ceRewardEpoch = Inr (Some 5)\<rparr>"

definition clean_world :: world where
  "clean_world = \<lparr>wTxs = [], wFile = NoFile\<rparr>"

lemmas registration_demo = demo_info_def demo_identity_def demo_sent_def demo_chain_def clean_world_def


lemmas registration_ops = RegisterNode_def step_register_def step_attest_def step_available_def step_production_def
  PreRegistration_def RequestTeeAttestation_def RequestFTDCAvailabilityCheck_def ToProduction_def send_tx_def
  CheckTx_def saveState_def loadState_def fresh_state_def step_done_def contains_single Let_def
  CheckFTDCProxyPolicyConsistency_def policyInSync_def zero_address_def teeStatusProduction_def TeeProxyId_def
  TeeInfo_def remove_state_def demo_proof

definition interrupted :: world where
  "interrupted = fst (RegisterNode (demo_chain False) demo_info ''host'' ''ftdc'' 20 ''rRap'' 0 clean_world)"

lemma interrupted_run:
  "RegisterNode (demo_chain False) demo_info ''host'' ''ftdc'' 20 ''rRap'' 0 clean_world
     = (interrupted, Some (Submitting (TxAvailability instruction_fee 9 11 20 8 8) ''reverted''))"
  "wFile interrupted = Saved \<lparr>CompletedSteps = ''rR'', TeeAttestInstructionID = 11, InstructionID = 0\<rparr>"
  "wTxs interrupted \<noteq> []"
  by (simp_all add: interrupted_def registration_ops registration_demo)


end
