(* ===== verification/ExtensionSetup.thy ===== *)
theory ExtensionSetup
  imports Governance RegistrationProps
begin

text \<open>
  Setting up an extension (\<open>tools/pkg/fccutils/extension.go\<close>) and sending instructions
  (\<open>tools/pkg/utils/instructions.go\<close>).  The set-up registers the extension and then grants what is not yet
  granted; sending explains a rejected transaction by its revert reason.
\<close>

section \<open>Setting up an extension\<close>

datatype setup_error =
    SetupTransactor string | SetupSend tool_error | SetupLogs nat | ParsingRegistered string | ParsingContracts string
  | CheckingMachineOwner string | AddingMachineOwners int tool_error | CheckingProjectOwner string
  | AddingProjectOwners int tool_error | CheckingKeyType string | AddingKeyTypes tool_error

record setup_env =
  seChain :: chain_env
  seRegistered :: "bytes \<Rightarrow> string + int"
  seContractsSet :: "bytes \<Rightarrow> string + address \<times> address"
  seMachineOwnersAdded :: "bytes \<Rightarrow> string + unit"
  seProjectOwnersAdded :: "bytes \<Rightarrow> string + unit"
  seIsMachineOwner :: "tool_tx list \<Rightarrow> int \<Rightarrow> address \<Rightarrow> string + bool"
  seIsProjectOwner :: "tool_tx list \<Rightarrow> int \<Rightarrow> address \<Rightarrow> string + bool"
  seKeyTypeSupported :: "tool_tx list \<Rightarrow> int \<Rightarrow> hash32 \<Rightarrow> string + bool"
  seEVMType :: hash32

definition registerExtension ::
  "setup_env \<Rightarrow> address \<Rightarrow> address \<Rightarrow> world \<Rightarrow> world \<times> (setup_error + int \<times> address \<times> address)" where
  "registerExtension ev instructionsSender stateVerifier w =
     (case send_tx (seChain ev) (TxRegisterExtension stateVerifier instructionsSender) w of
        (w, Inl e) \<Rightarrow> (w, Inl (SetupSend e))
      | (w, Inr receipt) \<Rightarrow>
          (w,
           if length (mdLogs receipt) < 2 then Inl (SetupLogs (length (mdLogs receipt)))
           else case seRegistered ev (mdLogs receipt ! 0) of
               Inl e \<Rightarrow> Inl (ParsingRegistered e)
             | Inr extensionId \<Rightarrow>
                 (case seContractsSet ev (mdLogs receipt ! 1) of
                    Inl e \<Rightarrow> Inl (ParsingContracts e)
                  | Inr contracts \<Rightarrow> Inr (extensionId, contracts))))"

text \<open>The two owner grants differ in the transaction and the parser of its event.\<close>

definition grant_owners ::
  "setup_env \<Rightarrow> (bytes \<Rightarrow> string + unit) \<Rightarrow> tool_tx \<Rightarrow> world \<Rightarrow> world \<times> tool_error option" where
  "grant_owners ev parse tx w =
     (case send_tx (seChain ev) tx w of
        (w, Inl e) \<Rightarrow> (w, Some e)
      | (w, Inr receipt) \<Rightarrow>
          (w, if mdLogs receipt = [] then Some UnexpectedLogs
              else case parse (mdLogs receipt ! 0) of Inl e \<Rightarrow> Some (ParsingEvent e) | Inr _ \<Rightarrow> None))"

definition allowTeeMachineOwners :: "setup_env \<Rightarrow> int \<Rightarrow> address list \<Rightarrow> world \<Rightarrow> world \<times> tool_error option" where
  "allowTeeMachineOwners ev extensionId owners =
     grant_owners ev (seMachineOwnersAdded ev) (TxMachineOwners extensionId owners)"

definition allowTeeProjectManagerOwners :: "setup_env \<Rightarrow> int \<Rightarrow> address list \<Rightarrow> world \<Rightarrow> world \<times> tool_error option" where
  "allowTeeProjectManagerOwners ev extensionId owners =
     grant_owners ev (seProjectOwnersAdded ev) (TxProjectOwners extensionId owners)"

definition isKeyTypeSupportedCall :: "setup_env \<Rightarrow> world \<Rightarrow> int \<Rightarrow> hash32 \<Rightarrow> string + bool" where
  "isKeyTypeSupportedCall ev w extensionId keyType = seKeyTypeSupported ev (wTxs w) extensionId keyType"

definition addSupportedKeyTypesTx :: "setup_env \<Rightarrow> int \<Rightarrow> hash32 list \<Rightarrow> world \<Rightarrow> world \<times> tool_error option" where
  "addSupportedKeyTypesTx ev extensionId keyTypes w =
     (case send_tx (seChain ev) (TxKeyTypes extensionId keyTypes) w of
        (w, Inl e) \<Rightarrow> (w, Some e) | (w, Inr _) \<Rightarrow> (w, None))"

definition IsKeyTypeSupported :: "setup_env \<Rightarrow> world \<Rightarrow> int \<Rightarrow> hash32 \<Rightarrow> string + bool" where
  "IsKeyTypeSupported ev w extensionId keyType = isKeyTypeSupportedCall ev w extensionId keyType"

definition AddSupportedKeyTypes :: "setup_env \<Rightarrow> int \<Rightarrow> hash32 list \<Rightarrow> world \<Rightarrow> world \<times> tool_error option" where
  "AddSupportedKeyTypes ev extensionId keyTypes w =
     (case ceTransactor (seChain ev) of
        Some e \<Rightarrow> (w, Some (NoTransactor e))
      | None \<Rightarrow> addSupportedKeyTypesTx ev extensionId keyTypes w)"

definition SetupExtension :: "setup_env \<Rightarrow> address \<Rightarrow> address \<Rightarrow> world \<Rightarrow> world \<times> (setup_error + int)" where
  "SetupExtension ev instructionsSender stateVerifier w =
     (let deployer = ceFrom (seChain ev) in
      case ceTransactor (seChain ev) of Some e \<Rightarrow> (w, Inl (SetupTransactor e)) | None \<Rightarrow>
     (case registerExtension ev instructionsSender stateVerifier w of
        (w, Inl e) \<Rightarrow> (w, Inl e)
      | (w, Inr (extensionID, _)) \<Rightarrow>
     (case seIsMachineOwner ev (wTxs w) extensionID deployer of
        Inl e \<Rightarrow> (w, Inl (CheckingMachineOwner e))
      | Inr alreadyMachineOwner \<Rightarrow>
     (case (if alreadyMachineOwner then (w, None) else allowTeeMachineOwners ev extensionID [deployer] w) of
        (w, Some e) \<Rightarrow> (w, Inl (AddingMachineOwners extensionID e))
      | (w, None) \<Rightarrow>
     (case seIsProjectOwner ev (wTxs w) extensionID deployer of
        Inl e \<Rightarrow> (w, Inl (CheckingProjectOwner e))
      | Inr alreadyProjectOwner \<Rightarrow>
     (case (if alreadyProjectOwner then (w, None) else allowTeeProjectManagerOwners ev extensionID [deployer] w) of
        (w, Some e) \<Rightarrow> (w, Inl (AddingProjectOwners extensionID e))
      | (w, None) \<Rightarrow>
     (case IsKeyTypeSupported ev w extensionID (seEVMType ev) of
        Inl e \<Rightarrow> (w, Inl (CheckingKeyType e))
      | Inr supported \<Rightarrow>
     (case (if supported then (w, None) else AddSupportedKeyTypes ev extensionID [seEVMType ev] w) of
        (w, Some e) \<Rightarrow> (w, Inl (AddingKeyTypes e))
      | (w, None) \<Rightarrow> (w, Inr extensionID)))))))))"

section \<open>Sending instructions (instructions.go)\<close>

definition default_fee :: int where "default_fee = 1000000000000"

definition init_fee :: "(string \<Rightarrow> string) \<Rightarrow> int" where
  "init_fee getenv =
     (let feeStr = getenv ''FEE_WEI'' in
      if feeStr \<noteq> [] then (case set_string feeStr of Some fee \<Rightarrow> fee | None \<Rightarrow> default_fee) else default_fee)"

text \<open>One contract method: how the binding, the packer and the node answer.  The submission is refused with an
  RPC error, or yields a transaction with the node's answers about it.\<close>

record method_env =
  meBind :: "string option"
  meTransactor :: "string option"
  meSubmit :: "bytes \<Rightarrow> int \<Rightarrow> rpc_error + bytes sent_tx"
  mePack :: "bytes \<Rightarrow> bool"                        \<comment> \<open>ABI parsed and call data packed\<close>
  meSimulate :: "bytes \<Rightarrow> int \<Rightarrow> rpc_error + bytes"
  meUnpackRevert :: "bytes \<Rightarrow> string option"
  meInstructionsSent :: "bytes \<Rightarrow> string + hash32"

datatype instruction_error =
    Binding string | CreatingTransactor string | CallRejected rpc_error string \<comment> \<open>the reason, empty when unknown\<close>
  | AwaitingTx string | TxFailed u64 string | NoLogs | ParsingSent string

text \<open>The reason of a refused call: from the error, else by replaying the call.\<close>

definition reject_reason :: "method_env \<Rightarrow> bytes \<Rightarrow> int \<Rightarrow> rpc_error \<Rightarrow> string" where
  "reject_reason ev payload fee e =
     (let reason = DecodeRevertReason (meUnpackRevert ev) (Some e) in
      if reason = [] \<and> mePack ev payload
      then SimulateAndDecodeRevert (meUnpackRevert ev) (meSimulate ev payload fee)
      else reason)"

definition send_instruction :: "method_env \<Rightarrow> int \<Rightarrow> bytes \<Rightarrow> instruction_error + hash32 \<times> hash32" where
  "send_instruction ev fee payload =
     (case meBind ev of Some e \<Rightarrow> Inl (Binding e) | None \<Rightarrow>
     (case meTransactor ev of Some e \<Rightarrow> Inl (CreatingTransactor e) | None \<Rightarrow>
     (case meSubmit ev payload fee of
        Inl e \<Rightarrow> Inl (CallRejected e (reject_reason ev payload fee e))
      | Inr tx \<Rightarrow>
     (case stWaitMined tx of
        Inl e \<Rightarrow> Inl (AwaitingTx e)
      | Inr receipt \<Rightarrow>
          if mdStatus receipt \<noteq> 1 then Inl (TxFailed (mdStatus receipt) [])
          else if mdLogs receipt = [] then Inl NoLogs
          else (case meInstructionsSent ev (mdLogs receipt ! 0) of
                  Inl e \<Rightarrow> Inl (ParsingSent e)
                | Inr instructionId \<Rightarrow> Inr (instructionId, mdTxHash receipt))))))"

definition SendUpdateKey :: "method_env \<Rightarrow> int \<Rightarrow> bytes \<Rightarrow> instruction_error + hash32 \<times> hash32" where
  "SendUpdateKey updateKey fee encryptedKey = send_instruction updateKey fee encryptedKey"

definition SendSign :: "method_env \<Rightarrow> int \<Rightarrow> bytes \<Rightarrow> instruction_error + hash32 \<times> hash32" where
  "SendSign sign fee message = send_instruction sign fee message"

definition SetExtensionId :: "method_env \<Rightarrow> instruction_error option" where
  "SetExtensionId ev =
     (case meBind ev of Some e \<Rightarrow> Some (Binding e) | None \<Rightarrow>
     (case meTransactor ev of Some e \<Rightarrow> Some (CreatingTransactor e) | None \<Rightarrow>
     (case meSubmit ev [] 0 of
        Inl e \<Rightarrow> Some (CallRejected e (reject_reason ev [] 0 e))
      | Inr tx \<Rightarrow>
     (case stWaitMined tx of
        Inl e \<Rightarrow> Some (AwaitingTx e)
      | Inr receipt \<Rightarrow>
          if mdStatus receipt \<noteq> 1 then
            Some (TxFailed (mdStatus receipt)
              (if mePack ev [] then SimulateAndDecodeRevert (meUnpackRevert ev) (meSimulate ev [] 0) else []))
          else None))))"

definition DeployInstructionSender ::
  "string option \<Rightarrow> (address \<Rightarrow> address \<Rightarrow> string + address \<times> bytes sent_tx) \<Rightarrow> Addresses
     \<Rightarrow> instruction_error + address" where
  "DeployInstructionSender transactor deploy addresses =
     (case transactor of
        Some e \<Rightarrow> Inl (CreatingTransactor e)
      | None \<Rightarrow>
     (case deploy (adFlareTeeManager addresses) (adFlareTeeManager addresses) of
        Inl e \<Rightarrow> Inl (Binding e)
      | Inr (addr, tx) \<Rightarrow>
     (case stWaitMined tx of
        Inl e \<Rightarrow> Inl (AwaitingTx e)
      | Inr receipt \<Rightarrow> if mdStatus receipt \<noteq> 1 then Inl (TxFailed (mdStatus receipt) []) else Inr addr)))"

section \<open>Lemmas\<close>

text \<open>The grants of a successful set-up: the registration, then exactly the grants that were missing.\<close>

definition setup_txs :: "setup_env \<Rightarrow> address \<Rightarrow> address \<Rightarrow> tool_tx list \<Rightarrow> int \<Rightarrow> tool_tx list" where
  "setup_txs ev instructionsSender stateVerifier before extensionID =
     (let deployer = ceFrom (seChain ev);
          t1 = before @ [TxRegisterExtension stateVerifier instructionsSender];
          t2 = (if seIsMachineOwner ev t1 extensionID deployer = Inr True then t1
                else t1 @ [TxMachineOwners extensionID [deployer]]);
          t3 = (if seIsProjectOwner ev t2 extensionID deployer = Inr True then t2
                else t2 @ [TxProjectOwners extensionID [deployer]])
      in if seKeyTypeSupported ev t3 extensionID (seEVMType ev) = Inr True then t3
         else t3 @ [TxKeyTypes extensionID [seEVMType ev]])"

lemma send_tx_Inr: "send_tx ev tx w = (w', Inr r) \<Longrightarrow> w' = w\<lparr>wTxs := wTxs w @ [tx]\<rparr>"
  by (auto simp: send_tx_def split: sum.splits)

lemma grant_owners_None: "grant_owners ev parse tx w = (w', None) \<Longrightarrow> w' = w\<lparr>wTxs := wTxs w @ [tx]\<rparr>"
  by (auto simp: grant_owners_def split: prod.splits sum.splits if_splits dest!: send_tx_Inr)

lemma AddSupportedKeyTypes_None:
  "AddSupportedKeyTypes ev i ts w = (w', None) \<Longrightarrow> w' = w\<lparr>wTxs := wTxs w @ [TxKeyTypes i ts]\<rparr>"
  by (auto simp: AddSupportedKeyTypes_def addSupportedKeyTypesTx_def split: prod.splits sum.splits option.splits dest!: send_tx_Inr)

lemma registerExtension_Inr:
  "registerExtension ev i v w = (w', Inr r) \<Longrightarrow> w' = w\<lparr>wTxs := wTxs w @ [TxRegisterExtension v i]\<rparr>"
  by (auto simp: registerExtension_def split: prod.splits sum.splits if_splits dest!: send_tx_Inr)

lemma grant_unless_None:
  assumes "(if b then (w, None) else grant_owners ev parse tx w) = (w', None)"
  shows "w' = w\<lparr>wTxs := (if b then wTxs w else wTxs w @ [tx])\<rparr>"
  using assms by (auto split: if_splits dest!: grant_owners_None)

lemma add_types_unless_Inr:
  assumes "(if b then (w, None) else AddSupportedKeyTypes ev i ts w) = (w', None)"
  shows "w' = w\<lparr>wTxs := (if b then wTxs w else wTxs w @ [TxKeyTypes i ts])\<rparr>"
  using assms by (auto split: if_splits dest!: AddSupportedKeyTypes_None)

text \<open>The branches of a successful set-up, one per line of the code.\<close>

lemma SetupExtension_steps:
  assumes "SetupExtension ev sender verifier w = (w', Inr i)"
  obtains w1 c m w2 p w3 k where
    "registerExtension ev sender verifier w = (w1, Inr (i, c))"
    "seIsMachineOwner ev (wTxs w1) i (ceFrom (seChain ev)) = Inr m"
    "(if m then (w1, None) else allowTeeMachineOwners ev i [ceFrom (seChain ev)] w1) = (w2, None)"
    "seIsProjectOwner ev (wTxs w2) i (ceFrom (seChain ev)) = Inr p"
    "(if p then (w2, None) else allowTeeProjectManagerOwners ev i [ceFrom (seChain ev)] w2) = (w3, None)"
    "seKeyTypeSupported ev (wTxs w3) i (seEVMType ev) = Inr k"
    "(if k then (w3, None) else AddSupportedKeyTypes ev i [seEVMType ev] w3) = (w', None)"
proof -
  note defs = SetupExtension_def IsKeyTypeSupported_def isKeyTypeSupportedCall_def Let_def
  have t: "ceTransactor (seChain ev) = None" using assms by (cases "ceTransactor (seChain ev)") (simp_all add: defs)
  obtain w1 r where 1: "registerExtension ev sender verifier w = (w1, r)" by (meson surj_pair)
  obtain i1 c where r: "r = Inr (i1, c)"
    using assms t 1 by (cases r) (auto simp: defs)
  obtain m where 2: "seIsMachineOwner ev (wTxs w1) i1 (ceFrom (seChain ev)) = Inr m"
    using assms t 1 r by (cases "seIsMachineOwner ev (wTxs w1) i1 (ceFrom (seChain ev))") (auto simp: defs)
  obtain w2 e2 where 3: "(if m then (w1, None) else allowTeeMachineOwners ev i1 [ceFrom (seChain ev)] w1) = (w2, e2)"
    by (meson surj_pair)
  have e2: "e2 = None" using assms t 1 r 2 3 by (cases e2) (auto simp only: defs split_conv option.case sum.case)
  obtain p where 4: "seIsProjectOwner ev (wTxs w2) i1 (ceFrom (seChain ev)) = Inr p"
    using assms t 1 r 2 3 e2 by (cases "seIsProjectOwner ev (wTxs w2) i1 (ceFrom (seChain ev))")
      (auto simp only: defs split_conv option.case sum.case)
  obtain w3 e3 where 5: "(if p then (w2, None) else allowTeeProjectManagerOwners ev i1 [ceFrom (seChain ev)] w2) = (w3, e3)"
    by (meson surj_pair)
  have e3: "e3 = None" using assms t 1 r 2 3 e2 4 5 by (cases e3) (auto simp only: defs split_conv option.case sum.case)
  obtain k where 6: "seKeyTypeSupported ev (wTxs w3) i1 (seEVMType ev) = Inr k"
    using assms t 1 r 2 3 e2 4 5 e3 by (cases "seKeyTypeSupported ev (wTxs w3) i1 (seEVMType ev)")
      (auto simp only: defs split_conv option.case sum.case)
  obtain w4 e4 where 7: "(if k then (w3, None) else AddSupportedKeyTypes ev i1 [seEVMType ev] w3) = (w4, e4)"
    by (meson surj_pair)
  have e4: "e4 = None \<and> w4 = w' \<and> i1 = i" using assms t 1 r 2 3 e2 4 5 e3 6 7
    by (cases e4) (auto simp only: defs split_conv option.case sum.case)
  show ?thesis using that 1 2 3 4 5 6 7 r e2 e3 e4 by blast
qed

section \<open>Properties\<close>

text \<open>C36. A successful set-up of an extension registers it exactly once and then sends exactly the grants that
  the chain reported missing, in the order machine owners, project owners, key type, each for the extension id
  of the registration and for the deployer alone; the registration must have logged the two events the id is
  read from.  It touches no file.\<close>
theorem setup_sends_exactly:
  assumes "SetupExtension ev sender verifier w = (w', Inr extensionID)"
  shows "w' = w\<lparr>wTxs := setup_txs ev sender verifier (wTxs w) extensionID\<rparr>
    \<and> (\<exists>receipt. snd (send_tx (seChain ev) (TxRegisterExtension verifier sender) w) = Inr receipt
        \<and> length (mdLogs receipt) \<ge> 2 \<and> seRegistered ev (mdLogs receipt ! 0) = Inr extensionID)"
proof -
  obtain w1 c m w2 p w3 k where s:
    "registerExtension ev sender verifier w = (w1, Inr (extensionID, c))"
    "seIsMachineOwner ev (wTxs w1) extensionID (ceFrom (seChain ev)) = Inr m"
    "(if m then (w1, None) else allowTeeMachineOwners ev extensionID [ceFrom (seChain ev)] w1) = (w2, None)"
    "seIsProjectOwner ev (wTxs w2) extensionID (ceFrom (seChain ev)) = Inr p"
    "(if p then (w2, None) else allowTeeProjectManagerOwners ev extensionID [ceFrom (seChain ev)] w2) = (w3, None)"
    "seKeyTypeSupported ev (wTxs w3) extensionID (seEVMType ev) = Inr k"
    "(if k then (w3, None) else AddSupportedKeyTypes ev extensionID [seEVMType ev] w3) = (w', None)"
    by (rule SetupExtension_steps [OF assms])
  note w1 = registerExtension_Inr [OF s(1)]
  note w2 = grant_unless_None [OF s(3) [unfolded allowTeeMachineOwners_def]]
  note w3 = grant_unless_None [OF s(5) [unfolded allowTeeProjectManagerOwners_def]]
  note w4 = add_types_unless_Inr [OF s(7)]
  have "wTxs w' = setup_txs ev sender verifier (wTxs w) extensionID"
    using s(2,4,6) by (cases m; cases p; cases k) (simp_all add: setup_txs_def w1 w2 w3 w4 Let_def)
  moreover have "w' = w\<lparr>wTxs := wTxs w'\<rparr>" by (simp add: w1 w2 w3 w4)
  moreover have "\<exists>receipt. snd (send_tx (seChain ev) (TxRegisterExtension verifier sender) w) = Inr receipt
      \<and> length (mdLogs receipt) \<ge> 2 \<and> seRegistered ev (mdLogs receipt ! 0) = Inr extensionID"
    using s(1) by (auto simp: registerExtension_def split: prod.splits sum.splits if_splits)
  ultimately show ?thesis by metis
qed

text \<open>A chain on which the deployer is a machine owner already.\<close>

definition demo_setup :: setup_env where
  "demo_setup =
     \<lparr>seChain = demo_chain True, seRegistered = (\<lambda>_. Inr 5), seContractsSet = (\<lambda>_. Inr (1, 2)),
      seMachineOwnersAdded = (\<lambda>_. Inr ()), seProjectOwnersAdded = (\<lambda>_. Inr ()),
      seIsMachineOwner = (\<lambda>_ _ _. Inr True), seIsProjectOwner = (\<lambda>_ _ _. Inr False),
      seKeyTypeSupported = (\<lambda>_ _ _. Inr False), seEVMType = 3\<rparr>"

theorem setup_sends_exactly_witness:
  "\<exists>w'. SetupExtension demo_setup 20 21 clean_world = (w', Inr 5)
     \<and> wTxs w' = [TxRegisterExtension 21 20, TxProjectOwners 5 [8], TxKeyTypes 5 [3]]"
proof -
  note defs = SetupExtension_def registerExtension_def grant_owners_def allowTeeProjectManagerOwners_def
    AddSupportedKeyTypes_def addSupportedKeyTypesTx_def IsKeyTypeSupported_def isKeyTypeSupportedCall_def send_tx_def CheckTx_def demo_setup_def registration_demo Let_def
  obtain w' where r: "SetupExtension demo_setup 20 21 clean_world = (w', Inr 5)"
    by (simp add: defs)
  from r setup_sends_exactly [OF r] show ?thesis
    by (simp add: setup_txs_def demo_setup_def registration_demo Let_def)
qed

end
