(* ===== verification/Commands.thy ===== *)
theory Commands
  imports ExtensionSetup Checks
begin

text \<open>
  The deployment commands that send transactions (\<open>tools/cmd/*/main.go\<close>): \<open>deploy-contract\<close>,
  \<open>register-extension\<close>, \<open>set-governance\<close>, \<open>allow-tee-version\<close>, \<open>register-tee\<close>, and the owner address that
  \<open>start-tee\<close> derives.  A command is a function of its flags and of the world; it ends with an error (the
  process exits) or with what it prints.  Log lines are not modelled.
\<close>

section \<open>What the commands share\<close>

datatype command_error =
    MissingFlag string | NoSupport string | NodeCall call_error | BadKey string | Preflight string
  | SettingUp setup_error | Governing tool_error | Versioning tool_error | Registering tool_error
  | Deploying instruction_error | ReadingChain string

text \<open>The process environment, the address file, the dialled chain and the node, each as a parameter; a key is
  None for the development key.\<close>

record 'k tools =
  tlGetenv :: "string \<Rightarrow> string"
  tlReadFile :: "string \<Rightarrow> string + bytes"
  tlUnmarshalAddresses :: "bytes \<Rightarrow> string + Addresses"
  tlUnmarshalRaw :: "bytes \<Rightarrow> string + RawContract list"
  tlHexToAddress :: "string \<Rightarrow> address"
  tlHexToHash :: "string \<Rightarrow> hash32"
  tlHexToECDSA :: "string \<Rightarrow> string + 'k"
  tlAddressOf :: "'k option \<Rightarrow> address"
  tlDialErr :: "string \<Rightarrow> string option"
  tlBind :: "string \<times> address \<Rightarrow> string option"
  tlChainID :: "string + int"
  tlChain :: "'k option \<Rightarrow> chain_env"
  tlQuote :: "string \<Rightarrow> string"

definition ReadAddresses :: "(string \<Rightarrow> string + bytes) \<Rightarrow> (bytes \<Rightarrow> string + 'a) \<Rightarrow> string \<Rightarrow> string + 'a" where
  "ReadAddresses readFile unmarshal filePath =
     (case readFile filePath of Inl e \<Rightarrow> Inl e | Inr file \<Rightarrow> unmarshal file)"

definition open_support :: "'k tools \<Rightarrow> string \<Rightarrow> string \<Rightarrow> string + 'k support" where
  "open_support cx addressesFile chainURL =
     DefaultSupport (ReadAddresses (tlReadFile cx) (tlUnmarshalAddresses cx))
       (ParseAddresses (tlReadFile cx) (tlUnmarshalRaw cx) (tlHexToAddress cx)) (tlDialErr cx chainURL)
       (DefaultPrivateKey (tlGetenv cx) (tlHexToECDSA cx)) (tlBind cx) (tlChainID cx) addressesFile"

fun split_on :: "char \<Rightarrow> string \<Rightarrow> string list" where
  "split_on c [] = [[]]"
| "split_on c (x # xs) =
     (if x = c then [] # split_on c xs
      else (case split_on c xs of [] \<Rightarrow> [[x]] | y # ys \<Rightarrow> (x # y) # ys))"

section \<open>set-governance\<close>

definition parseSigners :: "(string \<Rightarrow> address) \<Rightarrow> string \<Rightarrow> address \<Rightarrow> address list" where
  "parseSigners hexToAddress raw fallback =
     (let signers = map hexToAddress (filter (\<lambda>part. part \<noteq> []) (map trim_space (split_on (CHR '','') raw)))
      in if signers = [] then [fallback] else signers)"

definition parseThreshold :: "string \<Rightarrow> u64" where
  "parseThreshold raw = (case parse_uint64 (trim_space raw) of Inr v \<Rightarrow> if v > 0 then v else 1 | Inl _ \<Rightarrow> 1)"

definition governance_key :: "'k tools \<Rightarrow> 'k support \<Rightarrow> string + 'k option" where
  "governance_key cx s =
     (let privKeyString = tlGetenv cx ''EXTENSION_OWNER_KEY'' in
      if privKeyString \<noteq> [] then
        (case tlHexToECDSA cx (trim_prefix (trim_prefix privKeyString ''0x'') ''0X'') of
           Inl e \<Rightarrow> Inl e | Inr k \<Rightarrow> Inr (Some k))
      else Inr (suPrv s))"

definition default_signer :: "'k tools \<Rightarrow> 'k option \<Rightarrow> address" where
  "default_signer cx key =
     (let owner = trim_space (tlGetenv cx ''INITIAL_OWNER'')
      in if owner \<noteq> [] then tlHexToAddress cx owner else tlAddressOf cx key)"

definition set_governance ::
  "'k tools \<Rightarrow> (address list \<Rightarrow> u64 \<Rightarrow> string + hash32) \<Rightarrow> (int \<Rightarrow> string + hash32)
     \<Rightarrow> string \<Rightarrow> string \<Rightarrow> string \<Rightarrow> world \<Rightarrow> world \<times> command_error option" where
  "set_governance cx governanceHash latestHash addressesFile chainURL proxyURL w =
     (case open_support cx addressesFile chainURL of
        Inl e \<Rightarrow> (w, Some (NoSupport e))
      | Inr s \<Rightarrow>
     (case governance_key cx s of
        Inl e \<Rightarrow> (w, Some (BadKey e))
      | Inr key \<Rightarrow>
     (case TeeInfo (ceHttpGet (tlChain cx key)) (ceDecodeInfo (tlChain cx key)) proxyURL of
        Inl e \<Rightarrow> (w, Some (NodeCall e))
      | Inr info \<Rightarrow>
          let signers = parseSigners (tlHexToAddress cx) (tlGetenv cx ''GOVERNANCE_SIGNERS'') (default_signer cx key);
              threshold = parseThreshold (tlGetenv cx ''GOVERNANCE_THRESHOLD'')
          in apsnd (map_option Governing)
               (SetTeeGovernance (tlChain cx key) governanceHash latestHash (uint (tiExtensionID info))
                  signers threshold w))))"

section \<open>allow-tee-version\<close>

definition version_key :: "'k tools \<Rightarrow> 'k support \<Rightarrow> string + 'k option" where
  "version_key cx s =
     (let k = tlGetenv cx ''EXTENSION_OWNER_KEY'' in
      if k \<noteq> [] then
        (case tlHexToECDSA cx (if has_prefix k ''0x'' \<or> has_prefix k ''0X'' then drop 2 k else k) of
           Inl e \<Rightarrow> Inl e | Inr key \<Rightarrow> Inr (Some key))
      else Inr (suPrv s))"

definition check_error_text :: "check_error \<Rightarrow> string" where
  "check_error_text e =
     (case e of
        NotMined h e \<Rightarrow> ''transaction not mined within 2 minutes (tx: '' @ hash_hex h @ ''): '' @ e
      | FailingMessage e \<Rightarrow> e
      | TransactionFail reason \<Rightarrow> ''error: Transaction fail: '' @ reason)"

text \<open>The texts of the errors of \<open>AddTeeVersion\<close>; it has no others.\<close>

definition version_error_text :: "(string \<Rightarrow> string) \<Rightarrow> tool_error \<Rightarrow> string" where
  "version_error_text quote e =
     (case e of
        NoTransactor e \<Rightarrow> e
      | VersionTooLong s \<Rightarrow> ''version '' @ quote s @ '' exceeds 32 bytes''
      | Submitting _ e \<Rightarrow> ''TeeExtensionRegistry.AddTeeVersion failed: '' @ e
      | Checking e \<Rightarrow> check_error_text e
      | _ \<Rightarrow> [])"

definition allow_tee_version ::
  "'k tools \<Rightarrow> (int \<Rightarrow> hash32 \<Rightarrow> hash32 \<Rightarrow> string + bool) \<Rightarrow> string \<Rightarrow> string \<Rightarrow> string \<Rightarrow> string
     \<Rightarrow> world \<Rightarrow> world \<times> command_error option" where
  "allow_tee_version cx isSupported addressesFile chainURL proxyURL version w =
     (case open_support cx addressesFile chainURL of
        Inl e \<Rightarrow> (w, Some (NoSupport e))
      | Inr s \<Rightarrow>
     (case TeeInfo (ceHttpGet (tlChain cx (suPrv s))) (ceDecodeInfo (tlChain cx (suPrv s))) proxyURL of
        Inl e \<Rightarrow> (w, Some (NodeCall e))
      | Inr info \<Rightarrow>
     (case version_key cx s of
        Inl e \<Rightarrow> (w, Some (BadKey e))
      | Inr key \<Rightarrow>
     (case TeeProxyId (ceIdentity (tlChain cx key)) info of
        Inl e \<Rightarrow> (w, Some (NodeCall e))
      | Inr _ \<Rightarrow>
          let ext = uint (tiExtensionID info); codeHash = mcCodeHash (tiData info); platform = mcPlatform (tiData info)
          in case isSupported ext codeHash platform of
               Inl e \<Rightarrow> (w, Some (ReadingChain e))
             | Inr True \<Rightarrow> (w, None)
             | Inr False \<Rightarrow>
                 (case AddTeeVersion (tlChain cx key) ext codeHash platform version w of
                    (w, None) \<Rightarrow> (w, None)
                  | (w, Some e) \<Rightarrow>
                      (w, if contains (version_error_text (tlQuote cx) e) ''VersionAlreadyExists'' then None
                          else Some (Versioning e)))))))"

section \<open>register-tee\<close>

record register_flags =
  rfAddresses :: string
  rfChain :: string
  rfProxy :: string
  rfHost :: string
  rfExternalProxy :: string
  rfInstruction :: string
  rfCommand :: string
  rfResume :: bool

definition register_tee :: "'k tools \<Rightarrow> register_flags \<Rightarrow> world \<Rightarrow> world \<times> command_error option" where
  "register_tee cx fl w =
     (let w = (if rfResume fl then w else remove_state (tlChain cx None) w) in
      case open_support cx (rfAddresses fl) (rfChain fl) of
        Inl e \<Rightarrow> (w, Some (NoSupport e))
      | Inr s \<Rightarrow>
     (let ev = tlChain cx (suPrv s) in
      case TeeInfo (ceHttpGet ev) (ceDecodeInfo ev) (rfProxy fl) of
        Inl e \<Rightarrow> (w, Some (NodeCall e))
      | Inr info \<Rightarrow>
     (case TeeProxyId (ceIdentity ev) info of
        Inl e \<Rightarrow> (w, Some (NodeCall e))
      | Inr _ \<Rightarrow>
     (case GetTeeProxyID (ceIdentity ev) (ceHttpGet ev) (ceDecodeInfo ev) (rfExternalProxy fl) of
        Inl e \<Rightarrow> (w, Some (NodeCall e))
      | Inr (ftdcTeeID, _) \<Rightarrow>
     (case GetCodeHashAndPlatform (ceIdentity ev) info of
        Inl e \<Rightarrow> (w, Some (NodeCall e))
      | Inr _ \<Rightarrow>
          let hostURL = (if rfHost fl = [] then rfProxy fl else rfHost fl)
          in apsnd (map_option Registering)
               (RegisterNode ev info hostURL (rfExternalProxy fl) ftdcTeeID (rfCommand fl)
                  (tlHexToHash cx (rfInstruction fl)) w))))))"

section \<open>register-extension and deploy-contract\<close>

text \<open>The preflight checks read the chain through the views of the deployment checks.\<close>

definition register_extension ::
  "'k tools \<Rightarrow> ('k option \<Rightarrow> setup_env) \<Rightarrow> host \<Rightarrow> eth_view \<Rightarrow> string \<Rightarrow> string \<Rightarrow> string \<Rightarrow> world
     \<Rightarrow> world \<times> (command_error + string)" where
  "register_extension cx setup h eth addressesFile chainURL instructionSender w =
     (if instructionSender = [] then (w, Inl (MissingFlag ''instructionSender''))
      else case open_support cx addressesFile chainURL of
        Inl e \<Rightarrow> (w, Inl (NoSupport e))
      | Inr s \<Rightarrow>
     (let sender = tlHexToAddress cx instructionSender in
      case AddressHasCode h (Some eth) sender ''InstructionSender'' of
        Some e \<Rightarrow> (w, Inl (Preflight e))
      | None \<Rightarrow>
     (case SetupExtension (setup (suPrv s)) sender 0 w of
        (w, Inl e) \<Rightarrow> (w, Inl (SettingUp e))
      | (w, Inr extensionID) \<Rightarrow> (w, Inr (hash_hex (word_of_int extensionID))))))"

text \<open>The contract was not deployed because only the checks were asked for, or it was, at this address and
  with this file written.\<close>

datatype deployment = PreflightPassed | DeployedAt address "(string \<times> string) option"

definition deploy_contract ::
  "'k tools \<Rightarrow> (address \<Rightarrow> address \<Rightarrow> string + address \<times> bytes sent_tx) \<Rightarrow> host \<Rightarrow> eth_view
     \<Rightarrow> string \<Rightarrow> string \<Rightarrow> string \<Rightarrow> bool \<Rightarrow> command_error + deployment" where
  "deploy_contract cx deploy h eth addressesFile chainURL outFile preflightOnly =
     (case open_support cx addressesFile chainURL of
        Inl e \<Rightarrow> Inl (NoSupport e)
      | Inr s \<Rightarrow>
     (let manager = adFlareTeeManager (suAddresses s) in
      case AddressNotZero h manager ''FlareTeeManager'' of
        Some e \<Rightarrow> Inl (Preflight e)
      | None \<Rightarrow>
     (case AddressHasCode h (Some eth) manager ''FlareTeeManager'' of
        Some e \<Rightarrow> Inl (Preflight e)
      | None \<Rightarrow>
     (case KeyHasFunds h (Some eth) (tlAddressOf cx (suPrv s)) MinDeployBalance of
        Some e \<Rightarrow> Inl (Preflight e)
      | None \<Rightarrow>
          if preflightOnly then Inr PreflightPassed
          else (case DeployInstructionSender (ceTransactor (tlChain cx (suPrv s))) deploy (suAddresses s) of
                  Inl e \<Rightarrow> Inl (Deploying e)
                | Inr addr \<Rightarrow>
                    Inr (DeployedAt addr (if outFile \<noteq> [] then Some (outFile, hHex h addr) else None)))))))"

section \<open>start-tee\<close>

text \<open>The owner address: the environment afterwards, and the result.  None stands for the built-in key.\<close>

definition setOwnerAddress ::
  "'k tools \<Rightarrow> (address \<Rightarrow> string) \<Rightarrow> string + (string \<Rightarrow> string) \<times> address" where
  "setOwnerAddress cx hex =
     (let owner = tlGetenv cx ''INITIAL_OWNER'' in
      if owner \<noteq> [] then Inr (tlGetenv cx, tlHexToAddress cx owner)
      else
        let k = tlGetenv cx ''DEPLOYMENT_PRIVATE_KEY'';
            key = (if k = [] then Inr None
                   else case tlHexToECDSA cx (if has_prefix k ''0x'' \<or> has_prefix k ''0X'' then drop 2 k else k) of
                       Inl e \<Rightarrow> Inl e | Inr key \<Rightarrow> Inr (Some key))
        in case key of
             Inl e \<Rightarrow> Inl e
           | Inr key \<Rightarrow>
               Inr ((tlGetenv cx)(''INITIAL_OWNER'' := hex (tlAddressOf cx key)), tlHexToAddress cx owner))"

end
