(* ===== verification/CommandsTest.thy ===== *)
theory CommandsTest
  imports Commands ChecksProps EnclaveIO
begin

text \<open>
  The commands that check a deployment: \<open>verify-deploy\<close> (which checks run, which results are shown, the exit
  status) and \<open>run-test\<close> (the end-to-end exchange with the enclave, with its hand-written decoder of
  \<open>(bytes, bytes)\<close>, whose conversions between \<open>uint64\<close> and \<open>int\<close> are kept at their width).
\<close>

section \<open>verify-deploy\<close>

definition stepsNeedingChain :: "string list" where
  "stepsNeedingChain = [''deploy'', ''register'', ''all'']"

record verify_env =
  veHost :: host
  veClient :: eth_view
  veKey :: address
  veRegistry :: registry
  veAllowlist :: "int \<Rightarrow> address \<Rightarrow> string + bool"

datatype verify_error = VerifySupport string | UnknownStep string

text \<open>The map of addresses has one entry, so its iteration order is fixed.\<close>

definition deploy_checks :: "verify_env \<Rightarrow> Addresses \<Rightarrow> string \<Rightarrow> Report \<Rightarrow> Report" where
  "deploy_checks ev addresses configPath r =
     (let m = [(''FlareTeeManager'', adFlareTeeManager addresses)]
      in RegisterDeployChecks (veHost ev) (Some (veClient ev)) (Some (veKey ev)) m m configPath r)"

definition registration_checks :: "verify_env \<Rightarrow> string \<Rightarrow> Report \<Rightarrow> Report" where
  "registration_checks ev configPath r =
     RegisterRegistrationChecks (veHost ev) True (Some (veKey ev)) (Some (veRegistry ev)) (Some (veAllowlist ev))
       configPath r"

definition run_checks ::
  "verify_env \<Rightarrow> string + 'k support \<Rightarrow> string \<Rightarrow> string \<Rightarrow> verify_error + Report" where
  "run_checks ev sv step configPath =
     (let h = veHost ev; report = \<lparr>Results = []\<rparr> in
      if step \<in> set stepsNeedingChain then
        (case sv of
           Inl e \<Rightarrow> Inl (VerifySupport e)
         | Inr s \<Rightarrow>
             let addresses = suAddresses s in
             if step = ''deploy'' then Inr (deploy_checks ev addresses configPath report)
             else if step = ''register'' then Inr (registration_checks ev configPath report)
             else
               Inr (RegisterTestChecks h configPath (RegisterTeeMachineChecks h configPath
                 (RegisterTeeVersionChecks h configPath (RegisterServicesChecks h configPath
                   (registration_checks ev configPath (deploy_checks ev addresses configPath report)))))))
      else if step = ''services'' then Inr (RegisterServicesChecks h configPath report)
      else if step = ''tee-version'' then Inr (RegisterTeeVersionChecks h configPath report)
      else if step = ''tee-machine'' then Inr (RegisterTeeMachineChecks h configPath report)
      else if step = ''test'' then Inr (RegisterTestChecks h configPath report)
      else Inl (UnknownStep step))"

definition filter_checks :: "string \<Rightarrow> Report \<Rightarrow> Report" where
  "filter_checks checksFilter report =
     (if checksFilter = [] then report
      else
        let allowed = filter (\<lambda>t. t \<noteq> []) (map trim_space (split_on (CHR '','') checksFilter))
        in report\<lparr>Results := filter (\<lambda>res. crID res \<in> set allowed) (Results report)\<rparr>)"

text \<open>The output, and whether the exit status is 1.\<close>

definition verify_deploy ::
  "verify_env \<Rightarrow> string + 'k support \<Rightarrow> (jsonReport \<Rightarrow> string) \<Rightarrow> string \<Rightarrow> string \<Rightarrow> string \<Rightarrow> bool
     \<Rightarrow> verify_error + string \<times> bool" where
  "verify_deploy ev sv encode step configPath checksFilter jsonOut =
     (case run_checks ev sv step configPath of
        Inl e \<Rightarrow> Inl e
      | Inr report \<Rightarrow>
          let report = filter_checks checksFilter report
          in Inr (if jsonOut then FprintJSON encode report else Fprint report, HasFailures report))"

section \<open>run-test\<close>

datatype two_error = TooShort nat | OffsetOutOfRange u64 | LengthExceeds u64 u64 | SlicePanic

definition low64 :: "bytes \<Rightarrow> u64" where
  "low64 b = of_nat (be_val b)"

text \<open>\<open>data[low : high]\<close> for unsigned indices panics unless low \<le> high and high is within the capacity.  The
  capacity may be larger than the length, but the indices that pass the signed comparison before it are within
  the length or above \<open>2 ^ 63\<close>, beyond every capacity.\<close>

definition slice64 :: "bytes \<Rightarrow> u64 \<Rightarrow> u64 \<Rightarrow> bytes option" where
  "slice64 data low high =
     (if low \<le> high \<and> unat high \<le> length data
      then Some (take (unat high - unat low) (drop (unat low) data)) else None)"

definition exceeds :: "u64 \<Rightarrow> nat \<Rightarrow> bool" where
  "exceeds x n \<longleftrightarrow> sint x > int n"

definition readBytes :: "bytes \<Rightarrow> u64 \<Rightarrow> two_error + bytes" where
  "readBytes data offset =
     (if exceeds (offset + 32) (length data) then Inl (OffsetOutOfRange offset)
      else case slice64 data offset (offset + 32) of
          None \<Rightarrow> Inl SlicePanic
        | Some word \<Rightarrow>
            let len = low64 word; start = offset + 32
            in if exceeds (start + len) (length data) then Inl (LengthExceeds len offset)
               else (case slice64 data start (start + len) of None \<Rightarrow> Inl SlicePanic | Some b \<Rightarrow> Inr b))"

definition abiDecodeTwo :: "bytes \<Rightarrow> two_error + bytes \<times> bytes" where
  "abiDecodeTwo data =
     (if length data < 64 then Inl (TooShort (length data))
      else
        let offset1 = low64 (take 32 data); offset2 = low64 (take 32 (drop 32 data))
        in case readBytes data offset1 of
             Inl e \<Rightarrow> Inl e
           | Inr a \<Rightarrow> (case readBytes data offset2 of Inl e \<Rightarrow> Inl e | Inr b \<Rightarrow> Inr (a, b)))"

definition normalizeV :: "bytes \<Rightarrow> bytes" where
  "normalizeV sig =
     (if length sig \<noteq> 65 then sig
      else if sig ! 64 \<ge> 27 then sig[64 := sig ! 64 - 27] else sig)"

record action_response =
  arStatus :: u8
  arLog :: string
  arData :: bytes

record run_env =
  rnSetId :: method_env
  rnUpdateKey :: method_env
  rnSign :: method_env
  rnFee :: int
  rnInfoGet :: "string \<Rightarrow> string + bytes"
  rnDecodeInfo :: "bytes \<Rightarrow> string + tee_info"
  rnGet :: "string \<Rightarrow> nat \<Rightarrow> string + http_response"
  rnDecode :: "bytes \<Rightarrow> string + action_response"
  rnIdentity :: identity_env
  rnToECDSA :: "bytes \<Rightarrow> string + hash32 \<times> hash32"     \<comment> \<open>the public key of a private key\<close>
  rnEncrypt :: "hash32 \<times> hash32 \<Rightarrow> bytes \<Rightarrow> string + bytes"
  rnKeccak :: "bytes \<Rightarrow> bytes"

definition testPrivKeyHex :: string where
  "testPrivKeyHex = ''fad9c8855b740a0b7ed4c221dbad0f33a83a49cad6b3fe8d5817ac83d38b6a19''"

definition testMessage :: bytes where
  "testMessage = str_bytes ''Hello from the sign extension e2e test!''"

text \<open>The text of an error of \<open>SetExtensionId\<close>, which the test searches.\<close>

definition set_id_error_text :: "instruction_error \<Rightarrow> string" where
  "set_id_error_text e =
     (case e of
        Binding e \<Rightarrow> ''failed to bind contract: '' @ e
      | CreatingTransactor e \<Rightarrow> ''failed to create transactor: '' @ e
      | CallRejected e reason \<Rightarrow>
          ''failed to call setExtensionId: '' @ rxMessage e
            @ (if reason \<noteq> [] then '' (revert reason: '' @ reason @ '')'' else [])
      | AwaitingTx e \<Rightarrow> ''failed waiting for transaction: '' @ e
      | TxFailed _ reason \<Rightarrow>
          if reason \<noteq> [] then ''setExtensionId transaction failed (revert reason: '' @ reason @ '')''
          else ''setExtensionId transaction failed''
      | _ \<Rightarrow> [])"

datatype test_error =
    NoSender | TestSupport string | SetIdFailed instruction_error | FetchInfo call_error | ParsePubKey string
  | ParseTestKey string | EncryptFailed string | UpdateKeyFailed instruction_error | PollUpdateKey call_error
  | UpdateKeyRefused string | SignSendFailed instruction_error | PollSign call_error | SignRefused string
  | DecodeTwo two_error | Recovering string | WrongSigner address address

definition signature_test :: "run_env \<Rightarrow> address \<Rightarrow> bytes \<Rightarrow> test_error option" where
  "signature_test ev testAddress data =
     (case abiDecodeTwo data of
        Inl e \<Rightarrow> Some (DecodeTwo e)
      | Inr (_, sigBytes) \<Rightarrow>
     (case idSigToPub (rnIdentity ev) (rnKeccak ev testMessage) (normalizeV sigBytes) of
        Inl e \<Rightarrow> Some (Recovering e)
      | Inr recoveredPub \<Rightarrow>
          let recoveredAddr = idAddress (rnIdentity ev) recoveredPub
          in if recoveredAddr \<noteq> testAddress then Some (WrongSigner recoveredAddr testAddress) else None))"

definition run_test :: "run_env \<Rightarrow> string + 'k support \<Rightarrow> string \<Rightarrow> string \<Rightarrow> test_error option" where
  "run_test ev sv instructionSender proxyURL =
     (if instructionSender = [] then Some NoSender
      else case sv of Inl e \<Rightarrow> Some (TestSupport e) | Inr _ \<Rightarrow>
     (case (case SetExtensionId (rnSetId ev) of
              Some e \<Rightarrow>
                if contains (set_id_error_text e) ''already set''
                  \<or> contains (set_id_error_text e) ''Extension ID already set'' then None else Some e
            | None \<Rightarrow> None) of
        Some e \<Rightarrow> Some (SetIdFailed e)
      | None \<Rightarrow>
     (case TeeInfo (rnInfoGet ev) (rnDecodeInfo ev) proxyURL of
        Inl e \<Rightarrow> Some (FetchInfo e)
      | Inr info \<Rightarrow>
     (case idParsePubKey (rnIdentity ev) (mcPublicKey (tiData info)) of
        Inl e \<Rightarrow> Some (ParsePubKey e)
      | Inr teePub \<Rightarrow>
     (let testPrivKeyBytes = (case hex_decode testPrivKeyHex of Inr b \<Rightarrow> b | Inl _ \<Rightarrow> []) in
      case rnToECDSA ev testPrivKeyBytes of
        Inl e \<Rightarrow> Some (ParseTestKey e)
      | Inr testPub \<Rightarrow>
     (case rnEncrypt ev teePub testPrivKeyBytes of
        Inl e \<Rightarrow> Some (EncryptFailed e)
      | Inr ciphertext \<Rightarrow>
     (case SendUpdateKey (rnUpdateKey ev) (rnFee ev) ciphertext of
        Inl e \<Rightarrow> Some (UpdateKeyFailed e)
      | Inr (updateKeyID, _) \<Rightarrow>
     (case fetch_ActionResult (rnGet ev) (rnDecode ev) proxyURL updateKeyID of
        Inl e \<Rightarrow> Some (PollUpdateKey e)
      | Inr updateResp \<Rightarrow>
          if arStatus updateResp = 0 then Some (UpdateKeyRefused (arLog updateResp))
          else (case SendSign (rnSign ev) (rnFee ev) testMessage of
             Inl e \<Rightarrow> Some (SignSendFailed e)
           | Inr (signID, _) \<Rightarrow>
          (case fetch_ActionResult (rnGet ev) (rnDecode ev) proxyURL signID of
             Inl e \<Rightarrow> Some (PollSign e)
           | Inr signResp \<Rightarrow>
               if arStatus signResp = 0 then Some (SignRefused (arLog signResp))
               else signature_test ev (idAddress (rnIdentity ev) testPub) (arData signResp)))))))))))"

section \<open>Reading back two byte strings\<close>

lemma small_index:
  assumes "m < 2 ^ 63"
  shows "unat (of_nat m :: u64) = m" "exceeds (of_nat m) k \<longleftrightarrow> k < m"
proof -
  show u: "unat (of_nat m :: u64) = m" using assms by (simp add: unat_of_nat)
  have "sint (of_nat m :: u64) = int m"
    using assms by (simp add: sint_uint uint_nat u signed_take_bit_int_eq_self)
  then show "exceeds (of_nat m) k \<longleftrightarrow> k < m" by (simp add: exceeds_def)
qed

lemma slice64_nat:
  assumes "i \<le> j" "j \<le> length data" "length data < 2 ^ 63"
  shows "slice64 data (of_nat i) (of_nat j) = Some (take (j - i) (drop i data))"
  using assms small_index(1) [of i] small_index(1) [of j] by (simp add: slice64_def word_le_nat_alt)

lemma low64_fixed: "n < 2 ^ 63 \<Longrightarrow> low64 (be_fixed 32 n) = of_nat n"
  by (simp add: low64_def be_val_fixed)

lemma readBytes_at:
  assumes data: "data = pre @ be_fixed 32 (length b) @ b @ rest" and len: "length data < 2 ^ 63"
  shows "readBytes data (of_nat (length pre)) = Inr b"
proof -
  define i where "i = length pre"
  have i: "i + 32 \<le> length data" "i + 32 + length b \<le> length data" using data by (simp_all add: i_def)
  have add: "(of_nat i :: u64) + 32 = of_nat (i + 32)"
    "(of_nat (i + 32) :: u64) + of_nat (length b) = of_nat (i + 32 + length b)" by simp_all
  have w: "take 32 (drop i data) = be_fixed 32 (length b)" by (simp add: data i_def)
  have b: "take (length b) (drop (i + 32) data) = b" by (simp add: data i_def)
  have 1: "\<not> exceeds (of_nat (i + 32)) (length data)" "\<not> exceeds (of_nat (i + 32 + length b)) (length data)"
    using i len small_index(2) [of "i + 32" "length data"] small_index(2) [of "i + 32 + length b" "length data"] by auto
  have 2: "slice64 data (of_nat i) (of_nat (i + 32)) = Some (be_fixed 32 (length b))"
    using i len slice64_nat [of i "i + 32" data] w by simp
  have 3: "slice64 data (of_nat (i + 32)) (of_nat (i + 32 + length b)) = Some b"
    using i len slice64_nat [of "i + 32" "i + 32 + length b" data] b by simp
  have 4: "low64 (be_fixed 32 (length b)) = of_nat (length b)" using i len by (intro low64_fixed) linarith
  show ?thesis
    unfolding readBytes_def i_def [symmetric] add(1) using 1 2 3
    by (simp only: if_False option.case Let_def 4 add(2))
qed

lemma abiEncodeTwo_layout:
  assumes "length a + length b < 2 ^ 62"
  obtains za zb where
    "abiEncodeTwo a b = be_fixed 32 64 @ be_fixed 32 (96 + length a + length za)
       @ be_fixed 32 (length a) @ a @ za @ be_fixed 32 (length b) @ b @ zb"
    "length (abiEncodeTwo a b) < 2 ^ 63"
proof -
  have p: "length (pad32 c) \<le> length c + 31" for c by (rule length_pad32)
  obtain za where za: "pad32 a = a @ za" unfolding pad32_def by blast
  obtain zb where zb: "pad32 b = b @ zb" unfolding pad32_def by blast
  have big: "(2::nat) ^ 62 + 1000 < 256 ^ 32" by simp
  have small: "length a < 256 ^ 32" "length b < 256 ^ 32" "64 + 32 + length (pad32 a) < 256 ^ 32" "(64::nat) < 256 ^ 32"
    using assms p [of a] big by linarith+
  have enc: "abiEncodeTwo a b = be_fixed 32 64 @ be_fixed 32 (96 + length a + length za)
       @ be_fixed 32 (length a) @ a @ za @ be_fixed 32 (length b) @ b @ zb"
    unfolding abiEncodeTwo_def Let_def padToMultipleOf32_eq
      padLeft_be_bytes [OF small(1)] padLeft_be_bytes [OF small(2)] padLeft_be_bytes [OF small(3)]
      padLeft_be_bytes [OF small(4)]
    by (simp add: za zb add.assoc)
  have "length (abiEncodeTwo a b) = 128 + length (pad32 a) + length (pad32 b)"
    using za zb unfolding enc by simp
  then have "length (abiEncodeTwo a b) < 2 ^ 63" using assms p [of a] p [of b] by simp
  with enc that show ?thesis by blast
qed

text \<open>An offset near \<open>2 ^ 64\<close> passes the signed comparison and the slice panics.\<close>

lemma decoder_panics: "abiDecodeTwo (be_fixed 32 (2 ^ 64 - 1) @ replicate 32 0) = Inl SlicePanic"
proof -
  have "be_val (be_fixed 32 (2 ^ 64 - 1)) = 2 ^ 64 - 1" unfolding be_val_fixed by (rule mod_less) simp
  then have low: "low64 (be_fixed 32 (2 ^ 64 - 1)) = - 1" by (simp add: low64_def)
  have "\<not> exceeds 31 64" by (simp add: exceeds_def)
  moreover have "\<not> (- 1 :: u64) \<le> 31" by code_simp
  ultimately have "readBytes data (- 1) = Inl SlicePanic" if "length data = 64" for data
    using that by (simp add: readBytes_def slice64_def)
  with low show ?thesis by (simp add: abiDecodeTwo_def Let_def)
qed

section \<open>Which step a result belongs to\<close>

definition of_step :: "string \<Rightarrow> CheckResult \<Rightarrow> bool" where
  "of_step step res \<longleftrightarrow> wf_result res \<and> crStep res = step"

text \<open>The second report is the first with well-formed results of one step appended.\<close>

definition extends_by :: "string \<Rightarrow> Report \<Rightarrow> Report \<Rightarrow> bool" where
  "extends_by step r r' \<longleftrightarrow> (\<exists>rs. Results r' = Results r @ rs \<and> list_all (of_step step) rs)"

lemma extends_by_refl [intro!]: "extends_by step r r"
  by (simp add: extends_by_def)

lemma extends_by_Add [intro!]: "extends_by step r r' \<Longrightarrow> of_step step x \<Longrightarrow> extends_by step r (Add x r')"
  by (auto simp: extends_by_def)

lemma of_step_result:
  "map_of stepLabel s \<noteq> None \<Longrightarrow> i \<noteq> [] \<Longrightarrow> n \<noteq> [] \<Longrightarrow> st \<in> {PASS, WARN, FAIL, SKIP} \<Longrightarrow>
     st = PASS \<or> st = SKIP \<or> m \<noteq> [] \<Longrightarrow> of_step s (result s i n st m f)"
  by (simp add: of_step_def wf_resultI)

lemma register_of_step:
  "of_step ''register'' (check_R1 g)" "of_step ''register'' (check_R2 h g i s)"
  "of_step ''register'' (check_R3 al i a)" "of_step ''register'' (check_R4 h g i)"
  "of_step ''register'' (check_R7 h g c s)"
  by (simp add: of_step_def wf_results,
      simp add: check_R1_def check_R2_def check_R3_def check_R4_def check_R7_def Let_def split: sum.split)+

lemma other_of_step:
  "of_step ''services'' (check_S2 h path)" "of_step ''services'' (check_S5 h)" "of_step ''services'' (check_S7 h)"
  "of_step ''services'' (check_S9 h)" "of_step ''services'' (check_S10 h)" "of_step ''tee-version'' (check_V2 h)"
  "of_step ''tee-version'' (check_V4 h path)" "of_step ''tee-version'' (check_V6 h)"
  "of_step ''tee-machine'' (check_T1 h)" "of_step ''tee-machine'' (check_T5 h)" "of_step ''tee-machine'' (check_T10 h)"
  "of_step ''test'' (check_E1 h path)" "of_step ''test'' (check_E3 h)" "of_step ''test'' check_E6"
  by (simp add: of_step_def wf_results,
      simp add: check_S2_def check_S5_def check_S7_def check_S9_def check_S10_def check_V2_def check_V4_def
        check_V6_def check_T1_def check_T5_def check_T10_def check_E1_def check_E3_def check_E6_def Let_def)+

lemma deploy_of_step:
  "of_step ''deploy'' (zero_result h la)" "of_step ''deploy'' (code_result h client la)"
  "of_step ''deploy'' (CheckDeployerKeySource h)" "of_step ''deploy'' (checkChainID c)"
  by (simp add: of_step_def wf_results,
      simp add: zero_result_def code_result_def CheckDeployerKeySource_def checkChainID_def Let_def
        split: option.split sum.split)+

lemma deploy_lists_of_step:
  "list_all (of_step ''deploy'') (map (zero_result h) xs)"
  "list_all (of_step ''deploy'') (map (code_result h client) xs)"
  "list_all (of_step ''deploy'') (funds_results h client key)"
  "list_all (of_step ''deploy'') (CheckExtensionEnvFormat h path)"
  "list_all (of_step ''deploy'') (case client of Some c \<Rightarrow> [checkChainID c] | None \<Rightarrow> [])"
proof -
  have "list_all (\<lambda>res. crStep res = ''deploy'') (funds_results h client key)"
    by (auto simp: funds_results_def split: option.split)
  with wf_funds show "list_all (of_step ''deploy'') (funds_results h client key)"
    by (simp add: list_all_iff of_step_def)
  have "list_all (\<lambda>res. crStep res = ''deploy'') (CheckExtensionEnvFormat h path)"
    by (auto simp: CheckExtensionEnvFormat_def check_var_def Let_def split: option.split)
  with wf_env show "list_all (of_step ''deploy'') (CheckExtensionEnvFormat h path)"
    by (simp add: list_all_iff of_step_def)
qed (auto simp: list_all_iff deploy_of_step split: option.split_asm)

lemma extends_byI: "Results r' = Results r @ rs \<Longrightarrow> list_all (of_step step) rs \<Longrightarrow> extends_by step r r'"
  by (auto simp: extends_by_def)

lemma deploy_by: "extends_by ''deploy'' r (RegisterDeployChecks h client key o1 o2 path r)"
  unfolding deploy_eq
  by (rule extends_byI, rule appends_simps(1)) (simp add: deploy_lists_of_step deploy_of_step del: list.pred_map)

lemma register_by: "extends_by ''register'' r (RegisterRegistrationChecks h hasClient key g al path r)"
proof (rule registration_closed [where E = "extends_by ''register'' r"])
  fix R x assume R: "extends_by ''register'' r R" and "registration_result h x"
  then have "of_step ''register'' x"
    by (auto simp: registration_result_def intro!: register_of_step of_step_result stepLabels)
  with R show "extends_by ''register'' r (Add x R)" by (rule extends_by_Add)
qed (rule extends_by_refl)

lemma other_by:
  "extends_by ''services'' r (RegisterServicesChecks h path r)"
  "extends_by ''tee-version'' r (RegisterTeeVersionChecks h path r)"
  "extends_by ''tee-machine'' r (RegisterTeeMachineChecks h path r)"
  "extends_by ''test'' r (RegisterTestChecks h path r)"
  unfolding RegisterServicesChecks_def RegisterTeeVersionChecks_def RegisterTeeMachineChecks_def
    RegisterTestChecks_def
  by (intro extends_by_Add extends_by_refl other_of_step)+

lemma extends_by_empty: "extends_by step \<lparr>Results = []\<rparr> rep \<Longrightarrow> list_all (of_step step) (Results rep)"
  by (auto simp: extends_by_def)

lemma run_checks_step:
  assumes "run_checks ev sv step path = Inr rep" "step \<noteq> ''all''"
  shows "list_all (of_step step) (Results rep)"
proof -
  have "extends_by step \<lparr>Results = []\<rparr> rep"
    using assms deploy_by register_by other_by
    by (auto simp: run_checks_def stepsNeedingChain_def deploy_checks_def registration_checks_def Let_def
        split: if_splits sum.splits)
  then show ?thesis by (rule extends_by_empty)
qed

lemma extends_by_extends: "extends_by step r r' \<Longrightarrow> extends r r'"
  by (auto simp: extends_by_def extends_def of_step_def list_all_iff)

lemma extends_trans: "extends r r' \<Longrightarrow> extends r' r'' \<Longrightarrow> extends r r''"
  by (auto simp: extends_def)

lemma run_checks_wf:
  assumes "run_checks ev sv step path = Inr rep"
  shows "list_all wf_result (Results rep)"
proof (cases "step = ''all''")
  case False
  from run_checks_step [OF assms this] show ?thesis by (auto simp: of_step_def list_all_iff)
next
  case True
  then have "extends \<lparr>Results = []\<rparr> rep"
    using assms
    by (auto simp: run_checks_def stepsNeedingChain_def deploy_checks_def registration_checks_def Let_def
        intro!: steps_extend [THEN [2] extends_trans] registration_extends [THEN [2] extends_trans] deploy_extends
        split: if_splits sum.splits)
  then show ?thesis by (auto simp: extends_def)
qed

lemma Results_filter_checks:
  "Results (filter_checks f rep) =
     (if f = [] then Results rep
      else filter (\<lambda>res. crID res \<in> set (filter (\<lambda>t. t \<noteq> []) (map trim_space (split_on (CHR '','') f)))) (Results rep))"
  by (simp add: filter_checks_def Let_def)

section \<open>Properties\<close>

text \<open>Two byte strings that the enclave's hand-written encoder packs are read back exactly by the test's
  hand-written decoder, whose lengths and offsets live in 64-bit words: below \<open>2 ^ 62\<close> bytes no comparison or
  index of the decoder wraps.\<close>
lemma two_strings_roundtrip:
  assumes "length a + length b < 2 ^ 62"
  shows "abiDecodeTwo (abiEncodeTwo a b) = Inr (a, b)"
proof -
  obtain za zb where enc: "abiEncodeTwo a b = be_fixed 32 64 @ be_fixed 32 (96 + length a + length za)
       @ be_fixed 32 (length a) @ a @ za @ be_fixed 32 (length b) @ b @ zb"
    and len: "length (abiEncodeTwo a b) < 2 ^ 63"
    by (rule abiEncodeTwo_layout [OF assms])
  let ?d = "abiEncodeTwo a b"
  have size: "96 + length a + length za < 2 ^ 63" "64 \<le> length ?d" using len unfolding enc by simp_all
  have a: "readBytes ?d (of_nat (length (be_fixed 32 64 @ be_fixed 32 (96 + length a + length za)))) = Inr a"
    by (rule readBytes_at [OF _ len]) (simp add: enc)
  have b: "readBytes ?d (of_nat (length (be_fixed 32 64 @ be_fixed 32 (96 + length a + length za)
      @ be_fixed 32 (length a) @ a @ za))) = Inr b"
    by (rule readBytes_at [OF _ len]) (simp add: enc)
  have "take 32 ?d = be_fixed 32 64" "take 32 (drop 32 ?d) = be_fixed 32 (96 + length a + length za)"
    by (simp_all add: enc)
  then have "low64 (take 32 ?d) = of_nat 64" "low64 (take 32 (drop 32 ?d)) = of_nat (96 + length a + length za)"
    using low64_fixed [of 64] low64_fixed [OF size(1)] by simp_all
  with a b size(2) show ?thesis by (simp add: abiDecodeTwo_def Let_def add_ac)
qed

text \<open>C37. The exit status of \<open>verify-deploy\<close> is about exactly what it shows.  It fails if and only if a shown result
  is a failure; the shown results are the collected ones, or with a filter those whose identifier the filter
  names, in their order; every one is well formed, and those of a single step all belong to that step.\<close>
theorem verify_deploy_exit:
  assumes "verify_deploy ev sv encode step path checksFilter jsonOut = Inr (out, failed)"
  shows "\<exists>collected shown. run_checks ev sv step path = Inr collected
     \<and> out = (if jsonOut then FprintJSON encode shown else Fprint shown)
     \<and> Results shown = (if checksFilter = [] then Results collected
          else filter (\<lambda>res. crID res \<noteq> [] \<and> (\<exists>part \<in> set (split_on (CHR '','') checksFilter). crID res = trim_space part))
                 (Results collected))
     \<and> (failed \<longleftrightarrow> (\<exists>res \<in> set (Results shown). crStatus res = FAIL))
     \<and> list_all wf_result (Results shown)
     \<and> (step \<noteq> ''all'' \<longrightarrow> list_all (\<lambda>res. crStep res = step) (Results shown))"
proof -
  from assms obtain collected where c: "run_checks ev sv step path = Inr collected"
    by (auto simp: verify_deploy_def split: sum.splits)
  let ?shown = "filter_checks checksFilter collected"
  have sub: "set (Results ?shown) \<subseteq> set (Results collected)" by (auto simp: Results_filter_checks)
  have 1: "Results ?shown = (if checksFilter = [] then Results collected
          else filter (\<lambda>res. crID res \<noteq> [] \<and> (\<exists>part \<in> set (split_on (CHR '','') checksFilter). crID res = trim_space part))
                 (Results collected))"
    unfolding Results_filter_checks by (auto intro!: filter_cong)
  have 2: "list_all wf_result (Results ?shown)"
    using run_checks_wf [OF c] sub by (auto simp: list_all_iff)
  have 3: "step \<noteq> ''all'' \<longrightarrow> list_all (\<lambda>res. crStep res = step) (Results ?shown)"
    using run_checks_step [OF c] sub by (auto simp: list_all_iff of_step_def)
  have 4: "out = (if jsonOut then FprintJSON encode ?shown else Fprint ?shown)" and "failed = HasFailures ?shown"
    using assms c by (auto simp: verify_deploy_def Let_def)
  then have 5: "failed \<longleftrightarrow> (\<exists>res \<in> set (Results ?shown). crStatus res = FAIL)"
    by (simp add: HasFailures_def list_ex_iff)
  show ?thesis
    by (rule exI [of _ collected], rule exI [of _ ?shown], intro conjI) (rule c 4 1 5 2 3)+
qed

definition demo_verify :: verify_env where
  "demo_verify = \<lparr>veHost = sample_host, veClient = sample_chain_view, veKey = 7,
     veRegistry = \<lparr>rgNextPublicExtensionId = Inr 1, rgInstructionsSender = \<lambda>_. Inr 7, rgIsKeyTypeSupported = \<lambda>_ _. Inr True\<rparr>,
     veAllowlist = \<lambda>_ _. Inr True\<rparr>"

text \<open>A filter that names no check hides every failure, and the command succeeds.\<close>

lemma unknown_filter_succeeds:
  "\<exists>out. verify_deploy demo_verify (Inl [] :: string + nat support) encode ''test'' [] '','' False = Inr (out, False)"
  by (simp add: verify_deploy_def run_checks_def stepsNeedingChain_def filter_checks_def trim_space_def
      HasFailures_def Let_def)

theorem verify_deploy_exit_witness:
  "\<exists>out. verify_deploy demo_verify (Inl [] :: string + nat support) (\<lambda>_. []) ''test'' [] [] False = Inr (out, False)
     \<and> (\<exists>collected shown. run_checks demo_verify (Inl [] :: string + nat support) ''test'' [] = Inr collected
          \<and> out = Fprint shown \<and> Results shown = Results collected \<and> (\<forall>res \<in> set (Results shown). crStatus res \<noteq> FAIL))"
proof -
  obtain out where v:
    "verify_deploy demo_verify (Inl [] :: string + nat support) (\<lambda>_. []) ''test'' [] [] False = Inr (out, False)"
    by (simp add: verify_deploy_def run_checks_def stepsNeedingChain_def filter_checks_def RegisterTestChecks_def
        check_E1_def check_E3_def check_E6_def demo_verify_def sample_host_def HasFailures_appends Let_def)
  from verify_deploy_exit [OF v] obtain collected shown where
    "run_checks demo_verify (Inl [] :: string + nat support) ''test'' [] = Inr collected"
    "out = Fprint shown" "Results shown = Results collected" "\<forall>res \<in> set (Results shown). crStatus res \<noteq> FAIL"
    by auto
  with v show ?thesis by blast
qed

end
