(* ===== verification/Inspection.thy ===== *)
theory Inspection
  imports Commands
begin

text \<open>
  The read-only commands (\<open>tools/cmd/check-tee-state\<close>, \<open>query-tee\<close>, \<open>audit-deploy\<close>): what they read of the chain and
  of the proxy, the lines they print and the verdict they draw.  The contract views are parameters; a line is a
  value that holds what the printed text shows.
\<close>

section \<open>The contract views\<close>

record machine_views =
  mvStatus :: "address \<Rightarrow> string + u8"
  mvExtensionId :: "address \<Rightarrow> string + int"
  mvOwner :: "address \<Rightarrow> string + address"
  mvMachine :: "address \<Rightarrow> string + address \<times> address \<times> string"   \<comment> \<open>TEE id, proxy id, URL\<close>
  mvActive :: "int \<Rightarrow> string + address list \<times> string list"
  mvLastChange :: "address \<Rightarrow> string + int"
  mvPolicyId :: "address \<Rightarrow> string + u32"
  mvSender :: "int \<Rightarrow> string + address"        \<comment> \<open>the extension registry's instructions sender\<close>

definition teeStatusNames :: "string list" where
  "teeStatusNames = [''NONE'', ''INITIALIZED'', ''PRODUCTION'', ''SUSPENDED'', ''PAUSED'', ''BANNED'']"

definition statusName :: "u8 \<Rightarrow> string" where
  "statusName s = (if unat s < length teeStatusNames then teeStatusNames ! unat s else ''UNKNOWN'')"

section \<open>check-tee-state\<close>

datatype line =
    Heading string
  | Inputs string string address address address
  | ProxyExt int | SenderExt int | TeeExt "string + int"
  | NoRecord | MachineRecord address address string | MachineError string
  | MachineStatus "string + u8 \<times> string" | MachineOwner "string + address"
  | ActiveError string int string | ActiveCount string int nat bool | ActiveEntry nat address string
  | IndexPanic nat
  | RegisteredSender string int "string + address"
  | NotOnChain | SenderMismatch int int | TooManyHint | QuickFix address int | SameSenderHint | RedeployHint
  | ProxyMismatch int int | WrongExtensionHint | WontPromote u8 string | InProductionHint | OrphanHint
  | AllConsistent

text \<open>The entries of an active set: each with the URL of the same index; a missing URL is an index panic.\<close>

fun active_entries :: "nat \<Rightarrow> address list \<Rightarrow> string list \<Rightarrow> line list" where
  "active_entries i [] urls = []"
| "active_entries i (tid # ids) [] = [IndexPanic i]"
| "active_entries i (tid # ids) (url # urls) = ActiveEntry i tid url # active_entries (Suc i) ids urls"

definition listActive :: "machine_views \<Rightarrow> string \<Rightarrow> int \<Rightarrow> address \<Rightarrow> line list" where
  "listActive mv label extID teeID =
     (case mvActive mv extID of
        Inl e \<Rightarrow> [ActiveError label extID e]
      | Inr (ids, urls) \<Rightarrow>
          ActiveCount label extID (length ids) (list_ex (\<lambda>i. i = teeID) ids) # active_entries 0 ids urls)"

definition sender_advice :: "machine_views \<Rightarrow> int \<Rightarrow> address \<Rightarrow> line list" where
  "sender_advice mv onchain currentSender =
     (case mvSender mv onchain of
        Inr registered \<Rightarrow>
          if registered \<noteq> 0
          then QuickFix registered onchain # (if registered = currentSender then [SameSenderHint] else [])
          else [RedeployHint]
      | Inl _ \<Rightarrow> [RedeployHint])"

definition verdict ::
  "machine_views \<Rightarrow> int \<Rightarrow> int \<Rightarrow> string + int \<Rightarrow> string + u8 \<Rightarrow> address \<Rightarrow> line list" where
  "verdict mv proxy sender onchain status currentSender =
     (case onchain of
        Inl _ \<Rightarrow> [NotOnChain]
      | Inr onchain \<Rightarrow>
          let senderLines =
                (if sender \<noteq> onchain
                 then [SenderMismatch sender onchain, TooManyHint] @ sender_advice mv onchain currentSender else []);
              proxyLines = (if proxy \<noteq> onchain then [ProxyMismatch proxy onchain, WrongExtensionHint] else []);
              statusLines =
                (case status of
                   Inl _ \<Rightarrow> []
                 | Inr s \<Rightarrow>
                     if s \<noteq> 1 \<and> s \<noteq> 4
                     then WontPromote s (statusName s) # (if s = 2 then [InProductionHint, OrphanHint] else [])
                     else []);
              mismatch = sender \<noteq> onchain \<or> proxy \<noteq> onchain
                \<or> (case status of Inl _ \<Rightarrow> False | Inr s \<Rightarrow> s \<noteq> 1 \<and> s \<noteq> 4)
          in senderLines @ proxyLines @ statusLines @ (if mismatch then [] else [AllConsistent]))"

text \<open>The senders registered for the ids in play: the map is iterated in some order, and an id that was
  printed is skipped.\<close>

fun registered_senders :: "machine_views \<Rightarrow> int list \<Rightarrow> (int \<times> string) list \<Rightarrow> line list" where
  "registered_senders mv seen [] = []"
| "registered_senders mv seen ((ext, label) # rest) =
     (if ext \<in> set seen then registered_senders mv seen rest
      else RegisteredSender label ext (mvSender mv ext) # registered_senders mv (ext # seen) rest)"

definition sender_labels :: "string + int \<Rightarrow> int \<Rightarrow> int \<Rightarrow> (int \<times> string) list" where
  "sender_labels onchain proxyExtID isExtID =
     (case onchain of Inl _ \<Rightarrow> [] | Inr i \<Rightarrow> [(i, ''TEE record'')])
     @ [(proxyExtID, ''proxy''), (isExtID, ''InstructionSender slot 0'')]"

text \<open>A panic ends the output.\<close>

definition is_panic :: "line \<Rightarrow> bool" where
  "is_panic l = (case l of IndexPanic _ \<Rightarrow> True | _ \<Rightarrow> False)"

definition until_panic :: "line list \<Rightarrow> line list" where
  "until_panic ls = (if list_ex is_panic ls then takeWhile (Not \<circ> is_panic) ls @ take 1 (dropWhile (Not \<circ> is_panic) ls) else ls)"

definition record_lines :: "string + address \<times> address \<times> string \<Rightarrow> line list" where
  "record_lines r =
     (case r of
        Inl e \<Rightarrow> [MachineError e]
      | Inr (teeId, teeProxyId, url) \<Rightarrow> if teeId = 0 then [NoRecord] else [MachineRecord teeId teeProxyId url])"

definition active_lines :: "machine_views \<Rightarrow> int \<Rightarrow> int \<Rightarrow> string + int \<Rightarrow> address \<Rightarrow> line list" where
  "active_lines mv proxyExtID isExtID onchain teeID =
     listActive mv ''proxy'' proxyExtID teeID
     @ (if isExtID \<noteq> proxyExtID then listActive mv ''InstructionSender'' isExtID teeID else [])
     @ (case onchain of
          Inl _ \<Rightarrow> []
        | Inr i \<Rightarrow> if i \<noteq> proxyExtID \<and> i \<noteq> isExtID then listActive mv ''TEE record'' i teeID else [])"

definition state_lines ::
  "machine_views \<Rightarrow> ((int \<times> string) list \<Rightarrow> (int \<times> string) list) \<Rightarrow> line \<Rightarrow> int \<Rightarrow> int \<Rightarrow> address \<Rightarrow> address
     \<Rightarrow> line list" where
  "state_lines mv order inputs proxyExtID isExtID teeID instructionSender =
     (let onchain = mvExtensionId mv teeID; status = mvStatus mv teeID in
      [Heading ''Inputs'', inputs, Heading ''Extension IDs (the three things that must agree)'',
       ProxyExt proxyExtID, SenderExt isExtID, TeeExt onchain, Heading ''TEE machine record'']
      @ record_lines (mvMachine mv teeID)
      @ [MachineStatus (map_sum id (\<lambda>s. (s, statusName s)) status), MachineOwner (mvOwner mv teeID),
         Heading ''Active TEE set membership'']
      @ active_lines mv proxyExtID isExtID onchain teeID
      @ [Heading ''InstructionSender registered for the TEE's extension'']
      @ registered_senders mv [] (order (sender_labels onchain proxyExtID isExtID))
      @ [Heading ''Verdict'']
      @ verdict mv proxyExtID isExtID onchain status instructionSender)"

definition check_tee_state ::
  "'k tools \<Rightarrow> (address \<Rightarrow> machine_views) \<Rightarrow> (address \<Rightarrow> string + bytes)
     \<Rightarrow> ((int \<times> string) list \<Rightarrow> (int \<times> string) list) \<Rightarrow> string \<Rightarrow> string \<Rightarrow> string \<Rightarrow> string
     \<Rightarrow> command_error + line list" where
  "check_tee_state cx views slot0 order addressesFile chainURL proxyURL senderFlag =
     (if senderFlag = [] then Inl (MissingFlag ''instructionSender'')
      else
        let instructionSender = tlHexToAddress cx senderFlag in
        case open_support cx addressesFile chainURL of
          Inl e \<Rightarrow> Inl (NoSupport e)
        | Inr s \<Rightarrow>
       (let ev = tlChain cx (suPrv s) in
        case TeeInfo (ceHttpGet ev) (ceDecodeInfo ev) proxyURL of
          Inl e \<Rightarrow> Inl (NodeCall e)
        | Inr info \<Rightarrow>
       (case TeeProxyId (ceIdentity ev) info of
          Inl e \<Rightarrow> Inl (NodeCall e)
        | Inr (teeID, _) \<Rightarrow>
       (case slot0 instructionSender of
          Inl e \<Rightarrow> Inl (ReadingChain e)
        | Inr slot \<Rightarrow>
            let manager = adFlareTeeManager (suAddresses s)
            in Inr (until_panic (state_lines (views manager) order
                 (Inputs chainURL proxyURL manager instructionSender teeID)
                 (uint (tiExtensionID info)) (int (be_val slot)) teeID instructionSender))))))"

section \<open>query-tee\<close>

datatype query_line =
    QActive int | QActiveError string | QEntry nat address string | QNone | QPanic nat
  | QTee address | QMachine "string + address \<times> address \<times> string" | QEmpty | QStatus "string + u8"
  | QOwner "string + address" | QExtension "string + int" | QLastChange "string + int" | QPolicy "string + u32"

fun query_entries :: "nat \<Rightarrow> address list \<Rightarrow> string list \<Rightarrow> query_line list" where
  "query_entries i [] urls = []"
| "query_entries i (tid # ids) [] = [QPanic i]"
| "query_entries i (tid # ids) (url # urls) = QEntry i tid url # query_entries (Suc i) ids urls"

definition query_active :: "machine_views \<Rightarrow> int \<Rightarrow> query_line list" where
  "query_active mv ext =
     (if ext \<ge> 0 then
        QActive ext #
        (case mvActive mv ext of
           Inl e \<Rightarrow> [QActiveError e]
         | Inr (ids, urls) \<Rightarrow> query_entries 0 ids urls @ (if ids = [] then [QNone] else []))
      else [])"

definition query_one :: "machine_views \<Rightarrow> address \<Rightarrow> query_line list" where
  "query_one mv tid =
     [QTee tid, QMachine (mvMachine mv tid)]
     @ (case mvMachine mv tid of Inr (teeId, _, _) \<Rightarrow> if teeId = 0 then [QEmpty] else [] | Inl _ \<Rightarrow> [])
     @ [QStatus (mvStatus mv tid), QOwner (mvOwner mv tid), QExtension (mvExtensionId mv tid),
        QLastChange (mvLastChange mv tid), QPolicy (mvPolicyId mv tid)]"

text \<open>A panic of the first part ends the command.\<close>

definition query_tee ::
  "(string \<Rightarrow> string option) \<Rightarrow> (address \<Rightarrow> string + machine_views) \<Rightarrow> (string \<Rightarrow> address)
     \<Rightarrow> string \<Rightarrow> string \<Rightarrow> int \<Rightarrow> string list \<Rightarrow> string + query_line list" where
  "query_tee dial bind hexToAddress rpc reg listExt args =
     (case dial rpc of
        Some e \<Rightarrow> Inl (''dial: '' @ e)
      | None \<Rightarrow>
     (case bind (hexToAddress reg) of
        Inl e \<Rightarrow> Inl (''bind: '' @ e)
      | Inr mv \<Rightarrow>
          let active = query_active mv listExt
          in if list_ex (\<lambda>l. case l of QPanic _ \<Rightarrow> True | _ \<Rightarrow> False) active then Inr active
             else Inr (active @ concat (map (\<lambda>raw. query_one mv (hexToAddress raw)) args))))"

section \<open>audit-deploy\<close>

definition bytes32ToString :: "bytes \<Rightarrow> string" where
  "bytes32ToString b = trim_space (bytes_str (rev (dropWhile (\<lambda>x. x = 0) (rev b))))"

definition code_status :: "string + bytes \<Rightarrow> address \<Rightarrow> string" where
  "code_status code addr =
     (case code of
        Inl e \<Rightarrow> ''ERROR '' @ e
      | Inr c \<Rightarrow>
          if addr = 0 then ''ZERO ADDRESS''
          else if c = [] then ''NO CODE''
          else ''ok ('' @ nat_string (length c) @ '' bytes)'')"

text \<open>The replay of \<open>addTeeVersion\<close>: the packer, \<open>eth_call\<close>, and the interfaces whose errors are searched.\<close>

record audit_replay =
  auABI :: "string option"
  auPack :: "int \<Rightarrow> bytes \<Rightarrow> hash32 \<Rightarrow> hash32 list \<Rightarrow> string + bytes"
  auCall :: "address \<Rightarrow> address \<Rightarrow> bytes \<Rightarrow> rpc_error option"
  auErrors :: "string \<Rightarrow> (custom_error list) option"
  auUnpackRevert :: "bytes \<Rightarrow> string option"
  auFromHex :: "string \<Rightarrow> bytes"

datatype replay_line =
    LoadABI string | BadVersion tool_error | PackError string | CallSucceeded | ShortData rpc_error
  | RevertReason string | CustomRevert string string "string + string" bytes | UnknownSelector bytes bytes

definition audit_sources :: "(string \<Rightarrow> (custom_error list) option) \<Rightarrow> (string \<times> (custom_error list) option) list" where
  "audit_sources getAbi = map (\<lambda>n. (n, getAbi n)) [''ExtensionManager'', ''MachineManager'', ''Verification'']"

definition custom_or_unknown :: "audit_replay \<Rightarrow> bytes \<Rightarrow> replay_line" where
  "custom_or_unknown ar revertData =
     (let selector = take 4 revertData in
      case match_custom selector (audit_sources (auErrors ar)) of
        Some (name, e) \<Rightarrow> CustomRevert name (ceName e) (ceUnpack e (drop 4 revertData)) revertData
      | None \<Rightarrow> UnknownSelector selector revertData)"

definition replayAddTeeVersion ::
  "audit_replay \<Rightarrow> address \<Rightarrow> address \<Rightarrow> int \<Rightarrow> string \<Rightarrow> hash32 \<Rightarrow> hash32 \<Rightarrow> replay_line" where
  "replayAddTeeVersion ar to from extID version codeHash platform =
     (case auABI ar of
        Some e \<Rightarrow> LoadABI e
      | None \<Rightarrow>
     (case stringToBytes32 version of
        Inl e \<Rightarrow> BadVersion e
      | Inr versionBytes \<Rightarrow>
     (case auPack ar extID versionBytes codeHash [platform] of
        Inl e \<Rightarrow> PackError e
      | Inr calldata \<Rightarrow>
     (case auCall ar from to calldata of
        None \<Rightarrow> CallSucceeded
      | Some e \<Rightarrow>
          let revertData = extractRevertData (auFromHex ar) (Some e) in
          if length revertData < 4 then ShortData e
          else if take 4 revertData = error_selector
          then (case auUnpackRevert ar revertData of
                  Some reason \<Rightarrow> RevertReason reason
                | None \<Rightarrow> custom_or_unknown ar revertData)
          else custom_or_unknown ar revertData))))"

record manager_views =
  mgPlatforms :: "string + bytes list"
  mgNextId :: "string + int"
  mgOwner :: "int \<Rightarrow> string + address"
  mgCodeHashes :: "int \<Rightarrow> string + bytes list"
  mgKeyTypes :: "int \<Rightarrow> string + bytes list"

record audit_chain =
  acDialErr :: "string \<Rightarrow> string option"
  acChainID :: "string + int"
  acBlockNumber :: "string + u64"
  acCodeAt :: "address \<Rightarrow> string + bytes"
  acBind :: "address \<Rightarrow> string + manager_views"
  acReplay :: audit_replay

record audit_flags =
  afAddresses :: string
  afRpc :: string
  afExt :: int
  afCodeHash :: string
  afPlatform :: string
  afFrom :: string
  afVersion :: string

datatype audit_line =
    AChain int u64 | ACode string address string | ABindError string | APlatformsError string
  | ANames string "(bytes \<times> string) list" | ANextId int | AOwner int "string + address"
  | AHashesError string | AHashes "bytes list" | AReplay replay_line

definition names_of :: "bytes list \<Rightarrow> (bytes \<times> string) list" where
  "names_of ps = map (\<lambda>p. (p, bytes32ToString p)) ps"

definition audit_extension :: "manager_views \<Rightarrow> int \<Rightarrow> audit_line list" where
  "audit_extension mg ext =
     [AOwner ext (mgOwner mg ext),
      (case mgCodeHashes mg ext of Inl e \<Rightarrow> AHashesError e | Inr hs \<Rightarrow> AHashes hs)]
     @ (case mgKeyTypes mg ext of Inl _ \<Rightarrow> [] | Inr ks \<Rightarrow> [ANames ''supportedKeyTypes'' (names_of ks)])"

definition audit_manager ::
  "manager_views \<Rightarrow> audit_replay \<Rightarrow> (string \<Rightarrow> address) \<Rightarrow> (string \<Rightarrow> hash32) \<Rightarrow> address \<Rightarrow> audit_flags
     \<Rightarrow> audit_line list" where
  "audit_manager mg ar hexToAddress hexToHash manager fl =
     [case mgPlatforms mg of
        Inl e \<Rightarrow> APlatformsError e | Inr ps \<Rightarrow> ANames ''systemSupportedPlatforms'' (names_of ps)]
     @ (case mgNextId mg of Inl _ \<Rightarrow> [] | Inr n \<Rightarrow> [ANextId n])
     @ (if afExt fl \<ge> 0 then audit_extension mg (afExt fl) else [])
     @ (if afCodeHash fl \<noteq> [] \<and> afPlatform fl \<noteq> [] \<and> afExt fl \<ge> 0
        then [AReplay (replayAddTeeVersion ar manager (hexToAddress (afFrom fl)) (afExt fl) (afVersion fl)
                (hexToHash (afCodeHash fl)) (hexToHash (afPlatform fl)))]
        else [])"

definition audit_deploy ::
  "(string \<Rightarrow> string + Addresses) \<Rightarrow> (string \<Rightarrow> address) \<Rightarrow> (string \<Rightarrow> hash32) \<Rightarrow> audit_chain \<Rightarrow> audit_flags
     \<Rightarrow> string + audit_line list" where
  "audit_deploy parseAddresses hexToAddress hexToHash ac fl =
     (case parseAddresses (afAddresses fl) of
        Inl e \<Rightarrow> Inl (''parse addresses: '' @ e)
      | Inr addr \<Rightarrow>
     (case acDialErr ac (afRpc fl) of
        Some e \<Rightarrow> Inl (''dial: '' @ e)
      | None \<Rightarrow>
     (case acChainID ac of
        Inl e \<Rightarrow> Inl (''chainId: '' @ e)
      | Inr chainID \<Rightarrow>
          let manager = adFlareTeeManager addr;
              header = AChain chainID (case acBlockNumber ac of Inl _ \<Rightarrow> 0 | Inr n \<Rightarrow> n)
                # map (\<lambda>(name, a). ACode name a (code_status (acCodeAt ac a) a))
                    [(''FlareTeeManager'', manager), (''FlareSystemsManager'', adFlareSystemManager addr),
                     (''Fdc2Hub'', adFdc2Hub addr)]
          in if manager = 0 then Inr header
             else (case acBind ac manager of
                     Inl e \<Rightarrow> Inr (header @ [ABindError e])
                   | Inr mg \<Rightarrow>
                       Inr (header @ audit_manager mg (acReplay ac) hexToAddress hexToHash manager fl)))))"

section \<open>Lemmas\<close>

lemma dropWhile_replicate: "dropWhile (\<lambda>x. x = a) (replicate n a @ xs) = dropWhile (\<lambda>x. x = a) xs"
  by (induction n) simp_all

text \<open>A platform, key type or version that fits a word is read back, unless it ends in a NUL byte or has
  white space at its ends.\<close>

lemma bytes32_roundtrip:
  assumes "stringToBytes32 s = Inr b" "s = [] \<or> last s \<noteq> CHR 0x00" "trim_space s = s"
  shows "length b = 32 \<and> bytes32ToString b = s"
proof -
  from assms(1) have l: "length s \<le> 32" and b: "b = str_bytes s @ replicate (32 - length s) 0"
    by (auto simp: stringToBytes32_def split: if_splits)
  have "dropWhile (\<lambda>x. x = 0) (rev (str_bytes s)) = rev (str_bytes s)"
  proof (cases s rule: rev_cases)
    case (snoc ys c)
    with assms(2) have c: "c \<noteq> CHR 0x00" by simp
    have "of_nat (of_char c) \<noteq> (0 :: byte)"
    proof
      assume "of_nat (of_char c) = (0 :: byte)"
      then have "str_bytes [c] = str_bytes [CHR 0x00]" by (simp add: str_bytes_def)
      with c show False by (simp add: str_bytes_inj)
    qed
    with snoc show ?thesis by (simp add: str_bytes_def)
  qed (simp add: str_bytes_def)
  then show ?thesis using l assms(3)
    by (simp add: b bytes32ToString_def dropWhile_replicate)
qed

text \<open>The label of an id may depend on the order in which the map is iterated; the ids listed and their
  senders do not.\<close>

fun shown_ext :: "line \<Rightarrow> int" where
  "shown_ext (RegisteredSender label ext sender) = ext"
| "shown_ext _ = 0"

lemma senders_listed:
  "shown_ext ` set (registered_senders mv seen xs) = fst ` set xs - set seen
   \<and> distinct (map shown_ext (registered_senders mv seen xs))
   \<and> (\<forall>l \<in> set (registered_senders mv seen xs). \<exists>label.
        (shown_ext l, label) \<in> set xs \<and> l = RegisteredSender label (shown_ext l) (mvSender mv (shown_ext l)))"
proof (induction mv seen xs rule: registered_senders.induct)
  case (2 mv seen ext label rest)
  then show ?case by (cases "ext \<in> set seen") auto
qed simp

lemma sender_advice_lines:
  "set (sender_advice mv e cur) \<subseteq> {QuickFix a e | a. True} \<union> {SameSenderHint, RedeployHint}"
  by (auto simp: sender_advice_def split: sum.splits)

text \<open>A node that is in production with every id in agreement, the state the deployment aims at, is still not
  reported as consistent, and the active set, which the command prints, plays no part in the verdict.\<close>

lemma production_not_consistent:
  "verdict mv e e (Inr e) (Inr 2) cur = [WontPromote 2 ''PRODUCTION'', InProductionHint, OrphanHint]"
proof -
  have "statusName 2 = ''PRODUCTION''" by code_simp
  then show ?thesis by (simp add: verdict_def)
qed

text \<open>The replay decodes a revert as the diagnosis of the deployment tools does, over its own interfaces.\<close>

fun replay_of :: "bytes \<Rightarrow> rpc_error \<Rightarrow> diagnosis \<Rightarrow> replay_line" where
  "replay_of data e (DiagReason r) = RevertReason r"
| "replay_of data e (DiagCustom n m u) = CustomRevert n m u data"
| "replay_of data e (DiagUnknown sel d) = UnknownSelector sel d"
| "replay_of data e (DiagABI x) = LoadABI x"
| "replay_of data e (DiagPack x) = PackError x"
| "replay_of data e DiagSucceeded = CallSucceeded"
| "replay_of data e (DiagNoData x) = ShortData x"
| "replay_of data e (DiagShort d) = ShortData e"

lemma replay_is_diagnosis:
  assumes "stringToBytes32 version = Inr v" "auABI ar = None"
    and "auPack ar ext v codeHash [platform] = Inr calldata" "auCall ar from to calldata = Some e"
  shows "replayAddTeeVersion ar to from ext version codeHash platform
    = replay_of (extractRevertData (auFromHex ar) (Some e)) e
        (diag_revert (auUnpackRevert ar) (auFromHex ar) (audit_sources (auErrors ar)) None None (Some e))"
proof (cases "length (extractRevertData (auFromHex ar) (Some e)) < 4")
  case True
  with assms show ?thesis by (simp add: replayAddTeeVersion_def diag_revert_def Let_def)
next
  case False
  then have "extractRevertData (auFromHex ar) (Some e) \<noteq> []" by auto
  with False assms show ?thesis
    by (simp add: replayAddTeeVersion_def diag_revert_def custom_or_unknown_def Let_def split: option.split)
qed

section \<open>Properties\<close>


definition sample_views :: machine_views where
  "sample_views = \<lparr>mvStatus = (\<lambda>_. Inr 1), mvExtensionId = (\<lambda>_. Inr 7), mvOwner = (\<lambda>_. Inr 9),
     mvMachine = (\<lambda>a. Inr (a, 8, ''http://tee'')), mvActive = (\<lambda>_. Inr ([], [])),
     mvLastChange = (\<lambda>_. Inr 0), mvPolicyId = (\<lambda>_. Inr 1), mvSender = (\<lambda>_. Inr 5)\<rparr>"


end
