(* ===== verification/EntryPoints.thy ===== *)
theory EntryPoints
  imports Commands
begin

text \<open>
  The processes around the enclave: the stand-alone server and the container's combined process
  (\<open>extension/go/cmd\<close>, \<open>pkg/server\<close>), and the development commands \<open>start-tee\<close> and \<open>start-proxy\<close>.  Starting a
  server, waiting for a signal and reading \<open>.env\<close> are parameters; what is modelled is which ports and files are
  used, what is configured, and how a process ends.
\<close>

section \<open>The extension server\<close>

text \<open>How a server or a process ends.\<close>

datatype process_end = ExitCode nat | FatalExit string

text \<open>\<open>StartExtension\<close> serves the extension on its port, and delivers the failure, if there is one, on a channel.\<close>

definition StartExtension :: "(int \<Rightarrow> int \<Rightarrow> string option) \<Rightarrow> int \<Rightarrow> int \<Rightarrow> string option" where
  "StartExtension listen extensionPort signPort = listen extensionPort signPort"

datatype serve_error = ErrServerClosed | ServeError string

text \<open>The stand-alone process: a closed server is a normal end.\<close>

definition extension_main :: "config \<Rightarrow> (int \<Rightarrow> int \<Rightarrow> serve_error option) \<Rightarrow> process_end" where
  "extension_main c serve =
     (case serve (ExtensionPort c) (SignPort c) of
        Some (ServeError e) \<Rightarrow> FatalExit (''server: '' @ e)
      | Some ErrServerClosed \<Rightarrow> ExitCode 0
      | None \<Rightarrow> ExitCode 0)"

definition intEnv :: "(string \<Rightarrow> string) \<Rightarrow> string \<Rightarrow> int \<Rightarrow> int" where
  "intEnv getenv key fallback = (case Atoi (getenv key) of Inr v \<Rightarrow> v | Inl _ \<Rightarrow> fallback)"

text \<open>The container: the ports of the node and of the extension, and the two points at which a failed server
  ends the process (\<open>early\<close> within the first 100 ms, \<open>late\<close> afterwards).\<close>

record combined =
  cbNode :: "int \<times> int \<times> int"          \<comment> \<open>configuration, signing and extension port of the node\<close>
  cbExtension :: "int \<times> int"          \<comment> \<open>extension and signing port of the extension\<close>
  cbEnd :: process_end

definition docker_main ::
  "(string \<Rightarrow> string) \<Rightarrow> config \<Rightarrow> (int \<Rightarrow> int \<Rightarrow> string option) \<Rightarrow> (int \<Rightarrow> int \<Rightarrow> string option) \<Rightarrow> combined" where
  "docker_main getenv c early late =
     (let configPort = intEnv getenv ''CONFIG_PORT'' (ConfigPort c);
          signPort = SignPort c;
          extensionPort = ExtensionPort c
      in \<lparr>cbNode = (configPort, signPort, extensionPort), cbExtension = (extensionPort, signPort),
          cbEnd = (case StartExtension early extensionPort signPort of
                     Some e \<Rightarrow> FatalExit (''extension server failed to start: '' @ e)
                   | None \<Rightarrow>
                       (case late extensionPort signPort of
                          Some e \<Rightarrow> FatalExit (''extension server error: '' @ e)
                        | None \<Rightarrow> ExitCode 0))\<rparr>)"

section \<open>The development commands\<close>

text \<open>\<open>loadEnv\<close> tries the file of the project root, then the one of the working directory; the result is the
  warning it prints.\<close>

definition loadEnv :: "(string option \<Rightarrow> string option) \<Rightarrow> string \<Rightarrow> string option" where
  "loadEnv load rootEnv =
     (case load (Some rootEnv) of
        None \<Rightarrow> None
      | Some _ \<Rightarrow>
          (case load None of
             None \<Rightarrow> None
           | Some err \<Rightarrow> Some (''Warning: Error loading .env file: '' @ err)))"

definition ExtConfigurationPort :: int where "ExtConfigurationPort = 5501"
definition ExtProxyInternalPort :: int where "ExtProxyInternalPort = 6663"
definition ExtensionServerPort :: int where "ExtensionServerPort = 7701"
definition DevExtensionPort :: int where "DevExtensionPort = 7702"

text \<open>The node with its three ports, the extension with its two, then the proxy's URL.\<close>

definition runExtension ::
  "(int \<Rightarrow> int \<Rightarrow> string option) \<Rightarrow> (string \<Rightarrow> bytes \<Rightarrow> string + nat) \<Rightarrow> (string \<Rightarrow> string + bytes)
     \<Rightarrow> (int \<times> int \<times> int) \<times> (string + call_error option)" where
  "runExtension listen post marshalURL =
     ((ExtConfigurationPort, ExtensionServerPort, DevExtensionPort),
      case StartExtension listen DevExtensionPort ExtensionServerPort of
        Some e \<Rightarrow> Inl (''extension server failed to start: '' @ e)
      | None \<Rightarrow> Inr (SetProxyUrl post marshalURL ExtConfigurationPort ExtProxyInternalPort))"

datatype start_error = OwnerKey string | ServerStart string | ProxyURL call_error

text \<open>\<open>start-tee\<close>: the environment the node is started with, when it is.\<close>

definition start_tee ::
  "'k tools \<Rightarrow> (address \<Rightarrow> string) \<Rightarrow> (int \<Rightarrow> int \<Rightarrow> string option) \<Rightarrow> (string \<Rightarrow> bytes \<Rightarrow> string + nat)
     \<Rightarrow> (string \<Rightarrow> string + bytes) \<Rightarrow> string \<Rightarrow> start_error + (string \<Rightarrow> string)" where
  "start_tee cx hex listen post marshalURL extensionID =
     (case setOwnerAddress cx hex of
        Inl e \<Rightarrow> Inl (OwnerKey e)
      | Inr (getenv, _) \<Rightarrow>
          let getenv = (if extensionID \<noteq> [] then getenv(''EXTENSION_ID'' := extensionID) else getenv) in
          (case snd (runExtension listen post marshalURL) of
             Inl e \<Rightarrow> Inl (ServerStart e)
           | Inr (Some e) \<Rightarrow> Inl (ProxyURL e)
           | Inr None \<Rightarrow> Inr getenv))"

definition findProxyConfig :: "(string \<Rightarrow> string) \<Rightarrow> (string \<Rightarrow> bool) \<Rightarrow> string \<Rightarrow> string" where
  "findProxyConfig getenv exists root =
     (let envConfig = getenv ''PROXY_CONFIG''; candidate = root @ ''/config/proxy/extension_proxy.toml'' in
      if envConfig \<noteq> [] then envConfig
      else if exists candidate then candidate else ''./config/proxy/extension_proxy.toml'')"

datatype ids_error = ReadingConfig string | ExtractingIds call_error

definition logProxyAndTeeIds ::
  "(string \<Rightarrow> string + string) \<Rightarrow> identity_env \<Rightarrow> (string \<Rightarrow> string + bytes) \<Rightarrow> (bytes \<Rightarrow> string + tee_info)
     \<Rightarrow> string \<Rightarrow> ids_error + address \<times> address" where
  "logProxyAndTeeIds readPort ev get decode configFile =
     (case readPort configFile of
        Inl e \<Rightarrow> Inl (ReadingConfig e)
      | Inr port \<Rightarrow>
          (case GetTeeProxyID ev get decode (''http://localhost:'' @ port) of
             Inl e \<Rightarrow> Inl (ExtractingIds e)
           | Inr ids \<Rightarrow> Inr ids))"

text \<open>\<open>start-proxy\<close>: the file the proxy is started with, and what is logged; a failure of the second part is
  only a warning.\<close>

definition start_proxy ::
  "(string \<Rightarrow> string) \<Rightarrow> (string \<Rightarrow> bool) \<Rightarrow> string \<Rightarrow> (string \<Rightarrow> string + string) \<Rightarrow> identity_env
     \<Rightarrow> (string \<Rightarrow> string + bytes) \<Rightarrow> (bytes \<Rightarrow> string + tee_info) \<Rightarrow> string \<times> (ids_error + address \<times> address)" where
  "start_proxy getenv exists root readPort ev get decode =
     (let proxyConfigFile = findProxyConfig getenv exists root
      in (proxyConfigFile, logProxyAndTeeIds readPort ev get decode proxyConfigFile))"

section \<open>Lemmas\<close>

text \<open>The node and the extension always agree on the two ports they share.\<close>

lemma ports_agree:
  "cbNode (docker_main getenv c early late) = (p, s, e) \<Longrightarrow> cbExtension (docker_main getenv c early late) = (e, s)"
  by (simp add: docker_main_def Let_def)

text \<open>\<open>intEnv\<close> and \<open>intFromEnv\<close> read \<open>CONFIG_PORT\<close> alike, so the container uses the configured port.\<close>

lemma intEnv_idempotent:
  "intEnv getenv ''CONFIG_PORT'' (ConfigPort (init_config getenv c)) = ConfigPort (init_config getenv c)"
  by (auto simp: intEnv_def Atoi_def init_config_def intFromEnv_def Let_def split: sum.split)

end
