(* ===== verification/ToolConfig.thy ===== *)
theory ToolConfig
  imports EntryPoints Inspection
begin

text \<open>
  The configuration of the tools (\<open>tools/pkg/configs\<close>) and the helpers of \<open>fccutils\<close> that the commands use to
  end, to encode attestations and to name platforms.  Parsing a key is go-ethereum and a parameter; its documented
  behaviour is \<open>accepts_keys\<close>.
\<close>

section \<open>Constants (configs.go)\<close>

definition ExtensionProxyURL :: string where "ExtensionProxyURL = ''http://localhost:6664''"
definition ChainNodeURL :: string where "ChainNodeURL = ''http://127.0.0.1:8545''"
definition AddressesFile :: string where "AddressesFile = ''../docker/sim_dump/deployed-addresses.json''"
definition ExtensionProxyConfigFile :: string where
  "ExtensionProxyConfigFile = ''./configs/proxy/extension_proxy.toml''"

definition config_ConfigurationPort :: int where "config_ConfigurationPort = 5501"
definition config_ProxyInternalPort :: int where "config_ProxyInternalPort = 6663"
definition config_ServerPort :: int where "config_ServerPort = 7701"
definition config_ExtensionPort :: int where "config_ExtensionPort = 7702"

text \<open>The development keys are parsed when the package is loaded; one that does not parse is a panic.\<close>

definition PrvWithFunds :: string where
  "PrvWithFunds = ''804b01a8c27a65cc694a867be76edae3ccce7a7161cda1f67a8349df696d2207''"

definition AnotherPrivWithFunds :: string where
  "AnotherPrivWithFunds = ''a6e1741818d41de64c15e04ba0820a9714c254e69790e52324c240d02576d5e5''"

definition configs_init :: "(string \<Rightarrow> string + 'k) \<Rightarrow> string + 'k \<times> 'k" where
  "configs_init hexToECDSA =
     (case hexToECDSA PrvWithFunds of
        Inl _ \<Rightarrow> Inl ''cannot read privateKey with funds''
      | Inr funded \<Rightarrow>
     (case hexToECDSA AnotherPrivWithFunds of
        Inl _ \<Rightarrow> Inl ''cannot read another privateKey with funds''
      | Inr another \<Rightarrow> Inr (funded, another)))"

section \<open>Helpers (fccutils)\<close>

definition PlatformIntel :: hash32 where
  "PlatformIntel = 0x4743505f494e54454c5f54445800000000000000000000000000000000000000"
definition PlatformAMD :: hash32 where
  "PlatformAMD = 0x4743505f414d445f534556000000000000000000000000000000000000000000"
definition PlatformAMDESEV :: hash32 where
  "PlatformAMDESEV = 0x4743505f414d445f5345565f4553000000000000000000000000000000000000"

text \<open>An error and, when it carries one, its stack trace; ending with it is the text of the fatal log line.\<close>

record traced_error =
  teText :: string
  teTrace :: "string option"

definition FatalWithCause :: "traced_error \<Rightarrow> string" where
  "FatalWithCause err =
     (case teTrace err of
        Some st \<Rightarrow> ''Error: '' @ teText err @ '' '' @ st
      | None \<Rightarrow> ''Error: '' @ teText err)"

definition RequireNoError :: "traced_error option \<Rightarrow> string option" where
  "RequireNoError err = map_option FatalWithCause err"

text \<open>\<open>errors.New\<close> of \<open>pkg/errors\<close> records the stack.\<close>

definition RequireTrue :: "string \<Rightarrow> bool \<Rightarrow> string \<Rightarrow> string option" where
  "RequireTrue stack condition message =
     (if \<not> condition then Some (FatalWithCause \<lparr>teText = message, teTrace = Some stack\<rparr>) else None)"

text \<open>The bytes of each hash.\<close>

definition HashArrayToBytes32Array :: "hash32 list \<Rightarrow> bytes list" where
  "HashArrayToBytes32Array hashes = map word_bytes hashes"

text \<open>The availability check is encoded by the ABI types of its attestation, third-party code: the coder of a
  request or response type is a parameter.\<close>

record 'a fdc2_coder =
  fcEncode :: "'a \<Rightarrow> string + bytes"
  fcDecode :: "bytes \<Rightarrow> string + 'a"

definition EncodeFTDCTeeAvailabilityCheckRequest :: "'a fdc2_coder \<Rightarrow> 'a \<Rightarrow> string + bytes" where
  "EncodeFTDCTeeAvailabilityCheckRequest co data = fcEncode co data"

definition DecodeFTDCTeeAvailabilityCheckRequest :: "'a fdc2_coder \<Rightarrow> bytes \<Rightarrow> string + 'a" where
  "DecodeFTDCTeeAvailabilityCheckRequest co data =
     (case fcDecode co data of Inl err \<Rightarrow> Inl err | Inr request \<Rightarrow> Inr request)"

definition EncodeFTDCTeeAvailabilityCheckResponse :: "'a fdc2_coder \<Rightarrow> 'a \<Rightarrow> string + bytes" where
  "EncodeFTDCTeeAvailabilityCheckResponse co data = fcEncode co data"

definition DecodeFTDCTeeAvailabilityCheckResponse :: "'a fdc2_coder \<Rightarrow> bytes \<Rightarrow> string + 'a" where
  "DecodeFTDCTeeAvailabilityCheckResponse co data =
     (case fcDecode co data of Inl err \<Rightarrow> Inl err | Inr request \<Rightarrow> Inr request)"

text \<open>\<open>audit-deploy\<close> has copies of two helpers of \<open>fccutils\<close>.\<close>

definition audit_extractRevertData :: "(string \<Rightarrow> bytes) \<Rightarrow> rpc_error option \<Rightarrow> bytes" where
  "audit_extractRevertData fromHex err =
     (case err of
        None \<Rightarrow> []
      | Some e \<Rightarrow>
          (case rxData e of Some (DataString s) \<Rightarrow> fromHex s | Some (DataBytes b) \<Rightarrow> b | _ \<Rightarrow> []))"

definition audit_stringToBytes32 :: "string \<Rightarrow> string + bytes" where
  "audit_stringToBytes32 s =
     (if length s > 32 then Inl (''value '' @ s @ '' exceeds 32 bytes'')
      else Inr (str_bytes s @ replicate (32 - length s) 0))"

section \<open>Lemmas\<close>

text \<open>What the documentation of \<open>HexToECDSA\<close> says of a key that is accepted.\<close>

definition curve_order :: nat where
  "curve_order = 0xFFFFFFFFFFFFFFFFFFFFFFFFFFFFFFFEBAAEDCE6AF48A03BBFD25E8CD0364141"

definition key_text :: "string \<Rightarrow> bool" where
  "key_text s \<longleftrightarrow> (case hex_decode s of Inl _ \<Rightarrow> False
     | Inr b \<Rightarrow> length b = 32 \<and> 0 < be_val b \<and> be_val b < curve_order)"

definition accepts_keys :: "(string \<Rightarrow> string + 'k) \<Rightarrow> bool" where
  "accepts_keys hexToECDSA \<longleftrightarrow> (\<forall>s. key_text s \<longrightarrow> (\<exists>k. hexToECDSA s = Inr k))"

lemma be_val_Cons: "be_val (b # bs) = unat b * 256 ^ length bs + be_val bs"
  using be_val_append [of "[b]" bs] be_val_snoc [of "[]" b] by simp

lemma key_text_of_bytes:
  assumes "s = hex_encode (b # bs)" "length bs = 31" "b \<noteq> 0" "unat b < 255"
  shows "key_text s"
proof -
  have bs: "be_val bs < 256 ^ 31" using be_val_less [of bs] assms(2) by simp
  have val: "be_val (b # bs) = unat b * 256 ^ 31 + be_val bs"
    using assms(2) by (simp add: be_val_Cons)
  have "unat b \<noteq> 0" using assms(3) by (simp add: unat_eq_zero)
  then have "0 < be_val (b # bs)" using val by simp
  moreover have "unat b * 256 ^ 31 \<le> 254 * 256 ^ 31" using assms(4) by (intro mult_le_mono1) simp
  then have "be_val (b # bs) < curve_order" using val bs by (simp add: curve_order_def)
  ultimately show ?thesis using assms(1,2) by (simp add: key_text_def del: hex_encode.simps)
qed

lemma dev_key_texts: "key_text PrvWithFunds" "key_text AnotherPrivWithFunds" "PrvWithFunds \<noteq> AnotherPrivWithFunds"
proof -
  have "PrvWithFunds = hex_encode
     [0x80, 0x4b, 0x01, 0xa8, 0xc2, 0x7a, 0x65, 0xcc, 0x69, 0x4a, 0x86, 0x7b, 0xe7, 0x6e, 0xda, 0xe3,
      0xcc, 0xce, 0x7a, 0x71, 0x61, 0xcd, 0xa1, 0xf6, 0x7a, 0x83, 0x49, 0xdf, 0x69, 0x6d, 0x22, 0x07]"
    unfolding PrvWithFunds_def by code_simp
  then show "key_text PrvWithFunds" by (rule key_text_of_bytes) simp_all
  have "AnotherPrivWithFunds = hex_encode
     [0xa6, 0xe1, 0x74, 0x18, 0x18, 0xd4, 0x1d, 0xe6, 0x4c, 0x15, 0xe0, 0x4b, 0xa0, 0x82, 0x0a, 0x97,
      0x14, 0xc2, 0x54, 0xe6, 0x97, 0x90, 0xe5, 0x23, 0x24, 0xc2, 0x40, 0xd0, 0x25, 0x76, 0xd5, 0xe5]"
    unfolding AnotherPrivWithFunds_def by code_simp
  then show "key_text AnotherPrivWithFunds" by (rule key_text_of_bytes) simp_all
  show "PrvWithFunds \<noteq> AnotherPrivWithFunds" by (simp add: PrvWithFunds_def AnotherPrivWithFunds_def)
qed

text \<open>So loading the package never panics.\<close>

lemma configs_init_succeeds: "accepts_keys hexToECDSA \<Longrightarrow> \<exists>a b. configs_init hexToECDSA = Inr (a, b)"
  using dev_key_texts(1,2) unfolding accepts_keys_def configs_init_def
  by (metis (no_types, lifting) old.sum.simps(6))

text \<open>The ports of the configuration are those \<open>start-tee\<close> uses, and no two processes share one.\<close>

lemma config_ports:
  "(config_ConfigurationPort, config_ProxyInternalPort, config_ServerPort, config_ExtensionPort)
     = (ExtConfigurationPort, ExtProxyInternalPort, ExtensionServerPort, DevExtensionPort)"
  "distinct [config_ConfigurationPort, config_ProxyInternalPort, config_ServerPort, config_ExtensionPort]"
  by (simp_all add: config_ConfigurationPort_def config_ProxyInternalPort_def config_ServerPort_def
      config_ExtensionPort_def ExtConfigurationPort_def ExtProxyInternalPort_def ExtensionServerPort_def
      DevExtensionPort_def)

text \<open>The platform constants are the names in their comments, as \<open>audit-deploy\<close> prints them.\<close>

lemma be_val_zeros: "be_val (replicate n 0) = 0"
  using be_val_replicate_0 [of n "[]"] by simp

lemma platform_bytes:
  "PlatformIntel = bytes_word (str_bytes ''GCP_INTEL_TDX'' @ replicate 19 0)"
  "PlatformAMD = bytes_word (str_bytes ''GCP_AMD_SEV'' @ replicate 21 0)"
  "PlatformAMDESEV = bytes_word (str_bytes ''GCP_AMD_SEV_ES'' @ replicate 18 0)"
  "TestPlatform = bytes_word (str_bytes ''TEST_PLATFORM'' @ replicate 19 0)"
  by (simp_all add: PlatformIntel_def PlatformAMD_def PlatformAMDESEV_def TestPlatform_def bytes_word_def
      be_val_append be_val_zeros be_val_Cons str_bytes_def)

lemma platform_name:
  assumes "w = bytes_word (str_bytes s @ replicate (32 - length s) 0)" "length s \<le> 32"
    and "s = [] \<or> last s \<noteq> CHR 0x00" "trim_space s = s"
  shows "bytes32ToString (word_bytes (w :: hash32)) = s"
  using assms bytes32_roundtrip [of s "str_bytes s @ replicate (32 - length s) 0"]
  by (simp add: word_bytes_word stringToBytes32_def)

lemma platform_names:
  "bytes32ToString (word_bytes PlatformIntel) = ''GCP_INTEL_TDX''"
  "bytes32ToString (word_bytes PlatformAMD) = ''GCP_AMD_SEV''"
  "bytes32ToString (word_bytes PlatformAMDESEV) = ''GCP_AMD_SEV_ES''"
  "bytes32ToString (word_bytes TestPlatform) = ''TEST_PLATFORM''"
proof -
  have "trim_space ''GCP_INTEL_TDX'' = ''GCP_INTEL_TDX''" "trim_space ''GCP_AMD_SEV'' = ''GCP_AMD_SEV''"
    "trim_space ''GCP_AMD_SEV_ES'' = ''GCP_AMD_SEV_ES''" "trim_space ''TEST_PLATFORM'' = ''TEST_PLATFORM''"
    by code_simp+
  then show "bytes32ToString (word_bytes PlatformIntel) = ''GCP_INTEL_TDX''"
    "bytes32ToString (word_bytes PlatformAMD) = ''GCP_AMD_SEV''"
    "bytes32ToString (word_bytes PlatformAMDESEV) = ''GCP_AMD_SEV_ES''"
    "bytes32ToString (word_bytes TestPlatform) = ''TEST_PLATFORM''"
    by (simp_all add: platform_bytes platform_name)
qed

lemma require_true_dies: "RequireTrue st c msg \<noteq> None \<longleftrightarrow> \<not> c"
  by (simp add: RequireTrue_def)

lemma hash_array_exact: "HashArrayToBytes32Array hs = HashArrayToBytes32Array hs' \<longleftrightarrow> hs = hs'"
  unfolding HashArrayToBytes32Array_def by (simp add: inj_map_eq_map inj_def word_bytes_inj)

text \<open>The copies agree with the originals, up to the text of the error.\<close>

lemma copies_agree:
  "audit_extractRevertData = extractRevertData"
  "(\<exists>b. audit_stringToBytes32 s = Inr b \<and> stringToBytes32 s = Inr b)
    \<or> (\<exists>e. audit_stringToBytes32 s = Inl e \<and> stringToBytes32 s = Inl (VersionTooLong s))"
  by (auto simp: fun_eq_iff audit_extractRevertData_def extractRevertData_def audit_stringToBytes32_def
      stringToBytes32_def)

end
