(* ===== verification/RegistrationGuard.thy ===== *)
theory RegistrationGuard
  imports RegistrationProps Commands
begin

text \<open>
  What \<open>register-tee\<close> may send: no transaction before the node's identity, the reference node's identity and the
  attested code were checked, and each with the data those checks were about.
\<close>

section \<open>Transactions added to a world\<close>

definition adds :: "(tool_tx \<Rightarrow> bool) \<Rightarrow> world \<Rightarrow> world \<Rightarrow> bool" where
  "adds P w w' \<longleftrightarrow> (\<exists>txs. wTxs w' = wTxs w @ txs \<and> list_all P txs)"

lemma adds_refl [simp]: "adds P w w"
  by (simp add: adds_def)

lemma adds_trans: "adds P w w' \<Longrightarrow> adds P w' w'' \<Longrightarrow> adds P w w''"
  unfolding adds_def by (elim exE conjE) (rule_tac x = "txs @ txsa" in exI, simp)

lemma adds_saveState [simp]: "adds P w (saveState ev s w') \<longleftrightarrow> adds P w w'"
  by (simp add: adds_def)

lemma adds_remove_state [simp]: "adds P w (remove_state ev w') \<longleftrightarrow> adds P w w'"
  "adds P (remove_state ev w) w' \<longleftrightarrow> adds P w w'"
  by (simp_all add: adds_def)

lemma send_tx_adds: "P tx \<Longrightarrow> send_tx ev tx w = (w', r) \<Longrightarrow> adds P w w'"
  by (auto simp: send_tx_def adds_def split: sum.splits)

section \<open>The checked transactions\<close>

text \<open>The transactions a registration of the node \<open>teeID\<close> may send.\<close>

fun checked_tx ::
  "chain_env \<Rightarrow> tee_info \<Rightarrow> address \<Rightarrow> address \<Rightarrow> string \<Rightarrow> string \<Rightarrow> address \<Rightarrow> tool_tx \<Rightarrow> bool" where
  "checked_tx ev info teeID proxyID hostURL ftdcURL ftdcTee (TxRegister fee md sg proxy url sender) \<longleftrightarrow>
     fee = instruction_fee \<and> md = (tiData info)\<lparr>mcExtensionId := uint (tiExtensionID info)\<rparr>
     \<and> (\<exists>vrs. ceTransformVRS ev (tiDataSignature info) = Inr vrs
          \<and> sg = \<lparr>sgV = vrs ! 0, sgR = take 32 (drop 1 vrs), sgS = take 32 (drop 33 vrs)\<rparr>)
     \<and> proxy = proxyID \<and> url = hostURL \<and> sender = ceFrom ev"
| "checked_tx ev info teeID proxyID hostURL ftdcURL ftdcTee (TxAttest fee tee sender) \<longleftrightarrow>
     fee = instruction_fee \<and> tee = teeID \<and> sender = ceFrom ev"
| "checked_tx ev info teeID proxyID hostURL ftdcURL ftdcTee (TxAvailability fee tee challenge ext owner claimer) \<longleftrightarrow>
     fee = instruction_fee \<and> tee = teeID \<and> ext = ftdcTee \<and> owner = ceFrom ev \<and> claimer = ceFrom ev
     \<and> CheckFTDCProxyPolicyConsistency ev ftdcURL = None"
| "checked_tx ev info teeID proxyID hostURL ftdcURL ftdcTee (TxProduction pf) \<longleftrightarrow>
     (\<exists>i. GetFTDCAvailabilityCheckResult (ceFtdc ev) ftdcURL i = Inr pf)
     \<and> (\<exists>txs. ceStatus ev txs (avTeeId pf) \<noteq> Inr teeStatusProduction)"
| "checked_tx ev info teeID proxyID hostURL ftdcURL ftdcTee tx \<longleftrightarrow> False"

lemma preregistration_adds:
  "PreRegistration ev hostURL proxyID info w = (w', r) \<Longrightarrow>
     adds (checked_tx ev info teeID proxyID hostURL ftdcURL ftdcTee) w w'"
  by (auto simp: PreRegistration_def Let_def split: option.splits if_splits sum.splits prod.splits
      dest!: send_tx_adds [rotated, where P = "checked_tx ev info teeID proxyID hostURL ftdcURL ftdcTee"])

lemma attestation_adds:
  "RequestTeeAttestation ev teeID w = (w', r) \<Longrightarrow>
     adds (checked_tx ev info teeID proxyID hostURL ftdcURL ftdcTee) w w'"
  by (auto simp: RequestTeeAttestation_def split: option.splits if_splits sum.splits prod.splits
      dest!: send_tx_adds [rotated, where P = "checked_tx ev info teeID proxyID hostURL ftdcURL ftdcTee"])

lemma availability_adds:
  "RequestFTDCAvailabilityCheck ev teeID ftdcTee i w = (w', r) \<Longrightarrow> CheckFTDCProxyPolicyConsistency ev ftdcURL = None \<Longrightarrow>
     adds (checked_tx ev info teeID proxyID hostURL ftdcURL ftdcTee) w w'"
  by (auto simp: RequestFTDCAvailabilityCheck_def split: option.splits if_splits sum.splits prod.splits
      dest!: send_tx_adds [rotated, where P = "checked_tx ev info teeID proxyID hostURL ftdcURL ftdcTee"])

lemma production_adds:
  "ToProduction ev pf w = (w', r) \<Longrightarrow> GetFTDCAvailabilityCheckResult (ceFtdc ev) ftdcURL i = Inr pf \<Longrightarrow>
     adds (checked_tx ev info teeID proxyID hostURL ftdcURL ftdcTee) w w'"
  by (auto simp: ToProduction_def split: option.splits if_splits sum.splits prod.splits
      dest!: send_tx_adds [rotated, where P = "checked_tx ev info teeID proxyID hostURL ftdcURL ftdcTee"])

lemma steps_add:
  "step_register ev hostURL teeID proxyID info s w = (w', r) \<Longrightarrow>
     adds (checked_tx ev info teeID proxyID hostURL ftdcURL ftdcTee) w w'"
  "step_attest ev teeID s w = (w', r) \<Longrightarrow> adds (checked_tx ev info teeID proxyID hostURL ftdcURL ftdcTee) w w'"
  "step_available ev ftdcURL teeID ftdcTee i s w = (w', r) \<Longrightarrow>
     adds (checked_tx ev info teeID proxyID hostURL ftdcURL ftdcTee) w w'"
  "step_production ev ftdcURL i w = (w', e) \<Longrightarrow> adds (checked_tx ev info teeID proxyID hostURL ftdcURL ftdcTee) w w'"
  by (auto simp: step_register_def step_attest_def step_available_def step_production_def Let_def
      split: if_splits sum.splits prod.splits option.splits
      dest: preregistration_adds attestation_adds availability_adds production_adds)

lemma from_production_adds:
  assumes "from_production ev ftdcURL command i w = (w', err)"
  shows "adds (checked_tx ev info teeID proxyID hostURL ftdcURL ftdcTee) w w'"
  using assms by (auto simp: from_production_def split: if_splits prod.splits option.splits dest: steps_add(4))

lemma from_available_adds:
  assumes "from_available ev ftdcURL teeID ftdcTee command arg i s w = (w', err)"
  shows "adds (checked_tx ev info teeID proxyID hostURL ftdcURL ftdcTee) w w'"
  using assms unfolding from_available_def
  by (auto split: if_splits prod.splits sum.splits dest: steps_add(3)
      intro: from_production_adds adds_trans [OF steps_add(3) from_production_adds])

lemma from_attest_adds:
  assumes "from_attest ev ftdcURL teeID ftdcTee command arg i s w = (w', err)"
  shows "adds (checked_tx ev info teeID proxyID hostURL ftdcURL ftdcTee) w w'"
  using assms unfolding from_attest_def
  by (auto split: if_splits prod.splits sum.splits dest: steps_add(2)
      intro: from_available_adds adds_trans [OF steps_add(2) from_available_adds])

lemma RegisterNode_adds:
  assumes "RegisterNode ev info hostURL ftdcURL ftdcTee command arg w = (w', err)"
    and "TeeProxyId (ceIdentity ev) info = Inr (teeID, proxyID)"
  shows "adds (checked_tx ev info teeID proxyID hostURL ftdcURL ftdcTee) w w'"
  using assms unfolding RegisterNode_from
  by (auto split: if_splits prod.splits sum.splits dest: steps_add(1)
      intro: from_attest_adds adds_trans [OF steps_add(1) from_attest_adds])

lemma code_hash_checked:
  assumes "GetCodeHashAndPlatform ev info = Inr (c, p)"
  shows "c = mcCodeHash (tiData info) \<and> p = mcPlatform (tiData info)
    \<and> (idGetenv ev ''SIMULATED_TEE'' = ''true'' \<or> CodeHashAndPlatform ev (tiAttestation info) = Inr (c, p))"
  using assms by (auto simp: GetCodeHashAndPlatform_def split: sum.splits prod.splits if_splits)

section \<open>Properties\<close>

text \<open>C35. \<open>register-tee\<close> sends nothing it has not checked. Any transaction of a run is sent after the node and
  the reference node were identified, and after the attestation token (or, for a simulated node, the built-in pair)
  gave exactly the code hash and platform the node reports; and it is a registration with the node's own reported data
  and signature, proxy and URL, an attestation request for the node, an availability request for the node to the
  reference node, only while the reference proxy is not known to be out of sync, or a move to production with the
  proof fetched from the reference proxy, of a node not yet in production.\<close>
theorem register_tee_guarded:
  assumes "register_tee cx fl w = (w', err)" "wTxs w' \<noteq> wTxs w"
  shows "\<exists>s info teeID proxyID ftdcTee new.
    let ev = tlChain cx (suPrv s) in
      open_support cx (rfAddresses fl) (rfChain fl) = Inr s
    \<and> TeeInfo (ceHttpGet ev) (ceDecodeInfo ev) (rfProxy fl) = Inr info
    \<and> TeeProxyId (ceIdentity ev) info = Inr (teeID, proxyID)
    \<and> (\<exists>x. GetTeeProxyID (ceIdentity ev) (ceHttpGet ev) (ceDecodeInfo ev) (rfExternalProxy fl) = Inr (ftdcTee, x))
    \<and> (idGetenv (ceIdentity ev) ''SIMULATED_TEE'' = ''true'' \<and> mcCodeHash (tiData info) = TeeCodeHash
        \<or> CodeHashAndPlatform (ceIdentity ev) (tiAttestation info)
            = Inr (mcCodeHash (tiData info), mcPlatform (tiData info)))
    \<and> wTxs w' = wTxs w @ new
    \<and> (\<forall>tx \<in> set new. checked_tx ev info teeID proxyID (if rfHost fl = [] then rfProxy fl else rfHost fl)
          (rfExternalProxy fl) ftdcTee tx)"
proof -
  let ?w = "if rfResume fl then w else remove_state (tlChain cx None) w"
  have same: "wTxs ?w = wTxs w" by simp
  note r = assms(1) [unfolded register_tee_def Let_def]
  from r assms(2) obtain s where s: "open_support cx (rfAddresses fl) (rfChain fl) = Inr s"
    by (cases "open_support cx (rfAddresses fl) (rfChain fl)") (auto split: if_splits)
  let ?ev = "tlChain cx (suPrv s)"
  from r assms(2) s obtain info where i: "TeeInfo (ceHttpGet ?ev) (ceDecodeInfo ?ev) (rfProxy fl) = Inr info"
    by (cases "TeeInfo (ceHttpGet ?ev) (ceDecodeInfo ?ev) (rfProxy fl)") (auto split: if_splits)
  from r assms(2) s i obtain teeID proxyID where t: "TeeProxyId (ceIdentity ?ev) info = Inr (teeID, proxyID)"
    by (cases "TeeProxyId (ceIdentity ?ev) info") (auto split: if_splits)
  from r assms(2) s i t obtain ftdcTee x where
    f: "GetTeeProxyID (ceIdentity ?ev) (ceHttpGet ?ev) (ceDecodeInfo ?ev) (rfExternalProxy fl) = Inr (ftdcTee, x)"
    by (cases "GetTeeProxyID (ceIdentity ?ev) (ceHttpGet ?ev) (ceDecodeInfo ?ev) (rfExternalProxy fl)")
      (auto split: if_splits)
  from r assms(2) s i t f obtain c p where h: "GetCodeHashAndPlatform (ceIdentity ?ev) info = Inr (c, p)"
    by (cases "GetCodeHashAndPlatform (ceIdentity ?ev) info") (auto split: if_splits)
  obtain w1 e1 where n: "RegisterNode ?ev info (if rfHost fl = [] then rfProxy fl else rfHost fl) (rfExternalProxy fl)
      ftdcTee (rfCommand fl) (tlHexToHash cx (rfInstruction fl)) ?w = (w1, e1)" by (meson surj_pair)
  with r s i t f h have w': "w' = w1" by simp
  from RegisterNode_adds [OF n t] obtain new where new: "wTxs w' = wTxs w @ new"
    "list_all (checked_tx ?ev info teeID proxyID (if rfHost fl = [] then rfProxy fl else rfHost fl)
       (rfExternalProxy fl) ftdcTee) new"
    by (auto simp: adds_def w' same)
  have code: "idGetenv (ceIdentity ?ev) ''SIMULATED_TEE'' = ''true'' \<and> mcCodeHash (tiData info) = TeeCodeHash
      \<or> CodeHashAndPlatform (ceIdentity ?ev) (tiAttestation info)
          = Inr (mcCodeHash (tiData info), mcPlatform (tiData info))"
    using h code_hash_checked [OF h] by (auto simp: GetCodeHashAndPlatform_def split: if_splits)
  have ids: "\<exists>x. GetTeeProxyID (ceIdentity ?ev) (ceHttpGet ?ev) (ceDecodeInfo ?ev) (rfExternalProxy fl) = Inr (ftdcTee, x)"
    using f by blast
  have checked: "\<forall>tx \<in> set new. checked_tx ?ev info teeID proxyID (if rfHost fl = [] then rfProxy fl else rfHost fl)
      (rfExternalProxy fl) ftdcTee tx"
    using new(2) by (simp add: list_all_iff)
  show ?thesis
    unfolding Let_def
    by (rule exI [of _ s], rule exI [of _ info], rule exI [of _ teeID], rule exI [of _ proxyID],
        rule exI [of _ ftdcTee], rule exI [of _ new])
      (intro conjI, rule s, rule i, rule t, rule ids, rule code, rule new(1), rule checked)
qed

definition demo_tools :: "u8 tools" where
  "demo_tools = \<lparr>tlGetenv = (\<lambda>_. []), tlReadFile = (\<lambda>_. Inr []), tlUnmarshalAddresses = (\<lambda>_. Inr no_addresses),
     tlUnmarshalRaw = (\<lambda>_. Inr []), tlHexToAddress = (\<lambda>_. 1), tlHexToHash = (\<lambda>_. 0), tlHexToECDSA = (\<lambda>_. Inr 1),
     tlAddressOf = (\<lambda>_. 8), tlDialErr = (\<lambda>_. None), tlBind = (\<lambda>_. None), tlChainID = Inr 114,
     tlChain = (\<lambda>_. demo_chain True), tlQuote = id\<rparr>"

definition demo_flags :: register_flags where
  "demo_flags = \<lparr>rfAddresses = ''addresses'', rfChain = ''chain'', rfProxy = ''proxy'', rfHost = ''host'',
     rfExternalProxy = ''ftdc'', rfInstruction = [], rfCommand = ''rRap'', rfResume = False\<rparr>"

lemma demo_support:
  "open_support demo_tools a c = Inr \<lparr>suPrv = None, suAddresses = no_addresses, suChainID = 114,
     suBindings = bindings no_addresses\<rparr>"
  by (simp add: open_support_def demo_tools_def DefaultSupport_def ReadAddresses_def DefaultPrivateKey_def
      NewSupport_def bindings_def Let_def)

theorem register_tee_guarded_witness:
  "\<exists>w' new. register_tee demo_tools demo_flags clean_world = (w', None) \<and> wTxs w' = new \<and> new \<noteq> []
     \<and> (\<forall>tx \<in> set new. checked_tx (demo_chain True) demo_info 9 10 ''host'' ''ftdc'' 9 tx)"
proof -
  have c: "tlChain demo_tools k = demo_chain True" "tlHexToHash demo_tools h = 0" for k h
    by (simp_all add: demo_tools_def)
  have fl: "rfHost demo_flags = ''host''" "rfProxy demo_flags = ''proxy''" "rfExternalProxy demo_flags = ''ftdc''"
    "rfCommand demo_flags = ''rRap''" "\<not> rfResume demo_flags"
    by (simp_all add: demo_flags_def)
  have i: "TeeInfo (ceHttpGet (demo_chain True)) (ceDecodeInfo (demo_chain True)) u = Inr demo_info" for u
    by (simp add: TeeInfo_def demo_chain_def)
  have t: "TeeProxyId (ceIdentity (demo_chain True)) demo_info = Inr (9, 10)"
    by (simp add: TeeProxyId_def demo_chain_def demo_identity_def demo_info_def)
  have g: "GetTeeProxyID (ceIdentity (demo_chain True)) (ceHttpGet (demo_chain True)) (ceDecodeInfo (demo_chain True)) u
      = Inr (9, 10)" for u
    by (simp add: GetTeeProxyID_def i t)
  have h: "GetCodeHashAndPlatform (ceIdentity (demo_chain True)) demo_info = Inr (1, 2)"
    by (simp add: GetCodeHashAndPlatform_def CodeHashAndPlatform_def demo_chain_def demo_identity_def demo_info_def)
  have rm: "remove_state (demo_chain True) clean_world = clean_world"
    by (simp add: remove_state_def clean_world_def)
  obtain w' where n: "RegisterNode (demo_chain True) demo_info ''host'' ''ftdc'' 9 ''rRap'' 0 clean_world = (w', None)"
    "wTxs w' \<noteq> []"
    by (simp add: registration_ops registration_demo)
  have r: "register_tee demo_tools demo_flags clean_world = (w', None)"
    by (simp add: register_tee_def demo_support c fl i t g h rm n(1) Let_def)
  have "wTxs w' \<noteq> wTxs clean_world" using n(2) by (simp add: clean_world_def)
  from register_tee_guarded [OF r this] obtain new where "wTxs w' = wTxs clean_world @ new"
    "\<forall>tx \<in> set new. checked_tx (demo_chain True) demo_info 9 10 ''host'' ''ftdc'' 9 tx"
    by (auto simp: demo_support c fl i t g Let_def)
  with r n(2) show ?thesis by (auto simp: clean_world_def)
qed

end
